(* ===== verification/Prelude.thy ===== *)
theory Prelude
  imports Main "HOL-Library.AList"
begin

text \<open>
  What every component of the development shares: the exceptions of the code, effects on
  an external world with exceptions as values, JavaScript's insertion-ordered \<open>Map\<close>, and
  generic lemmas.

  The code is written with \<open>async\<close> functions. A call \<open>await f(x)\<close> is modelled as the
  function \<open>f x\<close> applied to the world: it gives a result (or the exception it rejects
  with) and the next world. The world is a type variable: the database, the broker and the
  application's own state live there, and whatever an effect did before it threw stays
  done. One activation of a handler runs from its start to its end without another one in
  between.
\<close>

named_theorems eff_simps \<open>evaluation of effects\<close>

section \<open>Values and exceptions\<close>

text \<open>
  A plain JavaScript value as it is kept in a message, and an instance of a class: the name
  of its constructor and its own properties.
\<close>

datatype json =
    JNull
  | JBool bool
  | JNum int
  | JStr string
  | JArr "json list"
  | JObj "(string \<times> json) list"

record jsobj =
  obj_class :: string      \<comment> \<open>\<open>constructor.name\<close>\<close>
  obj_own :: json

text \<open>
  One constructor per exception class that the modelled code throws or tests for.
  \<open>ThrownObject o\<close> is an object of the application that is thrown although its class does not
  extend \<open>Error\<close>, as the handlers of a saga participant do to reply with a failure of their own;
  \<open>ThrownText s\<close> is a text that is thrown;
  \<open>ErrorException\<close> stands for any other error.
\<close>

datatype exn =
    RangeError                                  \<comment> \<open>maximum call stack size exceeded\<close>
  | TypeError
  | SyntaxError
  | ErrorException string                       \<comment> \<open>\<open>new Error(message)\<close>\<close>
  | RuntimeException string
  | UnsupportedOperationException string
  | IllegalArgumentException
  | MissingMessageHeaderException string
  | MissingRequiredMessageIDException
  | MissingCommandHandlerException string
  | StashMessageRequiredException string
  | StateMachineEmptyException
  | CannotClaimLockException string string string
  | CannotClaimResourceLockException
  | MissingSagaManagerException string
  | MissingApplyMethodException
  | OptimisticLockingException
  | DuplicateTriggeringEventException
  | EntityNotFoundException string string
  | CommandProcessingFailedException
  | UnsupportedStateTransitionException string
  | TicketNotFoundException int
  | OrderNotFoundException int
  | CustomerNotFoundException int
  | NotFoundException string                    \<comment> \<open>of the framework\<close>
  | OrderMinimumNotMet
  | ThrownObject jsobj
  | ThrownText string

section \<open>Effects\<close>

type_synonym ('w, 'a) eff = "'w \<Rightarrow> (exn + 'a) \<times> 'w"

definition ret :: "'a \<Rightarrow> ('w, 'a) eff" where
  "ret a w = (Inr a, w)"

definition throw :: "exn \<Rightarrow> ('w, 'a) eff" where
  "throw e w = (Inl e, w)"

definition andThen :: "('w, 'a) eff \<Rightarrow> ('a \<Rightarrow> ('w, 'b) eff) \<Rightarrow> ('w, 'b) eff" where
  "andThen m f w = (case m w of (Inl e, w') \<Rightarrow> (Inl e, w') | (Inr a, w') \<Rightarrow> f a w')"

text \<open>\<open>try { m } catch (err) { h(err) }\<close>\<close>

definition tryCatch :: "('w, 'a) eff \<Rightarrow> (exn \<Rightarrow> ('w, 'a) eff) \<Rightarrow> ('w, 'a) eff" where
  "tryCatch m h w = (case m w of (Inl e, w') \<Rightarrow> h e w' | (Inr a, w') \<Rightarrow> (Inr a, w'))"

text \<open>A synchronous computation that may throw.\<close>

definition lift :: "exn + 'a \<Rightarrow> ('w, 'a) eff" where
  "lift r w = (r, w)"

text \<open>\<open>for (const x of xs) await f(x)\<close>\<close>

fun forEach :: "('a \<Rightarrow> ('w, unit) eff) \<Rightarrow> 'a list \<Rightarrow> ('w, unit) eff" where
  "forEach f [] = ret ()"
| "forEach f (x # xs) = andThen (f x) (\<lambda>_. forEach f xs)"

text \<open>The same loop where each turn gives a value; it stops at the first exception.\<close>

fun mapEff :: "('a \<Rightarrow> ('w, 'b) eff) \<Rightarrow> 'a list \<Rightarrow> ('w, 'b list) eff" where
  "mapEff f [] = ret []"
| "mapEff f (x # xs) = andThen (f x) (\<lambda>y. andThen (mapEff f xs) (\<lambda>ys. ret (y # ys)))"

text \<open>
  \<open>Promise.all(xs.map(f))\<close> starts \<open>f\<close> on every element, whether or not an earlier one
  rejects, and then rejects with the first rejection. The elements run in list order.
\<close>

fun promiseAll :: "('a \<Rightarrow> ('w, 'b) eff) \<Rightarrow> 'a list \<Rightarrow> ('w, 'b list) eff" where
  "promiseAll f [] w = (Inr [], w)"
| "promiseAll f (x # xs) w =
     (let (r, w1) = f x w; (rs, w2) = promiseAll f xs w1
      in (case r of Inl e \<Rightarrow> (Inl e, w2)
          | Inr y \<Rightarrow> (case rs of Inl e \<Rightarrow> (Inl e, w2) | Inr ys \<Rightarrow> (Inr (y # ys), w2))))"

text \<open>
  The same where the function may throw before it gives a promise: then \<open>xs.map\<close> itself throws
  at that element, the later ones are not started, and what the earlier ones started stays.
\<close>

fun startAll :: "('a \<Rightarrow> exn + ('w, 'b) eff) \<Rightarrow> 'a list \<Rightarrow> 'w \<Rightarrow> (exn + (exn + 'b) list) \<times> 'w" where
  "startAll f [] w = (Inr [], w)"
| "startAll f (x # xs) w =
     (case f x of
        Inl e \<Rightarrow> (Inl e, w)
      | Inr m \<Rightarrow> (let (r, w1) = m w; (rs, w2) = startAll f xs w1
                in (map_sum id (\<lambda>rs. r # rs) rs, w2)))"

fun settleAll :: "(exn + 'b) list \<Rightarrow> exn + 'b list" where
  "settleAll [] = Inr []"
| "settleAll (Inl e # rs) = Inl e"
| "settleAll (Inr y # rs) = map_sum id (\<lambda>ys. y # ys) (settleAll rs)"

definition promiseAllMap :: "('a \<Rightarrow> exn + ('w, 'b) eff) \<Rightarrow> 'a list \<Rightarrow> ('w, 'b list) eff" where
  "promiseAllMap f xs w = (case startAll f xs w of
     (Inl e, w') \<Rightarrow> (Inl e, w') | (Inr rs, w') \<Rightarrow> (settleAll rs, w'))"

text \<open>
  The simplifier's normal form of \<^const>\<open>ret\<close>, \<^const>\<open>throw\<close> and \<^const>\<open>lift\<close> is the pairing
  of a result with the unchanged world.
\<close>

lemma ret_eq [simp, eff_simps]: "ret a = Pair (Inr a)"
  by (rule ext) (simp add: ret_def)

lemma throw_eq [simp, eff_simps]: "throw e = Pair (Inl e)"
  by (rule ext) (simp add: throw_def)

lemma lift_eq [simp, eff_simps]: "lift r = Pair r"
  by (rule ext) (simp add: lift_def)

lemma andThen_Pair [simp]:
  "andThen (Pair (Inr a)) f = f a" "andThen (Pair (Inl e)) f = Pair (Inl e)"
  by (rule ext, simp add: andThen_def)+

lemma andThen_Pair_right [simp]: "andThen m (\<lambda>a. Pair (Inr a)) = m"
  by (rule ext) (simp add: andThen_def split: prod.splits sum.splits)

lemma andThen_assoc: "andThen (andThen m f) g = andThen m (\<lambda>x. andThen (f x) g)"
  by (rule ext) (simp add: andThen_def split: prod.splits sum.splits)

lemma andThen_Inr [eff_simps]: "m w = (Inr a, w') \<Longrightarrow> andThen m f w = f a w'"
  by (simp add: andThen_def)

lemma andThen_Inl [eff_simps]: "m w = (Inl e, w') \<Longrightarrow> andThen m f w = (Inl e, w')"
  by (simp add: andThen_def)

lemma andThen_eq_Inr:
  "andThen m f w = (Inr b, w'') \<longleftrightarrow> (\<exists>a w'. m w = (Inr a, w') \<and> f a w' = (Inr b, w''))"
  by (auto simp: andThen_def split: prod.splits sum.splits)

lemma andThen_InrE:
  assumes "andThen m f w = (Inr b, w'')"
  obtains a w' where "m w = (Inr a, w')" and "f a w' = (Inr b, w'')"
  using assms by (auto simp: andThen_eq_Inr)

lemma tryCatch_Inr [eff_simps]: "m w = (Inr a, w') \<Longrightarrow> tryCatch m h w = (Inr a, w')"
  by (simp add: tryCatch_def)

lemma tryCatch_Inl [eff_simps]: "m w = (Inl e, w') \<Longrightarrow> tryCatch m h w = h e w'"
  by (simp add: tryCatch_def)

lemma tryCatch_eq_Inr:
  "tryCatch m h w = (Inr a, w'') \<longleftrightarrow>
     m w = (Inr a, w'') \<or> (\<exists>e w'. m w = (Inl e, w') \<and> h e w' = (Inr a, w''))"
  by (auto simp: tryCatch_def split: prod.splits sum.splits)

lemma tryCatch_Pair [simp]:
  "tryCatch (Pair (Inr a)) h = Pair (Inr a)" "tryCatch (Pair (Inl e)) h = h e"
  by (rule ext, simp add: tryCatch_def)+

lemma forEach_append: "forEach f (xs @ ys) = andThen (forEach f xs) (\<lambda>_. forEach f ys)"
  by (induction xs) (simp_all add: andThen_assoc)

lemma mapEff_ret: "(\<And>x. x \<in> set xs \<Longrightarrow> f x = ret (g x)) \<Longrightarrow> mapEff f xs = ret (map g xs)"
  by (induction xs) auto

lemma mapEff_length: "mapEff f xs w = (Inr ys, w') \<Longrightarrow> length ys = length xs"
  by (induction xs arbitrary: w ys w') (auto simp: andThen_eq_Inr)

lemma promiseAll_ret:
  "(\<And>x w. x \<in> set xs \<Longrightarrow> fst (f x w) = Inr (g x)) \<Longrightarrow> fst (promiseAll f xs w) = Inr (map g xs)"
proof (induction xs arbitrary: w)
  case Nil
  then show ?case by simp
next
  case (Cons x xs)
  have "fst (f x w) = Inr (g x)" using Cons.prems by simp
  moreover have "fst (promiseAll f xs w1) = Inr (map g xs)" for w1
    by (rule Cons.IH) (simp add: Cons.prems)
  ultimately show ?case
    by (auto simp: Let_def split: prod.splits sum.splits) (metis fst_conv sum.inject(2) Inr_not_Inl)+
qed

text \<open>The world after \<open>Promise.all\<close> is the one all the elements made, rejections or not.\<close>

lemma promiseAll_world:
  "snd (promiseAll f xs w) = fold (\<lambda>x w. snd (f x w)) xs w"
  by (induction xs arbitrary: w) (auto simp: Let_def split: prod.splits sum.splits, (metis snd_conv)+)

lemma promiseAllMap_ok:
  assumes "\<And>x. x \<in> set xs \<Longrightarrow> f x = Inr (g x)"
  shows "promiseAllMap f xs = promiseAll g xs"
proof (rule ext)
  fix w
  have "\<exists>rs. startAll f xs w = (Inr rs, snd (promiseAll g xs w))
          \<and> settleAll rs = fst (promiseAll g xs w)" for w
    using assms
  proof (induction xs arbitrary: w)
    case (Cons x xs)
    obtain r w1 where x: "g x w = (r, w1)" by fastforce
    obtain rs where "startAll f xs w1 = (Inr rs, snd (promiseAll g xs w1))"
      and "settleAll rs = fst (promiseAll g xs w1)"
      using Cons by fastforce
    then show ?case
      using x Cons.prems by (cases r) (auto simp: Let_def split: prod.splits sum.splits)
  qed simp
  from this [of w] show "promiseAllMap f xs w = promiseAll g xs w"
    by (auto simp: promiseAllMap_def)
qed

section \<open>Insertion-ordered maps\<close>

text \<open>
  A JavaScript \<open>Map\<close> keeps its entries in the order of first insertion; \<open>set\<close> on a present
  key changes the value in place. The model is the association list of the entries; the
  library's \<open>AList.update\<close> and \<open>AList.delete\<close> do exactly that.
\<close>

type_synonym ('k, 'v) jsmap = "('k \<times> 'v) list"

abbreviation map_get :: "('k, 'v) jsmap \<Rightarrow> 'k \<Rightarrow> 'v option" where
  "map_get m k \<equiv> map_of m k"

abbreviation map_set :: "'k \<Rightarrow> 'v \<Rightarrow> ('k, 'v) jsmap \<Rightarrow> ('k, 'v) jsmap" where
  "map_set \<equiv> AList.update"

abbreviation map_delete :: "'k \<Rightarrow> ('k, 'v) jsmap \<Rightarrow> ('k, 'v) jsmap" where
  "map_delete \<equiv> AList.delete"

definition map_has :: "('k, 'v) jsmap \<Rightarrow> 'k \<Rightarrow> bool" where
  "map_has m k = (map_get m k \<noteq> None)"

text \<open>\<open>new Map(entries)\<close>: a later entry with the same key wins.\<close>

definition map_from :: "('k \<times> 'v) list \<Rightarrow> ('k, 'v) jsmap" where
  "map_from kvs = fold (\<lambda>(k, v). map_set k v) kvs []"

definition map_wf :: "('k, 'v) jsmap \<Rightarrow> bool" where
  "map_wf m = distinct (map fst m)"

lemma map_get_set [simp]: "map_get (map_set k v m) = (map_get m)(k \<mapsto> v)"
  by (rule update_conv')

lemma map_wf_Nil [simp, intro]: "map_wf []"
  by (simp add: map_wf_def)

lemma map_wf_set [simp, intro]: "map_wf m \<Longrightarrow> map_wf (map_set k v m)"
  by (simp add: map_wf_def distinct_update)

lemma map_wf_delete [simp, intro]: "map_wf m \<Longrightarrow> map_wf (map_delete k m)"
  by (simp add: map_wf_def distinct_delete)

lemma fold_map_set_get:
  "map_get (fold (\<lambda>(k, v). map_set k v) kvs m) = map_get m ++ map_of (rev kvs)"
  by (induction kvs arbitrary: m) (auto simp: map_add_def fun_eq_iff split: option.splits)

lemma map_get_from [simp]: "map_get (map_from kvs) = map_of (rev kvs)"
  by (simp add: map_from_def fold_map_set_get)

lemma fold_map_set_wf: "map_wf m \<Longrightarrow> map_wf (fold (\<lambda>(k, v). map_set k v) kvs m)"
  by (induction kvs arbitrary: m) auto

lemma map_wf_from [simp, intro]: "map_wf (map_from kvs)"
  by (simp add: map_from_def fold_map_set_wf)

lemma map_of_rev: "map_wf m \<Longrightarrow> map_of (rev m) = map_get m"
  by (metis map_of_eqI map_wf_def distinct_rev map_of_eq_Some_iff rev_map set_rev set_map
      ext not_None_eq)

lemma map_get_spread [simp]:
  "map_wf b \<Longrightarrow> map_get (map_from (a @ b)) k =
     (case map_get b k of None \<Rightarrow> map_of (rev a) k | Some v \<Rightarrow> Some v)"
  by (simp add: map_of_rev map_add_def)

section \<open>Searching\<close>

text \<open>\<open>xs.find(p)\<close> where the predicate may throw.\<close>

fun findThrowing :: "('a \<Rightarrow> exn + bool) \<Rightarrow> 'a list \<Rightarrow> exn + 'a option" where
  "findThrowing p [] = Inr None"
| "findThrowing p (x # xs) =
     (case p x of Inl e \<Rightarrow> Inl e
      | Inr b \<Rightarrow> if b then Inr (Some x) else findThrowing p xs)"

text \<open>\<open>xs.map(f)\<close> where the function may throw.\<close>

fun traverse :: "('a \<Rightarrow> exn + 'b) \<Rightarrow> 'a list \<Rightarrow> exn + 'b list" where
  "traverse f [] = Inr []"
| "traverse f (x # xs) =
     (case f x of Inl e \<Rightarrow> Inl e | Inr y \<Rightarrow> map_sum id (\<lambda>ys. y # ys) (traverse f xs))"

lemma traverse_total: "(\<And>x. x \<in> set xs \<Longrightarrow> f x = Inr (g x)) \<Longrightarrow> traverse f xs = Inr (map g xs)"
  by (induction xs) auto

lemma traverse_Inr: "traverse f xs = Inr ys \<longleftrightarrow> list_all2 (\<lambda>x y. f x = Inr y) xs ys"
proof (induction xs arbitrary: ys)
  case Nil
  then show ?case by auto
next
  case (Cons x xs)
  show ?case
  proof (cases "f x")
    case (Inl e)
    then show ?thesis by (auto simp: list_all2_Cons1)
  next
    case (Inr y)
    then show ?thesis using Cons by (cases "traverse f xs") (auto simp: list_all2_Cons1)
  qed
qed

lemma find_filter: "find p xs = (case filter p xs of [] \<Rightarrow> None | x # _ \<Rightarrow> Some x)"
  by (induction xs) auto

lemma findThrowing_total:
  "(\<And>x. x \<in> set xs \<Longrightarrow> p x = Inr (q x)) \<Longrightarrow> findThrowing p xs = Inr (find q xs)"
  by (induction xs) auto

lemma findThrowing_Some:
  "findThrowing p xs = Inr (Some x) \<Longrightarrow> x \<in> set xs \<and> p x = Inr True"
  by (induction xs) (auto split: sum.splits if_splits)

lemma map_sum_eq_Inl: "map_sum f g x = Inl y \<longleftrightarrow> (\<exists>z. x = Inl z \<and> y = f z)"
  by (cases x) auto

lemma map_sum_eq_Inr: "map_sum f g x = Inr y \<longleftrightarrow> (\<exists>z. x = Inr z \<and> y = g z)"
  by (cases x) auto

section \<open>Keyed stores\<close>

text \<open>
  The contract of a component that is written and read by key: the headers of a message, the
  channel mapping, the saga instances in memory, the schemas of the aggregates. A read after a
  write gives what was written, and a write touches no other key.
\<close>

locale keyed_store =
  fixes get :: "'m \<Rightarrow> 'k \<Rightarrow> 'v option"
    and put :: "'k \<Rightarrow> 'v \<Rightarrow> 'm \<Rightarrow> 'm"
  assumes get_put_same: "get (put k v m) k = Some v"
    and get_put_other: "k' \<noteq> k \<Longrightarrow> get (put k v m) k' = get m k'"
begin

lemma get_put: "get (put k v m) k' = (if k' = k then Some v else get m k')"
  by (simp add: get_put_same get_put_other)

lemma get_put_overwrite: "get (put k v' (put k v m)) = get (put k v' m)"
  by (rule ext) (simp add: get_put)

lemma get_put_commute: "k \<noteq> k' \<Longrightarrow> get (put k v (put k' v' m)) = get (put k' v' (put k v m))"
  by (rule ext) (simp add: get_put)

lemma get_puts: "get (fold (\<lambda>(k, v). put k v) kvs m) k =
    (case map_of (rev kvs) k of None \<Rightarrow> get m k | Some v \<Rightarrow> Some v)"
  by (induction kvs arbitrary: m) (auto simp: get_put map_add_def split: option.splits)

end

interpretation jsmap: keyed_store "map_get" "map_set"
  by unfold_locales simp_all

end
