(* ===== verification/Decimal.thy ===== *)
theory Decimal
  imports Prelude
begin

text \<open>
  Numbers as text: the part of \<open>String(n)\<close>, \<open>BigInt(s)\<close> and \<open>parseInt(s)\<close> that the code
  uses, for integers. Every printed integer is read back, and no printed integer contains a
  character other than a digit or a leading minus sign.
\<close>

definition is_digit :: "char \<Rightarrow> bool" where
  "is_digit c = (48 \<le> (of_char c :: nat) \<and> (of_char c :: nat) \<le> 57)"

definition digit_char :: "nat \<Rightarrow> char" where
  "digit_char n = char_of (48 + n)"

definition digit_val :: "char \<Rightarrow> nat" where
  "digit_val c = of_char c - 48"

fun show_nat :: "nat \<Rightarrow> string" where
  "show_nat n = (if n < 10 then [digit_char n] else show_nat (n div 10) @ [digit_char (n mod 10)])"

declare show_nat.simps [simp del]

definition show_int :: "int \<Rightarrow> string" where
  "show_int i = (if i < 0 then CHR ''-'' # show_nat (nat (- i)) else show_nat (nat i))"

definition digits_val :: "string \<Rightarrow> nat" where
  "digits_val s = foldl (\<lambda>n c. 10 * n + digit_val c) 0 s"

text \<open>The longest prefix of digits and the rest, as a scanner reads it.\<close>

fun span_digits :: "string \<Rightarrow> string \<times> string" where
  "span_digits [] = ([], [])"
| "span_digits (c # cs) =
     (if is_digit c then (let (ds, r) = span_digits cs in (c # ds, r)) else ([], c # cs))"

definition scan_nat :: "string \<Rightarrow> (nat \<times> string) option" where
  "scan_nat s = (case span_digits s of ([], _) \<Rightarrow> None | (d # ds, r) \<Rightarrow> Some (digits_val (d # ds), r))"

text \<open>An optional minus sign, then at least one digit; the value and the unread rest.\<close>

definition scan_int :: "string \<Rightarrow> (int \<times> string) option" where
  "scan_int s =
     (case s of [] \<Rightarrow> None
      | c # cs \<Rightarrow> if c = CHR ''-'' then map_option (\<lambda>(n, r). (- int n, r)) (scan_nat cs)
                 else map_option (\<lambda>(n, r). (int n, r)) (scan_nat s))"

lemma is_digit_digit_char [simp]: "n < 10 \<Longrightarrow> is_digit (digit_char n)"
  by (simp add: is_digit_def digit_char_def)

lemma digit_val_digit_char [simp]: "n < 10 \<Longrightarrow> digit_val (digit_char n) = n"
  by (simp add: digit_val_def digit_char_def)

lemma show_nat_nonempty [simp]: "show_nat n \<noteq> []"
  by (subst show_nat.simps) simp

lemma show_nat_digits: "\<forall>c \<in> set (show_nat n). is_digit c"
proof (induction n rule: show_nat.induct)
  case (1 n)
  then show ?case by (subst show_nat.simps) auto
qed

lemma digits_val_snoc: "digits_val (s @ [c]) = 10 * digits_val s + digit_val c"
  by (simp add: digits_val_def)

lemma digits_val_show_nat [simp]: "digits_val (show_nat n) = n"
proof (induction n rule: show_nat.induct)
  case (1 n)
  show ?case
  proof (cases "n < 10")
    case True
    then show ?thesis by (subst show_nat.simps) (simp add: digits_val_def)
  next
    case False
    then show ?thesis using 1 by (subst show_nat.simps) (simp add: digits_val_snoc)
  qed
qed

lemma span_digits_append:
  assumes "\<forall>c \<in> set ds. is_digit c" and "r = [] \<or> \<not> is_digit (hd r)"
  shows "span_digits (ds @ r) = (ds, r)"
  using assms by (induction ds) (auto split: list.splits, cases r, auto)

lemma not_digit_minus [simp]: "\<not> is_digit (CHR ''-'')"
  by (simp add: is_digit_def)

lemma show_nat_hd: "is_digit (hd (show_nat n))"
  using show_nat_digits [of n] by (metis hd_in_set show_nat_nonempty)

lemma show_nat_Cons: "\<exists>c cs. show_nat n = c # cs \<and> is_digit c \<and> c \<noteq> CHR ''-''"
  using show_nat_hd [of n] not_digit_minus by (cases "show_nat n") auto

lemma scan_nat_show_nat:
  assumes "r = [] \<or> \<not> is_digit (hd r)"
  shows "scan_nat (show_nat n @ r) = Some (n, r)"
proof -
  obtain c cs where c: "show_nat n = c # cs" using show_nat_Cons by blast
  then have "digits_val (c # cs) = n" by (metis digits_val_show_nat)
  then show ?thesis
    using span_digits_append [OF show_nat_digits assms, of n] c by (simp add: scan_nat_def)
qed

lemma scan_int_show_int:
  assumes "r = [] \<or> \<not> is_digit (hd r)"
  shows "scan_int (show_int i @ r) = Some (i, r)"
proof (cases "i < 0")
  case True
  then show ?thesis by (simp add: scan_int_def show_int_def scan_nat_show_nat [OF assms])
next
  case False
  moreover obtain c cs where "show_nat (nat i) = c # cs" "c \<noteq> CHR ''-''"
    using show_nat_Cons by blast
  ultimately show ?thesis
    using scan_nat_show_nat [OF assms, of "nat i"] by (simp add: scan_int_def show_int_def)
qed

lemma show_int_chars: "c \<in> set (show_int i) \<Longrightarrow> is_digit c \<or> c = CHR ''-''"
  using show_nat_digits by (auto simp: show_int_def split: if_splits)

lemma show_int_nonempty [simp]: "show_int i \<noteq> []"
  by (simp add: show_int_def)

lemma span_digits_length: "span_digits s = (ds, r) \<Longrightarrow> length ds + length r = length s"
  by (induction s arbitrary: ds r) (auto simp: Let_def split: prod.splits if_splits)

lemma scan_nat_length: "scan_nat s = Some (n, r) \<Longrightarrow> length r < length s"
  by (auto simp: scan_nat_def split: prod.splits list.splits dest!: span_digits_length)

lemma scan_int_length: "scan_int s = Some (i, r) \<Longrightarrow> length r < length s"
  by (auto simp: scan_int_def split: list.splits if_splits dest!: scan_nat_length)

text \<open>\<open>BigInt(s)\<close> on the texts the code makes: the whole text is one integer.\<close>

definition parseBigInt :: "string \<Rightarrow> exn + int" where
  "parseBigInt s = (case scan_int s of Some (i, []) \<Rightarrow> Inr i | _ \<Rightarrow> Inl SyntaxError)"

lemma parseBigInt_show_int [simp]: "parseBigInt (show_int i) = Inr i"
  using scan_int_show_int [of "[]" i] by (simp add: parseBigInt_def)

text \<open>\<open>parseInt(s)\<close>: the integer at the start of the text, \<open>None\<close> for \<open>NaN\<close>.\<close>

definition parseInt :: "string \<Rightarrow> int option" where
  "parseInt s = map_option fst (scan_int s)"

lemma parseInt_show_int [simp]: "parseInt (show_int i) = Some i"
  using scan_int_show_int [of "[]" i] by (simp add: parseInt_def)

lemma show_int_inject [simp]: "show_int i = show_int j \<longleftrightarrow> i = j"
  by (metis parseInt_show_int option.inject)

end
