(* ===== verification/Json.thy ===== *)
theory Json
  imports Decimal
begin

text \<open>
  JSON values and the part of \<open>JSON.stringify\<close> and \<open>JSON.parse\<close> that the code relies on:
  the state of a saga and the payload of a Kafka record are kept as JSON text. Numbers are
  integers (a text with a fraction or an exponent is not read), the keys of an object keep
  their order, and characters are bytes. The theorem of the theory is that reading what was
  written gives the value back.
\<close>

section \<open>Text of strings\<close>

definition hex_char :: "nat \<Rightarrow> char" where
  "hex_char n = (if n < 10 then char_of (48 + n) else char_of (87 + n))"

definition hex_val :: "char \<Rightarrow> nat option" where
  "hex_val c = (let n = of_char c in
     if 48 \<le> n \<and> n \<le> 57 then Some (n - 48)
     else if 97 \<le> n \<and> n \<le> 102 then Some (n - 87)
     else if 65 \<le> n \<and> n \<le> 70 then Some (n - 55) else None)"

definition escape_char :: "char \<Rightarrow> string" where
  "escape_char c = (let n = of_char c :: nat in
     if n = 34 then [CHR 0x5C, CHR 0x22]
     else if n = 92 then [CHR 0x5C, CHR 0x5C]
     else if n < 32 then CHR 0x5C # ''u00'' @ [hex_char (n div 16), hex_char (n mod 16)]
     else [c])"

definition quote :: "string \<Rightarrow> string" where
  "quote s = CHR 0x22 # concat (map escape_char s) @ [CHR 0x22]"

text \<open>The characters after an opening quote up to the closing one.\<close>

fun parseChars :: "string \<Rightarrow> (string \<times> string) option" where
  "parseChars [] = None"
| "parseChars (c # cs) =
     (if c = CHR 0x22 then Some ([], cs)
      else if c = CHR 0x5C then
        (case cs of
           [] \<Rightarrow> None
         | e # r \<Rightarrow>
             if e = CHR 0x22 \<or> e = CHR 0x5C \<or> e = CHR ''/'' then
               map_option (\<lambda>(t, r'). (e # t, r')) (parseChars r)
             else if e = CHR ''n'' then
               map_option (\<lambda>(t, r'). (CHR 0x0A # t, r')) (parseChars r)
             else if e = CHR ''t'' then
               map_option (\<lambda>(t, r'). (CHR 0x09 # t, r')) (parseChars r)
             else if e = CHR ''r'' then
               map_option (\<lambda>(t, r'). (CHR 0x0D # t, r')) (parseChars r)
             else if e = CHR ''u'' then
               (case r of z1 # z2 # h # l # r'' \<Rightarrow>
                  if z1 = CHR ''0'' \<and> z2 = CHR ''0'' then
                    (case (hex_val h, hex_val l) of
                       (Some x, Some y) \<Rightarrow>
                         map_option (\<lambda>(t, r'). (char_of (16 * x + y) # t, r')) (parseChars r'')
                     | _ \<Rightarrow> None)
                  else None
                | _ \<Rightarrow> None)
             else None)
      else map_option (\<lambda>(t, r'). (c # t, r')) (parseChars cs))"

lemma hex_val_hex_char [simp]: "n < 16 \<Longrightarrow> hex_val (hex_char n) = Some n"
  by (auto simp: hex_val_def hex_char_def Let_def)

lemma char_eq_code: "c = d \<longleftrightarrow> (of_char c :: nat) = of_char d"
  by (metis char_of_char)

lemma parseChars_escape:
  "parseChars (escape_char c @ r) = map_option (\<lambda>(t, r'). (c # t, r')) (parseChars r)"
proof (cases "of_char c = (34 :: nat) \<or> of_char c = (92 :: nat)")
  case True
  then have "c = CHR 0x22 \<or> c = CHR 0x5C" by (auto simp: char_eq_code)
  then show ?thesis by (auto simp: escape_char_def)
next
  case False
  have "char_of (16 * ((of_char c :: nat) div 16) + of_char c mod 16) = c"
    by (simp add: mult.commute)
  with False show ?thesis
    by (auto simp: escape_char_def Let_def char_eq_code [of c])
qed

lemma parseChars_quote:
  "parseChars (concat (map escape_char s) @ CHR 0x22 # r) = Some (s, r)"
proof (induction s)
  case Nil
  then show ?case by simp
next
  case (Cons c s)
  then show ?case by (simp add: parseChars_escape)
qed

section \<open>Writing\<close>

fun stringify :: "json \<Rightarrow> string"
  and stringifyElems :: "json list \<Rightarrow> string"
  and stringifyMembers :: "(string \<times> json) list \<Rightarrow> string" where
  "stringify JNull = ''null''"
| "stringify (JBool b) = (if b then ''true'' else ''false'')"
| "stringify (JNum i) = show_int i"
| "stringify (JStr s) = quote s"
| "stringify (JArr vs) = ''['' @ stringifyElems vs @ '']''"
| "stringify (JObj ms) = ''{'' @ stringifyMembers ms @ ''}''"
| "stringifyElems [] = []"
| "stringifyElems [v] = stringify v"
| "stringifyElems (v # w # vs) = stringify v @ '','' @ stringifyElems (w # vs)"
| "stringifyMembers [] = []"
| "stringifyMembers [(k, v)] = quote k @ '':'' @ stringify v"
| "stringifyMembers ((k, v) # m # ms) = quote k @ '':'' @ stringify v @ '','' @ stringifyMembers (m # ms)"

section \<open>Reading\<close>

fun skipWs :: "string \<Rightarrow> string" where
  "skipWs [] = []"
| "skipWs (c # cs) =
     (if c = CHR '' '' \<or> c = CHR 0x09 \<or> c = CHR 0x0A \<or> c = CHR 0x0D then skipWs cs else c # cs)"

definition keyword :: "string \<Rightarrow> json \<Rightarrow> string \<Rightarrow> (json \<times> string) option" where
  "keyword w v s = (if take (length w) s = w then Some (v, drop (length w) s) else None)"

text \<open>The fuel bounds the nesting; \<open>length s\<close> is enough, as every turn reads a character.\<close>

fun parseValue :: "nat \<Rightarrow> string \<Rightarrow> (json \<times> string) option"
  and parseElems :: "nat \<Rightarrow> string \<Rightarrow> (json list \<times> string) option"
  and parseMembers :: "nat \<Rightarrow> string \<Rightarrow> ((string \<times> json) list \<times> string) option" where
  "parseValue 0 s = None"
| "parseValue (Suc n) s =
     (case skipWs s of
        [] \<Rightarrow> None
      | c # cs \<Rightarrow>
          if c = CHR ''n'' then keyword ''null'' JNull (c # cs)
          else if c = CHR ''t'' then keyword ''true'' (JBool True) (c # cs)
          else if c = CHR ''f'' then keyword ''false'' (JBool False) (c # cs)
          else if c = CHR 0x22 then map_option (\<lambda>(t, r). (JStr t, r)) (parseChars cs)
          else if c = CHR ''['' then
            (case skipWs cs of
               [] \<Rightarrow> None
             | d # ds \<Rightarrow> if d = CHR '']'' then Some (JArr [], ds)
                        else map_option (\<lambda>(vs, r). (JArr vs, r)) (parseElems n (d # ds)))
          else if c = CHR ''{'' then
            (case skipWs cs of
               [] \<Rightarrow> None
             | d # ds \<Rightarrow> if d = CHR ''}'' then Some (JObj [], ds)
                        else map_option (\<lambda>(ms, r). (JObj ms, r)) (parseMembers n (d # ds)))
          else map_option (\<lambda>(i, r). (JNum i, r)) (scan_int (c # cs)))"
| "parseElems 0 s = None"
| "parseElems (Suc n) s =
     (case parseValue n s of
        None \<Rightarrow> None
      | Some (v, r) \<Rightarrow>
          (case skipWs r of
             [] \<Rightarrow> None
           | d # ds \<Rightarrow>
               if d = CHR '','' then map_option (\<lambda>(vs, r'). (v # vs, r')) (parseElems n ds)
               else if d = CHR '']'' then Some ([v], ds) else None))"
| "parseMembers 0 s = None"
| "parseMembers (Suc n) s =
     (case skipWs s of
        [] \<Rightarrow> None
      | q # qs \<Rightarrow>
          if q \<noteq> CHR 0x22 then None
          else (case parseChars qs of
             None \<Rightarrow> None
           | Some (k, r) \<Rightarrow>
               (case skipWs r of
                  [] \<Rightarrow> None
                | d # ds \<Rightarrow>
                    if d \<noteq> CHR '':'' then None
                    else (case parseValue n ds of
                       None \<Rightarrow> None
                     | Some (v, r') \<Rightarrow>
                         (case skipWs r' of
                            [] \<Rightarrow> None
                          | e # es \<Rightarrow>
                              if e = CHR '','' then
                                map_option (\<lambda>(ms, r''). ((k, v) # ms, r'')) (parseMembers n es)
                              else if e = CHR ''}'' then Some ([(k, v)], es) else None)))))"

text \<open>\<open>JSON.parse(s)\<close>: one value and nothing but white space after it.\<close>

definition jsonParse :: "string \<Rightarrow> exn + json" where
  "jsonParse s =
     (case parseValue (Suc (length s)) s of
        None \<Rightarrow> Inl SyntaxError
      | Some (v, r) \<Rightarrow> if skipWs r = [] then Inr v else Inl SyntaxError)"

lemma jsonParse_Inl: "jsonParse s = Inl e \<Longrightarrow> e = SyntaxError"
  by (auto simp: jsonParse_def split: option.splits if_splits)

section \<open>Reading what was written\<close>

definition value_end :: "string \<Rightarrow> bool" where
  "value_end r = (r = [] \<or> hd r \<in> {CHR '','', CHR '']'', CHR ''}''})"

lemma value_end_not_digit: "value_end r \<Longrightarrow> r = [] \<or> \<not> is_digit (hd r)"
  by (auto simp: value_end_def is_digit_def)

definition value_start :: "char \<Rightarrow> bool" where
  "value_start c = (c \<in> {CHR ''n'', CHR ''t'', CHR ''f'', CHR 0x22, CHR ''['', CHR ''{'', CHR ''-''}
     \<or> is_digit c)"

lemma show_int_Cons: "\<exists>c cs. show_int i = c # cs \<and> (is_digit c \<or> c = CHR ''-'')"
  using show_nat_Cons [of "nat i"] show_nat_Cons [of "nat (- i)"] by (auto simp: show_int_def)

lemma stringify_Cons: "\<exists>c cs. stringify v = c # cs \<and> value_start c"
proof (cases v)
  case (JNum i)
  then show ?thesis using show_int_Cons [of i] by (auto simp: value_start_def)
qed (auto simp: value_start_def quote_def)

lemma stringifyElems_Cons: "\<exists>c cs. stringifyElems (v # vs) = c # cs \<and> value_start c"
  using stringify_Cons [of v] by (cases vs) auto

lemma value_start_simps:
  assumes "value_start c"
  shows "skipWs (c # cs) = c # cs" "c \<noteq> CHR '']''" "c \<noteq> CHR ''}''"
  using assms by (auto simp: value_start_def is_digit_def)

lemma is_digit_neq:
  assumes "is_digit c \<or> c = CHR ''-''"
  shows "c \<noteq> CHR ''n''" "c \<noteq> CHR ''t''" "c \<noteq> CHR ''f''" "c \<noteq> CHR 0x22" "c \<noteq> CHR ''[''"
    "c \<noteq> CHR ''{''" "skipWs (c # cs) = c # cs"
  using assms by (auto simp: is_digit_def)

lemma parseValue_int:
  assumes "value_end r" and "0 < n"
  shows "parseValue n (show_int i @ r) = Some (JNum i, r)"
proof -
  obtain m where n: "n = Suc m" using assms(2) by (cases n) auto
  obtain c cs where c: "show_int i = c # cs" "is_digit c \<or> c = CHR ''-''"
    using show_int_Cons by blast
  have "scan_int (c # cs @ r) = Some (i, r)"
    using scan_int_show_int [OF value_end_not_digit [OF assms(1)], of i] c by simp
  then show ?thesis
    unfolding n using c is_digit_neq [OF c(2)] by simp
qed

lemma quote_append: "quote s @ r = CHR 0x22 # concat (map escape_char s) @ CHR 0x22 # r"
  by (simp add: quote_def)

lemma quote_length [simp]: "length (quote s) = Suc (Suc (length (concat (map escape_char s))))"
  by (simp add: quote_def)

lemma parse_stringify:
  "length (stringify v) \<le> n \<Longrightarrow> value_end r \<Longrightarrow>
     parseValue n (stringify v @ r) = Some (v, r)"
  "length (stringifyElems vs) < n \<Longrightarrow> vs \<noteq> [] \<Longrightarrow>
     parseElems n (stringifyElems vs @ CHR '']'' # r) = Some (vs, r)"
  "length (stringifyMembers ms) < n \<Longrightarrow> ms \<noteq> [] \<Longrightarrow>
     parseMembers n (stringifyMembers ms @ CHR ''}'' # r) = Some (ms, r)"
proof (induction v and vs and ms arbitrary: n r and n r and n r
    rule: stringify_stringifyElems_stringifyMembers.induct)
  case 1
  then show ?case by (cases n) (simp_all add: keyword_def)
next
  case (2 b)
  then show ?case by (cases n; cases b) (auto simp: keyword_def)
next
  case (3 i)
  then have "0 < n" by (cases n) auto
  with 3 show ?case by (simp add: parseValue_int)
next
  case (4 s)
  then obtain m where "n = Suc m" by (cases n) auto
  then show ?case by (simp add: quote_append parseChars_quote)
next
  case (5 vs)
  then obtain m where n: "n = Suc m" by (cases n) auto
  show ?case
  proof (cases vs)
    case Nil
    then show ?thesis by (simp add: n)
  next
    case (Cons w ws)
    obtain c cs where c: "stringifyElems vs = c # cs" "value_start c"
      using stringifyElems_Cons Cons by blast
    have "parseElems m (c # cs @ CHR '']'' # r) = Some (vs, r)"
      using 5 c Cons by (simp add: n)
    then show ?thesis
      using value_start_simps [OF c(2)] c by (simp add: n)
  qed
next
  case (6 ms)
  then obtain m where n: "n = Suc m" by (cases n) auto
  show ?case
  proof (cases ms)
    case Nil
    then show ?thesis by (simp add: n)
  next
    case (Cons kv ws)
    obtain k v where kv: "kv = (k, v)" by fastforce
    have "\<exists>cs. stringifyMembers ms = CHR 0x22 # cs"
      by (cases ws) (auto simp: Cons kv quote_def)
    then obtain cs where c: "stringifyMembers ms = CHR 0x22 # cs" by blast
    have "parseMembers m (CHR 0x22 # cs @ CHR ''}'' # r) = Some (ms, r)"
      using 6 c Cons by (simp add: n)
    then show ?thesis
      using c by (simp add: n)
  qed
next
  case 7
  then show ?case by simp
next
  case (8 v)
  then obtain m where n: "n = Suc m" by (cases n) auto
  have "parseValue m (stringify v @ CHR '']'' # r) = Some (v, CHR '']'' # r)"
    using 8 by (simp add: n value_end_def)
  then show ?case by (simp add: n)
next
  case (9 v w vs)
  then obtain m where n: "n = Suc m" by (cases n) auto
  have "parseValue m (stringify v @ CHR '','' # stringifyElems (w # vs) @ CHR '']'' # r)
      = Some (v, CHR '','' # stringifyElems (w # vs) @ CHR '']'' # r)"
    using 9 by (simp add: n value_end_def)
  moreover have "parseElems m (stringifyElems (w # vs) @ CHR '']'' # r) = Some (w # vs, r)"
    using 9 by (simp add: n)
  ultimately show ?case by (simp add: n)
next
  case 10
  then show ?case by simp
next
  case (11 k v)
  then obtain m where n: "n = Suc m" by (cases n) auto
  have "parseValue m (stringify v @ CHR ''}'' # r) = Some (v, CHR ''}'' # r)"
    using 11 by (simp add: n value_end_def)
  then show ?case by (simp add: n quote_append parseChars_quote)
next
  case (12 k v kv ms)
  then obtain m where n: "n = Suc m" by (cases n) auto
  have "parseValue m (stringify v @ CHR '','' # stringifyMembers (kv # ms) @ CHR ''}'' # r)
      = Some (v, CHR '','' # stringifyMembers (kv # ms) @ CHR ''}'' # r)"
    using 12 by (simp add: n value_end_def)
  moreover have "parseMembers m (stringifyMembers (kv # ms) @ CHR ''}'' # r) = Some (kv # ms, r)"
    using 12 by (simp add: n)
  ultimately show ?case by (simp add: n quote_append parseChars_quote)
qed

lemma jsonParse_stringify [simp]: "jsonParse (stringify v) = Inr v"
  using parse_stringify(1) [of v "Suc (length (stringify v))" "[]"]
  by (simp add: jsonParse_def value_end_def)

text \<open>A property of a parsed value, if it is an object that has it; the last one written counts.\<close>

definition json_property :: "string \<Rightarrow> json \<Rightarrow> json option" where
  "json_property name j = (case j of JObj ps \<Rightarrow> map_of (rev ps) name | _ \<Rightarrow> None)"

declare stringify.simps [simp del]

section \<open>Truth values\<close>

fun truthy :: "json \<Rightarrow> bool" where
  "truthy JNull = False"
| "truthy (JBool b) = b"
| "truthy (JNum n) = (n \<noteq> 0)"
| "truthy (JStr s) = (s \<noteq> '''')"
| "truthy (JArr _) = True"
| "truthy (JObj _) = True"

end
