(* ===== verification/Message.thy ===== *)
theory Message
  imports Json
begin

text \<open>
  Messages (\<open>messaging/common/message.ts\<close>, \<open>message-headers.ts\<close>, \<open>exceptions.ts\<close>) and the
  builder of messages (\<open>messaging/producer/message-builder.ts\<close>).

  A message is a mutable object; an operation that changes it gives the changed message.
  \<open>lock\<close> is the target of a \<open>SagaReplyMessage\<close> (\<open>saga-reply-message.ts\<close>), \<open>None\<close> for a plain
  message and for a reply message without a lock target.
\<close>

type_synonym headers = "(string, string) jsmap"

record message =
  payload :: json
  headers :: headers
  lock :: "string option"

definition new_message :: "json \<Rightarrow> headers \<Rightarrow> message" where
  "new_message p h = \<lparr>payload = p, headers = h, lock = None\<rparr>"

definition HDR_ID :: string where "HDR_ID = ''ID''"
definition HDR_PARTITION_ID :: string where "HDR_PARTITION_ID = ''PARTITION_ID''"
definition HDR_DESTINATION :: string where "HDR_DESTINATION = ''DESTINATION''"
definition HDR_DATE :: string where "HDR_DATE = ''DATE''"
definition HDR_TYPE :: string where "HDR_TYPE = ''type''"

lemmas message_header_defs =
  HDR_ID_def HDR_PARTITION_ID_def HDR_DESTINATION_def HDR_DATE_def HDR_TYPE_def

section \<open>Headers\<close>

definition fromRecord :: "(string \<times> string) list \<Rightarrow> headers" where
  "fromRecord r = map_from r"

definition asRecord :: "headers \<Rightarrow> (string \<times> string) list" where
  "asRecord h = map_from h"

text \<open>
  \<open>fromRecord\<close> and \<open>asRecord\<close> are \<open>Object.entries\<close> and \<open>Object.fromEntries\<close>: a record of
  strings is the list of its properties.
\<close>

lemma map_from_id: "map_wf h \<Longrightarrow> map_from h = h"
proof -
  have "fold (\<lambda>(k, v). map_set k v) h acc = acc @ h"
    if "distinct (map fst (acc @ h))" for acc
    using that
  proof (induction h arbitrary: acc)
    case Nil
    then show ?case by simp
  next
    case (Cons kv h)
    obtain k v where kv: "kv = (k, v)" by fastforce
    have "map_set k v acc = acc @ [(k, v)]"
      using Cons.prems unfolding kv
      by (induction acc) auto
    then show ?case
      using Cons.IH [of "acc @ [(k, v)]"] Cons.prems kv by simp
  qed
  from this [of "[]"] show "map_wf h \<Longrightarrow> map_from h = h"
    by (simp add: map_from_def map_wf_def)
qed

lemma headers_record_roundtrip: "map_wf h \<Longrightarrow> fromRecord (asRecord h) = h"
  by (simp add: fromRecord_def asRecord_def map_from_id)

section \<open>Operations of a message\<close>

definition setPayload :: "json \<Rightarrow> message \<Rightarrow> message" where
  "setPayload p m = m\<lparr>payload := p\<rparr>"

definition setHeaders :: "headers \<Rightarrow> message \<Rightarrow> message" where
  "setHeaders h m = m\<lparr>headers := h\<rparr>"

definition setHeader :: "string \<Rightarrow> string \<Rightarrow> message \<Rightarrow> message" where
  "setHeader name value m = m\<lparr>headers := map_set name value (headers m)\<rparr>"

definition hasHeader :: "message \<Rightarrow> string \<Rightarrow> bool" where
  "hasHeader m name = map_has (headers m) name"

definition removeHeader :: "string \<Rightarrow> message \<Rightarrow> bool \<times> message" where
  "removeHeader name m = (hasHeader m name, m\<lparr>headers := map_delete name (headers m)\<rparr>)"

definition getHeader :: "message \<Rightarrow> string \<Rightarrow> string \<Rightarrow> string" where
  "getHeader m name defaultValue =
     (case map_get (headers m) name of None \<Rightarrow> defaultValue | Some v \<Rightarrow> v)"

text \<open>
  \<open>getRequiredHeader\<close> throws a \<open>MissingMessageHeaderException\<close>, whose constructor calls
  \<open>toString\<close>, which reads the required header \<open>type\<close>, which may be missing in its turn. The
  first argument is the number of calls the stack of the engine still has room for.
\<close>

fun getRequiredHeaderAt :: "nat \<Rightarrow> message \<Rightarrow> string \<Rightarrow> exn + string"
  and toStringAt :: "nat \<Rightarrow> message \<Rightarrow> exn + string" where
  "getRequiredHeaderAt 0 m name = Inl RangeError"
| "getRequiredHeaderAt (Suc d) m name =
     (let value = getHeader m name ''''
      in if value = '''' then
           (case toStringAt d m of
              Inl e \<Rightarrow> Inl e
            | Inr _ \<Rightarrow> Inl (MissingMessageHeaderException name))
         else Inr value)"
| "toStringAt 0 m = Inl RangeError"
| "toStringAt (Suc d) m =
     (case getRequiredHeaderAt d m HDR_TYPE of
        Inl e \<Rightarrow> Inl e
      | Inr t \<Rightarrow> Inr (stringify (JObj
          [(''payload'', payload m),
           (''headers'', JObj (map (\<lambda>(k, v). (k, JStr v)) (asRecord (headers m)))),
           (''type'', JStr t)])))"

text \<open>The room on the stack: what the engine has is not important as long as it is four calls.\<close>

definition js_stack :: nat where
  "js_stack = 10000"

definition getRequiredHeader :: "message \<Rightarrow> string \<Rightarrow> exn + string" where
  "getRequiredHeader m name = getRequiredHeaderAt js_stack m name"

definition toString :: "message \<Rightarrow> exn + string" where
  "toString m = toStringAt js_stack m"

definition message_id :: "message \<Rightarrow> exn + string" where
  "message_id m = getRequiredHeader m HDR_ID"

definition message_type :: "message \<Rightarrow> exn + string" where
  "message_type m = getRequiredHeader m HDR_TYPE"

text \<open>A header is present for the code when it has a value that is not the empty text.\<close>

definition filled :: "message \<Rightarrow> string \<Rightarrow> bool" where
  "filled m name = (getHeader m name '''' \<noteq> '''')"

lemma toStringAt_no_type:
  assumes "\<not> filled m HDR_TYPE"
  shows "toStringAt d m = Inl RangeError \<and> getRequiredHeaderAt d m HDR_TYPE = Inl RangeError"
  using assms by (induction d) (simp_all add: filled_def)

lemma getRequiredHeaderAt_eq:
  assumes "3 \<le> d"
  shows "getRequiredHeaderAt d m name =
    (if filled m name then Inr (getHeader m name '''')
     else if filled m HDR_TYPE then Inl (MissingMessageHeaderException name)
     else Inl RangeError)"
proof -
  obtain e where d: "d = Suc (Suc (Suc e))"
    using assms by (metis Suc_le_D numeral_3_eq_3 Suc_le_mono)
  show ?thesis
    using toStringAt_no_type [of m] unfolding d
    by (auto simp: filled_def Let_def)
qed

lemma getRequiredHeader_eq:
  "getRequiredHeader m name =
    (if filled m name then Inr (getHeader m name '''')
     else if filled m HDR_TYPE then Inl (MissingMessageHeaderException name)
     else Inl RangeError)"
  unfolding getRequiredHeader_def by (rule getRequiredHeaderAt_eq) (simp add: js_stack_def)

lemma getRequiredHeader_filled:
  "filled m name \<Longrightarrow> getRequiredHeader m name = Inr (getHeader m name '''')"
  by (simp add: getRequiredHeader_eq)

lemma getRequiredHeader_Inr:
  "getRequiredHeader m name = Inr v \<longleftrightarrow> v \<noteq> '''' \<and> map_get (headers m) name = Some v"
  by (auto simp: getRequiredHeader_eq filled_def getHeader_def split: option.splits if_splits)

lemma getRequiredHeader_Inl:
  "getRequiredHeader m name = Inl e \<Longrightarrow> e = MissingMessageHeaderException name \<or> e = RangeError"
  by (auto simp: getRequiredHeader_eq split: if_splits)

lemma toString_total: "(\<exists>s. toString m = Inr s) \<longleftrightarrow> filled m HDR_TYPE"
proof -
  obtain d where d: "js_stack = Suc d" "3 \<le> d" by (simp add: js_stack_def)
  show ?thesis
    unfolding toString_def d(1) using d(2) by (auto simp: getRequiredHeaderAt_eq)
qed

lemma toString_Inl: "toString m = Inl e \<Longrightarrow> e = RangeError \<and> \<not> filled m HDR_TYPE"
  using toString_total [of m] toStringAt_no_type [of m js_stack]
  by (auto simp: toString_def)

lemma filled_setHeader:
  "filled (setHeader k v m) name \<longleftrightarrow> (if name = k then v \<noteq> '''' else filled m name)"
  by (simp add: filled_def setHeader_def getHeader_def)

lemma headers_setHeader [simp]: "headers (setHeader k v m) = map_set k v (headers m)"
  by (simp add: setHeader_def)

lemma payload_setHeader [simp]: "payload (setHeader k v m) = payload m"
  by (simp add: setHeader_def)

lemma lock_setHeader [simp]: "lock (setHeader k v m) = lock m"
  by (simp add: setHeader_def)

interpretation message: keyed_store "\<lambda>m. map_get (headers m)" setHeader
  by unfold_locales simp_all

section \<open>The message builder\<close>

text \<open>
  \<open>classToPlain\<close> and \<open>validatedPlainToClass\<close> are functions of the package \<open>@deepkit/type\<close>, and
  the text of an error (\<open>message\<close>, \<open>stack\<close>) and of a class is the engine's: parameters of the
  model.
\<close>

record serializer =
  classToPlain :: "string \<Rightarrow> json \<Rightarrow> json"
  validatedPlainToClass :: "string \<Rightarrow> json \<Rightarrow> exn + jsobj"
  errorName :: "exn \<Rightarrow> string"
  errorMessage :: "exn \<Rightarrow> string"
  errorStack :: "exn \<Rightarrow> string"
  classText :: "string \<Rightarrow> string"       \<comment> \<open>the source text of a class\<close>

record message_builder =
  builder_headers :: headers
  builder_body :: json

datatype payload_arg = ErrorArg exn | ObjectArg jsobj | TextArg string

definition withReference :: "string \<Rightarrow> message_builder \<Rightarrow> message_builder" where
  "withReference class_name b =
     b\<lparr>builder_headers := map_set HDR_TYPE class_name (builder_headers b)\<rparr>"

definition withMessage :: "message \<Rightarrow> message_builder" where
  "withMessage m = \<lparr>builder_headers = headers m, builder_body = payload m\<rparr>"

definition builder_of :: "json \<Rightarrow> message_builder" where
  "builder_of body = \<lparr>builder_headers = [], builder_body = body\<rparr>"

definition withPayload :: "serializer \<Rightarrow> payload_arg \<Rightarrow> exn + message_builder" where
  "withPayload S p =
     (case p of
        ErrorArg e \<Rightarrow> Inr (builder_of (JObj [(''name'', JStr (errorName S e)),
          (''message'', JStr (errorMessage S e)), (''stack'', JStr (errorStack S e))]))
      | ObjectArg ob \<Rightarrow>
          Inr (withReference (obj_class ob) (builder_of (classToPlain S (obj_class ob) (obj_own ob))))
      | TextArg s \<Rightarrow> (case jsonParse s of Inl e \<Rightarrow> Inl e | Inr j \<Rightarrow> Inr (builder_of j)))"

definition withHeader :: "string \<Rightarrow> string \<Rightarrow> message_builder \<Rightarrow> message_builder" where
  "withHeader name value b = b\<lparr>builder_headers := map_set name value (builder_headers b)\<rparr>"

definition withExtraHeaders :: "headers \<Rightarrow> message_builder \<Rightarrow> message_builder" where
  "withExtraHeaders h b = b\<lparr>builder_headers := map_from (builder_headers b @ h)\<rparr>"

definition build :: "message_builder \<Rightarrow> message" where
  "build b = new_message (builder_body b) (builder_headers b)"

lemma builder_simps [simp]:
  "builder_body (withReference c b) = builder_body b"
  "builder_body (withHeader n v b) = builder_body b"
  "builder_body (withExtraHeaders h b) = builder_body b"
  "builder_headers (withReference c b) = map_set HDR_TYPE c (builder_headers b)"
  "builder_headers (withHeader n v b) = map_set n v (builder_headers b)"
  "builder_headers (withExtraHeaders h b) = map_from (builder_headers b @ h)"
  "builder_body (withMessage m) = payload m"
  "builder_headers (withMessage m) = headers m"
  "builder_body (builder_of j) = j"
  "builder_headers (builder_of j) = []"
  by (simp_all add: withReference_def withHeader_def withExtraHeaders_def withMessage_def
      builder_of_def)

lemma build_simps [simp]:
  "payload (build b) = builder_body b"
  "headers (build b) = builder_headers b"
  "lock (build b) = None"
  by (simp_all add: build_def new_message_def)

text \<open>\<open>parsePayload(type)\<close>\<close>

definition parsePayload :: "serializer \<Rightarrow> string \<Rightarrow> message \<Rightarrow> exn + jsobj" where
  "parsePayload S type m = validatedPlainToClass S type (payload m)"

end
