(* ===== verification/Producer.thy ===== *)
theory Producer
  imports Message
begin

text \<open>
  Sending: the channel mapping (\<open>messaging/common/channel-mapping.ts\<close>), the interceptors
  (\<open>message-interceptor.ts\<close>) and \<open>ConvoyMessageProducer\<close> (\<open>messaging/producer/message-producer.ts\<close>).

  The broker behind it (\<open>MessageProducer\<close>), the identifiers it generates and the clock are
  parameters: fields of the record \<open>producer\<close>. An interceptor may change the message it is
  given before the send, so its \<open>preSend\<close> gives the message as it is afterwards.
\<close>

section \<open>Channel mapping\<close>

type_synonym channel_mapping = "(string, string) jsmap"

definition mapping_with :: "string \<Rightarrow> string \<Rightarrow> channel_mapping \<Rightarrow> channel_mapping" where
  "mapping_with from to m = map_set from to m"

definition transform :: "channel_mapping \<Rightarrow> string \<Rightarrow> string" where
  "transform m channel = (case map_get m channel of None \<Rightarrow> channel | Some to \<Rightarrow> to)"

interpretation channel_mapping: keyed_store "map_get" mapping_with
  by unfold_locales (simp_all add: mapping_with_def)

lemma transform_with:
  "transform (mapping_with from to m) channel = (if channel = from then to else transform m channel)"
  by (simp add: transform_def channel_mapping.get_put)

section \<open>Interceptors and the broker\<close>

record 'w interceptor =
  preSend :: "(message \<Rightarrow> ('w, message) eff) option"
  postSend :: "(message \<Rightarrow> exn option \<Rightarrow> ('w, unit) eff) option"

record 'w producer =
  channelMapping :: channel_mapping
  generateMessageId :: "('w, string) eff"
  targetSend :: "string \<Rightarrow> message \<Rightarrow> bool \<Rightarrow> ('w, unit) eff"
  targetSendBatch :: "string \<Rightarrow> message list \<Rightarrow> bool \<Rightarrow> ('w, unit) eff"
  interceptors :: "'w interceptor list"
  currentDate :: "('w, string) eff"

fun runPreSend :: "'w interceptor list \<Rightarrow> message \<Rightarrow> ('w, message) eff" where
  "runPreSend [] m = ret m"
| "runPreSend (i # is) m =
     (case preSend i of
        None \<Rightarrow> runPreSend is m
      | Some f \<Rightarrow> andThen (f m) (runPreSend is))"

definition runPostSend :: "'w interceptor list \<Rightarrow> message \<Rightarrow> exn option \<Rightarrow> ('w, unit) eff" where
  "runPostSend is m error =
     forEach (\<lambda>i. case postSend i of None \<Rightarrow> ret () | Some f \<Rightarrow> f m error) is"

section \<open>Sending\<close>

definition prepareMessageHeaders :: "'w producer \<Rightarrow> string \<Rightarrow> message \<Rightarrow> ('w, message) eff" where
  "prepareMessageHeaders P destination m =
     andThen (generateMessageId P) (\<lambda>id.
       if id = '''' \<and> \<not> hasHeader m HDR_ID
       then andThen (lift (toString m)) (\<lambda>_. throw MissingRequiredMessageIDException)
       else andThen (currentDate P) (\<lambda>now.
         ret (setHeader HDR_DATE now
               (setHeader HDR_DESTINATION (transform (channelMapping P) destination)
                 (setHeader HDR_ID id m)))))"

text \<open>
  The producer gives back the messages: the headers it has set are on the caller's objects.
\<close>

definition sendBatch :: "'w producer \<Rightarrow> string \<Rightarrow> message list \<Rightarrow> bool \<Rightarrow> ('w, message list) eff" where
  "sendBatch P destination messages isEvent =
     andThen (mapEff (prepareMessageHeaders P destination) messages) (\<lambda>prepared.
     andThen (mapEff (runPreSend (interceptors P)) prepared) (\<lambda>sent.
       tryCatch
         (andThen (mapEff (\<lambda>m. lift (toString m)) sent) (\<lambda>_.
          andThen (targetSendBatch P destination sent isEvent) (\<lambda>_.
          andThen (forEach (\<lambda>m. runPostSend (interceptors P) m None) sent) (\<lambda>_.
            ret sent))))
         (\<lambda>err. andThen (forEach (\<lambda>m. runPostSend (interceptors P) m None) sent) (\<lambda>_. throw err))))"

definition send :: "'w producer \<Rightarrow> string \<Rightarrow> message \<Rightarrow> bool \<Rightarrow> ('w, message) eff" where
  "send P destination m isEvent =
     andThen (prepareMessageHeaders P destination m) (\<lambda>prepared.
     andThen (runPreSend (interceptors P) prepared) (\<lambda>sent.
       tryCatch
         (andThen (lift (toString sent)) (\<lambda>_.
          andThen (targetSend P destination sent isEvent) (\<lambda>_.
          andThen (runPostSend (interceptors P) sent None) (\<lambda>_.
            ret sent))))
         (\<lambda>err. andThen (runPostSend (interceptors P) sent (Some err)) (\<lambda>_. throw err))))"

section \<open>What a prepared message carries\<close>

definition prepared_for :: "'w producer \<Rightarrow> string \<Rightarrow> message \<Rightarrow> message \<Rightarrow> bool" where
  "prepared_for P destination m m' \<longleftrightarrow>
     (\<exists>id now. headers m' = map_set HDR_DATE now (map_set HDR_DESTINATION
        (transform (channelMapping P) destination) (map_set HDR_ID id (headers m))))
     \<and> payload m' = payload m \<and> lock m' = lock m"

lemma prepareMessageHeaders_prepared:
  "prepareMessageHeaders P destination m w = (Inr m', w') \<Longrightarrow> prepared_for P destination m m'"
  by (auto simp: prepareMessageHeaders_def prepared_for_def andThen_eq_Inr
      split: if_splits) (rule exI, rule exI, rule refl)+

lemma mapEff_pointwise:
  assumes "mapEff f xs w = (Inr ys, w')"
    and "\<And>x y w w'. f x w = (Inr y, w') \<Longrightarrow> R x y"
  shows "list_all2 R xs ys"
  using assms(1)
proof (induction xs arbitrary: w ys)
  case Nil
  then show ?case by simp
next
  case (Cons x xs)
  then show ?case
    by (auto simp: andThen_eq_Inr intro: assms(2))
qed

lemma sendBatch_InrE:
  assumes "sendBatch P destination messages isEvent w = (Inr sent, w')"
  obtains prepared w1 w2 w3 texts w4 where
    "mapEff (prepareMessageHeaders P destination) messages w = (Inr prepared, w1)"
    and "mapEff (runPreSend (interceptors P)) prepared w1 = (Inr sent, w2)"
    and "mapEff (\<lambda>m. lift (toString m)) sent w2 = (Inr texts, w3)"
    and "targetSendBatch P destination sent isEvent w3 = (Inr (), w4)"
    and "forEach (\<lambda>m. runPostSend (interceptors P) m None) sent w4 = (Inr (), w')"
  using assms
  by (auto simp: sendBatch_def andThen_eq_Inr tryCatch_eq_Inr)

lemma runPreSend_none: "(\<And>i. i \<in> set is \<Longrightarrow> preSend i = None) \<Longrightarrow> runPreSend is = ret"
  by (rule ext, induction "is") auto

lemma mapEff_Pair: "mapEff (\<lambda>m. Pair (Inr m)) xs = Pair (Inr xs)"
  by (induction xs) auto

section \<open>A broker that accepts\<close>

definition prepared :: "'w producer \<Rightarrow> string \<Rightarrow> string \<Rightarrow> string \<Rightarrow> message \<Rightarrow> message" where
  "prepared P destination i d m = setHeader HDR_DATE d
     (setHeader HDR_DESTINATION (transform (channelMapping P) destination) (setHeader HDR_ID i m))"

lemma filled_prepared: "filled m HDR_TYPE \<Longrightarrow> filled (prepared P destination i d m) HDR_TYPE"
  by (simp add: prepared_def filled_setHeader) (simp add: message_header_defs)

lemma mapEff_toString:
  "(\<And>m. m \<in> set ms \<Longrightarrow> filled m HDR_TYPE) \<Longrightarrow> \<exists>ts. mapEff (\<lambda>m. Pair (toString m)) ms w = (Inr ts, w)"
proof (induction ms)
  case Nil
  then show ?case by simp
next
  case (Cons m ms)
  obtain t where "toString m = Inr t" using Cons.prems toString_total by (metis list.set_intros(1))
  then show ?case using Cons by (auto simp: andThen_def)
qed

lemma sendBatch_simple:
  assumes "interceptors P = []" and "generateMessageId P = ret i" and "i \<noteq> ''''"
    and "currentDate P = ret d" and "\<And>m. m \<in> set ms \<Longrightarrow> filled m HDR_TYPE"
  shows "sendBatch P destination ms isEvent w =
    (case targetSendBatch P destination (map (prepared P destination i d) ms) isEvent w of
       (Inl e, w') \<Rightarrow> (Inl e, w')
     | (Inr _, w') \<Rightarrow> (Inr (map (prepared P destination i d) ms), w'))"
proof -
  let ?ms = "map (prepared P destination i d) ms"
  have prep: "mapEff (prepareMessageHeaders P destination) ms = ret ?ms"
    by (rule mapEff_ret) (simp add: prepareMessageHeaders_def assms(2-4) prepared_def)
  have pre: "mapEff (runPreSend (interceptors P)) xs = ret xs" for xs
    using mapEff_ret [of xs "runPreSend (interceptors P)" "\<lambda>m. m"] assms(1) by simp
  have post: "forEach (\<lambda>m. runPostSend (interceptors P) m None) xs w1 = (Inr (), w1)" for xs w1
    by (induction xs) (simp_all add: runPostSend_def assms(1))
  obtain ts where "mapEff (\<lambda>m. Pair (toString m)) ?ms w = (Inr ts, w)"
    using mapEff_toString [of ?ms w] assms(5) filled_prepared by force
  then show ?thesis
    by (simp add: sendBatch_def prep pre post andThen_def tryCatch_def split: prod.split sum.split)
qed

end
