(* ===== verification/Paths.thy ===== *)
theory Paths
  imports Prelude
begin

text \<open>
  The paths of the resources a command is about: \<open>commands/common/paths/\<close>. A path is the list of
  its segments, the first of them empty because a path starts with a slash.
\<close>

section \<open>Splitting and joining text\<close>

text \<open>\<open>s.split(sep)\<close> for a separator of one character, and \<open>xs.join(sep)\<close>.\<close>

fun split_on :: "char \<Rightarrow> string \<Rightarrow> string list" where
  "split_on sep [] = [[]]"
| "split_on sep (c # cs) =
     (if c = sep then [] # split_on sep cs
      else (case split_on sep cs of [] \<Rightarrow> [[c]] | s # ss \<Rightarrow> (c # s) # ss))"

fun join_with :: "string \<Rightarrow> string list \<Rightarrow> string" where
  "join_with sep [] = []"
| "join_with sep [s] = s"
| "join_with sep (s # ss) = s @ sep @ join_with sep ss"

lemma split_on_not_Nil [simp]: "split_on sep s \<noteq> []"
  by (induction s) (auto split: list.splits)

lemma join_Cons: "ss \<noteq> [] \<Longrightarrow> join_with sep (s # ss) = s @ sep @ join_with sep ss"
  by (cases ss) simp_all

lemma join_head: "join_with sep ((c # s) # ss) = c # join_with sep (s # ss)"
  by (cases ss) simp_all

lemma join_split: "join_with [sep] (split_on sep s) = s"
proof (induction s)
  case Nil
  then show ?case by simp
next
  case (Cons c s)
  then show ?case
    by (auto simp: join_Cons join_head split: list.splits)
qed

lemma split_on_no_sep: "sep \<notin> set s \<Longrightarrow> split_on sep s = [s]"
  by (induction s) auto

lemma split_on_append: "sep \<notin> set s \<Longrightarrow> split_on sep (s @ sep # t) = s # split_on sep t"
  by (induction s) auto

lemma split_join:
  "ss \<noteq> [] \<Longrightarrow> (\<And>s. s \<in> set ss \<Longrightarrow> sep \<notin> set s) \<Longrightarrow> split_on sep (join_with [sep] ss) = ss"
proof (induction ss)
  case Nil
  then show ?case by simp
next
  case (Cons s ss)
  then show ?case
    by (cases ss) (simp_all add: split_on_no_sep split_on_append)
qed

lemma split_on_segments: "s \<in> set (split_on sep t) \<Longrightarrow> sep \<notin> set s"
  by (induction t arbitrary: s) (auto split: list.splits if_splits)

text \<open>\<open>s.startsWith(prefix)\<close>\<close>

fun startsWith :: "string \<Rightarrow> string \<Rightarrow> bool" where
  "startsWith s [] = True"
| "startsWith [] (p # ps) = False"
| "startsWith (c # cs) (p # ps) = (c = p \<and> startsWith cs ps)"

lemma startsWith_append: "startsWith s p \<longleftrightarrow> (\<exists>t. s = p @ t)"
  by (induction s p rule: startsWith.induct) auto

lemma startsWith_drop: "startsWith s p \<Longrightarrow> p @ drop (length p) s = s"
  by (auto simp: startsWith_append)

section \<open>Paths and patterns\<close>

record resource_path =
  splits :: "string list"

definition splitResourcePath :: "string \<Rightarrow> exn + string list" where
  "splitResourcePath pathPattern =
     (if \<not> startsWith pathPattern ''/'' then Inl TypeError
      else Inr (split_on CHR ''/'' pathPattern))"

definition new_ResourcePath :: "string \<Rightarrow> exn + resource_path" where
  "new_ResourcePath pathPattern = map_sum id (\<lambda>ss. \<lparr>splits = ss\<rparr>) (splitResourcePath pathPattern)"

definition path_length :: "resource_path \<Rightarrow> nat" where
  "path_length rp = length (splits rp)"

definition toPath :: "resource_path \<Rightarrow> string" where
  "toPath rp = join_with ''/'' (splits rp)"

definition isPlaceholder :: "string \<Rightarrow> bool" where
  "isPlaceholder patternSegment = startsWith patternSegment ''{''"

definition pathSegmentMatches :: "string \<Rightarrow> string \<Rightarrow> bool" where
  "pathSegmentMatches patternSegment pathSegment =
     (isPlaceholder patternSegment \<or> patternSegment = pathSegment)"

text \<open>\<open>name.substring(1, name.length - 1)\<close>: \<open>substring\<close> swaps its bounds when they are out of order.\<close>

definition placeholderName :: "string \<Rightarrow> string" where
  "placeholderName name =
     (let a = min 1 (length name); b = length name - 1
      in take (max a b - min a b) (drop (min a b) name))"

text \<open>A path parameter is a record of texts; \<open>idx < pathParams.length\<close> picks the next one.\<close>

type_synonym path_param = "(string \<times> string) list"

definition param_text :: "path_param \<Rightarrow> exn + string" where
  "param_text p =
     (if ''toString'' \<in> set (map fst p) then Inl TypeError else Inr ''[object Object]'')"

definition getPlaceholderValue :: "path_param list \<Rightarrow> nat \<Rightarrow> exn + string option" where
  "getPlaceholderValue pathParams idx =
     (if idx < length pathParams then map_sum id Some (param_text (pathParams ! idx))
      else Inr None)"

text \<open>\<open>rp.splits[idx]\<close> is undefined past the end of the path.\<close>

definition getPathVariableValues :: "resource_path \<Rightarrow> resource_path \<Rightarrow> (string, string option) jsmap" where
  "getPathVariableValues pattern rp =
     fold (\<lambda>(name, idx) result.
        if isPlaceholder name
        then map_set name (if idx < path_length rp then Some (splits rp ! idx) else None) result
        else result)
       (zip (splits pattern) [0..<length (splits pattern)]) []"

fun replaceSegments :: "path_param list \<Rightarrow> nat \<Rightarrow> string list \<Rightarrow> exn + string list" where
  "replaceSegments ps idx [] = Inr []"
| "replaceSegments ps idx (s # ss) =
     (if isPlaceholder s then
        (case getPlaceholderValue ps idx of
           Inl e \<Rightarrow> Inl e
         | Inr v \<Rightarrow> map_sum id (\<lambda>ts. (case v of None \<Rightarrow> '''' | Some t \<Rightarrow> t) # ts)
                      (replaceSegments ps (Suc idx) ss))
      else map_sum id (\<lambda>ts. s # ts) (replaceSegments ps idx ss))"

definition replacePlaceholders :: "resource_path \<Rightarrow> path_param list \<Rightarrow> exn + resource_path" where
  "replacePlaceholders pattern ps =
     (case replaceSegments ps 0 (splits pattern) of
        Inl e \<Rightarrow> Inl e
      | Inr ss \<Rightarrow> new_ResourcePath (join_with ''/'' ss))"

definition isSatisfiedBy :: "resource_path \<Rightarrow> resource_path \<Rightarrow> bool" where
  "isSatisfiedBy pattern rp =
     (if path_length pattern \<noteq> path_length rp then False
      else list_all (\<lambda>(split, idx). pathSegmentMatches split (splits rp ! idx))
             (zip (splits pattern) [0..<length (splits pattern)]))"

definition resourceMatches :: "string \<Rightarrow> string \<Rightarrow> exn + bool" where
  "resourceMatches messageResource methodPath =
     (case new_ResourcePath messageResource of
        Inl e \<Rightarrow> Inl e
      | Inr rp \<Rightarrow> (case new_ResourcePath methodPath of
            Inl e \<Rightarrow> Inl e
          | Inr rpp \<Rightarrow> Inr (isSatisfiedBy rpp rp)))"

section \<open>Facts about paths\<close>

lemma new_ResourcePath_Inr:
  "new_ResourcePath p = Inr rp \<longleftrightarrow>
     (\<exists>s. p = CHR ''/'' # s) \<and> splits rp = split_on CHR ''/'' p"
  by (cases rp) (auto simp: new_ResourcePath_def splitResourcePath_def startsWith_append)

lemma toPath_new_ResourcePath: "new_ResourcePath p = Inr rp \<Longrightarrow> toPath rp = p"
  by (simp add: new_ResourcePath_Inr toPath_def join_split)

lemma new_ResourcePath_toPath:
  assumes "new_ResourcePath p = Inr rp"
  shows "new_ResourcePath (toPath rp) = Inr rp"
  using assms by (simp add: toPath_new_ResourcePath)

lemma isSatisfiedBy_iff:
  "isSatisfiedBy pattern rp \<longleftrightarrow> list_all2 pathSegmentMatches (splits pattern) (splits rp)"
  by (auto simp: isSatisfiedBy_def path_length_def list_all2_conv_all_nth list_all_length)

lemma resourceMatches_iff:
  "resourceMatches r p = Inr b \<longleftrightarrow>
     (\<exists>s t. r = CHR ''/'' # s \<and> p = CHR ''/'' # t
        \<and> b = list_all2 pathSegmentMatches (split_on CHR ''/'' p) (split_on CHR ''/'' r))"
  by (auto simp: resourceMatches_def isSatisfiedBy_iff new_ResourcePath_def
      splitResourcePath_def startsWith_append split: sum.splits)

lemma isSatisfiedBy_self:
  "new_ResourcePath p = Inr rp \<Longrightarrow> isSatisfiedBy rp rp"
  by (simp add: isSatisfiedBy_iff list_all2_conv_all_nth pathSegmentMatches_def)

text \<open>The path that replaces the placeholders of a pattern satisfies the pattern.\<close>

lemma replaceSegments_matches:
  "replaceSegments ps idx ss = Inr ts \<Longrightarrow> list_all2 pathSegmentMatches ss ts"
proof (induction ss arbitrary: idx ts)
  case Nil
  then show ?case by simp
next
  case (Cons s ss)
  show ?case
  proof (cases "isPlaceholder s")
    case True
    then obtain v ts' where "replaceSegments ps (Suc idx) ss = Inr ts'"
      and "ts = (case v of None \<Rightarrow> '''' | Some t \<Rightarrow> t) # ts'"
      using Cons.prems
      by (cases "getPlaceholderValue ps idx"; cases "replaceSegments ps (Suc idx) ss") auto
    then show ?thesis
      using Cons.IH True by (simp add: pathSegmentMatches_def)
  next
    case False
    then show ?thesis
      using Cons by (cases "replaceSegments ps idx ss") (auto simp: pathSegmentMatches_def)
  qed
qed

lemma replaceSegments_no_slash:
  "replaceSegments ps idx ss = Inr ts \<Longrightarrow> (\<And>s. s \<in> set ss \<Longrightarrow> CHR ''/'' \<notin> set s)
     \<Longrightarrow> t \<in> set ts \<Longrightarrow> CHR ''/'' \<notin> set t"
proof (induction ss arbitrary: idx ts)
  case Nil
  then show ?case by simp
next
  case (Cons s ss)
  show ?case
  proof (cases "isPlaceholder s")
    case True
    then obtain v ts' where IH: "replaceSegments ps (Suc idx) ss = Inr ts'"
      and v: "getPlaceholderValue ps idx = Inr v"
      and ts: "ts = (case v of None \<Rightarrow> '''' | Some t \<Rightarrow> t) # ts'"
      using Cons.prems(1)
      by (cases "getPlaceholderValue ps idx"; cases "replaceSegments ps (Suc idx) ss") auto
    have "v = None \<or> v = Some ''[object Object]''"
      using v by (auto simp: getPlaceholderValue_def param_text_def split: if_splits)
    then show ?thesis
      using Cons.IH [OF IH] Cons.prems(2,3) ts by auto
  next
    case False
    then show ?thesis
      using Cons by (cases "replaceSegments ps idx ss") auto
  qed
qed

lemma replaceSegments_Cons_Nil:
  "replaceSegments ps idx ([] # ss) = Inr ts \<Longrightarrow> \<exists>ts'. ts = [] # ts'"
  by (cases "replaceSegments ps idx ss") (auto simp: isPlaceholder_def)

lemma replacePlaceholders_matches:
  assumes "new_ResourcePath p = Inr pattern" and "replacePlaceholders pattern ps = Inr rp"
  shows "isSatisfiedBy pattern rp"
proof -
  obtain s where p: "p = CHR ''/'' # s" and pat: "splits pattern = [] # split_on CHR ''/'' s"
    using assms(1) by (auto simp: new_ResourcePath_Inr)
  obtain ts where ts: "replaceSegments ps 0 (splits pattern) = Inr ts"
    and rp: "new_ResourcePath (join_with ''/'' ts) = Inr rp"
    using assms(2) by (auto simp: replacePlaceholders_def split: sum.splits)
  have "\<And>t. t \<in> set ts \<Longrightarrow> CHR ''/'' \<notin> set t"
    using replaceSegments_no_slash [OF ts] split_on_segments pat by fastforce
  moreover have "ts \<noteq> []"
    using replaceSegments_matches [OF ts] pat by auto
  ultimately have "splits rp = ts"
    using rp by (simp add: new_ResourcePath_Inr split_join)
  then show ?thesis
    using replaceSegments_matches [OF ts] by (simp add: isSatisfiedBy_iff)
qed

end
