(* ===== verification/Commands.thy ===== *)
theory Commands
  imports Producer Paths
begin

text \<open>
  What a command and its replies carry (\<open>commands/common/\<close>), the command producer
  (\<open>commands/producer/command-producer.ts\<close>), the builder of replies
  (\<open>commands/consumer/command-handler-reply-builder.ts\<close>), and the commands with a destination
  a saga is written with (\<open>command-with-destination.ts\<close> and its builder).
\<close>

section \<open>Headers of commands and replies\<close>

definition COMMAND_HEADER_PREFIX :: string where "COMMAND_HEADER_PREFIX = ''command_''"
definition COMMAND_TYPE :: string where "COMMAND_TYPE = COMMAND_HEADER_PREFIX @ ''type''"
definition RESOURCE :: string where "RESOURCE = COMMAND_HEADER_PREFIX @ ''resource''"
definition DESTINATION :: string where "DESTINATION = COMMAND_HEADER_PREFIX @ ''_destination''"
definition COMMAND_REPLY_PREFIX :: string where "COMMAND_REPLY_PREFIX = ''commandreply_''"
definition REPLY_TO :: string where "REPLY_TO = COMMAND_HEADER_PREFIX @ ''reply_to''"

definition REPLY_TYPE :: string where "REPLY_TYPE = ''reply_type''"
definition IN_REPLY_TO :: string where "IN_REPLY_TO = ''reply_to_message_id''"
definition REPLY_OUTCOME :: string where "REPLY_OUTCOME = ''reply_outcome''"

lemmas command_header_defs =
  COMMAND_HEADER_PREFIX_def COMMAND_TYPE_def RESOURCE_def DESTINATION_def
  COMMAND_REPLY_PREFIX_def REPLY_TO_def REPLY_TYPE_def IN_REPLY_TO_def REPLY_OUTCOME_def

datatype outcome = SUCCESS | FAILURE

fun outcome_text :: "outcome \<Rightarrow> string" where
  "outcome_text SUCCESS = ''SUCCESS''"
| "outcome_text FAILURE = ''FAILURE''"

lemma outcome_text_inject [simp]: "outcome_text a = outcome_text b \<longleftrightarrow> a = b"
  by (cases a; cases b) simp_all

definition headerStartsWithCommandPrefix :: "string \<Rightarrow> bool" where
  "headerStartsWithCommandPrefix header = startsWith header COMMAND_HEADER_PREFIX"

definition inReply :: "string \<Rightarrow> exn + string" where
  "inReply header =
     (if \<not> headerStartsWithCommandPrefix header
      then Inl (RuntimeException (''Header '' @ header @ '' must start with: '' @ COMMAND_HEADER_PREFIX))
      else Inr (COMMAND_REPLY_PREFIX @ drop (length COMMAND_HEADER_PREFIX) header))"

lemma inReply_command:
  "inReply (COMMAND_HEADER_PREFIX @ name) = Inr (COMMAND_REPLY_PREFIX @ name)"
  by (simp add: inReply_def headerStartsWithCommandPrefix_def startsWith_append)

section \<open>Correlation\<close>

text \<open>
  \<open>set\<close> of the headers makes text of its value, so an identifier that is missing becomes
  the text \<open>undefined\<close>.
\<close>

fun inReplyAll :: "headers \<Rightarrow> exn + headers" where
  "inReplyAll [] = Inr []"
| "inReplyAll ((key, value) # kvs) =
     (case inReply key of
        Inl e \<Rightarrow> Inl e
      | Inr key' \<Rightarrow> map_sum id (\<lambda>rest. (key', value) # rest) (inReplyAll kvs))"

definition text_of :: "string option \<Rightarrow> string" where
  "text_of v = (case v of None \<Rightarrow> ''undefined'' | Some s \<Rightarrow> s)"

definition correlateMessageHeaders :: "headers \<Rightarrow> exn + headers" where
  "correlateMessageHeaders h =
     (case inReplyAll (filter (\<lambda>(key, _). headerStartsWithCommandPrefix key) h) of
        Inl e \<Rightarrow> Inl e
      | Inr kvs \<Rightarrow> Inr (map_set IN_REPLY_TO (text_of (map_get h HDR_ID)) (map_from kvs)))"

definition replied :: "string \<Rightarrow> string" where
  "replied key = COMMAND_REPLY_PREFIX @ drop (length COMMAND_HEADER_PREFIX) key"

lemma inReplyAll_prefixed:
  "(\<And>k v. (k, v) \<in> set kvs \<Longrightarrow> headerStartsWithCommandPrefix k) \<Longrightarrow>
   inReplyAll kvs = Inr (map (\<lambda>(k, v). (replied k, v)) kvs)"
proof (induction kvs)
  case Nil
  then show ?case by simp
next
  case (Cons kv kvs)
  then have "inReplyAll kvs = Inr (map (\<lambda>(k, v). (replied k, v)) kvs)"
    by (metis list.set_intros(2))
  then show ?case
    using Cons.prems by (cases kv) (auto simp: inReply_def replied_def)
qed

definition correlated :: "headers \<Rightarrow> headers" where
  "correlated h = map_set IN_REPLY_TO (text_of (map_get h HDR_ID))
     (map_from (map (\<lambda>(k, v). (replied k, v))
       (filter (\<lambda>(key, _). headerStartsWithCommandPrefix key) h)))"

lemma correlateMessageHeaders_eq: "correlateMessageHeaders h = Inr (correlated h)"
proof -
  have "inReplyAll (filter (\<lambda>(key, _). headerStartsWithCommandPrefix key) h) =
      Inr (map (\<lambda>(k, v). (replied k, v)) (filter (\<lambda>(key, _). headerStartsWithCommandPrefix key) h))"
    by (rule inReplyAll_prefixed) auto
  then show ?thesis
    by (simp add: correlateMessageHeaders_def correlated_def)
qed

lemma correlated_wf [simp, intro]: "map_wf (correlated h)"
  by (simp add: correlated_def)

lemma map_of_replied:
  "(\<And>k v. (k, v) \<in> set kvs \<Longrightarrow> headerStartsWithCommandPrefix k) \<Longrightarrow>
   map_of (map (\<lambda>(k, v). (replied k, v)) kvs) (COMMAND_REPLY_PREFIX @ name) =
     map_of kvs (COMMAND_HEADER_PREFIX @ name)"
proof (induction kvs)
  case Nil
  then show ?case by simp
next
  case (Cons kv kvs)
  obtain k v where kv: "kv = (k, v)" by fastforce
  obtain n where "k = COMMAND_HEADER_PREFIX @ n"
    using Cons.prems [of k v] kv
    by (auto simp: headerStartsWithCommandPrefix_def startsWith_append)
  moreover have "map_of (map (\<lambda>(k, v). (replied k, v)) kvs) (COMMAND_REPLY_PREFIX @ name) =
      map_of kvs (COMMAND_HEADER_PREFIX @ name)"
    using Cons by (metis list.set_intros(2))
  ultimately show ?case
    using kv by (simp add: replied_def)
qed

lemma map_of_filter_prefix:
  "P k \<Longrightarrow> map_of (filter (\<lambda>(k, _). P k) kvs) k = map_of kvs k"
  by (induction kvs) auto

text \<open>Every command header comes back under its reply name, in particular the headers of a saga.\<close>

lemma correlated_get:
  assumes "map_wf h"
  shows "map_get (correlated h) (COMMAND_REPLY_PREFIX @ name) = map_get h (COMMAND_HEADER_PREFIX @ name)"
proof -
  let ?kvs = "filter (\<lambda>(key, _). headerStartsWithCommandPrefix key) h"
  have "COMMAND_REPLY_PREFIX @ name \<noteq> IN_REPLY_TO"
    by (simp add: command_header_defs)
  moreover have "headerStartsWithCommandPrefix (COMMAND_HEADER_PREFIX @ name)"
    by (simp add: headerStartsWithCommandPrefix_def startsWith_append)
  moreover have "map_of (rev (map (\<lambda>(k, v). (replied k, v)) ?kvs)) (COMMAND_REPLY_PREFIX @ name) =
      map_of (rev ?kvs) (COMMAND_HEADER_PREFIX @ name)"
    unfolding rev_map by (rule map_of_replied) auto
  moreover have "map_wf ?kvs"
    using assms by (induction h) (auto simp: map_wf_def)
  ultimately show ?thesis
    by (simp add: correlated_def map_of_rev map_of_filter_prefix)
qed

lemma correlated_in_reply_to: "map_get (correlated h) IN_REPLY_TO = Some (text_of (map_get h HDR_ID))"
  by (simp add: correlated_def)

lemma correlated_keys:
  "map_get (correlated h) k = Some v \<Longrightarrow>
     k = IN_REPLY_TO \<or> (\<exists>name. k = COMMAND_REPLY_PREFIX @ name)"
  by (auto simp: correlated_def replied_def split: if_splits dest!: map_of_SomeD)

section \<open>Replies\<close>

text \<open>
  \<open>constructor.name\<close> of an error, and the value that a \<open>catch\<close> clause binds.
\<close>

fun exn_class :: "exn \<Rightarrow> string" where
  "exn_class RangeError = ''RangeError''"
| "exn_class TypeError = ''TypeError''"
| "exn_class SyntaxError = ''SyntaxError''"
| "exn_class (ErrorException _) = ''Error''"
| "exn_class (RuntimeException _) = ''RuntimeException''"
| "exn_class (UnsupportedOperationException _) = ''UnsupportedOperationException''"
| "exn_class IllegalArgumentException = ''IllegalArgumentException''"
| "exn_class (MissingMessageHeaderException _) = ''MissingMessageHeaderException''"
| "exn_class MissingRequiredMessageIDException = ''MissingRequiredMessageIDException''"
| "exn_class (MissingCommandHandlerException _) = ''MissingCommandHandlerException''"
| "exn_class (StashMessageRequiredException _) = ''StashMessageRequiredException''"
| "exn_class StateMachineEmptyException = ''StateMachineEmptyException''"
| "exn_class (CannotClaimLockException _ _ _) = ''CannotClaimLockException''"
| "exn_class CannotClaimResourceLockException = ''CannotClaimResourceLockException''"
| "exn_class (MissingSagaManagerException _) = ''MissingSagaManagerException''"
| "exn_class MissingApplyMethodException = ''MissingApplyMethodException''"
| "exn_class OptimisticLockingException = ''OptimisticLockingException''"
| "exn_class DuplicateTriggeringEventException = ''DuplicateTriggeringEventException''"
| "exn_class (EntityNotFoundException _ _) = ''EntityNotFoundException''"
| "exn_class CommandProcessingFailedException = ''CommandProcessingFailedException''"
| "exn_class (UnsupportedStateTransitionException _) = ''UnsupportedStateTransitionException''"
| "exn_class (TicketNotFoundException _) = ''TicketNotFoundException''"
| "exn_class (OrderNotFoundException _) = ''OrderNotFoundException''"
| "exn_class (CustomerNotFoundException _) = ''CustomerNotFoundException''"
| "exn_class (NotFoundException _) = ''NotFoundException''"
| "exn_class OrderMinimumNotMet = ''OrderMinimumNotMet''"
| "exn_class (ThrownObject ob) = obj_class ob"
| "exn_class (ThrownText _) = ''String''"

definition caught :: "exn \<Rightarrow> payload_arg" where
  "caught e = (case e of ThrownObject ob \<Rightarrow> ObjectArg ob | ThrownText s \<Rightarrow> TextArg s | _ \<Rightarrow> ErrorArg e)"

definition thrown_text :: "exn \<Rightarrow> bool" where
  "thrown_text e = (case e of ThrownText _ \<Rightarrow> True | _ \<Rightarrow> False)"

fun constructor_name :: "payload_arg \<Rightarrow> string" where
  "constructor_name (ErrorArg e) = exn_class e"
| "constructor_name (ObjectArg ob) = obj_class ob"
| "constructor_name (TextArg _) = ''String''"

definition Success :: payload_arg where
  "Success = ObjectArg \<lparr>obj_class = ''Success'', obj_own = JObj []\<rparr>"

definition Failure :: payload_arg where
  "Failure = ObjectArg \<lparr>obj_class = ''Failure'', obj_own = JObj []\<rparr>"

definition withReply :: "serializer \<Rightarrow> payload_arg \<Rightarrow> outcome \<Rightarrow> exn + message" where
  "withReply S reply out =
     (case withPayload S reply of
        Inl e \<Rightarrow> Inl e
      | Inr b \<Rightarrow> Inr (build
          (withHeader REPLY_TYPE (constructor_name reply)
            (withHeader REPLY_OUTCOME (outcome_text out)
              (withReference (constructor_name reply) b)))))"

definition withSuccess :: "serializer \<Rightarrow> payload_arg option \<Rightarrow> exn + message" where
  "withSuccess S reply =
     withReply S (case reply of None \<Rightarrow> Success | Some r \<Rightarrow> r) SUCCESS"

definition withFailure :: "serializer \<Rightarrow> payload_arg option \<Rightarrow> exn + message" where
  "withFailure S reply =
     withReply S (case reply of None \<Rightarrow> Failure | Some r \<Rightarrow> r) FAILURE"

lemma withReply_headers:
  assumes "withReply S reply out = Inr m"
  shows "map_get (headers m) HDR_TYPE = Some (constructor_name reply)"
    and "map_get (headers m) REPLY_OUTCOME = Some (outcome_text out)"
    and "map_get (headers m) REPLY_TYPE = Some (constructor_name reply)"
    and "lock m = None"
  using assms
  by (auto simp: withReply_def command_header_defs message_header_defs split: sum.splits)

lemma withPayload_object [simp]:
  "withPayload S (ObjectArg ob) = Inr (withReference (obj_class ob)
     (builder_of (classToPlain S (obj_class ob) (obj_own ob))))"
  by (simp add: withPayload_def)

text \<open>
  An error that is caught is a failure to reply with, and so is any other object. A text is not: the builder of the
  message parses it, which throws a \<open>SyntaxError\<close> for most texts.
\<close>

lemma withPayload_caught: "\<not> thrown_text e \<Longrightarrow> \<exists>b. withPayload S (caught e) = Inr b"
  by (cases e) (simp_all add: caught_def withPayload_def thrown_text_def)

lemma withFailure_caught: "\<not> thrown_text e \<Longrightarrow> \<exists>m. withFailure S (Some (caught e)) = Inr m"
  using withPayload_caught [of e S] by (auto simp: withFailure_def withReply_def)

lemma withFailure_Inl:
  assumes "withFailure S (Some (caught e)) = Inl err"
  shows "\<not> thrown_text err" and "\<exists>s. e = ThrownText s \<and> jsonParse s = Inl err"
proof -
  have "thrown_text e" using assms withFailure_caught [of e S] by fastforce
  then obtain s where "e = ThrownText s" by (cases e) (auto simp: thrown_text_def)
  then show "\<not> thrown_text err" "\<exists>s. e = ThrownText s \<and> jsonParse s = Inl err"
    using assms by (auto simp: withFailure_def withReply_def caught_def withPayload_def thrown_text_def
        dest: jsonParse_Inl split: sum.splits exn.splits)
qed

section \<open>The command producer\<close>

definition createMessage ::
    "serializer \<Rightarrow> string \<Rightarrow> jsobj \<Rightarrow> string \<Rightarrow> headers \<Rightarrow> string option \<Rightarrow> exn + message" where
  "createMessage S channel cmd replyTo h resource =
     (case withPayload S (ObjectArg cmd) of
        Inl e \<Rightarrow> Inl e
      | Inr b \<Rightarrow>
          (let b1 = withHeader REPLY_TO replyTo
                     (withHeader COMMAND_TYPE (obj_class cmd)
                       (withHeader DESTINATION channel
                         (withExtraHeaders h (withReference (obj_class cmd) b))));
               b2 = (case resource of None \<Rightarrow> b1 | Some r \<Rightarrow> withHeader RESOURCE r b1)
           in Inr (build b2)))"

fun createMessages ::
    "serializer \<Rightarrow> string \<Rightarrow> jsobj list \<Rightarrow> string \<Rightarrow> headers \<Rightarrow> string option \<Rightarrow> exn + message list" where
  "createMessages S channel [] replyTo h resource = Inr []"
| "createMessages S channel (cmd # cmds) replyTo h resource =
     (case createMessage S channel cmd replyTo h resource of
        Inl e \<Rightarrow> Inl e
      | Inr m \<Rightarrow> map_sum id (\<lambda>ms. m # ms) (createMessages S channel cmds replyTo h resource))"

definition cmd_sendBatch ::
    "serializer \<Rightarrow> 'w producer \<Rightarrow> string \<Rightarrow> jsobj list \<Rightarrow> string \<Rightarrow> headers \<Rightarrow> string option \<Rightarrow>
     ('w, message list) eff" where
  "cmd_sendBatch S P channel commands replyTo h resource =
     andThen (lift (createMessages S channel commands replyTo h resource)) (\<lambda>messages.
       sendBatch P channel messages False)"

text \<open>\<open>const [message] = ...\<close>: the batch has as many messages as there are commands.\<close>

definition cmd_send ::
    "serializer \<Rightarrow> 'w producer \<Rightarrow> string \<Rightarrow> jsobj \<Rightarrow> string \<Rightarrow> headers \<Rightarrow> string option \<Rightarrow>
     ('w, message) eff" where
  "cmd_send S P channel cmd replyTo h resource =
     andThen (cmd_sendBatch S P channel [cmd] replyTo h resource) (\<lambda>ms. ret (hd ms))"

definition command_message :: "serializer \<Rightarrow> string \<Rightarrow> jsobj \<Rightarrow> string \<Rightarrow> headers \<Rightarrow> string option \<Rightarrow> message" where
  "command_message S channel cmd replyTo h resource =
     (case createMessage S channel cmd replyTo h resource of Inr m \<Rightarrow> m)"

lemma createMessage_ok:
  "createMessage S channel cmd replyTo h resource =
     Inr (command_message S channel cmd replyTo h resource)"
  by (simp add: createMessage_def command_message_def Let_def)

lemma createMessages_eq:
  "createMessages S channel cmds replyTo h resource =
     Inr (map (\<lambda>cmd. command_message S channel cmd replyTo h resource) cmds)"
  by (induction cmds) (simp_all add: createMessage_ok)

lemma command_message_payload:
  "payload (command_message S channel cmd replyTo h resource) = classToPlain S (obj_class cmd) (obj_own cmd)"
  by (simp add: command_message_def createMessage_def Let_def split: option.split)

lemma command_message_headers:
  assumes "map_wf h"
  shows "map_get (headers (command_message S channel cmd replyTo h resource)) k =
    (if k = RESOURCE \<and> resource \<noteq> None then resource
     else if k = REPLY_TO then Some replyTo
     else if k = COMMAND_TYPE then Some (obj_class cmd)
     else if k = DESTINATION then Some channel
     else case map_get h k of Some v \<Rightarrow> Some v
          | None \<Rightarrow> if k = HDR_TYPE then Some (obj_class cmd) else None)"
  using assms
  by (auto simp: command_message_def createMessage_def Let_def map_of_rev map_add_def
      command_header_defs message_header_defs split: option.splits if_splits)

lemma sendBatch_length:
  "sendBatch P destination ms isEvent w = (Inr sent, w') \<Longrightarrow> length sent = length ms"
  by (elim sendBatch_InrE) (metis mapEff_length)

lemma cmd_sendBatch_eq:
  "cmd_sendBatch S P channel commands replyTo h resource =
     sendBatch P channel (map (\<lambda>cmd. command_message S channel cmd replyTo h resource) commands) False"
  by (simp add: cmd_sendBatch_def createMessages_eq)

section \<open>Commands with a destination\<close>

record command_with_destination =
  channel :: string
  the_command :: jsobj
  resource :: "string option"
  extraHeaders :: headers

definition new_CommandWithDestination ::
    "string \<Rightarrow> jsobj \<Rightarrow> string option \<Rightarrow> headers option \<Rightarrow> command_with_destination" where
  "new_CommandWithDestination ch cmd res h =
     \<lparr>channel = ch, the_command = cmd, resource = res,
      extraHeaders = (case h of None \<Rightarrow> [] | Some h \<Rightarrow> h)\<rparr>"

definition cwd_withExtraHeaders ::
    "headers \<Rightarrow> command_with_destination \<Rightarrow> headers \<times> command_with_destination" where
  "cwd_withExtraHeaders h c = (map_from h, c\<lparr>extraHeaders := map_from h\<rparr>)"

record command_builder =
  cb_command :: jsobj
  cb_extraHeaders :: "headers option"
  cb_resource :: "string option"
  cb_destination :: "string option"

datatype headers_arg = MapHeaders headers | RecordHeaders "(string \<times> string) list"

definition cb_send :: "jsobj \<Rightarrow> command_builder" where
  "cb_send cmd =
     \<lparr>cb_command = cmd, cb_extraHeaders = None, cb_resource = None, cb_destination = None\<rparr>"

definition cb_to :: "string \<Rightarrow> command_builder \<Rightarrow> command_builder" where
  "cb_to ch b = b\<lparr>cb_destination := Some ch\<rparr>"

definition cb_forResource :: "string \<Rightarrow> path_param list \<Rightarrow> command_builder \<Rightarrow> exn + command_builder" where
  "cb_forResource res pathParams b =
     (case new_ResourcePath res of
        Inl e \<Rightarrow> Inl e
      | Inr pattern \<Rightarrow> (case replacePlaceholders pattern pathParams of
            Inl e \<Rightarrow> Inl e
          | Inr rp \<Rightarrow> Inr (b\<lparr>cb_resource := Some (toPath rp)\<rparr>)))"

definition cb_withExtraHeaders :: "headers_arg \<Rightarrow> command_builder \<Rightarrow> command_builder" where
  "cb_withExtraHeaders h b = b\<lparr>cb_extraHeaders :=
     Some (case h of MapHeaders m \<Rightarrow> m | RecordHeaders r \<Rightarrow> fromRecord r)\<rparr>"

definition cb_build :: "command_builder \<Rightarrow> exn + command_with_destination" where
  "cb_build b =
     (case cb_destination b of
        None \<Rightarrow> Inl (ErrorException ''Destination is required'')
      | Some ch \<Rightarrow> if ch = '''' then Inl (ErrorException ''Destination is required'')
                  else Inr (new_CommandWithDestination ch (cb_command b) (cb_resource b) (cb_extraHeaders b)))"

lemma cb_forResource_ok:
  assumes "cb_forResource res ps b = Inr b'"
  shows "\<exists>r. cb_resource b' = Some r \<and> resourceMatches r res = Inr True"
proof -
  obtain pattern rp where pat: "new_ResourcePath res = Inr pattern"
    and rp: "replacePlaceholders pattern ps = Inr rp"
    and b': "b' = b\<lparr>cb_resource := Some (toPath rp)\<rparr>"
    using assms by (auto simp: cb_forResource_def split: sum.splits)
  have "isSatisfiedBy pattern rp"
    using replacePlaceholders_matches [OF pat rp] .
  moreover obtain p where "new_ResourcePath p = Inr rp"
    using rp by (auto simp: replacePlaceholders_def split: sum.splits)
  then have "new_ResourcePath (toPath rp) = Inr rp"
    by (simp add: toPath_new_ResourcePath)
  ultimately show ?thesis
    using pat b' by (simp add: resourceMatches_def)
qed

end
