(* ===== verification/ExecState.thy ===== *)
theory ExecState
  imports Json Commands
begin

text \<open>
  Where a saga is (\<open>sagas/orchestration/dsl/saga-execution-state.ts\<close>), its text
  (\<open>saga-execution-state-json-serde.ts\<close>) and what a step of a saga asks its manager to do
  (\<open>sagas/orchestration/saga-actions.ts\<close>).
\<close>

section \<open>The execution state\<close>

record exec_state =
  currentlyExecuting :: int
  es_compensating :: bool
  es_endState :: bool

definition new_SagaExecutionState :: exec_state where
  "new_SagaExecutionState = \<lparr>currentlyExecuting = -1, es_compensating = False, es_endState = False\<rparr>"

definition makeEndState :: exec_state where
  "makeEndState = \<lparr>currentlyExecuting = -1, es_compensating = False, es_endState = True\<rparr>"

definition startCompensating :: "exec_state \<Rightarrow> exec_state" where
  "startCompensating st =
     \<lparr>currentlyExecuting = currentlyExecuting st, es_compensating = True, es_endState = False\<rparr>"

definition nextState :: "exec_state \<Rightarrow> nat \<Rightarrow> exec_state" where
  "nextState st steps =
     \<lparr>currentlyExecuting =
        (if es_compensating st then currentlyExecuting st - int steps
         else currentlyExecuting st + int steps),
      es_compensating = es_compensating st, es_endState = False\<rparr>"

definition encodeExecutionState :: "exec_state \<Rightarrow> string" where
  "encodeExecutionState st = stringify (JObj
     [(''currentlyExecuting'', JNum (currentlyExecuting st)),
      (''compensating'', JBool (es_compensating st)),
      (''endState'', JBool (es_endState st))])"

text \<open>
  \<open>Object.assign\<close> copies the properties of the parsed value onto the defaults; a value that is
  no object has none of them. The model keeps the types the class declares: a flag that is no
  boolean counts as its truth value, an index that is no number as -1, a step there is none of.
\<close>

definition index_of_json :: "json \<Rightarrow> int" where
  "index_of_json j = (case j of JNum n \<Rightarrow> n | _ \<Rightarrow> -1)"

definition assign_state :: "json \<Rightarrow> exec_state \<Rightarrow> exec_state" where
  "assign_state j st =
     \<lparr>currentlyExecuting = (case json_property ''currentlyExecuting'' j of
          None \<Rightarrow> currentlyExecuting st | Some v \<Rightarrow> index_of_json v),
      es_compensating = (case json_property ''compensating'' j of
          None \<Rightarrow> es_compensating st | Some v \<Rightarrow> truthy v),
      es_endState = (case json_property ''endState'' j of
          None \<Rightarrow> es_endState st | Some v \<Rightarrow> truthy v)\<rparr>"

definition decodeExecutionState :: "string \<Rightarrow> exn + exec_state" where
  "decodeExecutionState currentState =
     map_sum id (\<lambda>j. assign_state j new_SagaExecutionState) (jsonParse currentState)"

lemma decode_encode [simp]: "decodeExecutionState (encodeExecutionState st) = Inr st"
  by (simp add: decodeExecutionState_def encodeExecutionState_def assign_state_def
      json_property_def index_of_json_def)

lemma encodeExecutionState_filled: "encodeExecutionState st \<noteq> ''''"
  unfolding encodeExecutionState_def using stringify_Cons by (metis list.distinct(1))

lemma encodeExecutionState_inject: "encodeExecutionState a = encodeExecutionState b \<longleftrightarrow> a = b"
  by (metis decode_encode sum.inject(2))

section \<open>Actions\<close>

text \<open>
  \<open>sa_updatedSagaData\<close> says whether the actions carry the saga's data object; that object is the
  one the step was given, so its content is part of the state the effects run on.
\<close>

record saga_actions =
  sa_commands :: "command_with_destination list"
  sa_endState :: bool
  sa_compensating :: bool
  sa_local :: bool
  sa_updatedSagaData :: bool
  sa_updatedState :: "string option"
  sa_localException :: "exn option"

record actions_builder =
  ab_commands :: "command_with_destination list"
  ab_compensating :: bool
  ab_local :: bool
  ab_endState :: bool
  ab_updatedSagaData :: bool
  ab_updatedState :: "string option"
  ab_localException :: "exn option"

definition new_SagaActionsBuilder :: actions_builder where
  "new_SagaActionsBuilder =
     \<lparr>ab_commands = [], ab_compensating = False, ab_local = False, ab_endState = False,
      ab_updatedSagaData = False, ab_updatedState = None, ab_localException = None\<rparr>"

definition withCommand :: "command_with_destination \<Rightarrow> actions_builder \<Rightarrow> actions_builder" where
  "withCommand c b = b\<lparr>ab_commands := ab_commands b @ [c]\<rparr>"

definition withUpdatedState :: "string \<Rightarrow> actions_builder \<Rightarrow> actions_builder" where
  "withUpdatedState st b = b\<lparr>ab_updatedState := Some st\<rparr>"

definition withUpdatedSagaData :: "actions_builder \<Rightarrow> actions_builder" where
  "withUpdatedSagaData b = b\<lparr>ab_updatedSagaData := True\<rparr>"

definition withIsEndState :: "bool \<Rightarrow> actions_builder \<Rightarrow> actions_builder" where
  "withIsEndState e b = b\<lparr>ab_endState := e\<rparr>"

definition withCommands :: "command_with_destination list \<Rightarrow> actions_builder \<Rightarrow> actions_builder" where
  "withCommands cs b = b\<lparr>ab_commands := ab_commands b @ cs\<rparr>"

definition withIsCompensating :: "bool \<Rightarrow> actions_builder \<Rightarrow> actions_builder" where
  "withIsCompensating c b = b\<lparr>ab_compensating := c\<rparr>"

definition withIsLocal :: "exn option \<Rightarrow> actions_builder \<Rightarrow> actions_builder" where
  "withIsLocal e b = b\<lparr>ab_localException := e, ab_local := True\<rparr>"

definition build_actions :: "actions_builder \<Rightarrow> saga_actions" where
  "build_actions b =
     \<lparr>sa_commands = ab_commands b, sa_endState = ab_endState b,
      sa_compensating = ab_compensating b, sa_local = ab_local b,
      sa_updatedSagaData = ab_updatedSagaData b, sa_updatedState = ab_updatedState b,
      sa_localException = ab_localException b\<rparr>"

lemmas actions_builder_defs =
  new_SagaActionsBuilder_def withCommand_def withUpdatedState_def withUpdatedSagaData_def
  withIsEndState_def withCommands_def withIsCompensating_def withIsLocal_def build_actions_def

end
