(* ===== verification/SagaSteps.thy ===== *)
theory SagaSteps
  imports ExecState
begin

text \<open>
  The steps of a saga (\<open>sagas/orchestration/dsl/\<close>): local steps, steps that invoke a
  participant, what executing a step gives, and the step that is executed next.

  Effects run on a state \<open>'s\<close> that holds the data object of the saga, which the handlers of the
  steps change in place, and the rest of the world.
\<close>

section \<open>Steps\<close>

text \<open>The value a compensation resolves with counts as its truth value.\<close>

record 's local_step =
  ls_handler :: "('s, unit) eff"
  ls_compensation :: "('s, bool) eff option"

record 's invocation =
  createCommandToSend :: "('s, command_with_destination) eff"
  isInvocable :: "('s, bool) eff option"

record 's reply_handler =
  rh_type :: string
  rh_handler :: "jsobj \<Rightarrow> ('s, unit) eff"

record 's participant_step =
  actionReplyHandlers :: "(string, 's reply_handler) jsmap"
  compensationReplyHandlers :: "(string, 's reply_handler) jsmap"
  participantInvocation :: "'s invocation option"
  ps_compensation :: "'s invocation option"

datatype 's saga_step =
    LocalStep "'s local_step"
  | ParticipantInvocationStep "'s participant_step"

text \<open>\<open>ParticipantInvocation\<close> and \<open>ParticipantEndpointInvocation\<close>\<close>

definition new_ParticipantInvocation ::
    "('s, command_with_destination) eff \<Rightarrow> ('s, bool) eff option \<Rightarrow> 's invocation" where
  "new_ParticipantInvocation commandBuilder predicate =
     \<lparr>createCommandToSend = commandBuilder, isInvocable = predicate\<rparr>"

record command_endpoint =
  ep_channel :: string
  ep_command :: string
  ep_replies :: "string list"

definition new_ParticipantEndpointInvocation ::
    "command_endpoint \<Rightarrow> ('s, jsobj) eff \<Rightarrow> ('s, bool) eff option \<Rightarrow> 's invocation" where
  "new_ParticipantEndpointInvocation endpoint commandProvider predicate =
     \<lparr>createCommandToSend = andThen commandProvider (\<lambda>cmd.
        ret (new_CommandWithDestination (ep_channel endpoint) cmd None None)),
      isInvocable = predicate\<rparr>"

definition invocation_isSuccessfulReply :: "message \<Rightarrow> exn + bool" where
  "invocation_isSuccessfulReply m =
     map_sum id (\<lambda>v. outcome_text SUCCESS = v) (getRequiredHeader m REPLY_OUTCOME)"

definition invocationOf :: "'s participant_step \<Rightarrow> bool \<Rightarrow> 's invocation option" where
  "invocationOf ps compensation =
     (if compensation then ps_compensation ps else participantInvocation ps)"

definition invocable :: "'s invocation option \<Rightarrow> ('s, bool) eff" where
  "invocable i =
     (case i of
        None \<Rightarrow> ret False
      | Some v \<Rightarrow> (case isInvocable v of Some p \<Rightarrow> p | None \<Rightarrow> ret True))"

text \<open>\<open>hasCompensation\<close> of a local step calls the compensation itself.\<close>

definition ls_hasCompensation :: "'s local_step \<Rightarrow> ('s, bool) eff" where
  "ls_hasCompensation ls = (case ls_compensation ls of Some c \<Rightarrow> c | None \<Rightarrow> ret False)"

definition ls_isSuccessfulReply :: "message \<Rightarrow> exn + bool" where
  "ls_isSuccessfulReply m =
     map_sum id (\<lambda>v. outcome_text SUCCESS = v) (getRequiredHeader m REPLY_OUTCOME)"

definition ps_getReply :: "'s participant_step \<Rightarrow> message \<Rightarrow> bool \<Rightarrow> exn + 's reply_handler option" where
  "ps_getReply ps m compensating =
     map_sum id (map_get (if compensating then compensationReplyHandlers ps else actionReplyHandlers ps))
       (getRequiredHeader m REPLY_TYPE)"

definition ps_isSuccessfulReply :: "'s participant_step \<Rightarrow> bool \<Rightarrow> message \<Rightarrow> exn + bool" where
  "ps_isSuccessfulReply ps compensating m =
     (case invocationOf ps compensating of
        None \<Rightarrow> Inr False
      | Some v \<Rightarrow> invocation_isSuccessfulReply m)"

text \<open>The operations of the interface \<open>SagaStep\<close>, by the class of the step.\<close>

fun hasAction :: "'s saga_step \<Rightarrow> ('s, bool) eff" where
  "hasAction (LocalStep ls) = ret True"
| "hasAction (ParticipantInvocationStep ps) = invocable (participantInvocation ps)"

fun hasCompensation :: "'s saga_step \<Rightarrow> ('s, bool) eff" where
  "hasCompensation (LocalStep ls) = ls_hasCompensation ls"
| "hasCompensation (ParticipantInvocationStep ps) = invocable (ps_compensation ps)"

fun getReply :: "'s saga_step \<Rightarrow> message \<Rightarrow> bool \<Rightarrow> exn + 's reply_handler option" where
  "getReply (LocalStep ls) m compensating = Inr None"
| "getReply (ParticipantInvocationStep ps) m compensating = ps_getReply ps m compensating"

fun isSuccessfulReply :: "'s saga_step \<Rightarrow> bool \<Rightarrow> message \<Rightarrow> exn + bool" where
  "isSuccessfulReply (LocalStep ls) compensating m = ls_isSuccessfulReply m"
| "isSuccessfulReply (ParticipantInvocationStep ps) compensating m = ps_isSuccessfulReply ps compensating m"

section \<open>Outcomes\<close>

datatype step_outcome =
    LocalStepOutcome "exn option"
  | RemoteStepOutcome "command_with_destination list"

fun visit ::
    "(exn option \<Rightarrow> 'b) \<Rightarrow> (command_with_destination list \<Rightarrow> 'b) \<Rightarrow> step_outcome \<Rightarrow> 'b" where
  "visit localConsumer commandsConsumer (LocalStepOutcome e) = localConsumer e"
| "visit localConsumer commandsConsumer (RemoteStepOutcome cs) = commandsConsumer cs"

definition ls_createStepOutcome :: "'s local_step \<Rightarrow> bool \<Rightarrow> ('s, step_outcome) eff" where
  "ls_createStepOutcome ls compensating =
     tryCatch
       (andThen (if compensating
                 then (case ls_compensation ls of None \<Rightarrow> ret () | Some c \<Rightarrow> andThen c (\<lambda>_. ret ()))
                 else ls_handler ls)
          (\<lambda>_. ret (LocalStepOutcome None)))
       (\<lambda>err. ret (LocalStepOutcome (Some err)))"

definition ps_createStepOutcome :: "'s participant_step \<Rightarrow> bool \<Rightarrow> ('s, step_outcome) eff" where
  "ps_createStepOutcome ps compensating =
     (case invocationOf ps compensating of
        None \<Rightarrow> throw (ErrorException ''Invocation missing'')
      | Some v \<Rightarrow> andThen (createCommandToSend v) (\<lambda>cmd. ret (RemoteStepOutcome [cmd])))"

fun createStepOutcome :: "'s saga_step \<Rightarrow> bool \<Rightarrow> ('s, step_outcome) eff" where
  "createStepOutcome (LocalStep ls) compensating = ls_createStepOutcome ls compensating"
| "createStepOutcome (ParticipantInvocationStep ps) compensating = ps_createStepOutcome ps compensating"

lemmas saga_step_defs =
  ls_hasCompensation_def ls_isSuccessfulReply_def ps_getReply_def ps_isSuccessfulReply_def
  ls_createStepOutcome_def ps_createStepOutcome_def invocable_def invocationOf_def
  invocation_isSuccessfulReply_def

text \<open>A local step never throws: what its handler throws is the outcome.\<close>

lemma createStepOutcome_local:
  "\<exists>e s'. createStepOutcome (LocalStep ls) compensating s = (Inr (LocalStepOutcome e), s')"
proof (cases compensating)
  case True
  then show ?thesis
    by (cases "ls_compensation ls")
      (auto simp: ls_createStepOutcome_def tryCatch_def andThen_def split: prod.split sum.split)
next
  case False
  then show ?thesis
    by (auto simp: ls_createStepOutcome_def tryCatch_def andThen_def split: prod.split sum.split)
qed

section \<open>The step to execute\<close>

record 's step_to_execute =
  st_skipped :: nat
  st_compensating :: bool
  st_step :: "'s saga_step option"

definition isEmpty :: "'s step_to_execute \<Rightarrow> bool" where
  "isEmpty t = (st_step t = None)"

definition size_of :: "'s step_to_execute \<Rightarrow> nat" where
  "size_of t = (if \<not> isEmpty t then 1 else 0) + st_skipped t"

definition executeStep :: "'s step_to_execute \<Rightarrow> exec_state \<Rightarrow> ('s, saga_actions) eff" where
  "executeStep t currentState =
     (let newState = nextState currentState (size_of t);
          finish = (\<lambda>b. ret (build_actions
             (withIsCompensating (es_compensating currentState)
               (withIsEndState (es_endState newState)
                 (withUpdatedState (encodeExecutionState newState)
                   (withUpdatedSagaData b))))))
      in case st_step t of
           None \<Rightarrow> finish new_SagaActionsBuilder
         | Some step \<Rightarrow> andThen (createStepOutcome step (st_compensating t)) (\<lambda>oc.
             finish (visit (\<lambda>e. withIsLocal e new_SagaActionsBuilder)
                           (\<lambda>cs. withCommands cs new_SagaActionsBuilder) oc)))"

definition step_actions :: "exec_state \<Rightarrow> exec_state \<Rightarrow> step_outcome \<Rightarrow> saga_actions" where
  "step_actions currentState newState oc =
     \<lparr>sa_commands = visit (\<lambda>_. []) (\<lambda>cs. cs) oc, sa_endState = False,
      sa_compensating = es_compensating currentState, sa_local = visit (\<lambda>_. True) (\<lambda>_. False) oc,
      sa_updatedSagaData = True, sa_updatedState = Some (encodeExecutionState newState),
      sa_localException = visit (\<lambda>e. e) (\<lambda>_. None) oc\<rparr>"

lemma executeStep_Some:
  assumes "st_step t = Some step"
  shows "executeStep t currentState =
    andThen (createStepOutcome step (st_compensating t)) (\<lambda>oc.
      ret (step_actions currentState (nextState currentState (Suc (st_skipped t))) oc))"
proof -
  have "build_actions
      (withIsCompensating (es_compensating currentState)
        (withIsEndState (es_endState (nextState currentState n))
          (withUpdatedState (encodeExecutionState (nextState currentState n))
            (withUpdatedSagaData
              (visit (\<lambda>e. withIsLocal e new_SagaActionsBuilder)
                (\<lambda>cs. withCommands cs new_SagaActionsBuilder) oc))))) =
      step_actions currentState (nextState currentState n) oc" for n oc
    by (cases oc) (simp_all add: actions_builder_defs step_actions_def nextState_def)
  then show ?thesis
    using assms by (simp add: executeStep_def Let_def size_of_def isEmpty_def)
qed

end
