(* ===== verification/SagaDefinition.thy ===== *)
theory SagaDefinition
  imports SagaSteps
begin

text \<open>
  The definition of a saga (\<open>sagas/orchestration/saga-definition.ts\<close>) and its only implementation,
  \<open>NestSagaDefinition\<close> (\<open>sagas/orchestration/dsl/nest-saga-definition.ts\<close>): which step is executed
  first, and which one after a reply.
\<close>

section \<open>The next step\<close>

definition applies :: "'s saga_step \<Rightarrow> bool \<Rightarrow> ('s, bool) eff" where
  "applies step compensating = (if compensating then hasCompensation step else hasAction step)"

text \<open>The loop of \<open>nextStepToExecute\<close> from index \<open>i\<close>, having skipped some steps.\<close>

function nextFrom :: "'s saga_step list \<Rightarrow> bool \<Rightarrow> int \<Rightarrow> nat \<Rightarrow> ('s, 's step_to_execute) eff" where
  "nextFrom sagaSteps compensating i skipped =
     (if 0 \<le> i \<and> i < int (length sagaSteps) then
        andThen (applies (sagaSteps ! nat i) compensating) (\<lambda>b.
          if b then ret \<lparr>st_skipped = skipped, st_compensating = compensating,
                         st_step = Some (sagaSteps ! nat i)\<rparr>
          else nextFrom sagaSteps compensating (i + (if compensating then -1 else 1)) (Suc skipped))
      else ret \<lparr>st_skipped = skipped, st_compensating = compensating, st_step = None\<rparr>)"
  by pat_completeness auto

termination
  by (relation "measure (\<lambda>(steps, c, i, _). if c then nat (i + 1) else nat (int (length steps) - i))")
    auto

declare nextFrom.simps [simp del]

definition nextStepToExecute :: "'s saga_step list \<Rightarrow> exec_state \<Rightarrow> ('s, 's step_to_execute) eff" where
  "nextStepToExecute sagaSteps st =
     nextFrom sagaSteps (es_compensating st)
       (currentlyExecuting st + (if es_compensating st then -1 else 1)) 0"

definition makeEndStateSagaActions :: "exec_state \<Rightarrow> saga_actions" where
  "makeEndStateSagaActions st = build_actions
     (withIsCompensating (es_compensating st)
       (withIsEndState True
         (withUpdatedState (encodeExecutionState makeEndState) new_SagaActionsBuilder)))"

definition executeNextStep :: "'s saga_step list \<Rightarrow> exec_state \<Rightarrow> ('s, saga_actions) eff" where
  "executeNextStep sagaSteps currentState =
     andThen (nextStepToExecute sagaSteps currentState) (\<lambda>stepToExecute.
       if isEmpty stepToExecute then ret (makeEndStateSagaActions currentState)
       else executeStep stepToExecute currentState)"

section \<open>Start and replies\<close>

definition invokeReplyHandler :: "serializer \<Rightarrow> message \<Rightarrow> 's reply_handler \<Rightarrow> ('s, unit) eff" where
  "invokeReplyHandler S m h =
     andThen (lift (parsePayload S (rh_type h) m)) (\<lambda>reply. rh_handler h reply)"

definition start :: "'s saga_step list \<Rightarrow> ('s, saga_actions) eff" where
  "start sagaSteps = executeNextStep sagaSteps new_SagaExecutionState"

definition step_at :: "'s saga_step list \<Rightarrow> int \<Rightarrow> 's saga_step option" where
  "step_at sagaSteps i =
     (if 0 \<le> i \<and> i < int (length sagaSteps) then Some (sagaSteps ! nat i) else None)"

definition handleReply ::
    "serializer \<Rightarrow> 's saga_step list \<Rightarrow> string \<Rightarrow> message \<Rightarrow> ('s, saga_actions) eff" where
  "handleReply S sagaSteps currentState m =
     andThen (lift (decodeExecutionState currentState)) (\<lambda>st.
       case step_at sagaSteps (currentlyExecuting st) of
         None \<Rightarrow> throw (RuntimeException (''Saga step is missing for execution state '' @ currentState))
       | Some currentStep \<Rightarrow>
           andThen (lift (getReply currentStep m (es_compensating st))) (\<lambda>reply.
           andThen (case reply of None \<Rightarrow> ret () | Some h \<Rightarrow> invokeReplyHandler S m h) (\<lambda>_.
           andThen (lift (isSuccessfulReply currentStep (es_compensating st) m)) (\<lambda>successful.
             if successful then executeNextStep sagaSteps st
             else if es_compensating st
             then throw (UnsupportedOperationException ''Failure when compensating'')
             else executeNextStep sagaSteps (startCompensating st)))))"

section \<open>Where the next step is\<close>

text \<open>
  The indices a state has before it, nearest first: those after the current one, or, when
  compensating, those before it, backwards.
\<close>

definition candidates :: "nat \<Rightarrow> exec_state \<Rightarrow> nat list" where
  "candidates n st =
     (if es_compensating st then rev [0..<nat (min (int n) (currentlyExecuting st))]
      else [nat (currentlyExecuting st + 1)..<n])"

text \<open>An execution state that the code reaches: the index of a step, or the start.\<close>

definition state_ok :: "nat \<Rightarrow> exec_state \<Rightarrow> bool" where
  "state_ok n st \<longleftrightarrow> -1 \<le> currentlyExecuting st \<and> currentlyExecuting st < int n
     \<and> (es_compensating st \<longrightarrow> 0 \<le> currentlyExecuting st)"

lemma nextFrom_found:
  "nextFrom steps c i k s = (Inr t, s') \<Longrightarrow>
     st_compensating t = c \<and> k \<le> st_skipped t \<and>
     (st_step t = None \<or>
       (let j = i + (if c then - 1 else 1) * int (st_skipped t - k)
        in 0 \<le> j \<and> j < int (length steps) \<and> st_step t = Some (steps ! nat j)
           \<and> (\<exists>s0. applies (steps ! nat j) c s0 = (Inr True, s'))))"
proof (induction steps c i k arbitrary: s rule: nextFrom.induct)
  case (1 steps c i k)
  show ?case
  proof (cases "0 \<le> i \<and> i < int (length steps)")
    case False
    then show ?thesis using "1.prems" by (auto simp: nextFrom.simps [of steps c i k])
  next
    case True
    then obtain b s1 where b: "applies (steps ! nat i) c s = (Inr b, s1)"
      using "1.prems" by (auto simp: nextFrom.simps [of steps c i k] andThen_eq_Inr)
    show ?thesis
    proof (cases b)
      case True
      then show ?thesis
        using "1.prems" b \<open>0 \<le> i \<and> i < int (length steps)\<close>
        by (auto simp: nextFrom.simps [of steps c i k] andThen_Inr)
    next
      case False
      then have rec: "nextFrom steps c (i + (if c then - 1 else 1)) (Suc k) s1 = (Inr t, s')"
        using "1.prems" b \<open>0 \<le> i \<and> i < int (length steps)\<close>
        by (auto simp: nextFrom.simps [of steps c i k] andThen_Inr)
      have "st_skipped t - k = Suc (st_skipped t - Suc k)" if "Suc k \<le> st_skipped t"
        using that by simp
      then show ?thesis
        using "1.IH" [OF True False rec] by (auto simp: Let_def algebra_simps split: if_splits)
    qed
  qed
qed

text \<open>
  Where the checks of the steps are pure predicates, the step that is found is the first
  candidate that has an action (or a compensation), and the number of steps skipped is the
  distance to it.
\<close>

lemma nextFrom_pure_forward:
  assumes "\<And>j. j < length steps \<Longrightarrow> applies (steps ! j) False s = (Inr (p j), s)"
    and "0 \<le> i"
  shows "nextFrom steps False i k s = (Inr (case find p [nat i..<length steps] of
      None \<Rightarrow> \<lparr>st_skipped = k + (length steps - nat i), st_compensating = False, st_step = None\<rparr>
    | Some j \<Rightarrow> \<lparr>st_skipped = k + (j - nat i), st_compensating = False,
                st_step = Some (steps ! j)\<rparr>), s)"
  using assms
proof (induction steps False i k rule: nextFrom.induct)
  case (1 steps i k)
  show ?case
  proof (cases "i < int (length steps)")
    case False
    then show ?thesis using "1.prems" by (simp add: nextFrom.simps [of steps False i k])
  next
    case True
    then have upt: "[nat i..<length steps] = nat i # [nat (i + 1)..<length steps]"
      using "1.prems" by (metis nat_add_distrib nat_less_iff nat_one_as_int of_nat_1 upt_conv_Cons
          Suc_eq_plus1 zero_le_one)
    have a: "applies (steps ! nat i) False s = (Inr (p (nat i)), s)"
      using True "1.prems" by simp
    have ge: "find p [nat (i + 1)..<length steps] = Some j \<Longrightarrow> nat i < j" for j
      using \<open>0 \<le> i\<close> by (auto simp: find_Some_iff)
    show ?thesis
    proof (cases "p (nat i)")
      case True
      then show ?thesis
        using a \<open>i < int (length steps)\<close> "1.prems" upt
        by (simp add: nextFrom.simps [of steps False i k] andThen_Inr)
    next
      case False
      have "nextFrom steps False (i + (if False then - 1 else 1)) (Suc k) s = (Inr (case find p [nat (i + 1)..<length steps] of
          None \<Rightarrow> \<lparr>st_skipped = Suc k + (length steps - nat (i + 1)), st_compensating = False, st_step = None\<rparr>
        | Some j \<Rightarrow> \<lparr>st_skipped = Suc k + (j - nat (i + 1)), st_compensating = False,
                    st_step = Some (steps ! j)\<rparr>), s)"
        using "1.hyps" [of False] "1.prems" True False \<open>i < int (length steps)\<close> by simp
      then show ?thesis
        using a \<open>i < int (length steps)\<close> "1.prems" upt False ge
        by (auto simp: nextFrom.simps [of steps False i k] andThen_Inr nat_add_distrib
            split: option.splits)
    qed
  qed
qed

lemma nextFrom_pure_backward:
  assumes "\<And>j. j < length steps \<Longrightarrow> applies (steps ! j) True s = (Inr (p j), s)"
    and "i < int (length steps)"
  shows "nextFrom steps True i k s = (Inr (case find p (rev [0..<nat (i + 1)]) of
      None \<Rightarrow> \<lparr>st_skipped = k + nat (i + 1), st_compensating = True, st_step = None\<rparr>
    | Some j \<Rightarrow> \<lparr>st_skipped = k + (nat i - j), st_compensating = True,
                st_step = Some (steps ! j)\<rparr>), s)"
  using assms
proof (induction steps True i k rule: nextFrom.induct)
  case (1 steps i k)
  show ?case
  proof (cases "0 \<le> i")
    case False
    then show ?thesis using "1.prems" by (simp add: nextFrom.simps [of steps True i k])
  next
    case True
    then have upt: "rev [0..<nat (i + 1)] = nat i # rev [0..<nat i]"
      by (simp add: nat_add_distrib)
    have a: "applies (steps ! nat i) True s = (Inr (p (nat i)), s)"
      using True "1.prems" by simp
    have less: "find p (rev [0..<nat i]) = Some j \<Longrightarrow> j < nat i" for j
      by (auto simp: find_Some_iff rev_nth)
    show ?thesis
    proof (cases "p (nat i)")
      case True
      then show ?thesis
        using a \<open>0 \<le> i\<close> "1.prems" upt
        by (simp add: nextFrom.simps [of steps True i k] andThen_Inr)
    next
      case False
      have "nextFrom steps True (i + (if True then - 1 else 1)) (Suc k) s = (Inr (case find p (rev [0..<nat i]) of
          None \<Rightarrow> \<lparr>st_skipped = Suc k + nat i, st_compensating = True, st_step = None\<rparr>
        | Some j \<Rightarrow> \<lparr>st_skipped = Suc k + (nat (i - 1) - j), st_compensating = True,
                    st_step = Some (steps ! j)\<rparr>), s)"
        using "1.hyps" [of False] "1.prems" True False \<open>0 \<le> i\<close>
        by (cases "find p (rev [0..<nat i])") auto
      then show ?thesis
        using a \<open>0 \<le> i\<close> "1.prems" upt False less
        by (auto simp: nextFrom.simps [of steps True i k] andThen_Inr nat_add_distrib
            split: option.splits)
    qed
  qed
qed

text \<open>The state that the step with index \<open>j\<close> leaves.\<close>

definition at_step :: "exec_state \<Rightarrow> nat \<Rightarrow> exec_state" where
  "at_step st j = \<lparr>currentlyExecuting = int j, es_compensating = es_compensating st, es_endState = False\<rparr>"

lemma executeNextStep_pure:
  assumes pure: "\<And>j. j < length steps \<Longrightarrow>
      applies (steps ! j) (es_compensating st) s = (Inr (p j), s)"
    and ok: "state_ok (length steps) st"
  shows "executeNextStep steps st s = (case find p (candidates (length steps) st) of
      None \<Rightarrow> (Inr (makeEndStateSagaActions st), s)
    | Some j \<Rightarrow> andThen (createStepOutcome (steps ! j) (es_compensating st)) (\<lambda>oc.
        ret (step_actions st (at_step st j) oc)) s)"
proof (cases "es_compensating st")
  case False
  let ?i = "currentlyExecuting st + 1"
  have cand: "candidates (length steps) st = [nat ?i..<length steps]"
    using False by (simp add: candidates_def)
  have nxt: "nextStepToExecute steps st s = (Inr (case find p [nat ?i..<length steps] of
      None \<Rightarrow> \<lparr>st_skipped = length steps - nat ?i, st_compensating = False, st_step = None\<rparr>
    | Some j \<Rightarrow> \<lparr>st_skipped = j - nat ?i, st_compensating = False, st_step = Some (steps ! j)\<rparr>), s)"
    using nextFrom_pure_forward [of steps s p ?i 0] pure ok False
    by (cases "find p [nat ?i..<length steps]") (auto simp: nextStepToExecute_def state_ok_def)
  show ?thesis
  proof (cases "find p [nat ?i..<length steps]")
    case None
    then show ?thesis using nxt cand by (simp add: executeNextStep_def andThen_Inr isEmpty_def)
  next
    case (Some j)
    then have "nat ?i \<le> j" by (auto simp: find_Some_iff)
    then have "nextState st (Suc (j - nat ?i)) = at_step st j"
      using ok False by (simp add: nextState_def at_step_def state_ok_def)
    then show ?thesis
      using nxt cand Some False
      by (simp add: executeNextStep_def andThen_Inr isEmpty_def executeStep_Some)
  qed
next
  case True
  let ?i = "currentlyExecuting st - 1"
  have cand: "candidates (length steps) st = rev [0..<nat (?i + 1)]"
    using True ok by (simp add: candidates_def state_ok_def min_def)
  have nxt: "nextStepToExecute steps st s = (Inr (case find p (rev [0..<nat (?i + 1)]) of
      None \<Rightarrow> \<lparr>st_skipped = nat (?i + 1), st_compensating = True, st_step = None\<rparr>
    | Some j \<Rightarrow> \<lparr>st_skipped = nat ?i - j, st_compensating = True, st_step = Some (steps ! j)\<rparr>), s)"
    using nextFrom_pure_backward [of steps s p ?i 0] pure ok True
    by (cases "find p (rev [0..<nat (?i + 1)])") (auto simp: nextStepToExecute_def state_ok_def)
  show ?thesis
  proof (cases "find p (rev [0..<nat (?i + 1)])")
    case None
    then show ?thesis using nxt cand by (simp add: executeNextStep_def andThen_Inr isEmpty_def)
  next
    case (Some j)
    then have "j \<in> set (rev [0..<nat (?i + 1)])"
      by (metis find_Some_iff nth_mem)
    then have "int j < currentlyExecuting st" by auto
    then have "nextState st (Suc (nat ?i - j)) = at_step st j"
      using ok True by (auto simp: nextState_def at_step_def state_ok_def)
    then show ?thesis
      using nxt cand Some True
      by (simp add: executeNextStep_def andThen_Inr isEmpty_def executeStep_Some)
  qed
qed

text \<open>The same for steps whose checks have effects or throw: what is known of the result.\<close>

definition moves :: "nat \<Rightarrow> exec_state \<Rightarrow> exec_state \<Rightarrow> bool" where
  "moves n st st' \<longleftrightarrow> es_compensating st' = es_compensating st \<and> \<not> es_endState st'
     \<and> 0 \<le> currentlyExecuting st' \<and> currentlyExecuting st' < int n
     \<and> (if es_compensating st then currentlyExecuting st' < currentlyExecuting st
        else currentlyExecuting st < currentlyExecuting st')"

lemma executeNextStep_Inr:
  assumes "executeNextStep steps st s = (Inr a, s')"
  shows "a = makeEndStateSagaActions st \<or>
    (\<exists>st' oc s0. a = step_actions st st' oc \<and> moves (length steps) st st'
       \<and> createStepOutcome (steps ! nat (currentlyExecuting st')) (es_compensating st) s0 = (Inr oc, s'))"
proof -
  let ?d = "if es_compensating st then - 1 else 1 :: int"
  obtain t s1 where t: "nextFrom steps (es_compensating st) (currentlyExecuting st + ?d) 0 s = (Inr t, s1)"
    and a: "(if isEmpty t then ret (makeEndStateSagaActions st) else executeStep t st) s1 = (Inr a, s')"
    using assms by (auto simp: executeNextStep_def nextStepToExecute_def andThen_eq_Inr)
  show ?thesis
  proof (cases "st_step t")
    case None
    then show ?thesis using a by (simp add: isEmpty_def)
  next
    case (Some step)
    let ?j = "currentlyExecuting st + ?d + ?d * int (st_skipped t)"
    have found: "st_compensating t = es_compensating st" "0 \<le> ?j" "?j < int (length steps)"
      "step = steps ! nat ?j"
      using nextFrom_found [OF t] Some by (auto simp: Let_def)
    obtain oc where oc: "createStepOutcome step (es_compensating st) s1 = (Inr oc, s')"
      and "a = step_actions st (nextState st (Suc (st_skipped t))) oc"
      using a Some found(1) by (auto simp: isEmpty_def executeStep_Some andThen_eq_Inr)
    moreover have "currentlyExecuting (nextState st (Suc (st_skipped t))) = ?j"
      by (simp add: nextState_def)
    moreover have "moves (length steps) st (nextState st (Suc (st_skipped t)))"
      using found by (auto simp: moves_def nextState_def)
    ultimately show ?thesis
      using found(4) by (intro disjI2 exI [of _ "nextState st (Suc (st_skipped t))"] exI conjI) auto
  qed
qed

lemma handleReply_Inr:
  assumes "handleReply S steps currentState m s = (Inr a, s')"
  obtains st st0 s1 where "decodeExecutionState currentState = Inr st"
    and "step_at steps (currentlyExecuting st) \<noteq> None"
    and "st0 = st \<or> \<not> es_compensating st \<and> st0 = startCompensating st"
    and "executeNextStep steps st0 s1 = (Inr a, s')"
  using assms
  by (auto simp: handleReply_def andThen_eq_Inr split: option.splits if_splits) (blast+)

section \<open>The contract of a saga definition\<close>

text \<open>
  What the manager's loop over local steps relies on: the state a local step leaves is closer to
  the end of the saga, and an exception only comes from a local step. The text of a state is
  ranked: first forward through the steps, then backward through the compensations.
\<close>

locale saga_contract =
  fixes begin_saga :: "('d \<times> 'w, saga_actions) eff"
    and reply_saga :: "string \<Rightarrow> message \<Rightarrow> ('d \<times> 'w, saga_actions) eff"
    and rank :: "string \<Rightarrow> nat"
  assumes begin_local: "begin_saga s = (Inr a, s') \<Longrightarrow>
      (sa_localException a \<noteq> None \<longrightarrow> sa_local a) \<and> (sa_local a \<longrightarrow> sa_updatedState a \<noteq> None)"
    and reply_local: "reply_saga st m s = (Inr a, s') \<Longrightarrow>
      (sa_localException a \<noteq> None \<longrightarrow> sa_local a)
      \<and> (sa_local a \<longrightarrow> (\<exists>st'. sa_updatedState a = Some st' \<and> rank st' < rank st))"
begin

text \<open>What the actions still have to do after a local step is bounded by the rank of its state.\<close>

definition actions_ok :: "saga_actions \<Rightarrow> bool" where
  "actions_ok a \<longleftrightarrow> (sa_localException a \<noteq> None \<longrightarrow> sa_local a) \<and> (sa_local a \<longrightarrow> sa_updatedState a \<noteq> None)"

definition actions_rank :: "saga_actions \<Rightarrow> nat" where
  "actions_rank a = (if sa_local a then (case sa_updatedState a of Some st \<Rightarrow> Suc (rank st) | None \<Rightarrow> 0) else 0)"

lemma begin_ok: "begin_saga s = (Inr a, s') \<Longrightarrow> actions_ok a"
  using begin_local by (simp add: actions_ok_def)

lemma reply_ok: "reply_saga st m s = (Inr a, s') \<Longrightarrow> actions_ok a \<and> actions_rank a \<le> rank st"
  using reply_local [of st m s a s'] by (auto simp: actions_ok_def actions_rank_def)

end

definition state_rank :: "nat \<Rightarrow> exec_state \<Rightarrow> nat" where
  "state_rank n st =
     (if es_compensating st then nat (currentlyExecuting st + 1)
      else nat (int n - currentlyExecuting st) + n + 2)"

definition text_rank :: "nat \<Rightarrow> string \<Rightarrow> nat" where
  "text_rank n t = (case decodeExecutionState t of Inl _ \<Rightarrow> 0 | Inr st \<Rightarrow> state_rank n st)"

lemma moves_rank: "moves n st st' \<Longrightarrow> state_rank n st' < state_rank n st"
  by (auto simp: moves_def state_rank_def split: if_splits)

lemma startCompensating_rank:
  "\<not> es_compensating st \<Longrightarrow> currentlyExecuting st < int n \<Longrightarrow>
     state_rank n (startCompensating st) < state_rank n st"
  by (simp add: state_rank_def startCompensating_def)

lemma makeEndStateSagaActions_fields [simp]:
  "sa_local (makeEndStateSagaActions st) = False"
  "sa_localException (makeEndStateSagaActions st) = None"
  "sa_commands (makeEndStateSagaActions st) = []"
  "sa_endState (makeEndStateSagaActions st) = True"
  "sa_compensating (makeEndStateSagaActions st) = es_compensating st"
  "sa_updatedSagaData (makeEndStateSagaActions st) = False"
  "sa_updatedState (makeEndStateSagaActions st) = Some (encodeExecutionState makeEndState)"
  by (simp_all add: makeEndStateSagaActions_def actions_builder_defs)

lemma step_actions_local:
  "sa_localException (step_actions st st' oc) \<noteq> None \<longrightarrow> sa_local (step_actions st st' oc)"
  by (cases oc) (simp_all add: step_actions_def)

lemma step_actions_state [simp]:
  "sa_updatedState (step_actions st st' oc) = Some (encodeExecutionState st')"
  "sa_endState (step_actions st st' oc) = False"
  "sa_updatedSagaData (step_actions st st' oc) = True"
  "sa_compensating (step_actions st st' oc) = es_compensating st"
  by (simp_all add: step_actions_def)

lemma executeNextStep_progress:
  assumes "executeNextStep steps st s = (Inr a, s')"
  shows "(sa_localException a \<noteq> None \<longrightarrow> sa_local a) \<and> (sa_local a \<longrightarrow>
    (\<exists>u. sa_updatedState a = Some u \<and> text_rank (length steps) u < state_rank (length steps) st))"
  using executeNextStep_Inr [OF assms] step_actions_local moves_rank
  by (auto simp: text_rank_def)

lemma handleReply_progress:
  assumes "handleReply S steps currentState m s = (Inr a, s')"
  shows "(sa_localException a \<noteq> None \<longrightarrow> sa_local a) \<and> (sa_local a \<longrightarrow>
    (\<exists>u. sa_updatedState a = Some u \<and> text_rank (length steps) u < text_rank (length steps) currentState))"
proof -
  obtain st st0 s1 where d: "decodeExecutionState currentState = Inr st"
    and at: "step_at steps (currentlyExecuting st) \<noteq> None"
    and st0: "st0 = st \<or> \<not> es_compensating st \<and> st0 = startCompensating st"
    and run: "executeNextStep steps st0 s1 = (Inr a, s')"
    using handleReply_Inr [OF assms] .
  have "state_rank (length steps) st0 \<le> state_rank (length steps) st"
    using st0 at startCompensating_rank [of st "length steps"]
    by (auto simp: step_at_def split: if_splits intro: less_imp_le)
  then show ?thesis
    using executeNextStep_progress [OF run] d by (auto simp: text_rank_def)
qed

interpretation nest_saga: saga_contract "start steps" "handleReply S steps" "text_rank (length steps)"
  for steps :: "('d \<times> 'w) saga_step list" and S
proof unfold_locales
  fix s s' :: "'d \<times> 'w" and a
  assume "start steps s = (Inr a, s')"
  then show "(sa_localException a \<noteq> None \<longrightarrow> sa_local a) \<and> (sa_local a \<longrightarrow> sa_updatedState a \<noteq> None)"
    using executeNextStep_progress by (fastforce simp: start_def)
qed (rule handleReply_progress)

end
