(* ===== verification/Consumer.thy ===== *)
theory Consumer
  imports Producer
begin

text \<open>
  Receiving: \<open>MessageConsumer\<close> and \<open>ConvoyMessageConsumer\<close>
  (\<open>messaging/consumer/message-consumer.ts\<close>), the duplicate message detectors, the in-memory
  broker (\<open>messaging/broker/in-memory/\<close>) and the producer that writes to the outbox table
  (\<open>messaging/broker/database/database-message-producer.ts\<close>).

  A handler is an effect on the application's world. The consumer's own state, the handlers it
  has registered, is a value of its own beside that world.
\<close>

type_synonym 'w handler = "message \<Rightarrow> ('w, unit) eff"

section \<open>Handlers by channel\<close>

type_synonym 'w handlers = "(string, 'w handler list) jsmap"

definition getHandlersByChannel :: "'w handlers \<Rightarrow> string \<Rightarrow> 'w handler list" where
  "getHandlersByChannel hs channel = (case map_get hs channel of None \<Rightarrow> [] | Some l \<Rightarrow> l)"

definition addHandlerToChannel :: "string \<Rightarrow> 'w handler \<Rightarrow> 'w handlers \<Rightarrow> 'w handlers" where
  "addHandlerToChannel channel h hs = map_set channel (getHandlersByChannel hs channel @ [h]) hs"

lemma getHandlersByChannel_add [simp]:
  "getHandlersByChannel (addHandlerToChannel channel h hs) c =
     getHandlersByChannel hs c @ (if c = channel then [h] else [])"
  by (simp add: getHandlersByChannel_def addHandlerToChannel_def)

section \<open>Duplicate message detectors\<close>

text \<open>
  A detector is its \<open>isDuplicate\<close>; \<open>saveReceived\<close> is \<open>receivedMessagesRepository.save\<close> of
  TypeORM, a parameter.
\<close>

definition never_duplicate :: "string \<Rightarrow> string \<Rightarrow> ('w, bool) eff" where
  "never_duplicate consumerId messageId = ret False"

definition base_doWithMessage :: "string \<Rightarrow> message \<Rightarrow> 'w handler \<Rightarrow> ('w, unit) eff" where
  "base_doWithMessage subscriberId m handleMessage = handleMessage m"

definition db_isDuplicate ::
    "(string \<Rightarrow> string \<Rightarrow> ('w, unit) eff) \<Rightarrow> string \<Rightarrow> string \<Rightarrow> ('w, bool) eff" where
  "db_isDuplicate saveReceived consumerId messageId =
     tryCatch (andThen (saveReceived consumerId messageId) (\<lambda>_. ret False)) (\<lambda>_. ret True)"

definition db_doWithMessage ::
    "(string \<Rightarrow> string \<Rightarrow> ('w, unit) eff) \<Rightarrow> string \<Rightarrow> message \<Rightarrow> 'w handler \<Rightarrow> ('w, unit) eff" where
  "db_doWithMessage saveReceived subscriberId m handleMessage =
     andThen (lift (message_id m)) (\<lambda>id.
     andThen (db_isDuplicate saveReceived subscriberId id) (\<lambda>dup.
       if dup then ret () else handleMessage m))"

text \<open>
  What the repository of a table with the primary key \<open>(consumer_id, message_id)\<close> would have to
  do for the detector to detect: reject the second save of a key.
\<close>

lemma db_doWithMessage_saved:
  assumes "filled m HDR_ID" and "saveReceived s (getHeader m HDR_ID '''') w = (Inr (), w')"
  shows "db_doWithMessage saveReceived s m h w = h m w'"
  using assms
  by (simp add: db_doWithMessage_def db_isDuplicate_def message_id_def getRequiredHeader_filled
      andThen_def tryCatch_def)

lemma db_doWithMessage_rejected:
  assumes "filled m HDR_ID" and "saveReceived s (getHeader m HDR_ID '''') w = (Inl e, w')"
  shows "db_doWithMessage saveReceived s m h w = (Inr (), w')"
  using assms
  by (simp add: db_doWithMessage_def db_isDuplicate_def message_id_def getRequiredHeader_filled
      andThen_def tryCatch_def)

section \<open>The consumer of the framework\<close>

text \<open>
  \<open>ConvoyMessageConsumer\<close> over a target consumer with state \<open>'c\<close>: the operations of the
  abstract class \<open>MessageConsumer\<close> it calls. A subscription is the function that undoes it.
\<close>

record ('c, 'w) message_consumer =
  consumer_subscribe ::
    "string \<Rightarrow> string list \<Rightarrow> 'w handler \<Rightarrow> bool option \<Rightarrow> 'c \<Rightarrow> ('c \<Rightarrow> 'c) \<times> 'c"
  consumer_close :: "'c \<Rightarrow> 'c"

record ('c, 'w) convoy_consumer =
  doWithMessage :: "string \<Rightarrow> message \<Rightarrow> 'w handler \<Rightarrow> ('w, unit) eff"
  consumerMapping :: channel_mapping
  subs :: "(string, 'c \<Rightarrow> 'c) jsmap"
  target :: 'c

definition handleMessage ::
    "('c, 'w) convoy_consumer \<Rightarrow> string \<Rightarrow> message \<Rightarrow> 'w handler \<Rightarrow> ('w, unit) eff" where
  "handleMessage C subscriberId m h = doWithMessage C subscriberId m h"

definition subscribe ::
    "('c, 'w) message_consumer \<Rightarrow> string \<Rightarrow> string list \<Rightarrow> 'w handler \<Rightarrow> bool option \<Rightarrow>
     ('c, 'w) convoy_consumer \<Rightarrow> ('c \<Rightarrow> 'c) \<times> ('c, 'w) convoy_consumer" where
  "subscribe T subscriberId channels h isEventHandler C =
     (let transformedChannels = map (transform (consumerMapping C)) channels;
          (sub, t) = consumer_subscribe T subscriberId transformedChannels
                       (\<lambda>m. handleMessage C subscriberId m h) isEventHandler (target C)
      in (sub, C\<lparr>subs := map_set subscriberId sub (subs C), target := t\<rparr>))"

definition close ::
    "('c, 'w) message_consumer \<Rightarrow> ('c, 'w) convoy_consumer \<Rightarrow> ('c, 'w) convoy_consumer" where
  "close T C = C\<lparr>target :=
     consumer_close T (fold (\<lambda>(_, unsubscribe). unsubscribe) (subs C) (target C))\<rparr>"

definition onApplicationShutdown ::
    "('c, 'w) message_consumer \<Rightarrow> ('c, 'w) convoy_consumer \<Rightarrow> ('c, 'w) convoy_consumer" where
  "onApplicationShutdown T C = close T C"

section \<open>The in-memory broker\<close>

definition mem_dispatchMessageToHandlers :: "message \<Rightarrow> 'w handler list \<Rightarrow> ('w, unit) eff" where
  "mem_dispatchMessageToHandlers m hs =
     andThen (promiseAll (\<lambda>handle. handle m) hs) (\<lambda>_. ret ())"

definition mem_dispatchMessage :: "'w handlers \<Rightarrow> string \<Rightarrow> message \<Rightarrow> ('w, unit) eff" where
  "mem_dispatchMessage c destination m =
     mem_dispatchMessageToHandlers m (getHandlersByChannel c destination)"

definition mem_subscribe ::
    "string \<Rightarrow> string list \<Rightarrow> 'w handler \<Rightarrow> bool option \<Rightarrow> 'w handlers \<Rightarrow>
     ('w handlers \<Rightarrow> 'w handlers) \<times> 'w handlers" where
  "mem_subscribe subscriberId channels h isEventHandler c =
     (\<lambda>_. [], fold (\<lambda>channel. addHandlerToChannel channel h) channels c)"

definition in_memory_consumer :: "('w handlers, 'w) message_consumer" where
  "in_memory_consumer = \<lparr>consumer_subscribe = mem_subscribe, consumer_close = (\<lambda>c. c)\<rparr>"

definition mem_send :: "'w handlers \<Rightarrow> string \<Rightarrow> message \<Rightarrow> bool \<Rightarrow> ('w, unit) eff" where
  "mem_send c destination m isEvent = mem_dispatchMessage c destination m"

definition mem_sendBatch :: "'w handlers \<Rightarrow> string \<Rightarrow> message list \<Rightarrow> bool \<Rightarrow> ('w, unit) eff" where
  "mem_sendBatch c destination ms isEvent =
     andThen (promiseAll (mem_dispatchMessage c destination) ms) (\<lambda>_. ret ())"

section \<open>The contract of a consumer\<close>

text \<open>
  What the framework relies on when it subscribes: the handler is called for the messages of each
  channel it was subscribed to, as often as the channel is named, and the handlers of the other
  channels stay.
\<close>

locale channel_subscription =
  fixes handlersOf :: "'c \<Rightarrow> string \<Rightarrow> 'w handler list"
    and sub :: "string list \<Rightarrow> 'w handler \<Rightarrow> 'c \<Rightarrow> 'c"
  assumes handlersOf_sub:
    "handlersOf (sub channels h c) channel =
       handlersOf c channel @ replicate (count_list channels channel) h"
begin

lemma handlersOf_other: "channel \<notin> set channels \<Longrightarrow> handlersOf (sub channels h c) channel = handlersOf c channel"
  by (simp add: handlersOf_sub)

lemma handlersOf_subs:
  "handlersOf (fold (\<lambda>(channels, h). sub channels h) l c) channel =
     handlersOf c channel @ concat (map (\<lambda>(channels, h). replicate (count_list channels channel) h) l)"
  by (induction l arbitrary: c) (auto simp: handlersOf_sub)

end

lemma fold_addHandler:
  "getHandlersByChannel (fold (\<lambda>ch. addHandlerToChannel ch h) channels c) channel =
     getHandlersByChannel c channel @ replicate (count_list channels channel) h"
proof (induction channels arbitrary: c)
  case Nil
  then show ?case by simp
next
  case (Cons ch channels)
  then show ?case
    by (simp add: replicate_append_same [symmetric])
qed

interpretation in_memory: channel_subscription getHandlersByChannel
  "\<lambda>channels h c. snd (mem_subscribe subscriberId channels h isEventHandler c)"
  for subscriberId isEventHandler
  by unfold_locales (simp add: mem_subscribe_def fold_addHandler)

lemma subscribe_in_memory:
  "subscribe in_memory_consumer s channels h e C = ((\<lambda>_. []),
     C\<lparr>subs := map_set s (\<lambda>_. []) (subs C),
       target := snd (mem_subscribe s (map (transform (consumerMapping C)) channels)
         (\<lambda>m. handleMessage C s m h) e (target C))\<rparr>)"
  by (simp add: subscribe_def in_memory_consumer_def mem_subscribe_def)

lemma mem_dispatchMessage_eq:
  "mem_dispatchMessage c destination m w =
     (case promiseAll (\<lambda>handle. handle m) (getHandlersByChannel c destination) w of
        (Inl e, w') \<Rightarrow> (Inl e, w') | (Inr _, w') \<Rightarrow> (Inr (), w'))"
  by (auto simp: mem_dispatchMessage_def mem_dispatchMessageToHandlers_def andThen_def
      split: prod.splits sum.splits)

lemma snd_mem_dispatchMessage:
  "snd (mem_dispatchMessage c destination m w) =
     fold (\<lambda>handle w. snd (handle m w)) (getHandlersByChannel c destination) w"
  using promiseAll_world [of "\<lambda>handle. handle m" "getHandlersByChannel c destination" w]
  by (auto simp: mem_dispatchMessage_eq split: prod.splits sum.splits)

section \<open>The outbox\<close>

record message_entity =
  entity_id :: string
  entity_headers :: "(string \<times> string) list"
  entity_payload :: json
  entity_destination :: string

text \<open>
  \<open>transaction\<close> is \<open>manager.transaction\<close> and \<open>saveMessage\<close> is \<open>manager.save\<close> of TypeORM.
\<close>

record 'w outbox =
  transaction :: "('w, message_entity list) eff \<Rightarrow> ('w, message_entity list) eff"
  saveMessage :: "message_entity \<Rightarrow> ('w, message_entity) eff"

definition to_entity :: "string \<Rightarrow> message \<Rightarrow> exn + message_entity" where
  "to_entity destination m = map_sum id (\<lambda>id.
     \<lparr>entity_id = id, entity_headers = asRecord (headers m), entity_payload = payload m,
      entity_destination = destination\<rparr>) (message_id m)"

definition db_sendBatch :: "'w outbox \<Rightarrow> string \<Rightarrow> message list \<Rightarrow> ('w, unit) eff" where
  "db_sendBatch R destination ms =
     andThen (transaction R
        (promiseAllMap (\<lambda>m. map_sum id (saveMessage R) (to_entity destination m)) ms))
       (\<lambda>_. ret ())"

definition db_send :: "'w outbox \<Rightarrow> string \<Rightarrow> message \<Rightarrow> ('w, unit) eff" where
  "db_send R destination m = db_sendBatch R destination [m]"

text \<open>
  What the transformers of the other two columns of the table write (\<open>to\<close>) and read (\<open>from\<close>). A moment is the number of its
  milliseconds or a \<open>Date\<close> of it.
\<close>

definition published_to :: "bool option \<Rightarrow> int" where
  "published_to v = (case v of None \<Rightarrow> 0 | Some p \<Rightarrow> of_bool p)"

definition published_from :: "int option \<Rightarrow> bool option" where
  "published_from v = map_option (\<lambda>i. i \<noteq> 0) v"

datatype moment = MomentNumber int | MomentDate int

definition creationTime_from :: "moment option \<Rightarrow> int \<Rightarrow> int" where
  "creationTime_from v now = (case v of Some (MomentDate i) \<Rightarrow> i | _ \<Rightarrow> now)"

definition creationTime_to :: "moment option \<Rightarrow> moment option" where
  "creationTime_to v = map_option (\<lambda>m. case m of MomentNumber i \<Rightarrow> MomentDate i | MomentDate i \<Rightarrow> MomentDate i) v"

lemma published_roundtrip: "published_from (Some (published_to v)) = Some (v = Some True)"
  by (cases v) (simp_all add: published_to_def published_from_def)

text \<open>The functions of the second column are swapped: a number in the table is read as the time of reading.\<close>

lemma creation_time_lost: "creationTime_from (Some (MomentNumber i)) now = now"
  by (simp add: creationTime_from_def)

text \<open>The transaction of TypeORM: a callback that rejects leaves no trace.\<close>

definition rolls_back :: "'w outbox \<Rightarrow> bool" where
  "rolls_back R \<longleftrightarrow> (\<forall>f w. transaction R f w =
     (case f w of (Inl e, w') \<Rightarrow> (Inl e, w) | (Inr a, w') \<Rightarrow> (Inr a, w')))"

lemma to_entity_filled:
  "filled m HDR_ID \<Longrightarrow> to_entity destination m = Inr \<lparr>entity_id = getHeader m HDR_ID '''',
     entity_headers = asRecord (headers m), entity_payload = payload m,
     entity_destination = destination\<rparr>"
  by (simp add: to_entity_def message_id_def getRequiredHeader_filled)

lemma db_sendBatch_failed:
  assumes "rolls_back R" and "db_sendBatch R destination ms w = (Inl e, w')"
  shows "w' = w"
  using assms
  by (auto simp: db_sendBatch_def rolls_back_def andThen_def split: prod.splits sum.splits)

end
