(* ===== verification/Dispatcher.thy ===== *)
theory Dispatcher
  imports Commands Consumer
begin

text \<open>
  Command handlers and the dispatcher that calls them (\<open>commands/consumer/\<close>): which handler a
  message goes to, how its result or its exception becomes replies, and where they are sent.
  Also the lock targets of a reply (\<open>commands/consumer/saga-reply-lock/\<close>).
\<close>

section \<open>Lock targets\<close>

text \<open>The text a template literal makes of a value.\<close>

fun js_text :: "json \<Rightarrow> string" where
  "js_text JNull = ''null''"
| "js_text (JBool b) = (if b then ''true'' else ''false'')"
| "js_text (JNum n) = show_int n"
| "js_text (JStr s) = s"
| "js_text (JArr vs) = join_with '','' (map (\<lambda>v. if v = JNull then '''' else js_text v) vs)"
| "js_text (JObj _) = ''[object Object]''"

text \<open>
  What the constructor of a \<open>LockTarget\<close> is given: a text, an instance (of a class with that
  name), a class (with its source text), or nothing.
\<close>

datatype lock_arg = LockText string | LockInstance string | LockClass string | LockUndefined

fun lock_arg_text :: "lock_arg \<Rightarrow> string" where
  "lock_arg_text (LockText s) = s"
| "lock_arg_text (LockInstance _) = ''[object Object]''"
| "lock_arg_text (LockClass t) = t"
| "lock_arg_text LockUndefined = ''undefined''"

fun new_LockTarget :: "lock_arg \<Rightarrow> lock_arg \<Rightarrow> string" where
  "new_LockTarget (LockInstance c) (LockInstance d) = c @ ''/'' @ d"
| "new_LockTarget t i = lock_arg_text t @ ''/'' @ lock_arg_text i"

definition own_property :: "string \<Rightarrow> jsobj \<Rightarrow> json option" where
  "own_property name ob = (case obj_own ob of JObj ps \<Rightarrow> map_of (rev ps) name | _ \<Rightarrow> None)"

definition property_text :: "json option \<Rightarrow> string" where
  "property_text v = (case v of None \<Rightarrow> ''undefined'' | Some j \<Rightarrow> js_text j)"

text \<open>
  \<open>withLock(aggregate)\<close> passes the class itself, whose \<open>typeof\<close> is \<open>function\<close>, so the text
  of the target is the source text of the class.
\<close>

definition withLock :: "serializer \<Rightarrow> jsobj \<Rightarrow> string" where
  "withLock S aggregate = new_LockTarget (LockClass (classText S (obj_class aggregate)))
     (LockText (property_text (own_property ''id'' aggregate)))"

definition locked_withSuccess :: "serializer \<Rightarrow> string \<Rightarrow> payload_arg option \<Rightarrow> exn + message" where
  "locked_withSuccess S lockTarget reply =
     map_sum id (\<lambda>m. m\<lparr>lock := Some lockTarget\<rparr>) (withSuccess S reply)"

definition locked_withFailure :: "serializer \<Rightarrow> string \<Rightarrow> payload_arg option \<Rightarrow> exn + message" where
  "locked_withFailure S lockTarget reply =
     map_sum id (\<lambda>m. m\<lparr>lock := Some lockTarget\<rparr>) (withFailure S reply)"

section \<open>Command handlers\<close>

record command_msg =
  cm_command :: jsobj
  cm_correlation :: headers
  cm_message :: message

datatype reply_value = ReplyMessage message | ReplyObject payload_arg | ReplyNothing

datatype handler_result = One reply_value | Many "reply_value list"

record 'w command_handler =
  ch_channel :: string
  ch_command :: string
  ch_invoke :: "command_msg \<Rightarrow> ('w, handler_result) eff"
  ch_withLock :: bool
  ch_optionsPreLock :: "(command_msg \<Rightarrow> ('w, string) eff) option"   \<comment> \<open>\<open>options.preLock\<close>\<close>
  ch_resource :: "string option"
  ch_isSaga :: bool                    \<comment> \<open>\<open>instanceof SagaCommandHandler\<close>\<close>
  ch_preLock :: "(command_msg \<Rightarrow> ('w, string) eff) option"

definition ch_resourceMatches :: "'w command_handler \<Rightarrow> message \<Rightarrow> exn + bool" where
  "ch_resourceMatches h m =
     (case ch_resource h of
        None \<Rightarrow> Inr True
      | Some r \<Rightarrow> if r = '''' then Inr True else resourceMatches (getHeader m RESOURCE '''') r)"

definition commandTypeMatches :: "'w command_handler \<Rightarrow> message \<Rightarrow> exn + bool" where
  "commandTypeMatches h m = map_sum id (\<lambda>t. ch_command h = t) (getRequiredHeader m COMMAND_TYPE)"

definition handles :: "'w command_handler \<Rightarrow> message \<Rightarrow> exn + bool" where
  "handles h m =
     (case commandTypeMatches h m of
        Inl e \<Rightarrow> Inl e
      | Inr b \<Rightarrow> if b then ch_resourceMatches h m else Inr False)"

definition findTargetMethod :: "'w command_handler list \<Rightarrow> message \<Rightarrow> exn + 'w command_handler option" where
  "findTargetMethod hs m = findThrowing (\<lambda>h. handles h m) hs"

definition getChannels :: "'w command_handler list \<Rightarrow> string list" where
  "getChannels hs = map ch_channel hs"

record 'w handlers_builder =
  hb_handlers :: "'w command_handler list"
  hb_channel :: string

definition hb_fromChannel :: "string \<Rightarrow> 'w handlers_builder" where
  "hb_fromChannel c = \<lparr>hb_handlers = [], hb_channel = c\<rparr>"

definition hb_onMessage ::
    "string \<Rightarrow> (command_msg \<Rightarrow> ('w, handler_result) eff) \<Rightarrow> bool \<Rightarrow>
     (command_msg \<Rightarrow> ('w, string) eff) option \<Rightarrow> 'w handlers_builder \<Rightarrow> 'w handlers_builder" where
  "hb_onMessage cmd h lk pre b = b\<lparr>hb_handlers := hb_handlers b @
     [\<lparr>ch_channel = hb_channel b, ch_command = cmd, ch_invoke = h, ch_withLock = lk,
       ch_optionsPreLock = pre, ch_resource = None, ch_isSaga = False, ch_preLock = None\<rparr>]\<rparr>"

definition hb_build :: "'w handlers_builder \<Rightarrow> 'w command_handler list" where
  "hb_build b = hb_handlers b"

lemma handles_command:
  "filled m COMMAND_TYPE \<Longrightarrow> ch_resource h = None \<Longrightarrow>
   handles h m = Inr (ch_command h = getHeader m COMMAND_TYPE '''')"
  by (simp add: handles_def commandTypeMatches_def ch_resourceMatches_def getRequiredHeader_filled)

lemma findTargetMethod_plain:
  assumes "filled m COMMAND_TYPE" and "\<And>h. h \<in> set hs \<Longrightarrow> ch_resource h = None"
  shows "findTargetMethod hs m = Inr (find (\<lambda>h. ch_command h = getHeader m COMMAND_TYPE '''') hs)"
  unfolding findTargetMethod_def
  using assms by (intro findThrowing_total) (simp add: handles_command)

lemma findTargetMethod_handles:
  "findTargetMethod hs m = Inr (Some h) \<Longrightarrow> h \<in> set hs \<and> handles h m = Inr True"
  unfolding findTargetMethod_def by (drule findThrowing_Some) simp

section \<open>The dispatcher\<close>

record 'w dispatcher =
  commandDispatcherId :: string
  commandHandlers :: "'w command_handler list"
  messageProducer :: "'w producer"
  dispatcherSerializer :: serializer

definition replyOf :: "serializer \<Rightarrow> 'w command_handler \<Rightarrow> jsobj \<Rightarrow> reply_value \<Rightarrow> exn + message" where
  "replyOf S h cmd reply =
     (case reply of
        ReplyMessage m \<Rightarrow> Inr m
      | ReplyObject p \<Rightarrow>
          if ch_withLock h then locked_withSuccess S (withLock S cmd) (Some p) else withSuccess S (Some p)
      | ReplyNothing \<Rightarrow>
          if ch_withLock h then locked_withSuccess S (withLock S cmd) None else withSuccess S None)"

definition failureOf :: "serializer \<Rightarrow> 'w command_handler \<Rightarrow> jsobj \<Rightarrow> exn \<Rightarrow> exn + message" where
  "failureOf S h cmd err =
     (if ch_withLock h then locked_withFailure S (withLock S cmd) (Some (caught err))
      else withFailure S (Some (caught err)))"

fun results :: "handler_result \<Rightarrow> reply_value list" where
  "results (Many rs) = rs"
| "results (One r) = [r]"

definition cd_invoke :: "serializer \<Rightarrow> 'w command_handler \<Rightarrow> command_msg \<Rightarrow> ('w, message list) eff" where
  "cd_invoke S h cm =
     tryCatch
       (andThen (ch_invoke h cm) (\<lambda>result.
          lift (traverse (replyOf S h (cm_command cm)) (results result))))
       (\<lambda>err. lift (traverse (failureOf S h (cm_command cm)) [err]))"

definition sendReplies ::
    "'w dispatcher \<Rightarrow> headers \<Rightarrow> message list \<Rightarrow> string \<Rightarrow> ('w, unit) eff" where
  "sendReplies D correlationHeaders replies defaultReplyChannel =
     andThen (sendBatch (messageProducer D) defaultReplyChannel
        (map (\<lambda>reply. build (withExtraHeaders correlationHeaders (withMessage reply))) replies) False)
       (\<lambda>_. ret ())"

definition handleException ::
    "'w dispatcher \<Rightarrow> message \<Rightarrow> string \<Rightarrow> exn \<Rightarrow> ('w, unit) eff" where
  "handleException D m defaultReplyChannel err =
     andThen (lift (withFailure (dispatcherSerializer D) (Some (caught err)))) (\<lambda>reply.
     andThen (lift (correlateMessageHeaders (headers m))) (\<lambda>correlationHeaders.
       sendReplies D correlationHeaders [reply] defaultReplyChannel))"

text \<open>
  \<open>handleMessage\<close> calls \<open>this.invoke\<close>, which a subclass overrides: it is an argument. The
  first step gives the replies, or nothing when the exception has been replied to.
\<close>

definition cd_replies ::
    "('w command_handler \<Rightarrow> command_msg \<Rightarrow> ('w, message list) eff) \<Rightarrow> 'w dispatcher \<Rightarrow>
     'w command_handler \<Rightarrow> headers \<Rightarrow> string \<Rightarrow> message \<Rightarrow> ('w, message list option) eff" where
  "cd_replies invoke D h correlationHeaders defaultReplyChannel m =
     tryCatch
       (andThen (lift (parsePayload (dispatcherSerializer D) (ch_command h) m)) (\<lambda>cmd.
        andThen (invoke h \<lparr>cm_command = cmd, cm_correlation = correlationHeaders, cm_message = m\<rparr>)
          (\<lambda>replies.
        andThen (lift (traverse toString replies)) (\<lambda>_.
          ret (Some replies)))))
       (\<lambda>err. andThen (lift (toString m)) (\<lambda>_.
              andThen (handleException D m defaultReplyChannel err) (\<lambda>_. ret None)))"

definition cd_handleMessage ::
    "('w command_handler \<Rightarrow> command_msg \<Rightarrow> ('w, message list) eff) \<Rightarrow> 'w dispatcher \<Rightarrow> message \<Rightarrow>
     ('w, unit) eff" where
  "cd_handleMessage invoke D m =
     andThen (lift (findTargetMethod (commandHandlers D) m)) (\<lambda>target.
       case target of
         None \<Rightarrow> andThen (lift (message_id m)) (\<lambda>id. throw (MissingCommandHandlerException id))
       | Some h \<Rightarrow>
           andThen (lift (correlateMessageHeaders (headers m))) (\<lambda>correlationHeaders.
           andThen (lift (getRequiredHeader m REPLY_TO)) (\<lambda>defaultReplyChannel.
           andThen (cd_replies invoke D h correlationHeaders defaultReplyChannel m) (\<lambda>r.
             case r of None \<Rightarrow> ret ()
             | Some replies \<Rightarrow> sendReplies D correlationHeaders replies defaultReplyChannel))))"

definition cd_subscribe ::
    "('c, 'w) message_consumer \<Rightarrow> ('w command_handler \<Rightarrow> command_msg \<Rightarrow> ('w, message list) eff) \<Rightarrow>
     'w dispatcher \<Rightarrow> ('c, 'w) convoy_consumer \<Rightarrow> ('c \<Rightarrow> 'c) \<times> ('c, 'w) convoy_consumer" where
  "cd_subscribe T invoke D C =
     subscribe T (commandDispatcherId D) (getChannels (commandHandlers D))
       (cd_handleMessage invoke D) None C"

definition dispatcher_create ::
    "'w producer \<Rightarrow> serializer \<Rightarrow> string \<Rightarrow> 'w command_handler list \<Rightarrow> 'w dispatcher" where
  "dispatcher_create P S dispatcherId hs =
     \<lparr>commandDispatcherId = dispatcherId, commandHandlers = hs, messageProducer = P, dispatcherSerializer = S\<rparr>"

section \<open>Replies to every command\<close>

definition reply_message :: "headers \<Rightarrow> message \<Rightarrow> message" where
  "reply_message correlationHeaders reply = build (withExtraHeaders correlationHeaders (withMessage reply))"

text \<open>The reply sent for an exception: the failure itself, with the headers that correlate it.\<close>

definition failure_reply :: "serializer \<Rightarrow> message \<Rightarrow> exn \<Rightarrow> message" where
  "failure_reply S m err =
     (case withFailure S (Some (caught err)) of Inr f \<Rightarrow> reply_message (correlated (headers m)) f)"

lemma sendReplies_eq:
  "sendReplies D h replies ch w =
     (case sendBatch (messageProducer D) ch (map (reply_message h) replies) False w of
        (Inl e, w') \<Rightarrow> (Inl e, w') | (Inr _, w') \<Rightarrow> (Inr (), w'))"
  by (auto simp: sendReplies_def reply_message_def [abs_def] andThen_def split: prod.splits sum.splits)

lemma handleException_eq:
  assumes "\<not> thrown_text err"
  shows "handleException D m ch err =
     andThen (sendBatch (messageProducer D) ch [failure_reply (dispatcherSerializer D) m err] False)
       (\<lambda>_. ret ())"
proof -
  obtain f where f: "withFailure (dispatcherSerializer D) (Some (caught err)) = Inr f"
    using withFailure_caught [OF assms] by blast
  then show ?thesis
    by (simp add: handleException_def correlateMessageHeaders_eq sendReplies_def
        failure_reply_def reply_message_def)
qed

lemma reply_message_headers:
  assumes "map_wf h" and "map_wf (headers reply)"
  shows "map_get (headers (reply_message h reply)) k =
    (case map_get h k of Some v \<Rightarrow> Some v | None \<Rightarrow> map_get (headers reply) k)"
  using assms by (simp add: reply_message_def map_of_rev map_add_def)

lemma withPayload_wf: "withPayload S p = Inr b \<Longrightarrow> map_wf (builder_headers b)"
  by (auto simp: withPayload_def map_wf_def split: sum.splits payload_arg.splits)

lemma withReply_wf: "withReply S reply out = Inr m \<Longrightarrow> map_wf (headers m)"
  by (auto simp: withReply_def split: sum.splits dest!: withPayload_wf)

lemma failure_reply_headers:
  assumes "map_wf (headers m)" and "\<not> thrown_text err"
  shows "map_get (headers (failure_reply S m err)) REPLY_OUTCOME = Some ''FAILURE''"
    and "map_get (headers (failure_reply S m err)) REPLY_TYPE = Some (constructor_name (caught err))"
    and "map_get (headers (failure_reply S m err)) IN_REPLY_TO = Some (text_of (map_get (headers m) HDR_ID))"
    and "map_get (headers m) (COMMAND_HEADER_PREFIX @ name) = Some v \<Longrightarrow>
         map_get (headers (failure_reply S m err)) (COMMAND_REPLY_PREFIX @ name) = Some v"
proof -
  obtain f where f: "withFailure S (Some (caught err)) = Inr f"
    using withFailure_caught [OF assms(2)] by blast
  then have r: "withReply S (caught err) FAILURE = Inr f"
    by (simp add: withFailure_def)
  note get = reply_message_headers [OF correlated_wf withReply_wf [OF r]]
  have "map_get (correlated (headers m)) REPLY_OUTCOME = None"
    using correlated_keys [of "headers m" REPLY_OUTCOME]
    by (cases "map_get (correlated (headers m)) REPLY_OUTCOME") (auto simp: command_header_defs)
  then show "map_get (headers (failure_reply S m err)) REPLY_OUTCOME = Some ''FAILURE''"
    using withReply_headers [OF r] f by (simp add: failure_reply_def get)
  have "map_get (correlated (headers m)) REPLY_TYPE = None"
    using correlated_keys [of "headers m" REPLY_TYPE]
    by (cases "map_get (correlated (headers m)) REPLY_TYPE") (auto simp: command_header_defs)
  then show "map_get (headers (failure_reply S m err)) REPLY_TYPE = Some (constructor_name (caught err))"
    using withReply_headers [OF r] f by (simp add: failure_reply_def get)
  show "map_get (headers (failure_reply S m err)) IN_REPLY_TO = Some (text_of (map_get (headers m) HDR_ID))"
    using f by (simp add: failure_reply_def get correlated_in_reply_to)
  show "map_get (headers (failure_reply S m err)) (COMMAND_REPLY_PREFIX @ name) = Some v"
    if "map_get (headers m) (COMMAND_HEADER_PREFIX @ name) = Some v"
    using f that by (simp add: failure_reply_def get correlated_get [OF assms(1)])
qed

lemma failure_reply_typed:
  assumes "constructor_name (caught err) \<noteq> []" and "\<not> thrown_text err"
  shows "filled (failure_reply S m err) HDR_TYPE"
proof -
  obtain f where f: "withFailure S (Some (caught err)) = Inr f"
    using withFailure_caught [OF assms(2)] by blast
  then have r: "withReply S (caught err) FAILURE = Inr f"
    by (simp add: withFailure_def)
  have "map_get (correlated (headers m)) HDR_TYPE = None"
    using correlated_keys [of "headers m" HDR_TYPE]
    by (cases "map_get (correlated (headers m)) HDR_TYPE")
      (auto simp: command_header_defs message_header_defs)
  then have "map_get (headers (failure_reply S m err)) HDR_TYPE = Some (constructor_name (caught err))"
    using withReply_headers [OF r] f
    by (simp add: failure_reply_def reply_message_headers [OF correlated_wf withReply_wf [OF r]])
  then show ?thesis using assms(1) by (simp add: filled_def getHeader_def)
qed

text \<open>
  What \<open>handleMessage\<close> relies on in the \<open>invoke\<close> of its class: that it never throws a text, which could not
  be replied with. The validation of the serializer does not throw one either.
\<close>

definition no_text_thrown :: "serializer \<Rightarrow> bool" where
  "no_text_thrown S \<longleftrightarrow> (\<forall>c j e. validatedPlainToClass S c j = Inl e \<longrightarrow> \<not> thrown_text e)"

locale replying_invoker =
  fixes invoke :: "'w command_handler \<Rightarrow> command_msg \<Rightarrow> ('w, message list) eff"
  assumes throws_no_text: "invoke h cm w = (Inl e, w') \<Longrightarrow> \<not> thrown_text e"
begin

lemma cd_replies_total:
  assumes "filled m HDR_TYPE" and "no_text_thrown (dispatcherSerializer D)"
  shows "(\<exists>rs w1. cd_replies invoke D h c ch m w = (Inr (Some rs), w1))
    \<or> (\<exists>err w1. \<not> thrown_text err \<and> cd_replies invoke D h c ch m w =
          andThen (handleException D m ch err) (\<lambda>_. ret None) w1)"
proof -
  obtain s where s: "toString m = Inr s" using assms(1) toString_total by blast
  show ?thesis
  proof (cases "parsePayload (dispatcherSerializer D) (ch_command h) m")
    case (Inl e)
    then have "\<not> thrown_text e"
      using assms(2) by (simp add: parsePayload_def no_text_thrown_def)
    then show ?thesis using Inl by (auto simp: cd_replies_def s)
  next
    case parsed: (Inr cmd)
    obtain r w' where r: "invoke h \<lparr>cm_command = cmd, cm_correlation = c, cm_message = m\<rparr> w = (r, w')"
      by (rule prod.exhaust)
    show ?thesis
    proof (cases r)
      case (Inl e)
      then have "\<not> thrown_text e" using r throws_no_text by blast
      then show ?thesis
        using r parsed Inl by (auto simp: cd_replies_def s andThen_def tryCatch_def)
    next
      case (Inr rs)
      have "\<not> thrown_text e" if "traverse toString rs = Inl e" for e
        using that by (induction rs) (auto simp: thrown_text_def map_sum_eq_Inl dest: toString_Inl split: sum.splits)
      then show ?thesis
        using r Inr parsed
        by (cases "traverse toString rs") (auto simp: cd_replies_def s andThen_def tryCatch_def)
    qed
  qed
qed

lemma handleMessage_one_batch:
  assumes "findTargetMethod (commandHandlers D) m = Inr (Some h)"
    and "filled m REPLY_TO" and "filled m HDR_TYPE" and "no_text_thrown (dispatcherSerializer D)"
  shows "\<exists>batch w1. cd_handleMessage invoke D m w =
    andThen (sendBatch (messageProducer D) (getHeader m REPLY_TO '''') batch False) (\<lambda>_. ret ()) w1"
  using cd_replies_total [OF assms(3,4), of h "correlated (headers m)" "getHeader m REPLY_TO ''''" w]
proof (elim disjE exE conjE)
  fix rs w1
  assume "cd_replies invoke D h (correlated (headers m)) (getHeader m REPLY_TO '''') m w = (Inr (Some rs), w1)"
  then show ?thesis
    using assms
    by (auto simp: cd_handleMessage_def correlateMessageHeaders_eq getRequiredHeader_filled
        andThen_def [of "cd_replies invoke D h c ch m" for c ch] sendReplies_def)
next
  fix err w1
  assume "\<not> thrown_text err" and "cd_replies invoke D h (correlated (headers m)) (getHeader m REPLY_TO '''') m w =
    andThen (handleException D m (getHeader m REPLY_TO '''') err) (\<lambda>_. ret None) w1"
  then have "cd_handleMessage invoke D m w =
    andThen (sendBatch (messageProducer D) (getHeader m REPLY_TO '''')
      [failure_reply (dispatcherSerializer D) m err] False) (\<lambda>_. ret ()) w1"
    using assms
    by (auto simp: cd_handleMessage_def correlateMessageHeaders_eq getRequiredHeader_filled
        handleException_eq andThen_def split: prod.splits sum.splits)
  then show ?thesis by blast
qed

end

lemma failureOf_Inl: "failureOf S h cmd err = Inl e \<longleftrightarrow> withFailure S (Some (caught err)) = Inl e"
  by (auto simp: failureOf_def locked_withFailure_def map_sum_eq_Inl)

text \<open>The \<open>catch\<close> of \<open>invoke\<close> makes a failure of whatever is thrown, or throws the error of parsing a text.\<close>

lemma cd_invoke_throws:
  assumes "cd_invoke S h cm w = (Inl e, w')"
  shows "\<not> thrown_text e"
  using assms withFailure_Inl(1)
  by (auto simp: cd_invoke_def tryCatch_def failureOf_Inl split: prod.splits sum.splits)

interpretation base_dispatcher: replying_invoker "cd_invoke S" for S
  by unfold_locales (rule cd_invoke_throws)

section \<open>Replies of a handler\<close>

text \<open>
  What a handler gives back for a reply \<open>p\<close> with the outcome \<open>out\<close>: a message built for it, the reply
  itself, nothing at all, or an error, which is replied as it is.
\<close>

definition gives :: "serializer \<Rightarrow> exn + handler_result \<Rightarrow> payload_arg \<Rightarrow> outcome \<Rightarrow> bool" where
  "gives S r p out = (case r of
       Inl err \<Rightarrow> p = caught err \<and> out = FAILURE
     | Inr (One (ReplyMessage m)) \<Rightarrow> withReply S p out = Inr m
     | Inr (One (ReplyObject q)) \<Rightarrow> p = q \<and> out = SUCCESS
     | Inr (One ReplyNothing) \<Rightarrow> p = Success \<and> out = SUCCESS
     | Inr (Many _) \<Rightarrow> False)"

lemma cd_invoke_gives:
  assumes "ch_invoke h cm w = (r, w')" and "\<not> ch_withLock h"
    and "gives S r p out" and "withReply S p out = Inr m"
  shows "cd_invoke S h cm w = (Inr [m], w')"
  using assms
  by (auto simp: gives_def cd_invoke_def andThen_def tryCatch_def replyOf_def failureOf_def withSuccess_def withFailure_def
      split: sum.splits handler_result.splits reply_value.splits)

end
