(* ===== verification/Samples.thy ===== *)
theory Samples
  imports Dispatcher
begin

text \<open>
  Concrete instances of the parameters of the model, on which the properties are evaluated: a
  serializer that keeps plain values as they are, a broker that logs what it is sent, and
  messages with a few headers.
\<close>

definition sample_serializer :: serializer where
  "sample_serializer =
     \<lparr>classToPlain = (\<lambda>_ j. j),
      validatedPlainToClass = (\<lambda>c j. Inr \<lparr>obj_class = c, obj_own = j\<rparr>),
      errorName = exn_class, errorMessage = (\<lambda>_. ''failed''), errorStack = (\<lambda>_. ''''),
      classText = (\<lambda>c. ''class '' @ c)\<rparr>"

lemma sample_no_text: "no_text_thrown sample_serializer"
  by (simp add: no_text_thrown_def sample_serializer_def)

type_synonym broker_log = "(string \<times> message list) list"

definition sample_producer :: "broker_log producer" where
  "sample_producer =
     \<lparr>channelMapping = [], generateMessageId = ret ''m1'',
      targetSend = (\<lambda>destination m _ log. (Inr (), log @ [(destination, [m])])),
      targetSendBatch = (\<lambda>destination ms _ log. (Inr (), log @ [(destination, ms)])),
      interceptors = [], currentDate = ret ''2021-01-01T00:00:00.000Z''\<rparr>"

definition sample_message :: "headers \<Rightarrow> message" where
  "sample_message h = new_message (JObj []) h"

definition sample_reply :: "outcome \<Rightarrow> message" where
  "sample_reply out = sample_message [(REPLY_TYPE, ''Reply''), (REPLY_OUTCOME, outcome_text out)]"

definition sample_object :: "string \<Rightarrow> jsobj" where
  "sample_object c = \<lparr>obj_class = c, obj_own = JObj [(''id'', JStr ''7'')]\<rparr>"

definition sample_command :: "string \<Rightarrow> string \<Rightarrow> command_with_destination" where
  "sample_command ch c = new_CommandWithDestination ch (sample_object c) None None"

lemma filled_sample_reply:
  "filled (sample_reply out) REPLY_TYPE"
  "map_get (headers (sample_reply out)) REPLY_OUTCOME = Some (outcome_text out)"
  by (simp_all add: filled_def getHeader_def sample_reply_def sample_message_def new_message_def
      command_header_defs)

lemma sendBatch_sample:
  "(\<And>m. m \<in> set ms \<Longrightarrow> filled m HDR_TYPE) \<Longrightarrow>
   sendBatch sample_producer destination ms isEvent log =
     (Inr (map (prepared sample_producer destination ''m1'' ''2021-01-01T00:00:00.000Z'') ms),
      log @ [(destination, map (prepared sample_producer destination ''m1'' ''2021-01-01T00:00:00.000Z'') ms)])"
  by (subst sendBatch_simple [of _ "''m1''" "''2021-01-01T00:00:00.000Z''"]) (simp_all add: sample_producer_def)

end
