(* ===== verification/SagaRefinement.thy ===== *)
theory SagaRefinement
  imports SagaDefinition Samples
begin

text \<open>
  What a saga promises: its actions in order until a participant fails, then the compensations
  of the steps before the failed one in reverse order. The specification is a list of the step
  indices still to do; the definition of the saga is shown to work through exactly that list.

  The sagas here have participant steps whose predicates and commands are functions of the
  state and which have no reply handlers of their own.
\<close>

section \<open>Plain participants\<close>

type_synonym 's plain = "(('s \<Rightarrow> bool) \<times> ('s \<Rightarrow> command_with_destination)) option"

definition plain_invocation :: "('s \<Rightarrow> bool) \<times> ('s \<Rightarrow> command_with_destination) \<Rightarrow> 's invocation" where
  "plain_invocation pc = new_ParticipantInvocation (\<lambda>s. (Inr (snd pc s), s)) (Some (\<lambda>s. (Inr (fst pc s), s)))"

definition plain_step :: "'s plain \<times> 's plain \<Rightarrow> 's saga_step" where
  "plain_step ac = ParticipantInvocationStep
     \<lparr>actionReplyHandlers = [], compensationReplyHandlers = [],
      participantInvocation = map_option plain_invocation (fst ac),
      ps_compensation = map_option plain_invocation (snd ac)\<rparr>"

definition side :: "bool \<Rightarrow> 's plain \<times> 's plain \<Rightarrow> 's plain" where
  "side compensating ac = (if compensating then snd ac else fst ac)"

definition wanted :: "'s \<Rightarrow> bool \<Rightarrow> 's plain \<times> 's plain \<Rightarrow> bool" where
  "wanted s compensating ac = (case side compensating ac of None \<Rightarrow> False | Some pc \<Rightarrow> fst pc s)"

definition command_of :: "'s \<Rightarrow> bool \<Rightarrow> 's plain \<times> 's plain \<Rightarrow> command_with_destination" where
  "command_of s compensating ac = (case side compensating ac of Some pc \<Rightarrow> snd pc s)"

lemma applies_plain: "applies (plain_step ac) c s = (Inr (wanted s c ac), s)"
  by (auto simp: applies_def plain_step_def saga_step_defs wanted_def side_def
      plain_invocation_def new_ParticipantInvocation_def split: option.split)

lemma createStepOutcome_plain:
  "wanted s c ac \<Longrightarrow>
   createStepOutcome (plain_step ac) c s = (Inr (RemoteStepOutcome [command_of s c ac]), s)"
  by (cases c; cases "fst ac"; cases "snd ac")
    (auto simp: plain_step_def saga_step_defs wanted_def side_def command_of_def
      plain_invocation_def new_ParticipantInvocation_def andThen_def)

section \<open>The list of steps to do\<close>

definition todo :: "('s plain \<times> 's plain) list \<Rightarrow> 's \<Rightarrow> exec_state \<Rightarrow> nat list" where
  "todo acs s st = filter (\<lambda>j. wanted s (es_compensating st) (acs ! j)) (candidates (length acs) st)"

definition sends :: "('s plain \<times> 's plain) list \<Rightarrow> 's \<Rightarrow> bool \<Rightarrow> nat \<Rightarrow> saga_actions" where
  "sends acs s c j = step_actions \<lparr>currentlyExecuting = int j, es_compensating = c, es_endState = False\<rparr>
     \<lparr>currentlyExecuting = int j, es_compensating = c, es_endState = False\<rparr>
     (RemoteStepOutcome [command_of s c (acs ! j)])"

lemma upt_split: "[a..<b] = us @ j # vs \<Longrightarrow> us = [a..<j] \<and> vs = [Suc j..<b] \<and> a \<le> j \<and> j < b"
proof (induction us arbitrary: a)
  case Nil
  then show ?case by (auto simp: upt_eq_Cons_conv)
next
  case (Cons u us)
  then show ?case by (fastforce simp: upt_eq_Cons_conv upt_conv_Cons)
qed

lemma candidates_split:
  assumes "candidates n st = us @ j # vs"
  shows "vs = candidates n (at_step st j) \<and> j < n"
proof (cases "es_compensating st")
  case False
  then have "[nat (currentlyExecuting st + 1)..<n] = us @ j # vs"
    using assms by (simp add: candidates_def)
  then have "vs = [Suc j..<n] \<and> j < n"
    using upt_split by blast
  moreover have "nat (int j + 1) = Suc j" by simp
  ultimately show ?thesis using False by (simp add: candidates_def at_step_def)
next
  case True
  define m where "m = nat (min (int n) (currentlyExecuting st))"
  have "rev [0..<m] = us @ j # vs"
    using assms True by (simp add: candidates_def m_def)
  then have "[0..<m] = rev vs @ j # rev us"
    by (metis append_assoc append_Cons append_Nil rev.simps(2) rev_append rev_rev_ident)
  then have "rev vs = [0..<j]" and "j < m"
    using upt_split by blast+
  then have "vs = rev [0..<j]" by (metis rev_rev_ident)
  moreover have "min (int n) (int j) = int j" "j < n"
    using \<open>j < m\<close> by (auto simp: m_def)
  ultimately show ?thesis using True by (simp add: candidates_def at_step_def)
qed

lemma todo_Cons:
  assumes "todo acs s st = j # js"
  shows "todo acs s (at_step st j) = js" and "j < length acs" and "wanted s (es_compensating st) (acs ! j)"
proof -
  obtain us vs where "candidates (length acs) st = us @ j # vs" and w: "wanted s (es_compensating st) (acs ! j)"
    and js: "js = filter (\<lambda>j. wanted s (es_compensating st) (acs ! j)) vs"
    using assms by (auto simp: todo_def filter_eq_Cons_iff)
  with candidates_split have "vs = candidates (length acs) (at_step st j)" and "j < length acs"
    by blast+
  then show "todo acs s (at_step st j) = js" and "j < length acs"
    using js by (simp_all add: todo_def at_step_def)
  show "wanted s (es_compensating st) (acs ! j)" by (rule w)
qed

lemma executeNextStep_todo:
  assumes "state_ok (length acs) st"
  shows "executeNextStep (map plain_step acs) st s = (case todo acs s st of
      [] \<Rightarrow> (Inr (makeEndStateSagaActions st), s)
    | j # _ \<Rightarrow> (Inr (sends acs s (es_compensating st) j), s))"
proof -
  have e: "executeNextStep (map plain_step acs) st s =
    (case find (\<lambda>j. wanted s (es_compensating st) (acs ! j)) (candidates (length (map plain_step acs)) st) of
      None \<Rightarrow> (Inr (makeEndStateSagaActions st), s)
    | Some j \<Rightarrow> andThen (createStepOutcome (map plain_step acs ! j) (es_compensating st)) (\<lambda>oc.
        ret (step_actions st (at_step st j) oc)) s)"
    by (rule executeNextStep_pure) (simp_all add: applies_plain assms)
  show ?thesis
  proof (cases "todo acs s st")
    case Nil
    then show ?thesis using e by (simp add: find_filter todo_def)
  next
    case (Cons j js)
    note j = todo_Cons [OF Cons]
    have "createStepOutcome (map plain_step acs ! j) (es_compensating st) s =
        (Inr (RemoteStepOutcome [command_of s (es_compensating st) (acs ! j)]), s)"
      using j by (simp add: createStepOutcome_plain)
    then show ?thesis
      using e Cons j by (simp add: find_filter todo_def andThen_Inr sends_def step_actions_def at_step_def)
  qed
qed

section \<open>Driving a saga with replies\<close>

definition is_reply :: "outcome \<Rightarrow> message \<Rightarrow> bool" where
  "is_reply out m \<longleftrightarrow> filled m REPLY_TYPE \<and> map_get (headers m) REPLY_OUTCOME = Some (outcome_text out)"

text \<open>The actions that the replies lead to, one after the other, from the text of a state.\<close>

fun drive :: "serializer \<Rightarrow> 's saga_step list \<Rightarrow> string \<Rightarrow> message list \<Rightarrow> ('s, saga_actions list) eff" where
  "drive S steps t [] = ret []"
| "drive S steps t (m # ms) =
     andThen (handleReply S steps t m) (\<lambda>a.
     andThen (drive S steps (case sa_updatedState a of Some u \<Rightarrow> u | None \<Rightarrow> t) ms) (\<lambda>as. ret (a # as)))"

definition run_saga :: "serializer \<Rightarrow> 's saga_step list \<Rightarrow> message list \<Rightarrow> ('s, saga_actions list) eff" where
  "run_saga S steps ms =
     andThen (start steps) (\<lambda>a.
     andThen (drive S steps (case sa_updatedState a of Some u \<Rightarrow> u | None \<Rightarrow> '''') ms) (\<lambda>as. ret (a # as)))"

lemma drive_append:
  "drive S steps t ms s = (Inr as, s') \<Longrightarrow> as \<noteq> [] \<Longrightarrow> sa_updatedState (last as) = Some u \<Longrightarrow>
   drive S steps t (ms @ ns) s = andThen (drive S steps u ns) (\<lambda>bs. ret (as @ bs)) s'"
proof (induction ms arbitrary: t s as)
  case Nil
  then show ?case by simp
next
  case (Cons m ms)
  obtain a s1 as' where a: "handleReply S steps t m s = (Inr a, s1)"
    and as': "drive S steps (case sa_updatedState a of Some u \<Rightarrow> u | None \<Rightarrow> t) ms s1 = (Inr as', s')"
    and as: "as = a # as'"
    using Cons.prems(1) by (auto simp: andThen_eq_Inr)
  show ?case
  proof (cases "as' = []")
    case True
    then have "ms = []" using as'
      by (cases ms) (auto simp: andThen_eq_Inr)
    then show ?thesis
      using a as' as True Cons.prems(3) by (auto simp: andThen_def split: prod.splits sum.splits)
  next
    case False
    then show ?thesis
      using Cons.IH [OF as' False] Cons.prems(3) a as by (auto simp: andThen_def split: prod.splits sum.splits)
  qed
qed

lemma handleReply_plain:
  assumes "0 \<le> currentlyExecuting st" and "currentlyExecuting st < int (length acs)"
    and "wanted s (es_compensating st) (acs ! nat (currentlyExecuting st))"
    and "is_reply out m"
  shows "handleReply S (map plain_step acs) (encodeExecutionState st) m s =
    (if out = SUCCESS then executeNextStep (map plain_step acs) st s
     else if es_compensating st then (Inl (UnsupportedOperationException ''Failure when compensating''), s)
     else executeNextStep (map plain_step acs) (startCompensating st) s)"
proof -
  let ?i = "nat (currentlyExecuting st)"
  have at: "step_at (map plain_step acs) (currentlyExecuting st) = Some (plain_step (acs ! ?i))"
    using assms by (simp add: step_at_def nat_less_iff)
  have r: "getReply (plain_step (acs ! ?i)) m (es_compensating st) = Inr None"
    using assms(4) by (simp add: plain_step_def ps_getReply_def is_reply_def getRequiredHeader_filled)
  have "getRequiredHeader m REPLY_OUTCOME = Inr (outcome_text out)"
    using assms(4) by (cases out) (simp_all add: is_reply_def getRequiredHeader_Inr)
  moreover have "\<exists>v. invocationOf
      \<lparr>actionReplyHandlers = [], compensationReplyHandlers = [],
       participantInvocation = map_option plain_invocation (fst (acs ! ?i)),
       ps_compensation = map_option plain_invocation (snd (acs ! ?i))\<rparr> (es_compensating st) = Some v"
    using assms(3) by (auto simp: invocationOf_def wanted_def side_def split: option.splits if_splits)
  ultimately have "isSuccessfulReply (plain_step (acs ! ?i)) (es_compensating st) m = Inr (out = SUCCESS)"
    by (cases out) (auto simp: plain_step_def ps_isSuccessfulReply_def invocation_isSuccessfulReply_def)
  then show ?thesis
    using at r by (simp add: handleReply_def)
qed

text \<open>Successful replies work through the list, and one more ends the saga.\<close>

lemma drive_success:
  assumes "state_ok (length acs) st" and "0 \<le> currentlyExecuting st"
    and "wanted s (es_compensating st) (acs ! nat (currentlyExecuting st))"
    and "todo acs s st = js" and "length ms = Suc (length js)"
    and "\<And>m. m \<in> set ms \<Longrightarrow> is_reply SUCCESS m"
  shows "drive S (map plain_step acs) (encodeExecutionState st) ms s =
    (Inr (map (sends acs s (es_compensating st)) js @ [makeEndStateSagaActions st]), s)"
  using assms
proof (induction js arbitrary: st ms)
  case Nil
  then obtain m where ms: "ms = [m]" and m: "is_reply SUCCESS m"
    by (cases ms) auto
  have lt: "currentlyExecuting st < int (length acs)"
    using Nil.prems(1) by (simp add: state_ok_def)
  show ?case
    using handleReply_plain [OF Nil.prems(2) lt Nil.prems(3) m] executeNextStep_todo [OF Nil.prems(1)]
      Nil.prems(4) ms by (simp add: andThen_Inr)
next
  case (Cons j js)
  then obtain m ms' where ms: "ms = m # ms'" and m: "is_reply SUCCESS m"
    and len: "length ms' = Suc (length js)" and ms': "\<And>m. m \<in> set ms' \<Longrightarrow> is_reply SUCCESS m"
    by (cases ms) auto
  note j = todo_Cons [OF Cons.prems(4)]
  have lt: "currentlyExecuting st < int (length acs)"
    using Cons.prems(1) by (simp add: state_ok_def)
  have step: "handleReply S (map plain_step acs) (encodeExecutionState st) m s =
      (Inr (sends acs s (es_compensating st) j), s)"
    using handleReply_plain [OF Cons.prems(2) lt Cons.prems(3) m]
      executeNextStep_todo [OF Cons.prems(1)] Cons.prems(4) by simp
  have "state_ok (length acs) (at_step st j)" "0 \<le> currentlyExecuting (at_step st j)"
    "wanted s (es_compensating (at_step st j)) (acs ! nat (currentlyExecuting (at_step st j)))"
    using j by (simp_all add: state_ok_def at_step_def)
  from Cons.IH [OF this j(1) len ms']
  have "drive S (map plain_step acs) (encodeExecutionState (at_step st j)) ms' s =
      (Inr (map (sends acs s (es_compensating st)) js @ [makeEndStateSagaActions st]), s)"
    by (simp add: at_step_def makeEndStateSagaActions_def)
  moreover have "sa_updatedState (sends acs s (es_compensating st) j) = Some (encodeExecutionState (at_step st j))"
    by (simp add: sends_def at_step_def)
  ultimately show ?case
    using step ms by (simp add: andThen_Inr)
qed

text \<open>After a failure the compensations before the failed step are done, nearest first.\<close>

definition undo :: "('s plain \<times> 's plain) list \<Rightarrow> 's \<Rightarrow> nat \<Rightarrow> nat list" where
  "undo acs s k = filter (\<lambda>j. wanted s True (acs ! j)) (rev [0..<k])"

lemma todo_startCompensating:
  "0 \<le> currentlyExecuting st \<Longrightarrow> currentlyExecuting st < int (length acs) \<Longrightarrow>
   todo acs s (startCompensating st) = undo acs s (nat (currentlyExecuting st))"
  by (simp add: todo_def undo_def candidates_def startCompensating_def min_def)

lemma drive_compensations:
  assumes "state_ok (length acs) st" and "0 \<le> currentlyExecuting st" and "\<not> es_compensating st"
    and "wanted s False (acs ! nat (currentlyExecuting st))"
    and "is_reply FAILURE f"
    and "length cs = length (undo acs s (nat (currentlyExecuting st)))"
    and "\<And>m. m \<in> set cs \<Longrightarrow> is_reply SUCCESS m"
  shows "drive S (map plain_step acs) (encodeExecutionState st) (f # cs) s =
    (Inr (map (sends acs s True) (undo acs s (nat (currentlyExecuting st)))
      @ [makeEndStateSagaActions (startCompensating st)]), s)"
proof -
  let ?u = "undo acs s (nat (currentlyExecuting st))"
  have lt: "currentlyExecuting st < int (length acs)"
    using assms(1) by (simp add: state_ok_def)
  have ok: "state_ok (length acs) (startCompensating st)"
    using assms(2) lt by (simp add: state_ok_def startCompensating_def)
  have comp: "es_compensating (startCompensating st)"
    by (simp add: startCompensating_def)
  have w: "wanted s (es_compensating st) (acs ! nat (currentlyExecuting st))"
    using assms(3,4) by simp
  note todo = todo_startCompensating [OF assms(2) lt, of s]
  have h: "handleReply S (map plain_step acs) (encodeExecutionState st) f s =
      executeNextStep (map plain_step acs) (startCompensating st) s"
    using handleReply_plain [OF assms(2) lt w assms(5)] assms(3) by simp
  show ?thesis
  proof (cases ?u)
    case Nil
    then show ?thesis
      using h executeNextStep_todo [OF ok] todo assms(6) by (simp add: andThen_Inr)
  next
    case (Cons j js)
    then have td: "todo acs s (startCompensating st) = j # js" using todo by simp
    note j = todo_Cons [OF td]
    let ?st = "at_step (startCompensating st) j"
    have "state_ok (length acs) ?st" "0 \<le> currentlyExecuting ?st"
      "wanted s (es_compensating ?st) (acs ! nat (currentlyExecuting ?st))"
      using j comp by (simp_all add: state_ok_def at_step_def)
    from drive_success [OF this j(1), of cs S] assms(6,7) Cons
    have "drive S (map plain_step acs) (encodeExecutionState ?st) cs s =
        (Inr (map (sends acs s True) js @ [makeEndStateSagaActions (startCompensating st)]), s)"
      using comp by (simp add: at_step_def makeEndStateSagaActions_def)
    moreover have "sa_updatedState (sends acs s True j) = Some (encodeExecutionState ?st)"
      using comp by (simp add: sends_def at_step_def)
    ultimately show ?thesis
      using h executeNextStep_todo [OF ok, of s] td comp Cons by (simp add: andThen_Inr)
  qed
qed

lemma drive_failure:
  assumes "state_ok (length acs) st" and "0 \<le> currentlyExecuting st" and "\<not> es_compensating st"
    and "wanted s False (acs ! nat (currentlyExecuting st))"
    and "todo acs s st = js" and "length oks \<le> length js"
    and "\<And>m. m \<in> set oks \<union> set cs \<Longrightarrow> is_reply SUCCESS m" and "is_reply FAILURE f"
    and "i = (nat (currentlyExecuting st) # js) ! length oks" and "length cs = length (undo acs s i)"
  shows "drive S (map plain_step acs) (encodeExecutionState st) (oks @ f # cs) s =
    (Inr (map (sends acs s False) (take (length oks) js) @ map (sends acs s True) (undo acs s i)
      @ [makeEndStateSagaActions (startCompensating st)]), s)"
  using assms
proof (induction oks arbitrary: st js)
  case Nil
  then show ?case using drive_compensations [of acs st s f cs S] by simp
next
  case (Cons m oks)
  then obtain j js' where js: "js = j # js'" by (cases js) auto
  have td: "todo acs s st = j # js'" using Cons.prems(5) js by simp
  note j = todo_Cons [OF td]
  have lt: "currentlyExecuting st < int (length acs)"
    using Cons.prems(1) by (simp add: state_ok_def)
  have w: "wanted s (es_compensating st) (acs ! nat (currentlyExecuting st))"
    using Cons.prems(3,4) by simp
  have "is_reply SUCCESS m" using Cons.prems(7) by simp
  from handleReply_plain [OF Cons.prems(2) lt w this]
  have step: "handleReply S (map plain_step acs) (encodeExecutionState st) m s =
      (Inr (sends acs s False j), s)"
    using executeNextStep_todo [OF Cons.prems(1), of s] td Cons.prems(3) by simp
  let ?st = "at_step st j"
  have "state_ok (length acs) ?st" "0 \<le> currentlyExecuting ?st" "\<not> es_compensating ?st"
    "wanted s False (acs ! nat (currentlyExecuting ?st))"
    using j Cons.prems(3) by (simp_all add: state_ok_def at_step_def)
  from Cons.IH [OF this j(1)] Cons.prems(6-10) js
  have "drive S (map plain_step acs) (encodeExecutionState ?st) (oks @ f # cs) s =
    (Inr (map (sends acs s False) (take (length oks) js') @ map (sends acs s True) (undo acs s i)
      @ [makeEndStateSagaActions (startCompensating st)]), s)"
    by (simp add: at_step_def makeEndStateSagaActions_def startCompensating_def)
  moreover have "sa_updatedState (sends acs s False j) = Some (encodeExecutionState ?st)"
    using Cons.prems(3) by (simp add: sends_def at_step_def)
  ultimately show ?case
    using step js by (simp add: andThen_Inr)
qed

section \<open>From the start\<close>

definition actions_todo :: "('s plain \<times> 's plain) list \<Rightarrow> 's \<Rightarrow> nat list" where
  "actions_todo acs s = filter (\<lambda>j. wanted s False (acs ! j)) [0..<length acs]"

lemma todo_start: "todo acs s new_SagaExecutionState = actions_todo acs s"
  by (simp add: todo_def actions_todo_def candidates_def new_SagaExecutionState_def)

lemma start_plain:
  "start (map plain_step acs) s = (case actions_todo acs s of
      [] \<Rightarrow> (Inr (makeEndStateSagaActions new_SagaExecutionState), s)
    | j # _ \<Rightarrow> (Inr (sends acs s False j), s))"
proof -
  have "state_ok (length acs) new_SagaExecutionState" "es_compensating new_SagaExecutionState = False"
    by (simp_all add: state_ok_def new_SagaExecutionState_def)
  then show ?thesis
    using executeNextStep_todo [of acs new_SagaExecutionState s]
    by (cases "actions_todo acs s") (simp_all add: start_def todo_start)
qed

lemma started_at:
  assumes "actions_todo acs s = j # js"
  defines "st \<equiv> at_step new_SagaExecutionState j"
  shows "state_ok (length acs) st" and "0 \<le> currentlyExecuting st" and "\<not> es_compensating st"
    and "wanted s False (acs ! nat (currentlyExecuting st))" and "todo acs s st = js"
    and "sa_updatedState (sends acs s False j) = Some (encodeExecutionState st)"
proof -
  have td: "todo acs s new_SagaExecutionState = j # js"
    using assms(1) by (simp add: todo_start)
  note t = todo_Cons [OF td]
  have c: "\<not> es_compensating new_SagaExecutionState"
    by (simp add: new_SagaExecutionState_def)
  show "state_ok (length acs) st" "0 \<le> currentlyExecuting st" "\<not> es_compensating st"
    "wanted s False (acs ! nat (currentlyExecuting st))" "todo acs s st = js"
    using t c by (simp_all add: st_def state_ok_def at_step_def)
  show "sa_updatedState (sends acs s False j) = Some (encodeExecutionState st)"
    using c by (simp add: sends_def st_def at_step_def)
qed

lemma run_completes:
  assumes "length ms = length (actions_todo acs s)"
    and "\<And>m. m \<in> set ms \<Longrightarrow> is_reply SUCCESS m"
  shows "run_saga S (map plain_step acs) ms s =
    (Inr (map (sends acs s False) (actions_todo acs s)
      @ [makeEndStateSagaActions new_SagaExecutionState]), s)"
proof (cases "actions_todo acs s")
  case Nil
  then show ?thesis
    using assms(1) start_plain [of acs s] by (simp add: run_saga_def andThen_Inr)
next
  case (Cons j js)
  note st = started_at [OF Cons]
  have "drive S (map plain_step acs) (encodeExecutionState (at_step new_SagaExecutionState j)) ms s =
      (Inr (map (sends acs s False) js @ [makeEndStateSagaActions new_SagaExecutionState]), s)"
    using drive_success [OF st(1,2) _ st(5), of ms S] st(3,4) assms Cons
    by (simp add: at_step_def makeEndStateSagaActions_def)
  then show ?thesis
    using start_plain [of acs s] st(6) Cons by (simp add: run_saga_def andThen_Inr)
qed

lemma run_rolls_back:
  assumes "length oks < length (actions_todo acs s)"
    and "\<And>m. m \<in> set oks \<union> set cs \<Longrightarrow> is_reply SUCCESS m" and "is_reply FAILURE f"
    and "length cs = length (undo acs s (actions_todo acs s ! length oks))"
  shows "run_saga S (map plain_step acs) (oks @ f # cs) s =
    (Inr (map (sends acs s False) (take (Suc (length oks)) (actions_todo acs s))
      @ map (sends acs s True) (undo acs s (actions_todo acs s ! length oks))
      @ [makeEndStateSagaActions (startCompensating new_SagaExecutionState)]), s)"
proof (cases "actions_todo acs s")
  case Nil
  then show ?thesis using assms(1) by simp
next
  case (Cons j js)
  note st = started_at [OF Cons]
  let ?st = "at_step new_SagaExecutionState j"
  have "nat (currentlyExecuting ?st) = j" by (simp add: at_step_def)
  then have "drive S (map plain_step acs) (encodeExecutionState ?st) (oks @ f # cs) s =
    (Inr (map (sends acs s False) (take (length oks) js)
      @ map (sends acs s True) (undo acs s (actions_todo acs s ! length oks))
      @ [makeEndStateSagaActions (startCompensating ?st)]), s)"
    using drive_failure [OF st(1-5), of oks cs f _ S] assms Cons by simp
  then show ?thesis
    using start_plain [of acs s] st(6) Cons
    by (simp add: run_saga_def andThen_Inr makeEndStateSagaActions_def startCompensating_def)
qed

text \<open>
  C5: A saga whose participants all reply with success sends the commands of its actions, each
  once and in the order of the steps (the steps whose predicate rejects the action left out),
  and ends, not compensating.
\<close>

theorem saga_completes:
  assumes "length ms = length (actions_todo acs s)"
    and "\<And>m. m \<in> set ms \<Longrightarrow> is_reply SUCCESS m"
  shows "run_saga S (map plain_step acs) ms s =
    (Inr (map (sends acs s False) (actions_todo acs s)
      @ [makeEndStateSagaActions new_SagaExecutionState]), s)"
  using assms by (rule run_completes)

definition sample_plan :: "(unit plain \<times> unit plain) list" where
  "sample_plan =
     [(None, Some (\<lambda>_. True, \<lambda>_. sample_command ''orders'' ''RejectOrder'')),
      (Some (\<lambda>_. True, \<lambda>_. sample_command ''customers'' ''ReserveCredit''),
       Some (\<lambda>_. True, \<lambda>_. sample_command ''customers'' ''ReleaseCredit'')),
      (Some (\<lambda>_. False, \<lambda>_. sample_command ''audit'' ''Audit''), None),
      (Some (\<lambda>_. True, \<lambda>_. sample_command ''orders'' ''ApproveOrder''), None)]"

lemma is_reply_sample: "is_reply out (sample_reply out)"
  by (simp add: is_reply_def filled_sample_reply)

lemma sample_plan_todo:
  "actions_todo sample_plan () = [1, 3]" "undo sample_plan () 3 = [1, 0]" "undo sample_plan () 1 = [0]"
  by (simp_all add: actions_todo_def undo_def sample_plan_def wanted_def side_def upt_rec
      nth_Cons')

lemma saga_completes_witness:
  "run_saga sample_serializer (map plain_step sample_plan) [sample_reply SUCCESS, sample_reply SUCCESS] () =
    (Inr (map (sends sample_plan () False) [1, 3] @ [makeEndStateSagaActions new_SagaExecutionState]), ())"
  using saga_completes [of "[sample_reply SUCCESS, sample_reply SUCCESS]" sample_plan "()" sample_serializer]
  by (auto simp: sample_plan_todo is_reply_sample)

text \<open>
  C6: When the reply to the action with position \<open>length oks\<close> is a failure, the saga sends no
  further action: it sends the compensations of the steps before the failed one, each once, in
  reverse order (again those whose predicate holds), and ends compensating.
\<close>

theorem saga_rolls_back:
  assumes "length oks < length (actions_todo acs s)"
    and "\<And>m. m \<in> set oks \<union> set cs \<Longrightarrow> is_reply SUCCESS m" and "is_reply FAILURE f"
    and "length cs = length (undo acs s (actions_todo acs s ! length oks))"
  shows "run_saga S (map plain_step acs) (oks @ f # cs) s =
    (Inr (map (sends acs s False) (take (Suc (length oks)) (actions_todo acs s))
      @ map (sends acs s True) (undo acs s (actions_todo acs s ! length oks))
      @ [makeEndStateSagaActions (startCompensating new_SagaExecutionState)]), s)"
  using assms by (rule run_rolls_back)

lemma saga_rolls_back_witness:
  "run_saga sample_serializer (map plain_step sample_plan)
      [sample_reply SUCCESS, sample_reply FAILURE, sample_reply SUCCESS, sample_reply SUCCESS] () =
    (Inr (map (sends sample_plan () False) [1, 3] @ map (sends sample_plan () True) [1, 0]
      @ [makeEndStateSagaActions (startCompensating new_SagaExecutionState)]), ())"
  using saga_rolls_back [of "[sample_reply SUCCESS]" sample_plan "()"
      "[sample_reply SUCCESS, sample_reply SUCCESS]" "sample_reply FAILURE" sample_serializer]
  by (auto simp: sample_plan_todo is_reply_sample)

text \<open>
  C17: The failure of a compensation is not compensated: the reply is rejected with an
  \<open>UnsupportedOperationException\<close> and nothing is changed.
\<close>

theorem failed_compensation_rejected:
  assumes "0 \<le> i" and "i < int (length acs)" and "wanted s True (acs ! nat i)"
    and "is_reply FAILURE m"
  shows "handleReply S (map plain_step acs) (encodeExecutionState
      \<lparr>currentlyExecuting = i, es_compensating = True, es_endState = False\<rparr>) m s =
    (Inl (UnsupportedOperationException ''Failure when compensating''), s)"
  using handleReply_plain [of "\<lparr>currentlyExecuting = i, es_compensating = True, es_endState = False\<rparr>"
      acs s FAILURE m S] assms by simp

lemma failed_compensation_rejected_witness:
  "handleReply sample_serializer (map plain_step sample_plan) (encodeExecutionState
      \<lparr>currentlyExecuting = 0, es_compensating = True, es_endState = False\<rparr>) (sample_reply FAILURE) () =
    (Inl (UnsupportedOperationException ''Failure when compensating''), ())"
  using failed_compensation_rejected [of 0 sample_plan "()" "sample_reply FAILURE" sample_serializer]
  by (auto simp: sample_plan_def wanted_def side_def is_reply_sample)

end
