(* ===== verification/SagaManager.thy ===== *)
theory SagaManager
  imports SagaDefinition Samples
begin

text \<open>
  The manager of the instances of one saga (\<open>sagas/orchestration/saga-manager.ts\<close>), the instances
  (\<open>saga-instance.ts\<close>) and the producer of their commands (\<open>saga-command-producer.ts\<close>).

  While the manager handles a reply or creates an instance, the state of the effects is the data
  object of that saga beside the world: steps and hooks change the object in place. The
  repository, the lock manager and the broker only see the world. The manager's reference to the
  instance is threaded through as a value.
\<close>

section \<open>Instances\<close>

record destination_and_resource =
  dr_destination :: string
  dr_resource :: string

text \<open>\<open>sagaId\<close> is null until the repository has generated it.\<close>

record 'd saga_instance =
  si_sagaType :: string
  si_sagaId :: "string option"
  si_stateName :: string
  si_lastRequestId :: "string option"
  si_sagaDataType :: string
  si_sagaData :: 'd
  si_destinationsAndResources :: "destination_and_resource list"
  si_endState :: bool
  si_compensating :: bool

definition new_SagaInstance ::
    "string \<Rightarrow> string option \<Rightarrow> string \<Rightarrow> string option \<Rightarrow> string \<Rightarrow> 'd \<Rightarrow> 'd saga_instance" where
  "new_SagaInstance sagaType sagaId stateName lastRequestId sagaDataType sagaData =
     \<lparr>si_sagaType = sagaType, si_sagaId = sagaId, si_stateName = stateName,
      si_lastRequestId = lastRequestId, si_sagaDataType = sagaDataType, si_sagaData = sagaData,
      si_destinationsAndResources = [], si_endState = False, si_compensating = False\<rparr>"

definition null_text :: "string option \<Rightarrow> string" where
  "null_text v = (case v of None \<Rightarrow> ''null'' | Some s \<Rightarrow> s)"

section \<open>Headers of a saga\<close>

definition SAGA_TYPE :: string where "SAGA_TYPE = COMMAND_HEADER_PREFIX @ ''saga_type''"
definition SAGA_ID :: string where "SAGA_ID = COMMAND_HEADER_PREFIX @ ''saga_id''"
definition REPLY_SAGA_TYPE :: string where "REPLY_SAGA_TYPE = replied SAGA_TYPE"
definition REPLY_SAGA_ID :: string where "REPLY_SAGA_ID = replied SAGA_ID"
definition REPLY_LOCKED :: string where "REPLY_LOCKED = ''saga_locked_target''"

lemmas saga_header_defs =
  SAGA_TYPE_def SAGA_ID_def REPLY_SAGA_TYPE_def REPLY_SAGA_ID_def REPLY_LOCKED_def replied_def

lemma saga_reply_headers_inReply:
  "inReply SAGA_TYPE = Inr REPLY_SAGA_TYPE" "inReply SAGA_ID = Inr REPLY_SAGA_ID"
  by (simp_all add: saga_header_defs command_header_defs inReply_def headerStartsWithCommandPrefix_def)

definition saga_headers :: "string \<Rightarrow> string option \<Rightarrow> headers" where
  "saga_headers sagaType sagaId = map_set SAGA_ID (null_text sagaId) (map_set SAGA_TYPE sagaType [])"

definition SagaUnlockCommand :: jsobj where
  "SagaUnlockCommand = \<lparr>obj_class = ''SagaUnlockCommand'', obj_own = JObj []\<rparr>"

section \<open>Sending the commands of a step\<close>

text \<open>\<open>message?.id\<close> of the last command, if there was one.\<close>

fun sendCommandsFrom ::
    "serializer \<Rightarrow> 'w producer \<Rightarrow> string \<Rightarrow> string option \<Rightarrow> command_with_destination list \<Rightarrow> string \<Rightarrow>
     message option \<Rightarrow> ('w, string option) eff" where
  "sendCommandsFrom S P sagaType sagaId [] replyChannel m =
     (case m of None \<Rightarrow> ret None | Some m \<Rightarrow> lift (map_sum id Some (message_id m)))"
| "sendCommandsFrom S P sagaType sagaId (c # cs) replyChannel m =
     andThen (cmd_send S P (channel c) (the_command c) replyChannel
                (saga_headers sagaType sagaId) (resource c))
       (\<lambda>m'. sendCommandsFrom S P sagaType sagaId cs replyChannel (Some m'))"

definition sendCommands ::
    "serializer \<Rightarrow> 'w producer \<Rightarrow> string \<Rightarrow> string option \<Rightarrow> command_with_destination list \<Rightarrow> string \<Rightarrow>
     ('w, string option) eff" where
  "sendCommands S P sagaType sagaId commands replyChannel =
     sendCommandsFrom S P sagaType sagaId commands replyChannel None"

section \<open>The manager\<close>

record ('d, 'w) saga_definition =
  sd_start :: "('d \<times> 'w, saga_actions) eff"
  sd_handleReply :: "string \<Rightarrow> message \<Rightarrow> ('d \<times> 'w, saga_actions) eff"

definition nest_definition :: "serializer \<Rightarrow> ('d \<times> 'w) saga_step list \<Rightarrow> ('d, 'w) saga_definition" where
  "nest_definition S steps = \<lparr>sd_start = start steps, sd_handleReply = handleReply S steps\<rparr>"

record ('d, 'w) instance_repository =
  findInstance :: "string \<Rightarrow> string \<Rightarrow> ('w, 'd saga_instance option) eff"
  saveInstance :: "'d saga_instance \<Rightarrow> ('w, 'd saga_instance) eff"
  updateInstance :: "'d saga_instance \<Rightarrow> ('w, unit) eff"

text \<open>A saga (\<open>saga.ts\<close>): its class, its definition, and the hooks it may have.\<close>

record ('d, 'w) saga =
  sagaClass :: string
  sagaDefinition :: "('d, 'w) saga_definition option"
  onStarting :: "(string option \<Rightarrow> ('d \<times> 'w, unit) eff) option"
  onSagaRolledBack :: "(string option \<Rightarrow> ('d \<times> 'w, unit) eff) option"
  onSagaCompletedSuccessfully :: "(string option \<Rightarrow> ('d \<times> 'w, unit) eff) option"
  sagaDataTypeOf :: "'d \<Rightarrow> string"         \<comment> \<open>\<open>sagaData.constructor.name\<close>\<close>

record ('d, 'w) saga_manager =
  sm_saga :: "('d, 'w) saga"
  sagaInstanceRepository :: "('d, 'w) instance_repository"
  sm_producer :: "'w producer"
  sm_serializer :: serializer
  sm_claimLock :: "string \<Rightarrow> string option \<Rightarrow> string \<Rightarrow> ('w, bool) eff"

definition sm_sagaType :: "('d, 'w) saga_manager \<Rightarrow> string" where
  "sm_sagaType M = sagaClass (sm_saga M)"

text \<open>An effect on the world alone, and the reading of the data object.\<close>

definition onWorld :: "('w, 'a) eff \<Rightarrow> ('d \<times> 'w, 'a) eff" where
  "onWorld m s = (let (r, w) = m (snd s) in (r, (fst s, w)))"

definition getData :: "('d \<times> 'w, 'd) eff" where
  "getData s = (Inr (fst s), s)"

lemma onWorld_Pair [simp]: "onWorld (Pair r) = Pair r"
  by (rule ext) (simp add: onWorld_def)

definition sagaReplyChannel :: "('d, 'w) saga_manager \<Rightarrow> string" where
  "sagaReplyChannel M = sm_sagaType M @ ''-reply''"

definition sagaSubscriberId :: "('d, 'w) saga_manager \<Rightarrow> string" where
  "sagaSubscriberId M = sm_sagaType M @ ''-consumer''"

definition getSagaDefinition :: "('d, 'w) saga_manager \<Rightarrow> exn + ('d, 'w) saga_definition" where
  "getSagaDefinition M =
     (case sagaDefinition (sm_saga M) of None \<Rightarrow> Inl StateMachineEmptyException | Some sm \<Rightarrow> Inr sm)"

definition local_message :: "serializer \<Rightarrow> payload_arg \<Rightarrow> outcome \<Rightarrow> exn + message" where
  "local_message S reference out =
     (case withPayload S (TextArg ''{}'') of
        Inl e \<Rightarrow> Inl e
      | Inr b \<Rightarrow> Inr (build
          (withHeader REPLY_TYPE (constructor_name reference)
            (withHeader REPLY_OUTCOME (outcome_text out)
              (withReference (constructor_name reference) b)))))"

definition createFailureMessage :: "('d, 'w) saga_manager \<Rightarrow> exn + message" where
  "createFailureMessage M = local_message (sm_serializer M) Failure FAILURE"

definition createSuccessMessage :: "('d, 'w) saga_manager \<Rightarrow> exn + message" where
  "createSuccessMessage M = local_message (sm_serializer M) Success SUCCESS"

definition updateState :: "saga_actions \<Rightarrow> 'd saga_instance \<Rightarrow> 'd saga_instance" where
  "updateState actions inst =
     (case sa_updatedState actions of
        None \<Rightarrow> inst
      | Some st \<Rightarrow> if st = '''' then inst
          else inst\<lparr>si_stateName := st, si_endState := sa_endState actions,
                    si_compensating := sa_compensating actions\<rparr>)"

definition unlockParticipant ::
    "('d, 'w) saga_manager \<Rightarrow> string option \<Rightarrow> destination_and_resource \<Rightarrow> ('d \<times> 'w, unit) eff" where
  "unlockParticipant M sagaId dr =
     andThen (onWorld (cmd_send (sm_serializer M) (sm_producer M) (dr_destination dr)
          SagaUnlockCommand (sagaReplyChannel M)
          (map_set SAGA_TYPE (sm_sagaType M) (map_set SAGA_ID (null_text sagaId) []))
          (Some (dr_resource dr))))
       (\<lambda>_. ret ())"

definition performEndStateActions ::
    "('d, 'w) saga_manager \<Rightarrow> string option \<Rightarrow> 'd saga_instance \<Rightarrow> bool \<Rightarrow> ('d \<times> 'w, unit) eff" where
  "performEndStateActions M sagaId inst compensating =
     andThen (forEach (unlockParticipant M sagaId) (si_destinationsAndResources inst)) (\<lambda>_.
       case (if compensating then onSagaRolledBack (sm_saga M) else onSagaCompletedSuccessfully (sm_saga M)) of
         None \<Rightarrow> ret ()
       | Some hook \<Rightarrow> hook (si_sagaId inst))"

text \<open>
  One turn of \<open>processActions\<close> for actions without an exception: everything before the next reply.
\<close>

definition performActions ::
    "('d, 'w) saga_manager \<Rightarrow> 'd saga_instance \<Rightarrow> saga_actions \<Rightarrow> ('d \<times> 'w, 'd saga_instance) eff" where
  "performActions M inst actions =
     andThen (onWorld (sendCommands (sm_serializer M) (sm_producer M) (sm_sagaType M)
                (si_sagaId inst) (sa_commands actions) (sagaReplyChannel M))) (\<lambda>lastRequestId.
     andThen getData (\<lambda>d.
       let inst' = (updateState actions (inst\<lparr>si_lastRequestId := lastRequestId\<rparr>))\<lparr>si_sagaData := d\<rparr>
       in andThen (if sa_endState actions
                   then performEndStateActions M (si_sagaId inst') inst' (sa_compensating actions)
                   else ret ()) (\<lambda>_.
          andThen getData (\<lambda>d'.
            let inst'' = inst'\<lparr>si_sagaData := d'\<rparr>
            in andThen (onWorld (updateInstance (sagaInstanceRepository M) inst'')) (\<lambda>_.
               ret inst'')))))"

definition replyLocally ::
    "('d, 'w) saga_manager \<Rightarrow> saga_actions \<Rightarrow> exn + message \<Rightarrow> ('d \<times> 'w, saga_actions) eff" where
  "replyLocally M actions reply =
     andThen (lift (getSagaDefinition M)) (\<lambda>sm.
     andThen (lift reply) (\<lambda>m.
       sd_handleReply sm (text_of (sa_updatedState actions)) m))"

partial_function (option) processActions ::
    "('d, 'w) saga_manager \<Rightarrow> 'd saga_instance \<Rightarrow> saga_actions \<Rightarrow> 'd \<times> 'w \<Rightarrow>
     ((exn + 'd saga_instance) \<times> ('d \<times> 'w)) option" where
  "processActions M inst actions s =
     (case sa_localException actions of
        Some _ \<Rightarrow>
          (case replyLocally M actions (createFailureMessage M) s of
             (Inl e, s') \<Rightarrow> Some (Inl e, s')
           | (Inr actions', s') \<Rightarrow> processActions M inst actions' s')
      | None \<Rightarrow>
          (case performActions M inst actions s of
             (Inl e, s') \<Rightarrow> Some (Inl e, s')
           | (Inr inst', s') \<Rightarrow>
               if \<not> sa_local actions then Some (Inr inst', s')
               else (case replyLocally M actions (createSuccessMessage M) s' of
                       (Inl e, s'') \<Rightarrow> Some (Inl e, s'')
                     | (Inr actions', s'') \<Rightarrow> processActions M inst' actions' s'')))"

text \<open>A call of a function that may not return, in the middle of an effect.\<close>

type_synonym ('w, 'a) peff = "'w \<Rightarrow> ((exn + 'a) \<times> 'w) option"

definition thenLoop :: "('w, 'a) eff \<Rightarrow> ('a \<Rightarrow> ('w, 'b) peff) \<Rightarrow> ('w, 'b) peff" where
  "thenLoop m f w = (case m w of (Inl e, w') \<Rightarrow> Some (Inl e, w') | (Inr a, w') \<Rightarrow> f a w')"

definition isReplyForThisSagaType :: "('d, 'w) saga_manager \<Rightarrow> message \<Rightarrow> bool" where
  "isReplyForThisSagaType M m = (getHeader m REPLY_SAGA_TYPE '''' = sm_sagaType M)"

text \<open>
  The reply is handled by the instance the repository finds. A property of no instance
  is a \<open>TypeError\<close>, at the first one that is read.
\<close>

definition addLockedParticipant ::
    "message \<Rightarrow> 'd saga_instance option \<Rightarrow> exn + 'd saga_instance option" where
  "addLockedParticipant m inst =
     (let lockedTarget = getHeader m REPLY_LOCKED ''''
      in if lockedTarget = '''' then Inr inst
         else (case inReply DESTINATION of
             Inl e \<Rightarrow> Inl e
           | Inr name \<Rightarrow> (case getRequiredHeader m name of
                 Inl e \<Rightarrow> Inl e
               | Inr destination \<Rightarrow> (case inst of
                     None \<Rightarrow> Inl TypeError
                   | Some i \<Rightarrow> Inr (Some (i\<lparr>si_destinationsAndResources :=
                       si_destinationsAndResources i @
                         [\<lparr>dr_destination = destination, dr_resource = lockedTarget\<rparr>]\<rparr>))))))"

definition handleInstanceReply ::
    "('d, 'w) saga_manager \<Rightarrow> 'd saga_instance \<Rightarrow> ('d, 'w) saga_definition \<Rightarrow> message \<Rightarrow> ('w, unit) peff" where
  "handleInstanceReply M i sm m w =
     (case thenLoop (sd_handleReply sm (si_stateName i) m) (processActions M i) (si_sagaData i, w) of
        None \<Rightarrow> None
      | Some (r, (_, w')) \<Rightarrow> Some (map_sum id (\<lambda>_. ()) r, w'))"

definition sm_handleReply :: "('d, 'w) saga_manager \<Rightarrow> message \<Rightarrow> ('w, unit) peff" where
  "sm_handleReply M m =
     (if \<not> isReplyForThisSagaType M m then (\<lambda>w. Some (Inr (), w))
      else thenLoop
        (andThen (lift (getRequiredHeader m REPLY_SAGA_ID)) (\<lambda>sagaId.
         andThen (lift (getRequiredHeader m REPLY_SAGA_TYPE)) (\<lambda>sagaType.
         andThen (findInstance (sagaInstanceRepository M) sagaType sagaId) (\<lambda>found.
         andThen (lift (addLockedParticipant m found)) (\<lambda>inst.
         andThen (lift (getSagaDefinition M)) (\<lambda>sm.
           case inst of None \<Rightarrow> throw TypeError | Some i \<Rightarrow> ret (i, sm)))))))
        (\<lambda>(i, sm). handleInstanceReply M i sm m))"

definition sm_handleMessage :: "('d, 'w) saga_manager \<Rightarrow> message \<Rightarrow> ('w, unit) peff" where
  "sm_handleMessage M m =
     thenLoop (lift (toString m)) (\<lambda>_.
       if hasHeader m REPLY_SAGA_ID then sm_handleReply M m
       else thenLoop (lift (toString m)) (\<lambda>_ w. Some (Inr (), w)))"

definition createInstance ::
    "('d, 'w) saga_manager \<Rightarrow> lock_arg \<Rightarrow> lock_arg \<Rightarrow> ('d \<times> 'w, 'd saga_instance \<times> saga_actions) eff" where
  "createInstance M targetType targetId =
     (let resource = new_LockTarget targetType targetId
      in andThen getData (\<lambda>sagaData.
         andThen (onWorld (saveInstance (sagaInstanceRepository M)
            (new_SagaInstance (sm_sagaType M) None ''????'' None (sagaDataTypeOf (sm_saga M) sagaData) sagaData)))
           (\<lambda>inst.
         andThen (case onStarting (sm_saga M) of None \<Rightarrow> ret () | Some hook \<Rightarrow> hook (si_sagaId inst)) (\<lambda>_.
         andThen (if resource = '''' then ret True
                  else onWorld (sm_claimLock M (sm_sagaType M) (si_sagaId inst) resource)) (\<lambda>claimed.
           if \<not> claimed then throw CannotClaimResourceLockException
           else andThen (lift (getSagaDefinition M)) (\<lambda>sm.
                andThen (sd_start sm) (\<lambda>actions.
                  case sa_localException actions of
                    Some e \<Rightarrow> throw e
                  | None \<Rightarrow> ret (inst, actions))))))))"

definition sm_create ::
    "('d, 'w) saga_manager \<Rightarrow> lock_arg \<Rightarrow> lock_arg \<Rightarrow> ('d \<times> 'w, 'd saga_instance) peff" where
  "sm_create M targetType targetId =
     thenLoop (createInstance M targetType targetId) (\<lambda>(inst, actions). processActions M inst actions)"

text \<open>
  A consumer is given a handler that returns: \<open>returning\<close> is the value the promise resolves to,
  which exists by the termination of the loop over local steps, below.
\<close>

definition returning :: "('w, 'a) peff \<Rightarrow> ('w, 'a) eff" where
  "returning m w = (case m w of Some r \<Rightarrow> r)"

definition subscribeToReplyChannel ::
    "('c, 'w) message_consumer \<Rightarrow> ('d, 'w) saga_manager \<Rightarrow> ('c, 'w) convoy_consumer \<Rightarrow>
     ('c \<Rightarrow> 'c) \<times> ('c, 'w) convoy_consumer" where
  "subscribeToReplyChannel T M C =
     subscribe T (sagaSubscriberId M) [sagaReplyChannel M] (\<lambda>m. returning (sm_handleMessage M m)) None C"

section \<open>The managers of an application\<close>

record ('d, 'w) manager_factory =
  mf_repository :: "('d, 'w) instance_repository"
  mf_producer :: "'w producer"
  mf_serializer :: serializer
  mf_claimLock :: "string \<Rightarrow> string option \<Rightarrow> string \<Rightarrow> ('w, bool) eff"

definition mf_create :: "('d, 'w) manager_factory \<Rightarrow> ('d, 'w) saga \<Rightarrow> ('d, 'w) saga_manager" where
  "mf_create F sg =
     \<lparr>sm_saga = sg, sagaInstanceRepository = mf_repository F, sm_producer = mf_producer F,
      sm_serializer = mf_serializer F, sm_claimLock = mf_claimLock F\<rparr>"

definition createSagaManager ::
    "('c, 'w) message_consumer \<Rightarrow> ('d, 'w) manager_factory \<Rightarrow> ('d, 'w) saga \<Rightarrow> ('c, 'w) convoy_consumer \<Rightarrow>
     ('d, 'w) saga_manager \<times> ('c, 'w) convoy_consumer" where
  "createSagaManager T F sg C =
     (let M = mf_create F sg in (M, snd (subscribeToReplyChannel T M C)))"

text \<open>The managers by the class of their saga; the sagas are those the explorer finds.\<close>

fun createSagaManagers ::
    "('c, 'w) message_consumer \<Rightarrow> ('d, 'w) manager_factory \<Rightarrow> ('d, 'w) saga list \<Rightarrow> ('c, 'w) convoy_consumer \<Rightarrow>
     (string \<times> ('d, 'w) saga_manager) list \<times> ('c, 'w) convoy_consumer" where
  "createSagaManagers T F [] C = ([], C)"
| "createSagaManagers T F (sg # sgs) C =
     (let (M, C1) = createSagaManager T F sg C; (Ms, C2) = createSagaManagers T F sgs C1
      in ((sagaClass sg, M) # Ms, C2))"

definition onModuleInit ::
    "('c, 'w) message_consumer \<Rightarrow> ('d, 'w) manager_factory \<Rightarrow> ('d, 'w) saga list \<Rightarrow> ('c, 'w) convoy_consumer \<Rightarrow>
     (string, ('d, 'w) saga_manager) jsmap \<times> ('c, 'w) convoy_consumer" where
  "onModuleInit T F sagas C =
     (let (Ms, C') = createSagaManagers T F sagas C in (map_from Ms, C'))"

definition factory_create ::
    "(string, ('d, 'w) saga_manager) jsmap \<Rightarrow> string \<Rightarrow> ('d \<times> 'w, 'd saga_instance) peff" where
  "factory_create managers sagaType =
     (case map_get managers sagaType of
        None \<Rightarrow> (\<lambda>s. Some (Inl (MissingSagaManagerException sagaType), s))
      | Some M \<Rightarrow> sm_create M LockUndefined LockUndefined)"

section \<open>The loop over local steps returns\<close>

context saga_contract
begin

lemma processActions_returns:
  assumes "sagaDefinition (sm_saga M) = Some sd" and "sd_handleReply sd = reply_saga"
    and "actions_ok a"
  shows "\<exists>r. processActions M inst a s = Some r"
  using assms(3)
proof (induction "actions_rank a" arbitrary: a inst s rule: less_induct)
  case less
  have reply: "replyLocally M a reply s = (Inr a', s') \<Longrightarrow> sa_local a \<Longrightarrow>
      actions_ok a' \<and> actions_rank a' < actions_rank a" for reply s a' s'
  proof -
    assume "replyLocally M a reply s = (Inr a', s')" and l: "sa_local a"
    then obtain m where m: "reply_saga (text_of (sa_updatedState a)) m s = (Inr a', s')"
      using assms(1,2) by (auto simp: replyLocally_def getSagaDefinition_def andThen_eq_Inr)
    obtain st where st: "sa_updatedState a = Some st"
      using less.prems l by (auto simp: actions_ok_def)
    then have "actions_rank a = Suc (rank st)"
      using l by (simp add: actions_rank_def)
    then show "actions_ok a' \<and> actions_rank a' < actions_rank a"
      using reply_ok m st by (fastforce simp: text_of_def)
  qed
  have l: "sa_localException a \<noteq> None \<Longrightarrow> sa_local a"
    using less.prems by (simp add: actions_ok_def)
  have again: "\<exists>r. (case replyLocally M a reply s of
        (Inl e, s') \<Rightarrow> Some (Inl e, s')
      | (Inr a', s') \<Rightarrow> processActions M inst a' s') = Some r"
    if "sa_local a" for reply s inst
  proof -
    obtain r s' where "replyLocally M a reply s = (r, s')" by (rule prod.exhaust)
    then show ?thesis
      using less.hyps reply that by (cases r) auto
  qed
  show ?case
  proof (cases "sa_localException a")
    case (Some e)
    then show ?thesis
      using again l by (subst processActions.simps) simp
  next
    case None
    obtain r s' where "performActions M inst a s = (r, s')" by (rule prod.exhaust)
    then show ?thesis
      using again None by (subst processActions.simps) (cases r; cases "sa_local a"; simp)
  qed
qed

lemma handleMessage_returns:
  assumes "sagaDefinition (sm_saga M) = Some sd" and "sd_handleReply sd = reply_saga"
  shows "\<exists>r. sm_handleMessage M m w = Some r"
proof -
  have "\<exists>r. thenLoop (sd_handleReply sd st m) (processActions M i) s = Some r" for st i s
    using processActions_returns [OF assms] reply_ok assms(2)
    by (auto simp: thenLoop_def split: prod.splits sum.splits)
  then have i: "\<exists>r. handleInstanceReply M i sd m w = Some r" for i w
    unfolding handleInstanceReply_def by (metis (mono_tags, lifting) option.simps(5) prod.exhaust_sel split_beta)
  have "\<exists>r. sm_handleReply M m w = Some r" for w
    using i assms(1)
    by (auto simp: sm_handleReply_def thenLoop_def andThen_def getSagaDefinition_def
        split: prod.splits sum.splits option.splits)
  then show ?thesis
    by (auto simp: sm_handleMessage_def thenLoop_def split: prod.splits sum.splits)
qed

lemma create_returns:
  assumes "sagaDefinition (sm_saga M) = Some sd" and "sd_handleReply sd = reply_saga"
    and "sd_start sd = begin_saga"
  shows "\<exists>r. sm_create M targetType targetId s = Some r"
proof -
  have "actions_ok actions" if "createInstance M targetType targetId s = (Inr (inst, actions), s')" for inst actions s'
    using that assms(1,3) begin_ok
    by (auto simp: createInstance_def Let_def andThen_eq_Inr getSagaDefinition_def
        split: if_splits option.splits)
  then show ?thesis
    using processActions_returns [OF assms(1,2)]
    by (auto simp: sm_create_def thenLoop_def split: prod.splits sum.splits)
qed

end

lemma nest_definition_simps [simp]:
  "sd_start (nest_definition S steps) = start steps"
  "sd_handleReply (nest_definition S steps) = handleReply S steps"
  by (simp_all add: nest_definition_def)

text \<open>
  C12: Whatever the steps of a saga do, the manager of a saga defined with \<open>NestSagaDefinition\<close> comes
  to an end with every message and every new instance: its \<open>while (true)\<close> over local steps does not
  run forever, because every local step moves the execution state towards the end of the saga.
\<close>

theorem manager_returns:
  assumes "sagaDefinition (sm_saga M) = Some (nest_definition S steps)"
  shows "(\<exists>r. sm_handleMessage M m w = Some r) \<and> (\<exists>r. sm_create M targetType targetId s = Some r)"
  using nest_saga.handleMessage_returns [OF assms] nest_saga.create_returns [OF assms] by simp

section \<open>Commands and replies of a saga\<close>

definition saga_message ::
    "serializer \<Rightarrow> string \<Rightarrow> string option \<Rightarrow> string \<Rightarrow> command_with_destination \<Rightarrow> message" where
  "saga_message S sagaType sagaId replyChannel c =
     command_message S (channel c) (the_command c) replyChannel (saga_headers sagaType sagaId) (resource c)"

lemma saga_headers_wf [simp, intro]: "map_wf (saga_headers sagaType sagaId)"
  unfolding saga_headers_def by (intro map_wf_set map_wf_Nil)

lemma saga_headers_get:
  "map_get (saga_headers sagaType sagaId) k =
     (if k = SAGA_ID then Some (null_text sagaId) else if k = SAGA_TYPE then Some sagaType else None)"
  by (simp add: saga_headers_def del: update.simps)

lemma saga_message_headers:
  "map_get (headers (saga_message S ty sid ch c)) SAGA_TYPE = Some ty"
  "map_get (headers (saga_message S ty sid ch c)) SAGA_ID = Some (null_text sid)"
  "map_get (headers (saga_message S ty sid ch c)) REPLY_TO = Some ch"
  "map_get (headers (saga_message S ty sid ch c)) COMMAND_TYPE = Some (obj_class (the_command c))"
  unfolding saga_message_def
  by (simp_all add: command_message_headers saga_headers_get)
    (simp_all add: saga_header_defs command_header_defs)

lemma cmd_send_saga:
  "cmd_send S P (channel c) (the_command c) ch (saga_headers ty sid) (resource c) =
     andThen (sendBatch P (channel c) [saga_message S ty sid ch c] False) (\<lambda>ms. ret (hd ms))"
  by (simp add: cmd_send_def cmd_sendBatch_eq saga_message_def)

lemma sendCommandsFrom_eq:
  "sendCommandsFrom S P ty sid cs ch m w =
     (case mapEff (\<lambda>c. sendBatch P (channel c) [saga_message S ty sid ch c] False) cs w of
        (Inl e, w') \<Rightarrow> (Inl e, w')
      | (Inr batches, w') \<Rightarrow>
          (case (if batches = [] then m else Some (hd (last batches))) of
             None \<Rightarrow> Inr None | Some l \<Rightarrow> map_sum id Some (message_id l), w'))"
proof (induction cs arbitrary: m w)
  case Nil
  then show ?case by (simp split: option.split)
next
  case (Cons c cs)
  show ?case
    by (simp add: cmd_send_saga andThen_assoc Cons.IH andThen_def split: prod.split sum.split)
qed

text \<open>
  The commands of a step are sent one after the other, each in a batch of its own to its own
  channel, as messages that carry the type and the identifier of the saga, the channel for the
  reply and the type of the command; the identifier of the last message is kept. The extra headers
  a command was built with are not sent: the messages do not depend on them.
\<close>

lemma sendCommands_spec:
  "sendCommands S P ty sid cs ch w =
     (case mapEff (\<lambda>c. sendBatch P (channel c) [saga_message S ty sid ch c] False) cs w of
        (Inl e, w') \<Rightarrow> (Inl e, w')
      | (Inr batches, w') \<Rightarrow>
          (if batches = [] then Inr None else map_sum id Some (message_id (hd (last batches))), w'))
   \<and> map_get (headers (saga_message S ty sid ch c)) SAGA_TYPE = Some ty
   \<and> map_get (headers (saga_message S ty sid ch c)) SAGA_ID = Some (null_text sid)
   \<and> map_get (headers (saga_message S ty sid ch c)) REPLY_TO = Some ch
   \<and> map_get (headers (saga_message S ty sid ch c)) COMMAND_TYPE = Some (obj_class (the_command c))
   \<and> saga_message S ty sid ch (c\<lparr>extraHeaders := h\<rparr>) = saga_message S ty sid ch c"
proof -
  have "sendCommands S P ty sid cs ch w =
     (case mapEff (\<lambda>c. sendBatch P (channel c) [saga_message S ty sid ch c] False) cs w of
        (Inl e, w') \<Rightarrow> (Inl e, w')
      | (Inr batches, w') \<Rightarrow>
          (if batches = [] then Inr None else map_sum id Some (message_id (hd (last batches))), w'))"
    by (simp add: sendCommands_def sendCommandsFrom_eq split: prod.split sum.split)
  then show ?thesis
    by (simp add: saga_message_headers) (simp add: saga_message_def)
qed

text \<open>
  C18: The reply to a command of a saga finds its way back: whatever message a participant replies
  with, once it carries the correlation headers of the command it is a reply for the manager of
  that type of saga, for no other one, and it names the instance the command was sent for.
\<close>

theorem reply_routed_to_saga:
  assumes "map_wf (headers m)" and "map_wf (headers reply)"
    and "map_get (headers m) SAGA_TYPE = Some ty" and "map_get (headers m) SAGA_ID = Some sid"
    and "correlateMessageHeaders (headers m) = Inr c"
  shows "(isReplyForThisSagaType M (build (withExtraHeaders c (withMessage reply))) \<longleftrightarrow> sm_sagaType M = ty)
    \<and> map_get (headers (build (withExtraHeaders c (withMessage reply)))) REPLY_SAGA_ID = Some sid"
proof -
  have "REPLY_SAGA_TYPE = COMMAND_REPLY_PREFIX @ ''saga_type''" "REPLY_SAGA_ID = COMMAND_REPLY_PREFIX @ ''saga_id''"
    by (simp_all add: saga_header_defs)
  then have "map_get (correlated (headers m)) REPLY_SAGA_TYPE = Some ty"
    "map_get (correlated (headers m)) REPLY_SAGA_ID = Some sid"
    using correlated_get [OF assms(1)] assms(3,4) by (metis SAGA_TYPE_def, metis SAGA_ID_def)
  then show ?thesis
    using assms(2,5) reply_message_headers [of "correlated (headers m)" reply]
    by (auto simp: isReplyForThisSagaType_def getHeader_def reply_message_def correlateMessageHeaders_eq)
qed

text \<open>
  Sagas are created with no lock target, and the text made of that is not empty: every saga
  of every type claims the lock on the same resource \<open>undefined/undefined\<close>, and it is not created
  when another saga has it.
\<close>

lemma create_claims_undefined:
  assumes "map_get managers c = Some M" and "onStarting (sm_saga M) = None"
    and "saveInstance (sagaInstanceRepository M)
      (new_SagaInstance (sm_sagaType M) None ''????'' None (sagaDataTypeOf (sm_saga M) d) d) w = (Inr i, w1)"
    and "sm_claimLock M (sm_sagaType M) (si_sagaId i) ''undefined/undefined'' w1 = (Inr False, w2)"
  shows "factory_create managers c (d, w) = Some (Inl CannotClaimResourceLockException, (d, w2))"
  using assms
  by (simp add: factory_create_def sm_create_def createInstance_def thenLoop_def andThen_def
      getData_def onWorld_def)

section \<open>The end of a saga\<close>

definition unlock_message ::
    "('d, 'w) saga_manager \<Rightarrow> string option \<Rightarrow> destination_and_resource \<Rightarrow> message" where
  "unlock_message M sagaId dr = command_message (sm_serializer M) (dr_destination dr) SagaUnlockCommand
     (sagaReplyChannel M) (map_set SAGA_TYPE (sm_sagaType M) (map_set SAGA_ID (null_text sagaId) []))
     (Some (dr_resource dr))"

text \<open>
  When a saga ends it sends one unlock command to every participant it has recorded, in
  the order they were recorded, and then calls the hook for a rollback or for success, whichever
  fits, with the identifier of the instance.
\<close>

lemma end_state_unlocks:
  "performEndStateActions M sagaId inst compensating =
     andThen (forEach (\<lambda>dr. andThen (onWorld (andThen
         (sendBatch (sm_producer M) (dr_destination dr) [unlock_message M sagaId dr] False)
         (\<lambda>ms. ret (hd ms)))) (\<lambda>_. ret ())) (si_destinationsAndResources inst))
       (\<lambda>_. case (if compensating then onSagaRolledBack (sm_saga M)
                  else onSagaCompletedSuccessfully (sm_saga M)) of
              None \<Rightarrow> ret () | Some hook \<Rightarrow> hook (si_sagaId inst))"
proof -
  have "unlockParticipant M sagaId = (\<lambda>dr. andThen (onWorld (andThen
      (sendBatch (sm_producer M) (dr_destination dr) [unlock_message M sagaId dr] False)
      (\<lambda>ms. ret (hd ms)))) (\<lambda>_. ret ()))"
    by (rule ext) (simp add: unlockParticipant_def cmd_send_def cmd_sendBatch_eq unlock_message_def)
  then show ?thesis by (simp only: performEndStateActions_def)
qed

section \<open>A concrete manager\<close>

definition sample_steps :: "(nat \<times> broker_log) saga_step list" where
  "sample_steps =
     [LocalStep \<lparr>ls_handler = (\<lambda>(d, w). (Inr (), (d + 1, w))),
                 ls_compensation = Some (\<lambda>(d, w). (Inr False, (d - 1, w)))\<rparr>,
      ParticipantInvocationStep \<lparr>actionReplyHandlers = [], compensationReplyHandlers = [],
         participantInvocation = Some (new_ParticipantInvocation
           (ret (sample_command ''orders'' ''ApproveOrder'')) None),
         ps_compensation = None\<rparr>]"

definition sample_manager :: "bool \<Rightarrow> (nat, broker_log) saga_manager" where
  "sample_manager free =
     \<lparr>sm_saga = \<lparr>sagaClass = ''CreateOrderSaga'',
        sagaDefinition = Some (nest_definition sample_serializer sample_steps),
        onStarting = None, onSagaRolledBack = None, onSagaCompletedSuccessfully = None,
        sagaDataTypeOf = (\<lambda>_. ''Number'')\<rparr>,
      sagaInstanceRepository = \<lparr>findInstance = (\<lambda>_ _. ret None),
        saveInstance = (\<lambda>i. ret (i\<lparr>si_sagaId := Some ''1''\<rparr>)), updateInstance = (\<lambda>_. ret ())\<rparr>,
      sm_producer = sample_producer, sm_serializer = sample_serializer,
      sm_claimLock = (\<lambda>_ _ _. ret free)\<rparr>"

lemma manager_returns_witness:
  "(\<exists>r. sm_handleMessage (sample_manager True) (sample_message []) [] = Some r)
   \<and> (\<exists>r. sm_create (sample_manager True) LockUndefined LockUndefined (0, []) = Some r)"
  using manager_returns [of "sample_manager True" sample_serializer sample_steps "sample_message []" "[]"
      LockUndefined LockUndefined "(0, [])"]
  by (simp add: sample_manager_def)

lemma reply_routed_to_saga_witness:
  "\<exists>c. correlateMessageHeaders [(SAGA_TYPE, ''CreateOrderSaga''), (SAGA_ID, ''1''), (HDR_ID, ''m1'')] = Inr c
     \<and> isReplyForThisSagaType (sample_manager True) (build (withExtraHeaders c (withMessage (sample_reply SUCCESS))))
     \<and> map_get (headers (build (withExtraHeaders c (withMessage (sample_reply SUCCESS))))) REPLY_SAGA_ID = Some ''1''"
  using reply_routed_to_saga [of "sample_message [(SAGA_TYPE, ''CreateOrderSaga''), (SAGA_ID, ''1''), (HDR_ID, ''m1'')]"
      "sample_reply SUCCESS" "''CreateOrderSaga''" "''1''" _ "sample_manager True"]
  by (simp add: sample_message_def new_message_def sample_reply_def map_wf_def sample_manager_def
      sm_sagaType_def saga_header_defs command_header_defs message_header_defs correlateMessageHeaders_eq)

lemma create_claims_undefined_witness:
  "factory_create [(''CreateOrderSaga'', sample_manager False)] ''CreateOrderSaga'' (0, []) =
     Some (Inl CannotClaimResourceLockException, (0, []))"
  using create_claims_undefined [of "[(''CreateOrderSaga'', sample_manager False)]" "''CreateOrderSaga''"
      "sample_manager False" 0 "[]" _ "[]" "[]"]
  by (simp add: sample_manager_def)

end
