(* ===== verification/SagaStorage.thy ===== *)
theory SagaStorage
  imports SagaManager
begin

text \<open>
  Where sagas are kept: the repositories of instances
  (\<open>sagas/orchestration/saga-instance-repository.ts\<close>) and the lock managers
  (\<open>sagas/common/saga-lock-manager.ts\<close>), in memory and in a database.

  The tables are repositories of TypeORM: every operation the code calls on them is a parameter.
  Its documentation says that \<open>create\<close> makes an entity and does not write it to the database;
  where a theorem uses that it is a hypothesis.
\<close>

section \<open>Instances in memory\<close>

type_synonym 'd instance_store = "(string, 'd saga_instance) jsmap"

definition mem_key :: "string \<Rightarrow> string option \<Rightarrow> string" where
  "mem_key sagaType sagaId = sagaType @ ''-'' @ null_text sagaId"

definition mem_find :: "string \<Rightarrow> string \<Rightarrow> ('d instance_store \<times> 'x, 'd saga_instance option) eff" where
  "mem_find sagaType sagaId w = (Inr (map_get (fst w) (mem_key sagaType (Some sagaId))), w)"

definition mem_save :: "'d saga_instance \<Rightarrow> ('d instance_store \<times> 'x, 'd saga_instance) eff" where
  "mem_save i w = (Inr i, (map_set (mem_key (si_sagaType i) (si_sagaId i)) i (fst w), snd w))"

definition mem_update :: "'d saga_instance \<Rightarrow> ('d instance_store \<times> 'x, unit) eff" where
  "mem_update i = andThen (mem_save i) (\<lambda>_. ret ())"

definition mem_repository :: "('d, 'd instance_store \<times> 'x) instance_repository" where
  "mem_repository = \<lparr>findInstance = mem_find, saveInstance = mem_save, updateInstance = mem_update\<rparr>"

section \<open>Instances in a database\<close>

record 'd instance_entity =
  ie_sagaId :: string
  ie_sagaType :: string
  ie_stateName :: string
  ie_compensating :: bool
  ie_endState :: bool
  ie_sagaDataType :: string
  ie_sagaData :: 'd
  ie_lastRequestId :: "string option"

text \<open>The columns \<open>update\<close> is given: the instance without its key and its participants.\<close>

record 'd instance_columns =
  ic_stateName :: string
  ic_lastRequestId :: "string option"
  ic_sagaDataType :: string
  ic_sagaData :: 'd
  ic_endState :: bool
  ic_compensating :: bool

record ('d, 'w) instance_tables =
  findParticipants :: "string \<Rightarrow> string \<Rightarrow> ('w, destination_and_resource list) eff"
  participantsTransaction :: "('w, unit list) eff \<Rightarrow> ('w, unit list) eff"
  createParticipant :: "string \<Rightarrow> string option \<Rightarrow> destination_and_resource \<Rightarrow> ('w, unit) eff"
  findOneInstance :: "string \<Rightarrow> string \<Rightarrow> ('w, 'd instance_entity option) eff"
  saveEntity :: "'d saga_instance \<Rightarrow> ('w, 'd instance_entity) eff"
  updateEntity :: "string \<Rightarrow> string option \<Rightarrow> 'd instance_columns \<Rightarrow> ('w, unit) eff"

definition createDestinationsAndResources ::
    "('d, 'w) instance_tables \<Rightarrow> 'd saga_instance \<Rightarrow> ('w, unit) eff" where
  "createDestinationsAndResources T i =
     andThen (participantsTransaction T (promiseAll
        (createParticipant T (si_sagaType i) (si_sagaId i)) (si_destinationsAndResources i)))
       (\<lambda>_. ret ())"

definition findDestinationsAndResources ::
    "('d, 'w) instance_tables \<Rightarrow> string \<Rightarrow> string \<Rightarrow> ('w, destination_and_resource list) eff" where
  "findDestinationsAndResources T sagaType sagaId =
     andThen (findParticipants T sagaType sagaId) (\<lambda>ps.
       ret (map (\<lambda>p. \<lparr>dr_destination = dr_destination p, dr_resource = dr_resource p\<rparr>) ps))"

text \<open>
  The constructor takes the end state before the compensating flag; \<open>find\<close> passes the two
  columns in the other order.
\<close>

definition restored ::
    "string \<Rightarrow> string \<Rightarrow> 'd instance_entity \<Rightarrow> destination_and_resource list \<Rightarrow> 'd saga_instance" where
  "restored sagaType sagaId entity drs =
     \<lparr>si_sagaType = sagaType, si_sagaId = Some sagaId, si_stateName = ie_stateName entity,
      si_lastRequestId = ie_lastRequestId entity, si_sagaDataType = ie_sagaDataType entity,
      si_sagaData = ie_sagaData entity, si_destinationsAndResources = drs,
      si_endState = ie_compensating entity, si_compensating = ie_endState entity\<rparr>"

definition db_find ::
    "('d, 'w) instance_tables \<Rightarrow> string \<Rightarrow> string \<Rightarrow> ('w, 'd saga_instance option) eff" where
  "db_find T sagaType sagaId =
     andThen (findDestinationsAndResources T sagaType sagaId) (\<lambda>drs.
     andThen (findOneInstance T sagaType sagaId) (\<lambda>entity.
       case entity of
         None \<Rightarrow> throw (RuntimeException
           (''Cannot find saga instance '' @ sagaType @ '' '' @ sagaId))
       | Some e \<Rightarrow> ret (Some (restored sagaType sagaId e drs))))"

text \<open>\<open>Object.assign(sagaInstance, entity)\<close>\<close>

definition assign_entity :: "'d instance_entity \<Rightarrow> 'd saga_instance \<Rightarrow> 'd saga_instance" where
  "assign_entity e i = i\<lparr>si_sagaId := Some (ie_sagaId e), si_sagaType := ie_sagaType e,
     si_stateName := ie_stateName e, si_compensating := ie_compensating e,
     si_endState := ie_endState e, si_sagaDataType := ie_sagaDataType e,
     si_sagaData := ie_sagaData e, si_lastRequestId := ie_lastRequestId e\<rparr>"

definition db_save :: "('d, 'w) instance_tables \<Rightarrow> 'd saga_instance \<Rightarrow> ('w, 'd saga_instance) eff" where
  "db_save T i =
     andThen (saveEntity T i) (\<lambda>e.
     andThen (createDestinationsAndResources T i) (\<lambda>_.
       ret (assign_entity e i)))"

definition columns_of :: "'d saga_instance \<Rightarrow> 'd instance_columns" where
  "columns_of i =
     \<lparr>ic_stateName = si_stateName i, ic_lastRequestId = si_lastRequestId i,
      ic_sagaDataType = si_sagaDataType i, ic_sagaData = si_sagaData i,
      ic_endState = si_endState i, ic_compensating = si_compensating i\<rparr>"

definition db_update :: "('d, 'w) instance_tables \<Rightarrow> 'd saga_instance \<Rightarrow> ('w, unit) eff" where
  "db_update T i =
     andThen (updateEntity T (si_sagaType i) (si_sagaId i) (columns_of i)) (\<lambda>_.
       createDestinationsAndResources T i)"

definition db_repository :: "('d, 'w) instance_tables \<Rightarrow> ('d, 'w) instance_repository" where
  "db_repository T =
     \<lparr>findInstance = db_find T, saveInstance = db_save T, updateInstance = db_update T\<rparr>"

text \<open>What TypeORM documents of \<open>create\<close> and of a transaction around it.\<close>

definition creates_only :: "('d, 'w) instance_tables \<Rightarrow> bool" where
  "creates_only T \<longleftrightarrow> (\<forall>ty sid dr w. createParticipant T ty sid dr w = (Inr (), w))
     \<and> (\<forall>f w. participantsTransaction T f w = f w)"

lemma createDestinationsAndResources_nothing:
  assumes "creates_only T"
  shows "createDestinationsAndResources T i w = (Inr (), w)"
proof -
  have "promiseAll (createParticipant T ty sid) drs w = (Inr (map (\<lambda>_. ()) drs), w)" for ty sid drs w
    using assms by (induction drs) (auto simp: creates_only_def)
  then show ?thesis
    using assms by (simp add: createDestinationsAndResources_def creates_only_def andThen_def)
qed

text \<open>
  The participants that a saga has locked are lost with the activation that recorded
  them: with TypeORM's \<open>create\<close>, what \<open>update\<close> and \<open>save\<close> write does not depend on them.
\<close>

lemma participants_not_stored:
  assumes "creates_only T"
  shows "db_update T (i\<lparr>si_destinationsAndResources := drs\<rparr>) w = db_update T i w
    \<and> db_update T i w = updateEntity T (si_sagaType i) (si_sagaId i) (columns_of i) w"
  using createDestinationsAndResources_nothing [OF assms]
  by (auto simp: db_update_def columns_of_def andThen_def split: prod.split sum.split)

text \<open>
  An instance read from the database has its two flags exchanged: it is compensating when
  the stored one has ended, and ended when the stored one is compensating; the rest is as stored.
\<close>

lemma find_exchanges_flags:
  assumes "findParticipants T ty sid w = (Inr drs, w1)" and "findOneInstance T ty sid w1 = (Inr (Some e), w2)"
  shows "\<exists>i. db_find T ty sid w = (Inr (Some i), w2)
    \<and> si_endState i = ie_compensating e \<and> si_compensating i = ie_endState e
    \<and> si_stateName i = ie_stateName e \<and> si_sagaData i = ie_sagaData e
    \<and> si_lastRequestId i = ie_lastRequestId e \<and> si_destinationsAndResources i = drs"
  using assms
  by (auto simp: db_find_def findDestinationsAndResources_def andThen_def restored_def
      intro!: exI map_idI)

section \<open>Locks\<close>

definition base_claimLock :: "string \<Rightarrow> string option \<Rightarrow> string \<Rightarrow> ('w, bool) eff" where
  "base_claimLock sagaType sagaId lockTarget = ret True"

definition base_stashMessage :: "string \<Rightarrow> string \<Rightarrow> string \<Rightarrow> message \<Rightarrow> ('w, unit) eff" where
  "base_stashMessage sagaType sagaId lockTarget m = ret ()"

definition base_unlock :: "string \<Rightarrow> string \<Rightarrow> ('w, message option) eff" where
  "base_unlock sagaId lockTarget = ret None"

record saga_stash =
  ss_messageId :: string
  ss_target :: string
  ss_sagaType :: string
  ss_sagaId :: string
  ss_headers :: headers
  ss_payload :: json

record 'w lock_tables =
  createLock :: "string \<Rightarrow> string \<Rightarrow> string option \<Rightarrow> ('w, unit) eff"
  findLockOwner :: "string \<Rightarrow> ('w, string option) eff"
  deleteLock :: "string \<Rightarrow> ('w, unit) eff"
  updateLock :: "string \<Rightarrow> string \<Rightarrow> string \<Rightarrow> ('w, unit) eff"
  createStash :: "saga_stash \<Rightarrow> ('w, unit) eff"
  findStash :: "string \<Rightarrow> ('w, saga_stash option) eff"
  deleteStash :: "string \<Rightarrow> ('w, unit) eff"

definition getLockedSagaIdByTarget :: "'w lock_tables \<Rightarrow> string \<Rightarrow> ('w, string option) eff" where
  "getLockedSagaIdByTarget T lockTarget = findLockOwner T lockTarget"

partial_function (option) db_claimLock ::
    "'w lock_tables \<Rightarrow> string \<Rightarrow> string option \<Rightarrow> string \<Rightarrow> 'w \<Rightarrow> ((exn + bool) \<times> 'w) option" where
  "db_claimLock T sagaType sagaId lockTarget w =
     (case createLock T lockTarget sagaType sagaId w of
        (Inr _, w1) \<Rightarrow> Some (Inr True, w1)
      | (Inl _, w1) \<Rightarrow>
          (case getLockedSagaIdByTarget T lockTarget w1 of
             (Inl e, w2) \<Rightarrow> Some (Inl e, w2)
           | (Inr owner, w2) \<Rightarrow>
               (if owner = None \<or> owner = Some '''' then db_claimLock T sagaType sagaId lockTarget w2
                else Some (Inr (owner = sagaId), w2))))"

definition db_stashMessage ::
    "'w lock_tables \<Rightarrow> string \<Rightarrow> string \<Rightarrow> string \<Rightarrow> message \<Rightarrow> ('w, unit) eff" where
  "db_stashMessage T sagaType sagaId lockTarget m =
     andThen (lift (message_id m)) (\<lambda>messageId.
       createStash T \<lparr>ss_messageId = messageId, ss_target = lockTarget, ss_sagaType = sagaType,
         ss_sagaId = sagaId, ss_headers = fromRecord (asRecord (headers m)), ss_payload = payload m\<rparr>)"

definition db_unlock :: "'w lock_tables \<Rightarrow> string \<Rightarrow> string \<Rightarrow> ('w, message option) eff" where
  "db_unlock T sagaId lockTarget =
     andThen (getLockedSagaIdByTarget T lockTarget) (\<lambda>owner.
       if owner = None \<or> owner = Some ''''
       then throw (RuntimeException
              (''owningSagaId is not present for '' @ lockTarget @ '' '' @ sagaId))
       else if owner \<noteq> Some sagaId
       then throw (RuntimeException (''Expected owner of '' @ lockTarget @ '' to be '' @ sagaId
              @ '' but is '' @ the owner))
       else andThen (findStash T lockTarget) (\<lambda>stashed.
         case stashed of
           None \<Rightarrow> andThen (deleteLock T lockTarget) (\<lambda>_. ret None)
         | Some s \<Rightarrow>
             andThen (updateLock T lockTarget (ss_sagaType s) (ss_sagaId s)) (\<lambda>_.
             andThen (deleteStash T (ss_messageId s)) (\<lambda>_.
               ret (Some (new_message (ss_payload s) (ss_headers s)))))))"

text \<open>
  What the lock manager does when the insertion of a lock rejects: it claims the lock exactly
  when the present owner is the same saga, and tries again as long as the lock has no owner.
\<close>

lemma claimLock_rejected:
  assumes "createLock T lockTarget ty sid w = (Inl e, w1)"
    and "getLockedSagaIdByTarget T lockTarget w1 = (Inr owner, w2)"
  shows "db_claimLock T ty sid lockTarget w =
    (if owner = None \<or> owner = Some '''' then db_claimLock T ty sid lockTarget w2
     else Some (Inr (owner = sid), w2))"
  by (subst db_claimLock.simps) (simp add: assms)

text \<open>
  Only the owner unlocks. A lock that nobody waits for is deleted; otherwise it passes to the
  saga of the stashed message, which is taken from the stash and given back to be handled.
\<close>

lemma unlock_hands_over:
  assumes "getLockedSagaIdByTarget T lockTarget w = (Inr owner, w1)"
    and "findStash T lockTarget w1 = (Inr stashed, w2)"
    and "\<And>s. stashed = Some s \<Longrightarrow> updateLock T lockTarget (ss_sagaType s) (ss_sagaId s) w2 = (Inr (), w3)"
    and "\<And>s. stashed = Some s \<Longrightarrow> deleteStash T (ss_messageId s) w3 = (Inr (), w4)"
    and "stashed = None \<Longrightarrow> deleteLock T lockTarget w2 = (Inr (), w4)"
    and "sid \<noteq> ''''"
  shows "(owner = Some sid \<longrightarrow> db_unlock T sid lockTarget w =
      (Inr (map_option (\<lambda>s. new_message (ss_payload s) (ss_headers s)) stashed), w4))
    \<and> (owner \<noteq> Some sid \<longrightarrow> (\<exists>t. db_unlock T sid lockTarget w = (Inl (RuntimeException t), w1)))"
  using assms by (cases stashed) (auto simp: db_unlock_def andThen_def)

section \<open>Concrete tables\<close>

definition sample_tables :: "(nat, (nat instance_entity) option) instance_tables" where
  "sample_tables =
     \<lparr>findParticipants = (\<lambda>_ _. ret []), participantsTransaction = (\<lambda>f. f),
      createParticipant = (\<lambda>_ _ _. ret ()), findOneInstance = (\<lambda>_ _ w. (Inr w, w)),
      saveEntity = (\<lambda>i w. (let e = \<lparr>ie_sagaId = ''1'', ie_sagaType = si_sagaType i,
         ie_stateName = si_stateName i, ie_compensating = si_compensating i, ie_endState = si_endState i,
         ie_sagaDataType = si_sagaDataType i, ie_sagaData = si_sagaData i,
         ie_lastRequestId = si_lastRequestId i\<rparr> in (Inr e, Some e))),
      updateEntity = (\<lambda>_ _ _. ret ())\<rparr>"

definition sample_entity :: "nat instance_entity" where
  "sample_entity = \<lparr>ie_sagaId = ''1'', ie_sagaType = ''T'', ie_stateName = ''s'', ie_compensating = True,
     ie_endState = False, ie_sagaDataType = ''D'', ie_sagaData = 5, ie_lastRequestId = None\<rparr>"

definition sample_instance :: "nat \<Rightarrow> nat saga_instance" where
  "sample_instance d = new_SagaInstance ''T'' None ''????'' None ''D'' d"

definition sample_locks :: "string option \<Rightarrow> saga_stash option \<Rightarrow> bool \<Rightarrow> nat lock_tables" where
  "sample_locks owner stashed rejects =
     \<lparr>createLock = (\<lambda>_ _ _. if rejects then throw (ErrorException ''duplicate key'') else ret ()),
      findLockOwner = (\<lambda>_. ret owner), deleteLock = (\<lambda>_. ret ()), updateLock = (\<lambda>_ _ _. ret ()),
      createStash = (\<lambda>_. ret ()), findStash = (\<lambda>_. ret stashed), deleteStash = (\<lambda>_. ret ())\<rparr>"

lemma participants_not_stored_witness:
  "db_update sample_tables ((sample_instance 3)\<lparr>si_destinationsAndResources :=
      [\<lparr>dr_destination = ''customers'', dr_resource = ''Customer/7''\<rparr>]\<rparr>) None =
   db_update sample_tables (sample_instance 3) None"
  using participants_not_stored [of sample_tables _ "sample_instance 3" None]
  by (simp add: creates_only_def sample_tables_def)

lemma find_exchanges_flags_witness:
  "\<exists>i. db_find sample_tables ''T'' ''1'' (Some sample_entity) = (Inr (Some i), Some sample_entity)
     \<and> si_endState i \<and> \<not> si_compensating i"
  using find_exchanges_flags [of sample_tables "''T''" "''1''" "Some sample_entity" "[]"
      "Some sample_entity" sample_entity "Some sample_entity"]
  by (auto simp: sample_tables_def sample_entity_def)

lemma claimLock_rejected_witness:
  "db_claimLock (sample_locks (Some ''1'') None True) ''T'' (Some ''2'') ''Customer/7'' 0 = Some (Inr False, 0)"
  using claimLock_rejected [of "sample_locks (Some ''1'') None True" "''Customer/7''" "''T''" "Some ''2''" 0
      "ErrorException ''duplicate key''" 0 "Some ''1''" 0]
  by (simp add: sample_locks_def getLockedSagaIdByTarget_def)

definition sample_stash :: saga_stash where
  "sample_stash = \<lparr>ss_messageId = ''m9'', ss_target = ''Customer/7'', ss_sagaType = ''T'', ss_sagaId = ''2'',
     ss_headers = [(HDR_ID, ''m9'')], ss_payload = JObj []\<rparr>"

lemma unlock_hands_over_witness:
  "db_unlock (sample_locks (Some ''1'') (Some sample_stash) True) ''1'' ''Customer/7'' 0 =
     (Inr (Some (new_message (JObj []) [(HDR_ID, ''m9'')])), 0)"
  using unlock_hands_over [of "sample_locks (Some ''1'') (Some sample_stash) True" "''Customer/7''" 0
      "Some ''1''" 0 "Some sample_stash" 0 0 0 "''1''"]
  by (simp add: sample_locks_def getLockedSagaIdByTarget_def sample_stash_def)

end
