(* ===== verification/SagaRuns.thy ===== *)
theory SagaRuns
  imports SagaRefinement SagaStorage
begin

text \<open>
  A saga from its creation to its end through the manager: \<open>create\<close>, then \<open>handleMessage\<close> for every
  reply. What theory SagaRefinement shows of the definition of a saga is lifted to the manager, its
  repository of instances and its producer. The repository and the producer are an interface, which
  the repository in memory provides.
\<close>

section \<open>Steps that work on the data of their saga\<close>

text \<open>An effect whose result is determined by the data and that leaves the rest of the world alone.\<close>

definition data_only :: "('d \<times> 'w, 'a) eff \<Rightarrow> bool" where
  "data_only m \<longleftrightarrow> (\<forall>d. \<exists>r d'. \<forall>w. m (d, w) = (r, (d', w)))"

named_theorems data_only_intros

lemma data_onlyD:
  assumes "data_only m" and "m (d, w) = (r, (d', w'))"
  shows "w' = w" and "m (d, v) = (r, (d', v))"
  using assms unfolding data_only_def by (metis prod.inject)+

lemma data_only_Pair [data_only_intros]: "data_only (Pair r)"
  by (simp add: data_only_def)

lemma data_onlyE:
  assumes "data_only m"
  obtains r d' where "\<And>w. m (d, w) = (r, (d', w))"
  using assms unfolding data_only_def by meson

lemma data_only_andThen_step:
  assumes "data_only m" and "\<And>x s s'. m s = (Inr x, s') \<Longrightarrow> data_only (f x)"
  shows "data_only (andThen m f)"
  unfolding data_only_def
proof
  fix d
  obtain r d' where m: "\<And>w. m (d, w) = (r, (d', w))"
    using data_onlyE [OF assms(1), of d] by blast
  show "\<exists>r d''. \<forall>w. andThen m f (d, w) = (r, (d'', w))"
  proof (cases r)
    case (Inl e)
    then show ?thesis using m by (simp add: andThen_def)
  next
    case (Inr x)
    then have "data_only (f x)" using m assms(2) by metis
    then show ?thesis using Inr m by (simp add: andThen_def data_only_def)
  qed
qed

lemma data_only_andThen [data_only_intros]:
  "data_only m \<Longrightarrow> (\<And>x. data_only (f x)) \<Longrightarrow> data_only (andThen m f)"
  by (rule data_only_andThen_step)

lemma data_only_tryCatch [data_only_intros]:
  assumes "data_only m" and "\<And>e. data_only (h e)"
  shows "data_only (tryCatch m h)"
  unfolding data_only_def
proof
  fix d
  obtain r d' where m: "\<And>w. m (d, w) = (r, (d', w))"
    using data_onlyE [OF assms(1), of d] by blast
  show "\<exists>r d''. \<forall>w. tryCatch m h (d, w) = (r, (d'', w))"
  proof (cases r)
    case (Inl e)
    then show ?thesis using m assms(2) [of e] by (auto simp: tryCatch_def data_only_def)
  next
    case (Inr x)
    then show ?thesis using m by (simp add: tryCatch_def)
  qed
qed

definition invocation_data_only :: "('d \<times> 'w) invocation \<Rightarrow> bool" where
  "invocation_data_only v \<longleftrightarrow> data_only (createCommandToSend v)
     \<and> (case isInvocable v of None \<Rightarrow> True | Some p \<Rightarrow> data_only p)"

text \<open>A step that invokes participants and whose commands, predicates and reply handlers are of that kind.\<close>

definition participant_data_only :: "('d \<times> 'w) saga_step \<Rightarrow> bool" where
  "participant_data_only step = (case step of LocalStep _ \<Rightarrow> False
     | ParticipantInvocationStep ps \<Rightarrow>
         (\<forall>v. participantInvocation ps = Some v \<or> ps_compensation ps = Some v \<longrightarrow> invocation_data_only v)
       \<and> (\<forall>t h reply. map_get (actionReplyHandlers ps) t = Some h \<or> map_get (compensationReplyHandlers ps) t = Some h
            \<longrightarrow> data_only (rh_handler h reply)))"

lemma data_only_invocable:
  assumes "\<And>x. v = Some x \<Longrightarrow> invocation_data_only x"
  shows "data_only (invocable v)"
  using assms by (cases v)
    (auto simp: invocable_def invocation_data_only_def intro!: data_only_intros split: option.splits)

lemma data_only_applies: "participant_data_only step \<Longrightarrow> data_only (applies step c)"
  by (cases step) (auto simp: applies_def participant_data_only_def intro!: data_only_invocable)

lemma data_only_createStepOutcome: "participant_data_only step \<Longrightarrow> data_only (createStepOutcome step c)"
  by (cases step)
    (auto simp: participant_data_only_def ps_createStepOutcome_def invocationOf_def invocation_data_only_def
      intro!: data_only_intros split: option.splits)

lemma data_only_nextFrom:
  "(\<And>step. step \<in> set steps \<Longrightarrow> participant_data_only step) \<Longrightarrow> data_only (nextFrom steps c i k)"
proof (induction steps c i k rule: nextFrom.induct)
  case (1 steps c i k)
  show ?case
  proof (cases "0 \<le> i \<and> i < int (length steps)")
    case False
    then show ?thesis by (subst nextFrom.simps) (auto intro: data_only_Pair)
  next
    case True
    then have "participant_data_only (steps ! nat i)"
      using "1.prems" [of "steps ! nat i"] by (simp add: nat_less_iff)
    then show ?thesis
      using True "1.IH" "1.prems"
      by (subst nextFrom.simps) (auto intro!: data_only_intros data_only_applies)
  qed
qed

lemma nextFrom_step:
  assumes "nextFrom steps c i k s = (Inr t, s')" and "st_step t = Some step"
  shows "step \<in> set steps"
  using nextFrom_found [OF assms(1)] assms(2) by (auto simp: Let_def nat_less_iff intro!: nth_mem)

lemma data_only_executeNextStep:
  assumes "\<And>step. step \<in> set steps \<Longrightarrow> participant_data_only step"
  shows "data_only (executeNextStep steps st)"
  unfolding executeNextStep_def nextStepToExecute_def
proof (rule data_only_andThen_step)
  show "data_only (nextFrom steps (es_compensating st) (currentlyExecuting st + (if es_compensating st then - 1 else 1)) 0)"
    using assms by (rule data_only_nextFrom)
  fix t s s'
  assume t: "nextFrom steps (es_compensating st) (currentlyExecuting st + (if es_compensating st then - 1 else 1)) 0 s = (Inr t, s')"
  show "data_only (if isEmpty t then ret (makeEndStateSagaActions st) else executeStep t st)"
  proof (cases "st_step t")
    case None
    then show ?thesis by (simp add: isEmpty_def data_only_Pair)
  next
    case (Some step)
    then have "participant_data_only step"
      using nextFrom_step [OF t] assms by blast
    then show ?thesis
      using Some by (auto simp: isEmpty_def executeStep_Some intro!: data_only_intros data_only_createStepOutcome)
  qed
qed

lemma data_only_start:
  "(\<And>step. step \<in> set steps \<Longrightarrow> participant_data_only step) \<Longrightarrow> data_only (start steps)"
  unfolding start_def by (rule data_only_executeNextStep)

lemma step_at_mem: "step_at steps i = Some step \<Longrightarrow> step \<in> set steps"
  by (auto simp: step_at_def nat_less_iff split: if_splits)

lemma data_only_reply:
  assumes "participant_data_only step" and "getReply step m c = Inr reply"
  shows "data_only (case reply of None \<Rightarrow> ret () | Some h \<Rightarrow> invokeReplyHandler S m h)"
  using assms by (cases step; cases reply)
    (auto simp: participant_data_only_def ps_getReply_def invokeReplyHandler_def map_sum_eq_Inr
      intro!: data_only_intros split: if_splits)

lemma data_only_handleReply:
  assumes "\<And>step. step \<in> set steps \<Longrightarrow> participant_data_only step"
  shows "data_only (handleReply S steps t m)"
proof -
  have "data_only (case step_at steps (currentlyExecuting st) of
         None \<Rightarrow> throw (RuntimeException (''Saga step is missing for execution state '' @ t))
       | Some currentStep \<Rightarrow>
           andThen (lift (getReply currentStep m (es_compensating st))) (\<lambda>reply.
           andThen (case reply of None \<Rightarrow> ret () | Some h \<Rightarrow> invokeReplyHandler S m h) (\<lambda>_.
           andThen (lift (isSuccessfulReply currentStep (es_compensating st) m)) (\<lambda>successful.
             if successful then executeNextStep steps st
             else if es_compensating st
             then throw (UnsupportedOperationException ''Failure when compensating'')
             else executeNextStep steps (startCompensating st)))))" for st
  proof (cases "step_at steps (currentlyExecuting st)")
    case None
    then show ?thesis by (simp add: data_only_Pair)
  next
    case (Some step)
    then have "participant_data_only step"
      using assms step_at_mem by blast
    then show ?thesis
      using Some assms
      by (cases "getReply step m (es_compensating st)"; cases "isSuccessfulReply step (es_compensating st) m")
        (auto intro!: data_only_andThen data_only_Pair data_only_executeNextStep data_only_reply)
  qed
  then show ?thesis
    unfolding handleReply_def by (intro data_only_andThen) (simp_all add: data_only_Pair)
qed

lemma data_only_drive:
  assumes "\<And>step. step \<in> set steps \<Longrightarrow> participant_data_only step"
  shows "data_only (drive S steps t ms)"
proof (induction ms arbitrary: t)
  case Nil
  then show ?case by (simp add: data_only_Pair)
next
  case (Cons m ms)
  have "data_only (handleReply S steps t m)"
    using assms by (rule data_only_handleReply)
  then show ?case
    by (auto intro!: data_only_andThen data_only_Pair Cons.IH)
qed

section \<open>What the actions of participants are\<close>

definition remote_actions :: "saga_actions \<Rightarrow> bool" where
  "remote_actions a \<longleftrightarrow> \<not> sa_local a \<and> sa_localException a = None
     \<and> (\<exists>u. sa_updatedState a = Some u \<and> u \<noteq> '''')"

lemma executeNextStep_remote:
  assumes "\<And>step. step \<in> set steps \<Longrightarrow> participant_data_only step" and "executeNextStep steps st s = (Inr a, s')"
  shows "remote_actions a"
proof (cases "a = makeEndStateSagaActions st")
  case True
  then show ?thesis
    by (simp add: remote_actions_def makeEndStateSagaActions_def actions_builder_defs encodeExecutionState_filled)
next
  case False
  then obtain st' oc s0 where a: "a = step_actions st st' oc" and "moves (length steps) st st'"
    and oc: "createStepOutcome (steps ! nat (currentlyExecuting st')) (es_compensating st) s0 = (Inr oc, s')"
    using executeNextStep_Inr [OF assms(2)] by blast
  then have "participant_data_only (steps ! nat (currentlyExecuting st'))"
    using assms(1) by (simp add: moves_def nat_less_iff)
  then obtain cs where "oc = RemoteStepOutcome cs"
    using oc by (cases "steps ! nat (currentlyExecuting st')")
      (auto simp: participant_data_only_def ps_createStepOutcome_def andThen_eq_Inr split: option.splits)
  then show ?thesis
    using a by (simp add: remote_actions_def step_actions_def encodeExecutionState_filled)
qed

lemma handleReply_remote:
  assumes "\<And>step. step \<in> set steps \<Longrightarrow> participant_data_only step" and "handleReply S steps t m s = (Inr a, s')"
  shows "remote_actions a"
  by (rule handleReply_Inr [OF assms(2)]) (rule executeNextStep_remote [OF assms(1)])

section \<open>Where sagas are kept and how their commands leave\<close>

text \<open>
  The interface the manager needs of a repository and a producer for the sagas of one type, one at a time:
  \<open>saved\<close> is the instance that the world holds, \<open>sent\<close> the messages with their destinations. A
  repository gives back what was saved, but for the flags, which the manager sets anew. The producer
  sends a message with its headers and payload, and with the headers it adds.
\<close>

definition resumes :: "'d saga_instance \<Rightarrow> 'd saga_instance \<Rightarrow> bool" where
  "resumes j i \<longleftrightarrow> (\<exists>e c. j = i\<lparr>si_endState := e, si_compensating := c\<rparr>)"

locale instance_keeper =
  fixes R :: "('d, 'w) instance_repository" and ty :: string
    and saved :: "'w \<Rightarrow> 'd saga_instance option" and sent :: "'w \<Rightarrow> (string \<times> message) list"
  assumes save: "si_sagaType i = ty \<Longrightarrow> si_sagaId i = None \<Longrightarrow>
      \<exists>sid w'. saveInstance R i w = (Inr (i\<lparr>si_sagaId := sid\<rparr>), w')
        \<and> saved w' = Some (i\<lparr>si_sagaId := sid\<rparr>) \<and> sent w' = sent w"
    and update: "saved w = Some j \<Longrightarrow> si_sagaType i = si_sagaType j \<Longrightarrow> si_sagaId i = si_sagaId j \<Longrightarrow>
      \<exists>w'. updateInstance R i w = (Inr (), w') \<and> saved w' = Some i \<and> sent w' = sent w"
    and find: "saved w = Some i \<Longrightarrow>
      \<exists>j. findInstance R (si_sagaType i) (null_text (si_sagaId i)) w = (Inr (Some j), w) \<and> resumes j i"

locale saga_environment = instance_keeper R ty saved sent
  for R :: "('d, 'w) instance_repository" and ty saved sent +
  fixes P :: "'w producer"
  assumes broadcast: "filled m HDR_TYPE \<Longrightarrow>
      \<exists>m' mid w'. sendBatch P ch [m] False w = (Inr [m'], w') \<and> message_id m' = Inr mid \<and> prepared_for P ch m m'
        \<and> saved w' = saved w \<and> sent w' = sent w @ [(ch, m')]"

lemma resumes_refl: "resumes i i"
  by (cases i) (simp add: resumes_def)

text \<open>A manager without hooks whose locks are always granted.\<close>

definition plain_manager ::
    "('d, 'w) instance_repository \<Rightarrow> 'w producer \<Rightarrow> serializer \<Rightarrow> string \<Rightarrow> ('d \<Rightarrow> string) \<Rightarrow> ('d \<times> 'w) saga_step list \<Rightarrow>
     ('d, 'w) saga_manager" where
  "plain_manager R P S ty dataType steps =
     \<lparr>sm_saga = \<lparr>sagaClass = ty, sagaDefinition = Some (nest_definition S steps), onStarting = None,
        onSagaRolledBack = None, onSagaCompletedSuccessfully = None, sagaDataTypeOf = dataType\<rparr>,
      sagaInstanceRepository = R, sm_producer = P, sm_serializer = S, sm_claimLock = (\<lambda>_ _ _. ret True)\<rparr>"

lemma plain_manager_simps [simp]:
  "sm_sagaType (plain_manager R P S ty dt steps) = ty"
  "sagaInstanceRepository (plain_manager R P S ty dt steps) = R"
  "sm_producer (plain_manager R P S ty dt steps) = P"
  "sm_serializer (plain_manager R P S ty dt steps) = S"
  "getSagaDefinition (plain_manager R P S ty dt steps) = Inr (nest_definition S steps)"
  "sagaReplyChannel (plain_manager R P S ty dt steps) = ty @ ''-reply''"
  "onStarting (sm_saga (plain_manager R P S ty dt steps)) = None"
  "onSagaRolledBack (sm_saga (plain_manager R P S ty dt steps)) = None"
  "onSagaCompletedSuccessfully (sm_saga (plain_manager R P S ty dt steps)) = None"
  "sagaDataTypeOf (sm_saga (plain_manager R P S ty dt steps)) = dt"
  "sm_claimLock (plain_manager R P S ty dt steps) t sid r = ret True"
  by (simp_all add: plain_manager_def sm_sagaType_def getSagaDefinition_def sagaReplyChannel_def)

lemma no_participants:
  "si_destinationsAndResources i = [] \<Longrightarrow> performEndStateActions (plain_manager R P S ty dt steps) sid i c = ret ()"
  by (simp add: performEndStateActions_def)

text \<open>A message sent for a command, and a reply that is routed back to an instance.\<close>

definition delivered ::
    "'w producer \<Rightarrow> serializer \<Rightarrow> string \<Rightarrow> string option \<Rightarrow> command_with_destination \<Rightarrow> string \<times> message \<Rightarrow> bool" where
  "delivered P S ty sid c x \<longleftrightarrow> fst x = channel c
     \<and> prepared_for P (channel c) (saga_message S ty sid (ty @ ''-reply'') c) (snd x)"

definition routed :: "string \<Rightarrow> string option \<Rightarrow> message \<Rightarrow> bool" where
  "routed ty sid m \<longleftrightarrow> filled m HDR_TYPE \<and> filled m REPLY_SAGA_TYPE \<and> filled m REPLY_SAGA_ID
     \<and> map_get (headers m) REPLY_SAGA_TYPE = Some ty \<and> map_get (headers m) REPLY_SAGA_ID = Some (null_text sid)
     \<and> getHeader m REPLY_LOCKED '''' = ''''"

definition named :: "saga_actions \<Rightarrow> bool" where
  "named a \<longleftrightarrow> (\<forall>c \<in> set (sa_commands a). obj_class (the_command c) \<noteq> '''')"

lemma filled_saga_message: "obj_class (the_command c) \<noteq> '''' \<Longrightarrow> filled (saga_message S ty sid ch c) HDR_TYPE"
  by (simp add: filled_def getHeader_def saga_message_def command_message_headers saga_headers_get)
    (simp add: saga_header_defs command_header_defs message_header_defs)

context saga_environment
begin

lemma sends_commands:
  assumes "\<And>c. c \<in> set cs \<Longrightarrow> obj_class (the_command c) \<noteq> ''''"
  shows "\<exists>r w' xs. sendCommands S P ty sid cs (ty @ ''-reply'') w = (Inr r, w') \<and> saved w' = saved w
    \<and> sent w' = sent w @ xs \<and> list_all2 (delivered P S ty sid) cs xs"
proof -
  have "\<exists>r w' xs. sendCommandsFrom S P ty sid cs (ty @ ''-reply'') m w = (Inr r, w') \<and> saved w' = saved w
      \<and> sent w' = sent w @ xs \<and> list_all2 (delivered P S ty sid) cs xs"
    if "m = None \<or> (\<exists>x mid. m = Some x \<and> message_id x = Inr mid)" for m
    using assms that
  proof (induction cs arbitrary: m w)
    case Nil
    then show ?case by auto
  next
    case (Cons c cs)
    obtain m' mid w1 where "sendBatch P (channel c) [saga_message S ty sid (ty @ ''-reply'') c] False w = (Inr [m'], w1)"
      and mid: "message_id m' = Inr mid" and p: "prepared_for P (channel c) (saga_message S ty sid (ty @ ''-reply'') c) m'"
      and "saved w1 = saved w" and "sent w1 = sent w @ [(channel c, m')]"
      using broadcast filled_saga_message Cons.prems(1) by (metis list.set_intros(1))
    moreover from p have "delivered P S ty sid c (channel c, m')" by (simp add: delivered_def)
    moreover from mid obtain r w' xs where "sendCommandsFrom S P ty sid cs (ty @ ''-reply'') (Some m') w1 = (Inr r, w')"
      and "saved w' = saved w1" and "sent w' = sent w1 @ xs" and "list_all2 (delivered P S ty sid) cs xs"
      using Cons.IH [of "Some m'" w1] Cons.prems(1) by auto
    ultimately show ?case
      by (intro exI [of _ r] exI [of _ w'] exI [of _ "(channel c, m') # xs"])
        (simp add: cmd_send_saga andThen_assoc andThen_Inr)
  qed
  from this [of None] show ?thesis by (simp add: sendCommands_def)
qed

text \<open>One turn of the manager: the commands go out and the instance is saved.\<close>

lemma performs:
  assumes "saved w = Some j" and "si_sagaType i = si_sagaType j" and "si_sagaId i = si_sagaId j"
    and "si_destinationsAndResources i = []" and "sa_updatedState a = Some u" and "u \<noteq> ''''" and "named a"
  shows "\<exists>r w' xs. performActions (plain_manager R P S ty dt steps) i a (d, w) =
      (Inr (i\<lparr>si_lastRequestId := r, si_stateName := u, si_endState := sa_endState a,
              si_compensating := sa_compensating a, si_sagaData := d\<rparr>), (d, w'))
    \<and> saved w' = Some (i\<lparr>si_lastRequestId := r, si_stateName := u, si_endState := sa_endState a,
              si_compensating := sa_compensating a, si_sagaData := d\<rparr>)
    \<and> sent w' = sent w @ xs \<and> list_all2 (delivered P S ty (si_sagaId i)) (sa_commands a) xs"
proof -
  obtain r w1 xs where s: "sendCommands S P ty (si_sagaId i) (sa_commands a) (ty @ ''-reply'') w = (Inr r, w1)"
    and w1: "saved w1 = saved w" "sent w1 = sent w @ xs"
    and xs: "list_all2 (delivered P S ty (si_sagaId i)) (sa_commands a) xs"
    using sends_commands assms(7) unfolding named_def by meson
  let ?i = "i\<lparr>si_lastRequestId := r, si_stateName := u, si_endState := sa_endState a,
              si_compensating := sa_compensating a, si_sagaData := d\<rparr>"
  obtain w2 where "updateInstance R ?i w1 = (Inr (), w2)" and "saved w2 = Some ?i" and "sent w2 = sent w1"
    using update [of w1 j ?i] w1 assms(1-3) by auto
  moreover have "(updateState a (i\<lparr>si_lastRequestId := r\<rparr>))\<lparr>si_sagaData := d\<rparr> = ?i"
    using assms(5,6) by (simp add: updateState_def)
  ultimately show ?thesis
    using s w1 xs assms(4-6)
    by (intro exI [of _ r] exI [of _ w2] exI [of _ xs]; cases "sa_endState a")
      (simp_all add: performActions_def onWorld_def andThen_def getData_def no_participants updateState_def Let_def)
qed

end

text \<open>The instance that actions lead to.\<close>

definition reached :: "string \<Rightarrow> saga_actions \<Rightarrow> 'd \<Rightarrow> 'd saga_instance \<Rightarrow> bool" where
  "reached ty a d i \<longleftrightarrow> si_sagaType i = ty \<and> si_sagaData i = d \<and> si_destinationsAndResources i = []
     \<and> sa_updatedState a = Some (si_stateName i) \<and> si_endState i = sa_endState a
     \<and> si_compensating i = sa_compensating a"

lemma processActions_remote:
  assumes "remote_actions a" and "performActions M i a s = (Inr i', s')"
  shows "processActions M i a s = Some (Inr i', s')"
  using assms by (subst processActions.simps) (simp add: remote_actions_def)

text \<open>One reply after the other, each handled to its end.\<close>

fun handleMessages :: "('d, 'w) saga_manager \<Rightarrow> message list \<Rightarrow> ('w, unit) peff" where
  "handleMessages M [] w = Some (Inr (), w)"
| "handleMessages M (m # ms) w = (case sm_handleMessage M m w of
     None \<Rightarrow> None
   | Some (Inl e, w') \<Rightarrow> Some (Inl e, w')
   | Some (Inr _, w') \<Rightarrow> handleMessages M ms w')"

context saga_environment
begin

lemma acts:
  assumes "saved w = Some j" and "si_sagaType i = ty" "si_sagaType j = ty" "si_sagaId i = si_sagaId j"
    and "si_destinationsAndResources i = []" and "remote_actions a" and "named a"
  shows "\<exists>i' w' xs. processActions (plain_manager R P S ty dt steps) i a (d, w) = Some (Inr i', (d, w'))
    \<and> saved w' = Some i' \<and> si_sagaId i' = si_sagaId i \<and> reached ty a d i'
    \<and> sent w' = sent w @ xs \<and> list_all2 (delivered P S ty (si_sagaId i)) (sa_commands a) xs"
proof -
  obtain u where u: "sa_updatedState a = Some u" "u \<noteq> ''''"
    using assms(6) by (auto simp: remote_actions_def)
  obtain r w' xs where p: "performActions (plain_manager R P S ty dt steps) i a (d, w) =
      (Inr (i\<lparr>si_lastRequestId := r, si_stateName := u, si_endState := sa_endState a,
              si_compensating := sa_compensating a, si_sagaData := d\<rparr>), (d, w'))"
    and "saved w' = Some (i\<lparr>si_lastRequestId := r, si_stateName := u, si_endState := sa_endState a,
              si_compensating := sa_compensating a, si_sagaData := d\<rparr>)"
    and "sent w' = sent w @ xs" and "list_all2 (delivered P S ty (si_sagaId i)) (sa_commands a) xs"
    using performs [OF assms(1) _ assms(4,5) u assms(7), of S dt steps d] assms(2,3) by auto
  then show ?thesis
    using processActions_remote [OF assms(6) p] assms(2,5) u by (auto simp: reached_def)
qed

text \<open>The instance a new saga or a reply starts from, before its actions are processed.\<close>

lemma creates_from:
  "\<exists>i w1. saved w1 = Some i \<and> si_sagaType i = ty \<and> si_destinationsAndResources i = [] \<and> sent w1 = sent w
    \<and> snd (saveInstance R (new_SagaInstance ty None ''????'' None (dt d) d) w) = w1
    \<and> (\<forall>a s. start steps (d, w1) = (Inr a, s) \<longrightarrow> sa_localException a = None \<longrightarrow>
        sm_create (plain_manager R P S ty dt steps) LockUndefined LockUndefined (d, w) = processActions (plain_manager R P S ty dt steps) i a s)"
proof -
  let ?i = "new_SagaInstance ty None ''????'' None (dt d) d"
  obtain sid w1 where "saveInstance R ?i w = (Inr (?i\<lparr>si_sagaId := sid\<rparr>), w1)"
    and "saved w1 = Some (?i\<lparr>si_sagaId := sid\<rparr>)" "sent w1 = sent w"
    using save [of ?i w] by (auto simp: new_SagaInstance_def)
  then show ?thesis
    by (intro exI [of _ "?i\<lparr>si_sagaId := sid\<rparr>"] exI [of _ w1])
      (simp add: sm_create_def thenLoop_def new_SagaInstance_def createInstance_def andThen_def getData_def onWorld_def Let_def)
qed

lemma creates_first:
  assumes "\<And>w. start steps (d, w) = (Inr a, (d0, w))" and "sa_localException a = None"
  shows "\<exists>i w'. sm_create (plain_manager R P S ty dt steps) LockUndefined LockUndefined (d, w) =
      processActions (plain_manager R P S ty dt steps) i a (d0, w')
    \<and> saved w' = Some i \<and> si_sagaType i = ty \<and> si_destinationsAndResources i = [] \<and> sent w' = sent w"
  using creates_from [of w dt d steps S] assms by blast

lemma replies_from:
  assumes "saved w = Some i" and "si_sagaType i = ty" and "si_destinationsAndResources i = []"
    and "routed ty (si_sagaId i) m"
  shows "\<exists>i1. si_sagaType i1 = ty \<and> si_sagaId i1 = si_sagaId i \<and> si_destinationsAndResources i1 = []
    \<and> (\<forall>a s. handleReply S steps (si_stateName i) m (si_sagaData i, w) = (Inr a, s) \<longrightarrow>
        sm_handleMessage (plain_manager R P S ty dt steps) m w =
          (case processActions (plain_manager R P S ty dt steps) i1 a s of
             None \<Rightarrow> None | Some (r, (_, w')) \<Rightarrow> Some (map_sum id (\<lambda>_. ()) r, w')))"
proof -
  let ?M = "plain_manager R P S ty dt steps"
  obtain e c where f: "findInstance R ty (null_text (si_sagaId i)) w =
      (Inr (Some (i\<lparr>si_endState := e, si_compensating := c\<rparr>)), w)"
    using find [OF assms(1)] assms(2) by (auto simp: resumes_def)
  obtain s where s: "toString m = Inr s"
    using assms(4) toString_total by (auto simp: routed_def)
  have "getRequiredHeader m REPLY_SAGA_ID = Inr (null_text (si_sagaId i))"
    "getRequiredHeader m REPLY_SAGA_TYPE = Inr ty" "isReplyForThisSagaType ?M m" "hasHeader m REPLY_SAGA_ID"
    "addLockedParticipant m (Some (i\<lparr>si_endState := e, si_compensating := c\<rparr>)) =
      Inr (Some (i\<lparr>si_endState := e, si_compensating := c\<rparr>))"
    using assms(4) by (auto simp: routed_def getRequiredHeader_filled getHeader_def isReplyForThisSagaType_def
        hasHeader_def map_has_def addLockedParticipant_def)
  then show ?thesis
    using f s assms(2,3)
    by (intro exI [of _ "i\<lparr>si_endState := e, si_compensating := c\<rparr>"])
      (simp add: sm_handleMessage_def sm_handleReply_def thenLoop_def andThen_def handleInstanceReply_def)
qed

lemma replies_first:
  assumes "saved w = Some i" and "si_sagaType i = ty" and "si_destinationsAndResources i = []"
    and "routed ty (si_sagaId i) m"
    and "\<And>w. handleReply S steps (si_stateName i) m (si_sagaData i, w) = (Inr a, (d', w))"
  shows "\<exists>i1. sm_handleMessage (plain_manager R P S ty dt steps) m w =
      (case processActions (plain_manager R P S ty dt steps) i1 a (d', w) of
         None \<Rightarrow> None | Some (r, (_, w')) \<Rightarrow> Some (map_sum id (\<lambda>_. ()) r, w'))
    \<and> si_sagaType i1 = ty \<and> si_sagaId i1 = si_sagaId i \<and> si_destinationsAndResources i1 = []"
  using replies_from [OF assms(1-4), of S steps dt] assms(5) by blast

lemma creates:
  assumes "\<And>w. start steps (d, w) = (Inr a, (d0, w))" and "remote_actions a" and "named a"
  shows "\<exists>i w' xs. sm_create (plain_manager R P S ty dt steps) LockUndefined LockUndefined (d, w) = Some (Inr i, (d0, w'))
    \<and> saved w' = Some i \<and> reached ty a d0 i
    \<and> sent w' = sent w @ xs \<and> list_all2 (delivered P S ty (si_sagaId i)) (sa_commands a) xs"
proof -
  have "sa_localException a = None"
    using assms(2) by (simp add: remote_actions_def)
  from creates_first [OF assms(1) this]
  obtain i w1 where c: "sm_create (plain_manager R P S ty dt steps) LockUndefined LockUndefined (d, w) =
      processActions (plain_manager R P S ty dt steps) i a (d0, w1)"
    and i: "saved w1 = Some i" "si_sagaType i = ty" "si_destinationsAndResources i = []" and w1: "sent w1 = sent w"
    by blast
  from acts [OF i(1,2,2) refl i(3) assms(2,3), of S dt steps d0] c w1 show ?thesis by auto
qed

lemma replies:
  assumes "saved w = Some i" and "si_sagaType i = ty" and "si_destinationsAndResources i = []"
    and "routed ty (si_sagaId i) m"
    and "\<And>w. handleReply S steps (si_stateName i) m (si_sagaData i, w) = (Inr a, (d', w))"
    and "remote_actions a" and "named a"
  shows "\<exists>i' w' xs. sm_handleMessage (plain_manager R P S ty dt steps) m w = Some (Inr (), w')
    \<and> saved w' = Some i' \<and> si_sagaId i' = si_sagaId i \<and> reached ty a d' i'
    \<and> sent w' = sent w @ xs \<and> list_all2 (delivered P S ty (si_sagaId i)) (sa_commands a) xs"
proof -
  obtain i1 where h: "sm_handleMessage (plain_manager R P S ty dt steps) m w =
      (case processActions (plain_manager R P S ty dt steps) i1 a (d', w) of
         None \<Rightarrow> None | Some (r, (_, w')) \<Rightarrow> Some (map_sum id (\<lambda>_. ()) r, w'))"
    and i1: "si_sagaType i1 = ty" "si_sagaId i1 = si_sagaId i" "si_destinationsAndResources i1 = []"
    using replies_first [OF assms(1-5), of dt] by blast
  from acts [OF assms(1) i1(1) assms(2) i1(2,3) assms(6,7), of S dt steps d'] h i1(2) show ?thesis by auto
qed

lemma runs:
  assumes "\<And>step. step \<in> set steps \<Longrightarrow> participant_data_only step"
    and "saved w = Some i" and "reached ty a0 d i" and "\<And>m. m \<in> set ms \<Longrightarrow> routed ty (si_sagaId i) m"
    and "drive S steps (si_stateName i) ms (d, w) = (Inr as, (d', w))" and "\<And>a. a \<in> set as \<Longrightarrow> named a"
  shows "\<exists>i' w' xs. handleMessages (plain_manager R P S ty dt steps) ms w = Some (Inr (), w')
    \<and> saved w' = Some i' \<and> si_sagaId i' = si_sagaId i \<and> reached ty (last (a0 # as)) d' i'
    \<and> sent w' = sent w @ xs \<and> list_all2 (delivered P S ty (si_sagaId i)) (concat (map sa_commands as)) xs"
  using assms(2-)
proof (induction ms arbitrary: w i a0 d as)
  case Nil
  then show ?case by (intro exI [of _ i] exI [of _ w] exI [of _ "[]"]) auto
next
  case (Cons m ms)
  obtain a s1 as' where h: "handleReply S steps (si_stateName i) m (d, w) = (Inr a, s1)"
    and dr: "drive S steps (case sa_updatedState a of Some u \<Rightarrow> u | None \<Rightarrow> si_stateName i) ms s1 = (Inr as', (d', w))"
    and as: "as = a # as'"
    using Cons.prems(4) by (auto simp: andThen_eq_Inr)
  obtain d1 w1 where s1: "s1 = (d1, w1)" by (rule prod.exhaust)
  have only: "data_only (handleReply S steps (si_stateName i) m)"
    using assms(1) by (rule data_only_handleReply)
  have h: "handleReply S steps (si_stateName i) m (si_sagaData i, v) = (Inr a, (d1, v))" for v
    using data_onlyD [OF only h [unfolded s1]] Cons.prems(2) by (simp add: reached_def)
  have remote: "remote_actions a"
    using assms(1) h by (rule handleReply_remote)
  obtain i1 w2 xs where step: "sm_handleMessage (plain_manager R P S ty dt steps) m w = Some (Inr (), w2)"
    and i1: "saved w2 = Some i1" "si_sagaId i1 = si_sagaId i" "reached ty a d1 i1"
    and xs: "sent w2 = sent w @ xs" "list_all2 (delivered P S ty (si_sagaId i)) (sa_commands a) xs"
    using replies [OF Cons.prems(1) _ _ _ h remote, of dt] Cons.prems(2,3,5) as by (auto simp: reached_def)
  have "data_only (drive S steps (si_stateName i1) ms)"
    using assms(1) by (rule data_only_drive)
  then have "drive S steps (si_stateName i1) ms (d1, w2) = (Inr as', (d', w2))"
    using dr i1(3) data_onlyD(2) by (fastforce simp: s1 reached_def)
  from Cons.IH [OF i1(1,3) _ this] Cons.prems(3,5) i1(2) as
  obtain i' w' ys where "handleMessages (plain_manager R P S ty dt steps) ms w2 = Some (Inr (), w')"
    and "saved w' = Some i'" and "si_sagaId i' = si_sagaId i" and "reached ty (last (a # as')) d' i'"
    and "sent w' = sent w2 @ ys" and "list_all2 (delivered P S ty (si_sagaId i)) (concat (map sa_commands as')) ys"
    by auto
  then show ?case
    using step xs as by (intro exI [of _ i'] exI [of _ w'] exI [of _ "xs @ ys"]) (auto intro: list_all2_appendI)
qed

text \<open>The whole life of an instance: what the definition says of a run is what the manager does.\<close>

lemma whole_run:
  assumes "\<And>step. step \<in> set steps \<Longrightarrow> participant_data_only step"
    and "run_saga S steps ms (d, w) = (Inr as, (d', w))" and "\<And>a. a \<in> set as \<Longrightarrow> named a"
  shows "\<exists>i d0 w1. sm_create (plain_manager R P S ty dt steps) LockUndefined LockUndefined (d, w) = Some (Inr i, (d0, w1))
    \<and> saved w1 = Some i
    \<and> ((\<forall>m \<in> set ms. routed ty (si_sagaId i) m) \<longrightarrow>
        (\<exists>i' w2 xs. handleMessages (plain_manager R P S ty dt steps) ms w1 = Some (Inr (), w2)
          \<and> saved w2 = Some i' \<and> si_sagaId i' = si_sagaId i \<and> reached ty (last as) d' i'
          \<and> sent w2 = sent w @ xs \<and> list_all2 (delivered P S ty (si_sagaId i)) (concat (map sa_commands as)) xs))"
proof -
  obtain a s0 as' where a: "start steps (d, w) = (Inr a, s0)" and as: "as = a # as'"
    and dr: "drive S steps (case sa_updatedState a of Some u \<Rightarrow> u | None \<Rightarrow> '''') ms s0 = (Inr as', (d', w))"
    using assms(2) by (auto simp: run_saga_def andThen_eq_Inr)
  obtain d0 w0 where s0: "s0 = (d0, w0)" by (rule prod.exhaust)
  have "data_only (start steps)"
    using assms(1) by (rule data_only_start)
  then have a': "start steps (d, v) = (Inr a, (d0, v))" for v
    using a data_onlyD(2) by (fastforce simp: s0)
  have remote: "remote_actions a"
    using executeNextStep_remote [OF assms(1)] a by (simp add: start_def)
  obtain i w1 xs where c: "sm_create (plain_manager R P S ty dt steps) LockUndefined LockUndefined (d, w) = Some (Inr i, (d0, w1))"
    and i: "saved w1 = Some i" "reached ty a d0 i"
    and xs: "sent w1 = sent w @ xs" "list_all2 (delivered P S ty (si_sagaId i)) (sa_commands a) xs"
    using creates [OF a' remote] assms(3) as by (metis list.set_intros(1))
  have "data_only (drive S steps (si_stateName i) ms)"
    using assms(1) by (rule data_only_drive)
  then have dr: "drive S steps (si_stateName i) ms (d0, w1) = (Inr as', (d', w1))"
    using dr i(2) data_onlyD(2) by (fastforce simp: s0 reached_def)
  have "\<exists>i' w2 ys. handleMessages (plain_manager R P S ty dt steps) ms w1 = Some (Inr (), w2)
      \<and> saved w2 = Some i' \<and> si_sagaId i' = si_sagaId i \<and> reached ty (last as) d' i'
      \<and> sent w2 = sent w @ ys \<and> list_all2 (delivered P S ty (si_sagaId i)) (concat (map sa_commands as)) ys"
    if "\<forall>m \<in> set ms. routed ty (si_sagaId i) m"
    using runs [OF assms(1) i _ dr, of dt] that assms(3) as xs by (fastforce intro: list_all2_appendI)
  then show ?thesis
    using c i(1) by blast
qed

end

section \<open>The repository in memory\<close>

text \<open>
  The repository in memory beside a log of what the broker has been given. It keeps one instance of every
  type, since its identifier is never assigned. A broker that accepts has no interceptors, draws identifiers
  that are not empty, and takes every message.
\<close>

type_synonym sent_log = "(string \<times> message) list"

definition mem_saved :: "string \<Rightarrow> 'd instance_store \<times> sent_log \<Rightarrow> 'd saga_instance option" where
  "mem_saved ty w = (case map_get (fst w) (mem_key ty None) of
     None \<Rightarrow> None | Some i \<Rightarrow> if si_sagaType i = ty \<and> si_sagaId i = None then Some i else None)"

definition mem_sent :: "'d instance_store \<times> sent_log \<Rightarrow> sent_log" where
  "mem_sent w = snd w"

locale accepting_producer =
  fixes P :: "('s \<times> sent_log) producer" and newId :: string and now :: string
  assumes no_interceptors: "interceptors P = []"
    and newId: "generateMessageId P = ret newId" "newId \<noteq> ''''"
    and clock: "currentDate P = ret now"
    and accepts: "targetSendBatch P ch ms e (s, log) = (Inr (), (s, log @ map (Pair ch) ms))"
begin

lemma sends_one:
  assumes "filled m HDR_TYPE"
  shows "sendBatch P ch [m] False (s, log) =
    (Inr [prepared P ch newId now m], (s, log @ [(ch, prepared P ch newId now m)]))"
  using sendBatch_simple [OF no_interceptors newId clock, of "[m]" ch False "(s, log)"] assms
  by (simp add: accepts)

lemma prepared_facts: "message_id (prepared P ch newId now m) = Inr newId" "prepared_for P ch m (prepared P ch newId now m)"
  using newId(2) by (auto simp: message_id_def prepared_def prepared_for_def getRequiredHeader_Inr message_header_defs setHeader_def)

end

locale memory_environment = accepting_producer P newId now
  for P :: "('d instance_store \<times> sent_log) producer" and newId now

sublocale memory_environment \<subseteq> memory: saga_environment mem_repository ty "mem_saved ty" mem_sent P for ty
proof
  fix i :: "'d saga_instance" and w
  assume "si_sagaType i = ty" and "si_sagaId i = None"
  then show "\<exists>sid w'. saveInstance mem_repository i w = (Inr (i\<lparr>si_sagaId := sid\<rparr>), w')
      \<and> mem_saved ty w' = Some (i\<lparr>si_sagaId := sid\<rparr>) \<and> mem_sent w' = mem_sent w"
    by (intro exI [of _ None]) (auto simp: mem_repository_def mem_save_def mem_saved_def mem_sent_def)
next
  fix i j :: "'d saga_instance" and w
  assume "mem_saved ty w = Some j" and "si_sagaType i = si_sagaType j" and "si_sagaId i = si_sagaId j"
  then show "\<exists>w'. updateInstance mem_repository i w = (Inr (), w') \<and> mem_saved ty w' = Some i \<and> mem_sent w' = mem_sent w"
    by (auto simp: mem_repository_def mem_update_def mem_save_def mem_saved_def mem_sent_def andThen_def
        split: option.splits if_splits)
next
  fix i :: "'d saga_instance" and w
  assume "mem_saved ty w = Some i"
  then show "\<exists>j. findInstance mem_repository (si_sagaType i) (null_text (si_sagaId i)) w = (Inr (Some j), w) \<and> resumes j i"
    by (intro exI [of _ i]) (auto simp: mem_repository_def mem_find_def mem_saved_def mem_key_def null_text_def resumes_refl
        split: option.splits if_splits)
next
  fix m ch and w :: "'d instance_store \<times> sent_log"
  assume "filled m HDR_TYPE"
  then show "\<exists>m' mid w'. sendBatch P ch [m] False w = (Inr [m'], w') \<and> message_id m' = Inr mid \<and> prepared_for P ch m m'
      \<and> mem_saved ty w' = mem_saved ty w \<and> mem_sent w' = mem_sent w @ [(ch, m')]"
    using sends_one [of m ch "fst w" "snd w"] prepared_facts by (cases w) (auto simp: mem_saved_def mem_sent_def)
qed

context memory_environment
begin

lemma memory_run:
  assumes "\<And>step. step \<in> set steps \<Longrightarrow> participant_data_only step"
    and "run_saga S steps ms (d, w) = (Inr as, (d', w))" and "\<And>a. a \<in> set as \<Longrightarrow> named a"
    and "\<And>m. m \<in> set ms \<Longrightarrow> routed ty None m"
  shows "\<exists>i d0 w1 i' w2 xs.
      sm_create (plain_manager mem_repository P S ty dt steps) LockUndefined LockUndefined (d, w) = Some (Inr i, (d0, w1))
    \<and> handleMessages (plain_manager mem_repository P S ty dt steps) ms w1 = Some (Inr (), w2)
    \<and> mem_saved ty w2 = Some i' \<and> reached ty (last as) d' i'
    \<and> mem_sent w2 = mem_sent w @ xs \<and> list_all2 (delivered P S ty None) (concat (map sa_commands as)) xs"
proof -
  obtain i d0 w1 where c: "sm_create (plain_manager mem_repository P S ty dt steps) LockUndefined LockUndefined (d, w) = Some (Inr i, (d0, w1))"
    and i: "mem_saved ty w1 = Some i"
    and go: "(\<forall>m \<in> set ms. routed ty (si_sagaId i) m) \<longrightarrow>
        (\<exists>i' w2 xs. handleMessages (plain_manager mem_repository P S ty dt steps) ms w1 = Some (Inr (), w2)
          \<and> mem_saved ty w2 = Some i' \<and> si_sagaId i' = si_sagaId i \<and> reached ty (last as) d' i'
          \<and> mem_sent w2 = mem_sent w @ xs \<and> list_all2 (delivered P S ty (si_sagaId i)) (concat (map sa_commands as)) xs)"
    using memory.whole_run [OF assms(1-3)] by meson
  have "si_sagaId i = None"
    using i by (auto simp: mem_saved_def split: option.splits if_splits)
  then show ?thesis
    using c go assms(4) by (fastforce intro: exI)
qed

end

text \<open>A producer that accepts, whatever the mapping of its channels.\<close>

definition logging_producer :: "channel_mapping \<Rightarrow> ('s \<times> sent_log) producer" where
  "logging_producer cm =
     \<lparr>channelMapping = cm, generateMessageId = ret ''m1'',
      targetSend = (\<lambda>ch m _ w. (Inr (), (fst w, snd w @ [(ch, m)]))),
      targetSendBatch = (\<lambda>ch ms _ w. (Inr (), (fst w, snd w @ map (Pair ch) ms))),
      interceptors = [], currentDate = ret ''2021-01-01T00:00:00.000Z''\<rparr>"

interpretation logging: memory_environment "logging_producer cm" "''m1''" "''2021-01-01T00:00:00.000Z''" for cm
  by unfold_locales (simp_all add: logging_producer_def)

text \<open>
  C7: What the definition of a saga does with a list of replies is what becomes of the saga when the manager
  creates it and handles these replies, with the repository in memory: both calls come to their end, the
  messages sent are those of the commands of all the actions, in their order and each to its channel, and the
  instance left in the repository has the state, the flags and the data of the last actions. Participants
  work on the data of the saga, and the replies are routed to it.
\<close>

theorem run_by_manager:
  assumes "memory_environment P newId now"
    and "\<forall>step \<in> set steps. participant_data_only step"
    and "run_saga S steps ms (d, w) = (Inr as, (d', w))" and "\<forall>a \<in> set as. named a"
    and "\<forall>m \<in> set ms. routed ty None m"
  shows "\<exists>i d0 w1 i' w2 xs.
      sm_create (plain_manager mem_repository P S ty dt steps) LockUndefined LockUndefined (d, w) = Some (Inr i, (d0, w1))
    \<and> handleMessages (plain_manager mem_repository P S ty dt steps) ms w1 = Some (Inr (), w2)
    \<and> mem_saved ty w2 = Some i' \<and> reached ty (last as) d' i'
    \<and> mem_sent w2 = mem_sent w @ xs \<and> list_all2 (delivered P S ty None) (concat (map sa_commands as)) xs"
  by (rule memory_environment.memory_run [OF assms(1) _ assms(3)]) (use assms in blast)+

section \<open>Plans\<close>

definition on_data :: "'d plain \<Rightarrow> ('d \<times> 'w) plain" where
  "on_data = map_option (map_prod (\<lambda>p. p \<circ> fst) (\<lambda>c. c \<circ> fst))"

definition data_plan :: "('d plain \<times> 'd plain) list \<Rightarrow> (('d \<times> 'w) plain \<times> ('d \<times> 'w) plain) list" where
  "data_plan = map (map_prod on_data on_data)"

lemma wanted_on_data [simp]: "wanted (d, w) c (map_prod on_data on_data ac) = wanted d c ac"
  by (cases ac) (auto simp: wanted_def side_def on_data_def split: option.splits)

lemma command_on_data: "wanted d c ac \<Longrightarrow> command_of (d, w) c (map_prod on_data on_data ac) = command_of d c ac"
  by (cases ac) (auto simp: wanted_def command_of_def side_def on_data_def split: option.splits)

lemma data_plan_todo:
  "actions_todo (data_plan plan) (d, w) = actions_todo plan d"
  "j \<le> length plan \<Longrightarrow> undo (data_plan plan) (d, w) j = undo plan d j"
  by (auto simp: actions_todo_def undo_def data_plan_def intro!: filter_cong)

lemma plain_step_data_only: "participant_data_only (plain_step (map_prod on_data on_data ac))"
  by (cases ac) (auto simp: participant_data_only_def plain_step_def plain_invocation_def new_ParticipantInvocation_def
      invocation_data_only_def data_only_def on_data_def)

lemma sends_data_plan:
  assumes "j < length plan" and "wanted d c (plan ! j)"
  shows "sends (data_plan plan) (d, w) c j = sends plan d c j"
  using assms by (simp add: sends_def data_plan_def command_on_data)

lemma sends_map:
  "(\<And>j. j \<in> set js \<Longrightarrow> j < length plan \<and> wanted d c (plan ! j)) \<Longrightarrow>
   map (sends (data_plan plan) (d, w) c) js = map (sends plan d c) js"
  by (rule map_cong) (simp_all add: sends_data_plan)

lemma sends_commands_of: "concat (map sa_commands (map (sends plan d c) js)) = map (\<lambda>j. command_of d c (plan ! j)) js"
  by (induction js) (simp_all add: sends_def step_actions_def)

lemma todo_wanted: "j \<in> set (actions_todo plan d) \<Longrightarrow> j < length plan \<and> wanted d False (plan ! j)"
  by (auto simp: actions_todo_def)

lemma undo_wanted: "j \<in> set (undo plan d k) \<Longrightarrow> j < k \<and> wanted d True (plan ! j)"
  by (auto simp: undo_def)

lemma end_actions:
  "sa_commands (makeEndStateSagaActions st) = []" "sa_endState (makeEndStateSagaActions st)"
  "sa_compensating (makeEndStateSagaActions st) = es_compensating st"
  by (simp_all add: makeEndStateSagaActions_def actions_builder_defs)

text \<open>The two runs of a plan, with the world beside its data.\<close>

lemma data_plan_completes:
  assumes "length ms = length (actions_todo plan d)" and "\<And>m. m \<in> set ms \<Longrightarrow> is_reply SUCCESS m"
  shows "run_saga S (map plain_step (data_plan plan)) ms (d, w) =
    (Inr (map (sends plan d False) (actions_todo plan d) @ [makeEndStateSagaActions new_SagaExecutionState]), (d, w))"
proof -
  have "map (sends (data_plan plan) (d, w) False) (actions_todo plan d) = map (sends plan d False) (actions_todo plan d)"
    by (rule sends_map) (rule todo_wanted)
  then show ?thesis
    using run_completes [of ms "data_plan plan" "(d, w)" S] assms by (simp add: data_plan_todo)
qed

lemma data_plan_rolls_back:
  assumes "length oks < length (actions_todo plan d)"
    and "\<And>m. m \<in> set oks \<union> set cs \<Longrightarrow> is_reply SUCCESS m" and "is_reply FAILURE f"
    and "length cs = length (undo plan d (actions_todo plan d ! length oks))"
  shows "run_saga S (map plain_step (data_plan plan)) (oks @ f # cs) (d, w) =
    (Inr (map (sends plan d False) (take (Suc (length oks)) (actions_todo plan d))
      @ map (sends plan d True) (undo plan d (actions_todo plan d ! length oks))
      @ [makeEndStateSagaActions (startCompensating new_SagaExecutionState)]), (d, w))"
proof -
  let ?k = "actions_todo plan d ! length oks"
  have k: "?k < length plan"
    using todo_wanted assms(1) by (meson nth_mem)
  have "map (sends (data_plan plan) (d, w) False) (take (Suc (length oks)) (actions_todo plan d)) =
      map (sends plan d False) (take (Suc (length oks)) (actions_todo plan d))"
    by (rule sends_map) (rule todo_wanted, rule in_set_takeD)
  moreover have "map (sends (data_plan plan) (d, w) True) (undo plan d ?k) = map (sends plan d True) (undo plan d ?k)"
    by (rule sends_map) (use undo_wanted [of _ plan d ?k] k in fastforce)
  ultimately show ?thesis
    using run_rolls_back [of oks "data_plan plan" "(d, w)" cs f S] assms k by (simp add: data_plan_todo)
qed

text \<open>Commands with a class of their own: their messages have a type.\<close>

definition classes_named :: "('d plain \<times> 'd plain) list \<Rightarrow> 'd \<Rightarrow> bool" where
  "classes_named plan d \<longleftrightarrow> (\<forall>j < length plan. \<forall>c. wanted d c (plan ! j) \<longrightarrow>
     obj_class (the_command (command_of d c (plan ! j))) \<noteq> '''')"

lemma sends_named: "classes_named plan d \<Longrightarrow> j < length plan \<Longrightarrow> wanted d c (plan ! j) \<Longrightarrow> named (sends plan d c j)"
  by (auto simp: classes_named_def named_def sends_def step_actions_def)

lemma sends_all_named:
  assumes "classes_named plan d" and "\<And>j. j \<in> set js \<Longrightarrow> j < length plan \<and> wanted d c (plan ! j)"
    and "a \<in> set (map (sends plan d c) js)"
  shows "named a"
  using assms by (auto intro: sends_named)

lemma named_end: "named (makeEndStateSagaActions st)"
  by (simp add: named_def end_actions)

lemma data_plan_participants: "step \<in> set (map plain_step (data_plan plan)) \<Longrightarrow> participant_data_only step"
  by (auto simp: data_plan_def intro: plain_step_data_only)

text \<open>
  A saga in memory is created and given some replies: it comes to its end, the messages sent meanwhile are those
  of the commands, and the instance is compensating or not and has the data.
\<close>

definition comes_to ::
    "('d, 'd instance_store \<times> sent_log) saga_manager \<Rightarrow> ('d instance_store \<times> sent_log) producer \<Rightarrow> serializer \<Rightarrow> string \<Rightarrow>
     'd \<Rightarrow> 'd instance_store \<times> sent_log \<Rightarrow> message list \<Rightarrow> command_with_destination list \<Rightarrow> bool \<Rightarrow> 'd \<Rightarrow> bool" where
  "comes_to M P S ty d w ms cs compensating d' \<longleftrightarrow>
     (\<exists>i d0 w1 i' w2 xs. sm_create M LockUndefined LockUndefined (d, w) = Some (Inr i, (d0, w1))
       \<and> handleMessages M ms w1 = Some (Inr (), w2)
       \<and> mem_saved ty w2 = Some i' \<and> si_endState i' \<and> si_compensating i' = compensating \<and> si_sagaData i' = d'
       \<and> mem_sent w2 = mem_sent w @ xs \<and> list_all2 (delivered P S ty None) cs xs)"

lemma mem_saved_id: "mem_saved ty w = Some i \<Longrightarrow> si_sagaId i = None"
  by (auto simp: mem_saved_def split: option.splits if_splits)

lemma reached_end: "reached ty (makeEndStateSagaActions st) d i \<Longrightarrow>
    si_endState i \<and> si_compensating i = es_compensating st \<and> si_sagaData i = d"
  by (simp add: reached_def)

context memory_environment
begin

text \<open>A run of the definition whose replies are routed to the saga, as a run of the manager.\<close>

lemma memory_comes_to:
  assumes "\<And>step. step \<in> set steps \<Longrightarrow> participant_data_only step"
    and "run_saga S steps ms (d, w) = (Inr (as @ [makeEndStateSagaActions st]), (d', w))"
    and "\<forall>a \<in> set as. named a" and "\<forall>m \<in> set ms. routed ty None m"
  shows "comes_to (plain_manager mem_repository P S ty dt steps) P S ty d w ms
    (concat (map sa_commands as)) (es_compensating st) d'"
proof -
  have "named a" if "a \<in> set (as @ [makeEndStateSagaActions st])" for a
    using that assms(3) named_end by auto
  from memory_run [OF assms(1,2) this bspec [OF assms(4)], where dt = dt]
  obtain i d0 w1 i' w2 xs where "sm_create (plain_manager mem_repository P S ty dt steps)
        LockUndefined LockUndefined (d, w) = Some (Inr i, (d0, w1))"
    and "handleMessages (plain_manager mem_repository P S ty dt steps) ms w1 = Some (Inr (), w2)"
    and i': "mem_saved ty w2 = Some i'" "reached ty (last (as @ [makeEndStateSagaActions st])) d' i'" and "mem_sent w2 = mem_sent w @ xs"
    and "list_all2 (delivered P S ty None) (concat (map sa_commands (as @ [makeEndStateSagaActions st]))) xs"
    by blast
  moreover have "si_endState i' \<and> si_compensating i' = es_compensating st \<and> si_sagaData i' = d'"
    by (rule reached_end) (use i'(2) in simp)
  ultimately show ?thesis
    unfolding comes_to_def
    by (intro exI [of _ i] exI [of _ d0] exI [of _ w1] exI [of _ i'] exI [of _ w2] exI [of _ xs])
      (simp add: end_actions del: handleMessages.simps)
qed

lemma plan_completes:
  assumes "classes_named plan d" and "length ms = length (actions_todo plan d)"
    and "\<forall>m \<in> set ms. is_reply SUCCESS m" and "\<forall>m \<in> set ms. routed ty None m"
  shows "comes_to (plain_manager mem_repository P S ty dt (map plain_step (data_plan plan))) P S ty d w ms
    (map (\<lambda>j. command_of d False (plan ! j)) (actions_todo plan d)) False d"
proof -
  have "named a" if "a \<in> set (map (sends plan d False) (actions_todo plan d))" for a
    by (rule sends_all_named [OF assms(1) _ that]) (rule todo_wanted)
  from memory_comes_to [OF data_plan_participants [where plan = plan] data_plan_completes [OF assms(2)]] this assms(3,4)
  show ?thesis
    by (simp add: sends_commands_of new_SagaExecutionState_def del: map_map)
qed

lemma plan_rolls_back:
  assumes "classes_named plan d" and "length oks < length (actions_todo plan d)"
    and "\<forall>m \<in> set oks \<union> set cs. is_reply SUCCESS m" and "is_reply FAILURE f"
    and "length cs = length (undo plan d (actions_todo plan d ! length oks))"
    and "\<forall>m \<in> set (oks @ f # cs). routed ty None m"
  shows "comes_to (plain_manager mem_repository P S ty dt (map plain_step (data_plan plan))) P S ty d w (oks @ f # cs)
    (map (\<lambda>j. command_of d False (plan ! j)) (take (Suc (length oks)) (actions_todo plan d))
     @ map (\<lambda>j. command_of d True (plan ! j)) (undo plan d (actions_todo plan d ! length oks))) True d"
proof -
  let ?k = "actions_todo plan d ! length oks"
  have k: "?k < length plan"
    using todo_wanted assms(2) by (meson nth_mem)
  have todo: "named a" if "a \<in> set (map (sends plan d False) (actions_todo plan d))" for a
    by (rule sends_all_named [OF assms(1) _ that]) (rule todo_wanted)
  have "named a" if "a \<in> set (map (sends plan d True) (undo plan d ?k))" for a
    by (rule sends_all_named [OF assms(1) _ that]) (use undo_wanted [of _ plan d ?k] k in fastforce)
  then have named: "named a" if "a \<in> set (map (sends plan d False) (take (Suc (length oks)) (actions_todo plan d))
      @ map (sends plan d True) (undo plan d ?k))" for a
    using that todo by (auto dest: in_set_takeD)
  have "run_saga S (map plain_step (data_plan plan)) (oks @ f # cs) (d, w) =
    (Inr ((map (sends plan d False) (take (Suc (length oks)) (actions_todo plan d)) @ map (sends plan d True) (undo plan d ?k))
      @ [makeEndStateSagaActions (startCompensating new_SagaExecutionState)]), (d, w))"
    using data_plan_rolls_back [OF assms(2) _ assms(4,5)] assms(3) by simp
  from memory_comes_to [OF data_plan_participants [where plan = plan] this] named assms(6)
  show ?thesis
    by (simp add: sends_commands_of startCompensating_def del: map_map)
qed

end

text \<open>
  C4: A saga in memory, through its manager. When all its participants succeed, the messages sent are the commands of
  its actions in the order of the steps, and the instance in the repository has ended. When the participant
  asked after those of \<open>oks\<close> fails, they are the commands up to that one and then the compensations of the steps
  before it, in reverse order, and the instance has ended compensating.
\<close>

theorem saga_ends_by_manager:
  assumes env: "memory_environment P newId now" and cl: "classes_named plan d"
    and len: "length (oks @ rest) = length (actions_todo plan d)" "rest \<noteq> []"
      "length cs = length (undo plan d (actions_todo plan d ! length oks))"
    and ok: "\<And>m. m \<in> set (oks @ rest @ cs) \<Longrightarrow> is_reply SUCCESS m" and no: "is_reply FAILURE f"
    and routes: "\<And>m. m \<in> set (oks @ rest @ f # cs) \<Longrightarrow> routed ty None m"
    and M: "M = plain_manager mem_repository P S ty dt (map plain_step (data_plan plan))"
  shows "(\<exists>i d0 w1 i' w2 xs. sm_create M LockUndefined LockUndefined (d, w) = Some (Inr i, (d0, w1))
      \<and> handleMessages M (oks @ rest) w1 = Some (Inr (), w2)
      \<and> mem_saved ty w2 = Some i' \<and> si_endState i' \<and> \<not> si_compensating i' \<and> si_sagaData i' = d
      \<and> mem_sent w2 = mem_sent w @ xs
      \<and> list_all2 (delivered P S ty None) (map (\<lambda>j. command_of d False (plan ! j)) (actions_todo plan d)) xs)
    \<and> (\<exists>i d0 w1 i' w2 xs. sm_create M LockUndefined LockUndefined (d, w) = Some (Inr i, (d0, w1))
      \<and> handleMessages M (oks @ f # cs) w1 = Some (Inr (), w2)
      \<and> mem_saved ty w2 = Some i' \<and> si_endState i' \<and> si_compensating i' \<and> si_sagaData i' = d
      \<and> mem_sent w2 = mem_sent w @ xs
      \<and> list_all2 (delivered P S ty None)
          (map (\<lambda>j. command_of d False (plan ! j)) (take (Suc (length oks)) (actions_todo plan d))
           @ map (\<lambda>j. command_of d True (plan ! j)) (undo plan d (actions_todo plan d ! length oks))) xs)"
proof -
  have lt: "length oks < length (actions_todo plan d)"
    using len(1,2) by (cases rest) auto
  have "comes_to M P S ty d w (oks @ rest) (map (\<lambda>j. command_of d False (plan ! j)) (actions_todo plan d)) False d"
    unfolding M by (rule memory_environment.plan_completes [OF env cl len(1)]) (use ok routes in auto)
  moreover have "comes_to M P S ty d w (oks @ f # cs)
    (map (\<lambda>j. command_of d False (plan ! j)) (take (Suc (length oks)) (actions_todo plan d))
     @ map (\<lambda>j. command_of d True (plan ! j)) (undo plan d (actions_todo plan d ! length oks))) True d"
    unfolding M by (rule memory_environment.plan_rolls_back [OF env cl lt _ no len(3)]) (use ok routes in auto)
  ultimately show ?thesis
    unfolding comes_to_def by blast
qed

section \<open>A concrete run\<close>

definition routed_reply :: "outcome \<Rightarrow> message" where
  "routed_reply out = sample_message [(HDR_TYPE, ''Reply''), (REPLY_TYPE, ''Reply''), (REPLY_OUTCOME, outcome_text out),
     (REPLY_SAGA_TYPE, ''CreateOrderSaga''), (REPLY_SAGA_ID, ''null'')]"

lemma routed_reply_facts: "is_reply out (routed_reply out)" "routed ''CreateOrderSaga'' None (routed_reply out)"
  by (simp_all add: is_reply_def routed_def filled_def getHeader_def routed_reply_def sample_message_def new_message_def
      saga_header_defs command_header_defs message_header_defs null_text_def)

definition sample_run_manager :: "(unit, unit instance_store \<times> sent_log) saga_manager" where
  "sample_run_manager = plain_manager mem_repository (logging_producer []) sample_serializer ''CreateOrderSaga'' (\<lambda>_. ''Object'')
     (map plain_step (data_plan sample_plan))"

lemma sample_plan_named: "classes_named sample_plan ()"
  by (auto simp: classes_named_def sample_plan_def command_of_def side_def wanted_def sample_command_def sample_object_def
      new_CommandWithDestination_def nth_Cons split: nat.splits option.splits if_splits)

lemma run_by_manager_witness:
  "\<exists>i d0 w1 w2. sm_create sample_run_manager LockUndefined LockUndefined ((), ([], [])) = Some (Inr i, (d0, w1))
    \<and> handleMessages sample_run_manager [routed_reply SUCCESS, routed_reply SUCCESS] w1 = Some (Inr (), w2)
    \<and> length (mem_sent w2) = 2"
proof -
  have run: "run_saga sample_serializer (map plain_step (data_plan sample_plan)) [routed_reply SUCCESS, routed_reply SUCCESS] ((), ([], [])) =
      (Inr (map (sends sample_plan () False) [1, 3] @ [makeEndStateSagaActions new_SagaExecutionState]), ((), ([], [])))"
    using data_plan_completes [of "[routed_reply SUCCESS, routed_reply SUCCESS]" sample_plan "()" sample_serializer "([], [])"]
    by (auto simp: sample_plan_todo routed_reply_facts)
  have acts: "\<forall>a \<in> set (map (sends sample_plan () False) [1, 3] @ [makeEndStateSagaActions new_SagaExecutionState]). named a"
    using todo_wanted [of _ sample_plan "()"] sends_named [OF sample_plan_named] named_end
    by (auto simp: sample_plan_todo)
  have parts: "\<forall>step \<in> set (map plain_step (data_plan sample_plan)). participant_data_only step"
    using data_plan_participants by blast
  have routes: "\<forall>m \<in> set [routed_reply SUCCESS, routed_reply SUCCESS]. routed ''CreateOrderSaga'' None m"
    using routed_reply_facts by simp
  obtain i d0 w1 w2 xs where "sm_create sample_run_manager LockUndefined LockUndefined ((), ([], [])) = Some (Inr i, (d0, w1))"
    and "handleMessages sample_run_manager [routed_reply SUCCESS, routed_reply SUCCESS] w1 = Some (Inr (), w2)"
    and "mem_sent w2 = mem_sent ([] :: unit instance_store, []) @ xs"
    and "list_all2 (delivered (logging_producer [] :: (unit instance_store \<times> sent_log) producer) sample_serializer ''CreateOrderSaga'' None)
      (concat (map sa_commands (map (sends sample_plan () False) [1, 3] @ [makeEndStateSagaActions new_SagaExecutionState]))) xs"
    using run_by_manager [OF logging.memory_environment_axioms [of "[]"] parts run acts routes,
        where dt = "\<lambda>_. ''Object''", folded sample_run_manager_def] by meson
  moreover from this(3,4) have "length (mem_sent w2) = 2"
    by (auto simp: mem_sent_def sends_def step_actions_def end_actions dest!: list_all2_lengthD)
  ultimately show ?thesis by blast
qed

lemma saga_ends_by_manager_witness:
  "\<exists>i d0 w1 i' w2. sm_create sample_run_manager LockUndefined LockUndefined ((), ([], [])) = Some (Inr i, (d0, w1))
    \<and> handleMessages sample_run_manager
        [routed_reply SUCCESS, routed_reply FAILURE, routed_reply SUCCESS, routed_reply SUCCESS] w1 = Some (Inr (), w2)
    \<and> mem_saved ''CreateOrderSaga'' w2 = Some i' \<and> si_endState i' \<and> si_compensating i' \<and> length (mem_sent w2) = 4"
proof -
  have "length ([routed_reply SUCCESS] @ [routed_reply SUCCESS]) = length (actions_todo sample_plan ())"
    "length [routed_reply SUCCESS, routed_reply SUCCESS] =
      length (undo sample_plan () (actions_todo sample_plan () ! length [routed_reply SUCCESS]))"
    by (simp_all add: sample_plan_todo)
  note ends = saga_ends_by_manager [OF logging.memory_environment_axioms [of "[]"] sample_plan_named this(1) _ this(2),
      of "routed_reply FAILURE" "''CreateOrderSaga''" sample_run_manager sample_serializer "\<lambda>_. ''Object''" "([], [])"]
  have "\<exists>i d0 w1 i' w2 xs. sm_create sample_run_manager LockUndefined LockUndefined ((), ([], [])) = Some (Inr i, (d0, w1))
    \<and> handleMessages sample_run_manager
        ([routed_reply SUCCESS] @ routed_reply FAILURE # [routed_reply SUCCESS, routed_reply SUCCESS]) w1 = Some (Inr (), w2)
    \<and> mem_saved ''CreateOrderSaga'' w2 = Some i' \<and> si_endState i' \<and> si_compensating i' \<and> si_sagaData i' = ()
    \<and> mem_sent w2 = mem_sent ([] :: unit instance_store, []) @ xs
    \<and> list_all2 (delivered (logging_producer [] :: (unit instance_store \<times> sent_log) producer) sample_serializer ''CreateOrderSaga'' None)
        (map (\<lambda>j. command_of () False (sample_plan ! j)) (take (Suc (length [routed_reply SUCCESS])) (actions_todo sample_plan ()))
         @ map (\<lambda>j. command_of () True (sample_plan ! j)) (undo sample_plan () (actions_todo sample_plan () ! length [routed_reply SUCCESS]))) xs"
    by (rule ends [THEN conjunct2]) (auto simp: routed_reply_facts sample_run_manager_def)
  then obtain i d0 w1 i' w2 xs where "sm_create sample_run_manager LockUndefined LockUndefined ((), ([], [])) = Some (Inr i, (d0, w1))"
    and "handleMessages sample_run_manager
        [routed_reply SUCCESS, routed_reply FAILURE, routed_reply SUCCESS, routed_reply SUCCESS] w1 = Some (Inr (), w2)"
    and "mem_saved ''CreateOrderSaga'' w2 = Some i'" "si_endState i'" "si_compensating i'"
    and "mem_sent w2 = xs" "length xs = 4"
    by (fastforce simp: mem_sent_def sample_plan_todo simp del: handleMessages.simps dest: list_all2_lengthD)
  then show ?thesis by blast
qed

end
