(* ===== verification/SagaTesting.thy ===== *)
theory SagaTesting
  imports SagaRuns
begin

text \<open>
  The support for unit tests of sagas (\<open>testing/sagas/saga-unit-test-support.ts\<close>): a manager with a
  repository for one instance, a producer that keeps the messages, and expectations that are
  recorded while a test runs and checked at its end.

  Identifiers are drawn from \<open>uuid\<close>, the \<open>n\<close>-th one of a run being \<open>uuid n\<close>. What an assertion of jest throws
  when it does not hold is \<open>J name\<close> with the name of the matcher, and what \<open>fail\<close> throws is \<open>J ''fail''\<close>.
\<close>

section \<open>The state of a test\<close>

record message_with_destination =
  mwd_destination :: string
  mwd_message :: message

text \<open>
  An object of the class \<open>SagaExpectCommandTest\<close>: the instance is the one at the time of the call of \<open>expect\<close>.
  The functions it records read its fields when they are run, so they are kept as the index of the
  object with the channel they expect.
\<close>

record 'd command_test =
  ct_expectedExtraHeaders :: "headers option"
  ct_expectedCommand :: "jsobj option"
  ct_sagaInstance :: "'d saga_instance option"

record 'd test_support =
  ts_expectations :: "(nat \<times> string) list list"
  ts_tests :: "'d command_test list"
  ts_createException :: "exn option"
  ts_sentCommands :: "message_with_destination list"
  ts_sagaInstance :: "'d saga_instance option"
  ts_drawn :: nat

definition new_test_support :: "'d test_support" where
  "new_test_support = \<lparr>ts_expectations = [], ts_tests = [], ts_createException = None, ts_sentCommands = [],
     ts_sagaInstance = None, ts_drawn = 0\<rparr>"

definition uuidv4 :: "(nat \<Rightarrow> string) \<Rightarrow> ('d test_support, string) eff" where
  "uuidv4 uuid w = (Inr (uuid (ts_drawn w)), w\<lparr>ts_drawn := Suc (ts_drawn w)\<rparr>)"

section \<open>The repository and the producer\<close>

definition test_save :: "(nat \<Rightarrow> string) \<Rightarrow> 'd saga_instance \<Rightarrow> ('d test_support, 'd saga_instance) eff" where
  "test_save uuid i = andThen (uuidv4 uuid) (\<lambda>sid w.
     (Inr (i\<lparr>si_sagaId := Some sid\<rparr>), w\<lparr>ts_sagaInstance := Some (i\<lparr>si_sagaId := Some sid\<rparr>)\<rparr>))"

definition test_find :: "string \<Rightarrow> string \<Rightarrow> ('d test_support, 'd saga_instance option) eff" where
  "test_find sagaType sagaId w = (case ts_sagaInstance w of
     None \<Rightarrow> (Inl TypeError, w)
   | Some i \<Rightarrow> if si_sagaId i \<noteq> Some sagaId then (Inl (ErrorException ''some stuff''), w) else (Inr (Some i), w))"

definition test_update :: "'d saga_instance \<Rightarrow> ('d test_support, unit) eff" where
  "test_update i w = (Inr (), w\<lparr>ts_sagaInstance := Some i\<rparr>)"

definition test_repository :: "(nat \<Rightarrow> string) \<Rightarrow> ('d, 'd test_support) instance_repository" where
  "test_repository uuid = \<lparr>findInstance = test_find, saveInstance = test_save uuid, updateInstance = test_update\<rparr>"

definition test_send :: "(nat \<Rightarrow> string) \<Rightarrow> string \<Rightarrow> message \<Rightarrow> ('d test_support, unit) eff" where
  "test_send uuid destination m = andThen (uuidv4 uuid) (\<lambda>i w.
     (Inr (), w\<lparr>ts_sentCommands := ts_sentCommands w @
        [\<lparr>mwd_destination = destination, mwd_message = setHeader HDR_ID i m\<rparr>]\<rparr>))"

text \<open>
  \<open>TestMessageProducer\<close> stands in for the producer of messages and has only the function \<open>send\<close>. The
  producer of commands calls \<open>sendBatch\<close>, with one message at a time: that is no function, and the call is a
  \<open>TypeError\<close> before anything else happens.
\<close>

definition test_producer :: "'w producer" where
  "test_producer = \<lparr>channelMapping = [], generateMessageId = throw TypeError, targetSend = (\<lambda>_ _ _. throw TypeError),
     targetSendBatch = (\<lambda>_ _ _. throw TypeError), interceptors = [], currentDate = throw TypeError\<rparr>"

lemma test_sendBatch: "ms \<noteq> [] \<Longrightarrow> sendBatch test_producer destination ms isEvent w = (Inl TypeError, w)"
  by (cases ms) (simp_all add: sendBatch_def prepareMessageHeaders_def test_producer_def)

text \<open>\<open>claimLock\<close> is a mock that returns true.\<close>

definition test_manager :: "(nat \<Rightarrow> string) \<Rightarrow> serializer \<Rightarrow> ('d, 'd test_support) saga \<Rightarrow> ('d, 'd test_support) saga_manager" where
  "test_manager uuid S sg = \<lparr>sm_saga = sg, sagaInstanceRepository = test_repository uuid, sm_producer = test_producer,
     sm_serializer = S, sm_claimLock = (\<lambda>_ _ _. ret True)\<rparr>"

text \<open>The instance, its identifier being drawn when it is saved, is kept as in memory: an interface of theory SagaRuns.\<close>

definition test_saved :: "'d test_support \<Rightarrow> 'd saga_instance option" where
  "test_saved w = (case ts_sagaInstance w of None \<Rightarrow> None | Some i \<Rightarrow> if si_sagaId i = None then None else Some i)"

interpretation test: instance_keeper "test_repository uuid" ty test_saved
    "\<lambda>w. map (\<lambda>c. (mwd_destination c, mwd_message c)) (ts_sentCommands w)" for uuid ty
  by unfold_locales
    (auto simp: test_repository_def test_save_def test_update_def test_find_def test_saved_def uuidv4_def andThen_def null_text_def
      intro: resumes_refl split: option.splits if_splits)

section \<open>Expectations\<close>

text \<open>\<open>create\<close> keeps an exception for \<open>expect\<close>; that the manager returns is a property of theory SagaManager.\<close>

definition test_create :: "(nat \<Rightarrow> string) \<Rightarrow> serializer \<Rightarrow> ('d, 'd test_support) saga \<Rightarrow> 'd \<Rightarrow> 'd test_support \<Rightarrow> 'd test_support option" where
  "test_create uuid S sg d w = (case sm_create (test_manager uuid S sg) LockUndefined LockUndefined (d, w) of
     None \<Rightarrow> None
   | Some (Inl err, (_, w')) \<Rightarrow> Some (w'\<lparr>ts_createException := Some err\<rparr>)
   | Some (Inr _, (_, w')) \<Rightarrow> Some w')"

text \<open>\<open>expect\<close> gives the object for the next command; its index is that of its list of expectations.\<close>

definition test_expect :: "('d test_support, nat) eff" where
  "test_expect w = (case ts_createException w of
     Some err \<Rightarrow> (Inl err, w)
   | None \<Rightarrow> (Inr (length (ts_expectations w)),
       w\<lparr>ts_expectations := ts_expectations w @ [[]],
         ts_tests := ts_tests w @ [\<lparr>ct_expectedExtraHeaders = None, ct_expectedCommand = None,
           ct_sagaInstance = ts_sagaInstance w\<rparr>]\<rparr>))"

definition update_test :: "nat \<Rightarrow> ('d command_test \<Rightarrow> 'd command_test) \<Rightarrow> 'd test_support \<Rightarrow> 'd test_support" where
  "update_test idx f w = w\<lparr>ts_tests := (ts_tests w)[idx := f (ts_tests w ! idx)]\<rparr>"

definition ct_command :: "nat \<Rightarrow> jsobj \<Rightarrow> 'd test_support \<Rightarrow> 'd test_support" where
  "ct_command idx cmd = update_test idx (ct_expectedCommand_update (\<lambda>_. Some cmd))"

definition ct_withExtraHeaders :: "nat \<Rightarrow> headers \<Rightarrow> 'd test_support \<Rightarrow> 'd test_support" where
  "ct_withExtraHeaders idx h = update_test idx (ct_expectedExtraHeaders_update (\<lambda>_. Some h))"

definition ct_to :: "nat \<Rightarrow> string \<Rightarrow> 'd test_support \<Rightarrow> 'd test_support" where
  "ct_to idx commandChannel w =
     w\<lparr>ts_expectations := (ts_expectations w)[idx := ts_expectations w ! idx @ [(idx, commandChannel)]]\<rparr>"

text \<open>Replies go straight to the manager, with the type and the identifier of the instance.\<close>

definition sendReply ::
    "(nat \<Rightarrow> string) \<Rightarrow> serializer \<Rightarrow> ('d, 'd test_support) saga \<Rightarrow> nat \<Rightarrow> payload_arg \<Rightarrow> outcome \<Rightarrow> ('d test_support, unit) peff" where
  "sendReply uuid S sg idx reply out =
     thenLoop
       (andThen (lift (withPayload S reply)) (\<lambda>b w.
          case ct_sagaInstance (ts_tests w ! idx) of
            None \<Rightarrow> throw TypeError w
          | Some i \<Rightarrow> andThen (uuidv4 uuid) (\<lambda>mid. ret (setHeader HDR_ID mid (build
              (withHeader REPLY_SAGA_ID (null_text (si_sagaId i))
                (withHeader REPLY_SAGA_TYPE (si_sagaType i)
                  (withHeader REPLY_TYPE (constructor_name reply)
                    (withHeader REPLY_OUTCOME (outcome_text out)
                      (withReference (constructor_name reply) b)))))))) w))
       (sm_handleMessage (test_manager uuid S sg))"

definition successReply where
  "successReply uuid S sg idx reply = sendReply uuid S sg idx (case reply of None \<Rightarrow> Success | Some r \<Rightarrow> r) SUCCESS"

definition failureReply where
  "failureReply uuid S sg idx reply = sendReply uuid S sg idx (case reply of None \<Rightarrow> Failure | Some r \<Rightarrow> r) FAILURE"

section \<open>Checking the expectations\<close>

definition jest_assert :: "(string \<Rightarrow> exn) \<Rightarrow> string \<Rightarrow> bool \<Rightarrow> ('w, unit) eff" where
  "jest_assert J matcher b = (if b then ret () else throw (J matcher))"

text \<open>\<open>expect.objectContaining(expected)\<close>\<close>

definition containing :: "headers \<Rightarrow> headers \<Rightarrow> bool" where
  "containing expected actual = list_all (\<lambda>(k, v). map_get actual k = Some v) (map_from expected)"

text \<open>A recorded expectation, on the first command that is left; it takes that command away.\<close>

definition run_expectation :: "(string \<Rightarrow> exn) \<Rightarrow> nat \<times> string \<Rightarrow> ('d test_support, unit) eff" where
  "run_expectation J x w =
     (let t = ts_tests w ! fst x
      in case ts_sentCommands w of
           [] \<Rightarrow> throw TypeError w
         | c # cs \<Rightarrow>
             andThen (jest_assert J ''toEqual'' (snd x = mwd_destination c)) (\<lambda>_.
             andThen (case ct_expectedCommand t of None \<Rightarrow> throw TypeError
               | Some cmd \<Rightarrow> andThen (lift (getRequiredHeader (mwd_message c) COMMAND_TYPE)) (\<lambda>type.
                   jest_assert J ''toEqual'' (obj_class cmd = type))) (\<lambda>_.
             andThen (case ct_expectedExtraHeaders t of None \<Rightarrow> ret ()
               | Some h \<Rightarrow> jest_assert J ''toEqual'' (containing h (headers (mwd_message c)))) (\<lambda>_ w.
               (Inr (), w\<lparr>ts_sentCommands := cs\<rparr>)))) w)"

definition runExpectations :: "(string \<Rightarrow> exn) \<Rightarrow> ('d test_support, unit) eff" where
  "runExpectations J w =
     andThen (jest_assert J ''toHaveLength'' (length (ts_sentCommands w) = length (ts_expectations w))) (\<lambda>_.
       forEach (forEach (run_expectation J)) (ts_expectations w)) w"

definition assertNoCommands :: "(string \<Rightarrow> exn) \<Rightarrow> ('d test_support, unit) eff" where
  "assertNoCommands J w =
     (case ts_sentCommands w of
        [] \<Rightarrow> ret ()
      | [c] \<Rightarrow> andThen (lift (getRequiredHeader (mwd_message c) COMMAND_TYPE)) (\<lambda>_.
                andThen (lift (toString (mwd_message c))) (\<lambda>_. throw (J ''fail'')))
      | _ \<Rightarrow> throw (J ''toHaveLength'')) w"

definition with_instance :: "('d saga_instance \<Rightarrow> ('d test_support, unit) eff) \<Rightarrow> ('d test_support, unit) eff" where
  "with_instance f w = (case ts_sagaInstance w of None \<Rightarrow> throw TypeError w | Some i \<Rightarrow> f i w)"

definition expectCompletedSuccessfully :: "(string \<Rightarrow> exn) \<Rightarrow> ('d test_support, unit) eff" where
  "expectCompletedSuccessfully J =
     andThen (runExpectations J) (\<lambda>_.
     andThen (assertNoCommands J) (\<lambda>_.
     andThen (with_instance (\<lambda>i. jest_assert J ''toBeTruthy'' (si_endState i))) (\<lambda>_.
       with_instance (\<lambda>i. jest_assert J ''toBeFalsy'' (\<not> si_compensating i)))))"

definition expectRolledBack :: "(string \<Rightarrow> exn) \<Rightarrow> ('d test_support, unit) eff" where
  "expectRolledBack J =
     andThen (runExpectations J) (\<lambda>_.
     andThen (assertNoCommands J) (\<lambda>_.
     andThen (with_instance (\<lambda>i. jest_assert J ''fail'' (si_endState i))) (\<lambda>_.
       with_instance (\<lambda>i. jest_assert J ''fail'' (si_compensating i)))))"

text \<open>\<open>toBe\<close> compares references; exceptions are told apart here by their class and what they hold.\<close>

definition expectException :: "(string \<Rightarrow> exn) \<Rightarrow> exn \<Rightarrow> ('d test_support, unit) eff" where
  "expectException J expected w = jest_assert J ''toBe'' (ts_createException w = Some expected) w"

section \<open>What a passing test says\<close>

text \<open>A command meets an expectation of the tests recorded so far.\<close>

definition meets :: "'d test_support \<Rightarrow> nat \<times> string \<Rightarrow> message_with_destination \<Rightarrow> bool" where
  "meets w x c \<longleftrightarrow> mwd_destination c = snd x
     \<and> (\<exists>cmd. ct_expectedCommand (ts_tests w ! fst x) = Some cmd \<and> obj_class cmd \<noteq> ''''
          \<and> map_get (headers (mwd_message c)) COMMAND_TYPE = Some (obj_class cmd))
     \<and> (case ct_expectedExtraHeaders (ts_tests w ! fst x) of None \<Rightarrow> True
        | Some h \<Rightarrow> containing h (headers (mwd_message c)))"

lemma jest_assert_Inr [simp]: "jest_assert J n b w = (Inr (), w') \<longleftrightarrow> b \<and> w' = w"
  by (auto simp: jest_assert_def)

lemma run_expectation_passes:
  "run_expectation J x w = (Inr (), w') \<longleftrightarrow>
     (\<exists>c cs. ts_sentCommands w = c # cs \<and> meets w x c \<and> w' = w\<lparr>ts_sentCommands := cs\<rparr>)"
proof (cases "ts_sentCommands w")
  case Nil
  then show ?thesis by (simp add: run_expectation_def Let_def)
next
  case (Cons c cs)
  then show ?thesis
    by (cases "ct_expectedCommand (ts_tests w ! fst x)"; cases "ct_expectedExtraHeaders (ts_tests w ! fst x)")
      (auto simp: run_expectation_def Let_def andThen_eq_Inr meets_def getRequiredHeader_Inr)
qed

lemma meets_sent [simp]: "meets (w\<lparr>ts_sentCommands := cs\<rparr>) = meets w"
  by (intro ext) (simp add: meets_def)

lemma expectations_pass:
  "forEach (run_expectation J) xs w = (Inr (), w') \<longleftrightarrow>
     list_all2 (meets w) xs (take (length xs) (ts_sentCommands w))
     \<and> w' = w\<lparr>ts_sentCommands := drop (length xs) (ts_sentCommands w)\<rparr>"
proof (induction xs arbitrary: w)
  case Nil
  then show ?case by auto
next
  case (Cons x xs)
  show ?case
    by (cases "ts_sentCommands w") (auto simp: andThen_eq_Inr run_expectation_passes Cons.IH)
qed

lemma forEach_forEach: "forEach (forEach f) xss = forEach f (concat xss)"
  by (induction xss) (simp_all add: forEach_append)

lemma assertNoCommands_passes: "assertNoCommands J w = (Inr (), w') \<longleftrightarrow> ts_sentCommands w = [] \<and> w' = w"
  by (auto simp: assertNoCommands_def andThen_eq_Inr split: list.splits)

lemma list_all2_take: "list_all2 P xs ys \<Longrightarrow> list_all2 P xs (take (length xs) ys)"
  using list_all2_lengthD [of P xs ys] by simp

lemma list_all2_drop: "list_all2 P xs ys \<Longrightarrow> drop (length xs) ys = []"
  by (simp add: list_all2_lengthD)

lemma runExpectations_passes:
  "andThen (runExpectations J) (\<lambda>_. andThen (assertNoCommands J) (\<lambda>_. f)) w = (Inr (), w') \<longleftrightarrow>
     length (ts_sentCommands w) = length (ts_expectations w)
     \<and> list_all2 (meets w) (concat (ts_expectations w)) (ts_sentCommands w)
     \<and> f (w\<lparr>ts_sentCommands := []\<rparr>) = (Inr (), w')"
  by (auto simp: andThen_eq_Inr runExpectations_def forEach_forEach expectations_pass assertNoCommands_passes
      dest: list_all2_drop list_all2_take)

lemma with_instance_passes:
  "with_instance (\<lambda>i. jest_assert J n (p i)) w = (Inr (), w') \<longleftrightarrow> (\<exists>i. ts_sagaInstance w = Some i \<and> p i) \<and> w' = w"
  by (auto simp: with_instance_def split: option.splits)

text \<open>
  C25: What a passing test says. \<open>expectCompletedSuccessfully\<close> and \<open>expectRolledBack\<close> return exactly when as many
  commands were sent as \<open>expect\<close> was called, the commands meet the recorded expectations one by one in their
  order with none left on either side, and the instance has ended, compensating or not as the name says.
\<close>

theorem passing_test_iff:
  "(expectCompletedSuccessfully J w = (Inr (), w') \<longleftrightarrow>
      length (ts_sentCommands w) = length (ts_expectations w)
      \<and> list_all2 (meets w) (concat (ts_expectations w)) (ts_sentCommands w)
      \<and> (\<exists>i. ts_sagaInstance w = Some i \<and> si_endState i \<and> \<not> si_compensating i)
      \<and> w' = w\<lparr>ts_sentCommands := []\<rparr>)
   \<and> (expectRolledBack J w = (Inr (), w') \<longleftrightarrow>
      length (ts_sentCommands w) = length (ts_expectations w)
      \<and> list_all2 (meets w) (concat (ts_expectations w)) (ts_sentCommands w)
      \<and> (\<exists>i. ts_sagaInstance w = Some i \<and> si_endState i \<and> si_compensating i)
      \<and> w' = w\<lparr>ts_sentCommands := []\<rparr>)"
  unfolding expectCompletedSuccessfully_def expectRolledBack_def runExpectations_passes
  by (auto simp: andThen_eq_Inr with_instance_passes)

section \<open>A test of a saga that sends commands\<close>

lemma test_sendCommands:
  "cs \<noteq> [] \<Longrightarrow> sendCommands S test_producer ty sid cs ch w = (Inl TypeError, w)"
  by (cases cs) (simp_all add: sendCommands_def cmd_send_saga andThen_Inl test_sendBatch andThen_def)


definition sample_saga :: "(unit, unit test_support) saga" where
  "sample_saga = \<lparr>sagaClass = ''CreateOrderSaga'',
     sagaDefinition = Some (nest_definition sample_serializer (map plain_step (data_plan sample_plan))),
     onStarting = None, onSagaRolledBack = None, onSagaCompletedSuccessfully = None, sagaDataTypeOf = (\<lambda>_. ''Object'')\<rparr>"


end
