(* ===== verification/Participant.thy ===== *)
theory Participant
  imports SagaStorage
begin

text \<open>
  The participants of a saga (\<open>sagas/participant/\<close>): the dispatcher of the commands of sagas,
  which claims locks before or after the handler, stashes and unlocks, and the functions it reads
  messages with.
\<close>

section \<open>Reading a command\<close>

definition isUnlockMessage :: "message \<Rightarrow> exn + bool" where
  "isUnlockMessage m =
     map_sum id (\<lambda>t. t = obj_class SagaUnlockCommand) (getRequiredHeader m COMMAND_TYPE)"

definition getSagaType :: "message \<Rightarrow> exn + string" where
  "getSagaType m = getRequiredHeader m SAGA_TYPE"

definition getSagaId :: "message \<Rightarrow> exn + string" where
  "getSagaId m = getRequiredHeader m SAGA_ID"

definition getCommandTarget :: "message \<Rightarrow> exn + string" where
  "getCommandTarget m = getRequiredHeader m COMMAND_TYPE"

definition addLockedHeader :: "message list \<Rightarrow> string \<Rightarrow> message list" where
  "addLockedHeader messages lockedTarget =
     map (\<lambda>m. build (withHeader REPLY_LOCKED lockedTarget (withMessage m))) messages"

definition getLock :: "message list \<Rightarrow> string option" where
  "getLock messages = (case find (\<lambda>m. lock m \<noteq> None) messages of None \<Rightarrow> None | Some m \<Rightarrow> lock m)"

section \<open>The dispatcher\<close>

record 'w lock_manager =
  lm_claimLock :: "string \<Rightarrow> string \<Rightarrow> string \<Rightarrow> ('w, bool) eff"
  lm_stashMessage :: "string \<Rightarrow> string \<Rightarrow> string \<Rightarrow> message \<Rightarrow> ('w, unit) eff"
  lm_unlock :: "string \<Rightarrow> string \<Rightarrow> ('w, message option) eff"

definition base_lock_manager :: "'w lock_manager" where
  "base_lock_manager =
     \<lparr>lm_claimLock = (\<lambda>ty sid. base_claimLock ty (Some sid)), lm_stashMessage = base_stashMessage,
      lm_unlock = base_unlock\<rparr>"

definition db_lock_manager :: "'w lock_tables \<Rightarrow> 'w lock_manager" where
  "db_lock_manager T =
     \<lparr>lm_claimLock = (\<lambda>ty sid lockTarget. returning (db_claimLock T ty (Some sid) lockTarget)),
      lm_stashMessage = db_stashMessage T, lm_unlock = db_unlock T\<rparr>"

text \<open>The lock the handler's \<open>preLock\<close> asks for, claimed before the handler runs.\<close>

definition claimPreLock ::
    "'w lock_manager \<Rightarrow> string \<Rightarrow> string \<Rightarrow> 'w command_handler \<Rightarrow> command_msg \<Rightarrow> ('w, string option) eff" where
  "claimPreLock L sagaType sagaId h cm =
     (if ch_isSaga h then
        (case ch_preLock h of
           None \<Rightarrow> ret None
         | Some preLock \<Rightarrow>
             andThen (preLock cm) (\<lambda>lockedTarget.
             andThen (lm_claimLock L sagaType sagaId lockedTarget) (\<lambda>hasClaimedLock.
               if \<not> hasClaimedLock then throw (StashMessageRequiredException lockedTarget)
               else ret (Some lockedTarget))))
      else ret None)"

definition saga_invoke ::
    "serializer \<Rightarrow> 'w lock_manager \<Rightarrow> 'w command_handler \<Rightarrow> command_msg \<Rightarrow> ('w, message list) eff" where
  "saga_invoke S L h cm =
     andThen (lift (getSagaType (cm_message cm))) (\<lambda>sagaType.
     andThen (lift (getSagaId (cm_message cm))) (\<lambda>sagaId.
     andThen (claimPreLock L sagaType sagaId h cm) (\<lambda>lockedTarget.
     andThen (cd_invoke S h cm) (\<lambda>messages.
       if lockedTarget \<noteq> None \<and> lockedTarget \<noteq> Some ''''
       then ret (addLockedHeader messages (the lockedTarget))
       else (case getLock messages of
           None \<Rightarrow> ret messages
         | Some lockTarget \<Rightarrow>
             andThen (lm_claimLock L sagaType sagaId lockTarget) (\<lambda>hasClaimedLock.
               if \<not> hasClaimedLock then throw (CannotClaimLockException sagaType sagaId lockTarget)
               else ret (addLockedHeader messages lockTarget)))))))"

definition saga_handleMessage :: "'w lock_manager \<Rightarrow> 'w dispatcher \<Rightarrow> message \<Rightarrow> ('w, unit) eff" where
  "saga_handleMessage L D m =
     andThen (lift (getSagaType m)) (\<lambda>sagaType.
     andThen (lift (getSagaId m)) (\<lambda>sagaId.
     andThen (lift (getCommandTarget m)) (\<lambda>commandTarget.
     andThen (lift (isUnlockMessage m)) (\<lambda>unlocking.
       let super = cd_handleMessage (saga_invoke (dispatcherSerializer D) L) D
       in if unlocking then
            andThen (lm_unlock L sagaId commandTarget) (\<lambda>unlockedMessage.
              case unlockedMessage of None \<Rightarrow> ret () | Some u \<Rightarrow> super u)
          else tryCatch (super m) (\<lambda>err.
            case err of
              StashMessageRequiredException _ \<Rightarrow> lm_stashMessage L sagaType sagaId commandTarget m
            | _ \<Rightarrow> throw err)))))"

definition saga_dispatcher_create ::
    "'w producer \<Rightarrow> serializer \<Rightarrow> 'w lock_manager \<Rightarrow> string \<Rightarrow> 'w command_handler list \<Rightarrow>
     'w lock_manager \<times> 'w dispatcher" where
  "saga_dispatcher_create P S L dispatcherId hs =
     (L, dispatcher_create P S dispatcherId hs)"

section \<open>Locking replies\<close>

lemma addLockedHeader_header:
  "m' \<in> set (addLockedHeader ms lockTarget) \<Longrightarrow> map_get (headers m') REPLY_LOCKED = Some lockTarget \<and> lock m' = None"
  by (auto simp: addLockedHeader_def)

text \<open>
  C21: A handler with a \<open>preLock\<close> runs only when its saga has claimed the lock; then every reply
  names the locked target in a header, and none of them carries a lock of its own any more.
\<close>

theorem preLock_guards_handler:
  assumes "ch_isSaga h" and "ch_preLock h = Some p" and "p cm w = (Inr t, w1)" and "t \<noteq> ''''"
    and "getSagaType (cm_message cm) = Inr ty" and "getSagaId (cm_message cm) = Inr sid"
    and "lm_claimLock L ty sid t w1 = (Inr claimed, w2)"
  shows "(claimed \<longrightarrow> saga_invoke S L h cm w =
      (case cd_invoke S h cm w2 of (Inl e, w3) \<Rightarrow> (Inl e, w3) | (Inr ms, w3) \<Rightarrow> (Inr (addLockedHeader ms t), w3))
      \<and> (\<forall>ms. \<forall>m' \<in> set (addLockedHeader ms t). map_get (headers m') REPLY_LOCKED = Some t \<and> lock m' = None))
    \<and> (\<not> claimed \<longrightarrow> saga_invoke S L h cm w = (Inl (StashMessageRequiredException t), w2))"
  using assms addLockedHeader_header
  by (auto simp: saga_invoke_def claimPreLock_def andThen_def split: prod.split sum.split)

text \<open>
  A locked reply is recorded: when a reply that names a locked target and the channel its
  command was sent to reaches the manager, exactly that pair is added to the participants to unlock
  when the saga ends.
\<close>

lemma locked_reply_recorded:
  assumes "map_get (headers m) REPLY_LOCKED = Some t" and "t \<noteq> ''''"
    and "map_get (headers m) (COMMAND_REPLY_PREFIX @ ''_destination'') = Some ch" and "ch \<noteq> ''''"
  shows "addLockedParticipant m (Some i) = Inr (Some (i\<lparr>si_destinationsAndResources :=
    si_destinationsAndResources i @ [\<lparr>dr_destination = ch, dr_resource = t\<rparr>]\<rparr>))"
proof -
  have "inReply DESTINATION = Inr (COMMAND_REPLY_PREFIX @ ''_destination'')"
    unfolding DESTINATION_def by (rule inReply_command)
  moreover have "getRequiredHeader m (COMMAND_REPLY_PREFIX @ ''_destination'') = Inr ch"
    using assms(3,4) by (simp add: getRequiredHeader_Inr)
  ultimately show ?thesis
    using assms(1,2) by (simp add: addLockedParticipant_def getHeader_def)
qed

text \<open>
  C40: A command that could not claim its lock is not stashed: \<open>handleMessage\<close> of the base class
  replies to the exception that asks for it, so the saga receives a failure and the stash is
  never written.
\<close>

theorem stash_never_reached:
  assumes "getSagaType m = Inr ty" and "getSagaId m = Inr sid"
    and "isUnlockMessage m = Inr False" and "filled m COMMAND_TYPE"
    and "findTargetMethod (commandHandlers D) m = Inr (Some h)"
    and "filled m REPLY_TO" and "filled m HDR_TYPE"
    and "parsePayload (dispatcherSerializer D) (ch_command h) m = Inr cmd"
    and "saga_invoke (dispatcherSerializer D) L h
      \<lparr>cm_command = cmd, cm_correlation = correlated (headers m), cm_message = m\<rparr> w =
      (Inl (StashMessageRequiredException t), w1)"
    and "sendBatch (messageProducer D) (getHeader m REPLY_TO '''')
      [failure_reply (dispatcherSerializer D) m (StashMessageRequiredException t)] False w1 = (Inr sent, w2)"
  shows "saga_handleMessage L D m w = (Inr (), w2)"
proof -
  obtain s where s: "toString m = Inr s" using assms(7) toString_total by blast
  have "cd_replies (saga_invoke (dispatcherSerializer D) L) D h (correlated (headers m))
      (getHeader m REPLY_TO '''') m w = (Inr None, w2)"
    using assms(8-10)
    by (simp add: cd_replies_def s andThen_def tryCatch_def handleException_eq thrown_text_def)
  then have "cd_handleMessage (saga_invoke (dispatcherSerializer D) L) D m w = (Inr (), w2)"
    using assms(5,6)
    by (simp add: cd_handleMessage_def correlateMessageHeaders_eq getRequiredHeader_filled andThen_def)
  moreover have "getCommandTarget m = Inr (getHeader m COMMAND_TYPE '''')"
    using assms(4) by (simp add: getCommandTarget_def getRequiredHeader_filled)
  ultimately show ?thesis
    using assms(1-3) by (simp add: saga_handleMessage_def tryCatch_def)
qed

section \<open>A concrete participant\<close>

definition sample_handler :: "broker_log command_handler" where
  "sample_handler =
     \<lparr>ch_channel = ''customers'', ch_command = ''ReserveCredit'',
      ch_invoke = (\<lambda>_. ret (One ReplyNothing)), ch_withLock = False, ch_optionsPreLock = None,
      ch_resource = None, ch_isSaga = True, ch_preLock = Some (\<lambda>_. ret ''Customer/7'')\<rparr>"

definition sample_lock_manager :: "bool \<Rightarrow> broker_log lock_manager" where
  "sample_lock_manager free =
     \<lparr>lm_claimLock = (\<lambda>_ _ _. ret free), lm_stashMessage = (\<lambda>_ _ _ _. ret ()), lm_unlock = (\<lambda>_ _. ret None)\<rparr>"

definition sample_dispatcher :: "broker_log dispatcher" where
  "sample_dispatcher = dispatcher_create sample_producer sample_serializer ''customer-service'' [sample_handler]"

definition sample_saga_command :: message where
  "sample_saga_command = sample_message
     [(HDR_TYPE, ''ReserveCredit''), (COMMAND_TYPE, ''ReserveCredit''), (REPLY_TO, ''CreateOrderSaga-reply''),
      (SAGA_TYPE, ''CreateOrderSaga''), (SAGA_ID, ''1''), (HDR_ID, ''m1'')]"

lemma sample_saga_command_headers:
  "getHeader sample_saga_command HDR_TYPE '''' = ''ReserveCredit''"
  "getHeader sample_saga_command COMMAND_TYPE '''' = ''ReserveCredit''"
  "getHeader sample_saga_command REPLY_TO '''' = ''CreateOrderSaga-reply''"
  "getHeader sample_saga_command SAGA_TYPE '''' = ''CreateOrderSaga''"
  "getHeader sample_saga_command SAGA_ID '''' = ''1''"
  by (simp_all add: sample_saga_command_def sample_message_def new_message_def getHeader_def
      saga_header_defs command_header_defs message_header_defs)

lemma sample_saga_command_get:
  "getSagaType sample_saga_command = Inr ''CreateOrderSaga''"
  "getSagaId sample_saga_command = Inr ''1''"
  "isUnlockMessage sample_saga_command = Inr False"
  "findTargetMethod (commandHandlers sample_dispatcher) sample_saga_command = Inr (Some sample_handler)"
  by (simp_all add: getSagaType_def getSagaId_def isUnlockMessage_def SagaUnlockCommand_def
      getRequiredHeader_eq filled_def sample_saga_command_headers findTargetMethod_def handles_def
      commandTypeMatches_def ch_resourceMatches_def sample_dispatcher_def dispatcher_create_def sample_handler_def)

definition sample_cm :: command_msg where
  "sample_cm = \<lparr>cm_command = \<lparr>obj_class = ''ReserveCredit'', obj_own = JObj []\<rparr>,
     cm_correlation = correlated (headers sample_saga_command), cm_message = sample_saga_command\<rparr>"

lemma sample_invoke_refused:
  "saga_invoke sample_serializer (sample_lock_manager False) sample_handler sample_cm w =
     (Inl (StashMessageRequiredException ''Customer/7''), w)"
  by (simp add: saga_invoke_def claimPreLock_def sample_cm_def sample_saga_command_get sample_handler_def
      sample_lock_manager_def)

lemma preLock_guards_handler_witness:
  "saga_invoke sample_serializer (sample_lock_manager False) sample_handler sample_cm [] =
     (Inl (StashMessageRequiredException ''Customer/7''), [])"
  using preLock_guards_handler [of sample_handler "\<lambda>_. ret ''Customer/7''" sample_cm "[]" "''Customer/7''" "[]"
      "''CreateOrderSaga''" "''1''" "sample_lock_manager False" False "[]" sample_serializer]
  by (simp add: sample_handler_def sample_cm_def sample_saga_command_get sample_lock_manager_def)

lemma locked_reply_recorded_witness:
  "addLockedParticipant (sample_message [(REPLY_LOCKED, ''Customer/7''),
      (COMMAND_REPLY_PREFIX @ ''_destination'', ''customers'')]) (Some (sample_instance 1)) =
    Inr (Some ((sample_instance 1)\<lparr>si_destinationsAndResources :=
      [\<lparr>dr_destination = ''customers'', dr_resource = ''Customer/7''\<rparr>]\<rparr>))"
  using locked_reply_recorded [of "sample_message [(REPLY_LOCKED, ''Customer/7''),
      (COMMAND_REPLY_PREFIX @ ''_destination'', ''customers'')]" "''Customer/7''" "''customers''" "sample_instance 1"]
  by (simp add: sample_message_def new_message_def saga_header_defs command_header_defs
      sample_instance_def new_SagaInstance_def)

lemma stash_never_reached_witness:
  "\<exists>w2. saga_handleMessage (sample_lock_manager False) sample_dispatcher sample_saga_command [] = (Inr (), w2)"
proof -
  have "dispatcherSerializer sample_dispatcher = sample_serializer"
    "messageProducer sample_dispatcher = sample_producer"
    by (simp_all add: sample_dispatcher_def dispatcher_create_def)
  moreover have "parsePayload sample_serializer (ch_command sample_handler) sample_saga_command =
      Inr \<lparr>obj_class = ''ReserveCredit'', obj_own = JObj []\<rparr>"
    by (simp add: parsePayload_def sample_serializer_def sample_handler_def sample_saga_command_def
        sample_message_def new_message_def)
  moreover have "\<exists>sent w2. sendBatch sample_producer ch [failure_reply sample_serializer sample_saga_command
      (StashMessageRequiredException t)] False [] = (Inr sent, w2)" for ch t
    by (subst sendBatch_sample) (auto intro: failure_reply_typed simp: caught_def thrown_text_def)
  ultimately show ?thesis
    using stash_never_reached [of sample_saga_command "''CreateOrderSaga''" "''1''" sample_dispatcher
        sample_handler "\<lparr>obj_class = ''ReserveCredit'', obj_own = JObj []\<rparr>" "sample_lock_manager False" "[]"
        "''Customer/7''" "[]"]
      sample_saga_command_get sample_invoke_refused
    by (fastforce simp: filled_def sample_saga_command_headers sample_cm_def)
qed

end
