(* ===== verification/MessagingProps.thy ===== *)
theory MessagingProps
  imports Samples
begin

text \<open>
  What messaging as a whole promises: the producer, the consumer, the brokers and the detectors
  of duplicates together.
\<close>

section \<open>Headers\<close>

text \<open>
  A required header that is missing or empty is an exception. It is the
  \<open>MissingMessageHeaderException\<close> only when the message has a type: the text of that exception
  is made with \<open>toString\<close>, which requires the type itself, and without one the calls never end
  but in a \<open>RangeError\<close>. The text of a message exists exactly when it has a type.
\<close>

lemma required_header_outcome:
  "getRequiredHeader m name =
     (if map_get (headers m) name \<notin> {None, Some ''''} then Inr (the (map_get (headers m) name))
      else if map_get (headers m) HDR_TYPE \<notin> {None, Some ''''} then Inl (MissingMessageHeaderException name)
      else Inl RangeError)
   \<and> ((\<exists>s. toString m = Inr s) = (map_get (headers m) HDR_TYPE \<notin> {None, Some ''''}))"
proof -
  have "filled m k \<longleftrightarrow> map_get (headers m) k \<notin> {None, Some ''''}" for k
    by (auto simp: filled_def getHeader_def split: option.splits)
  then show ?thesis
    using toString_total [of m] getRequiredHeader_eq [of m name]
    by (auto simp: getHeader_def)
qed

section \<open>Sending\<close>

text \<open>
  What the broker is given. When no interceptor changes the messages before the send, the
  broker receives each message of the batch, in order, with its payload and all its headers but
  three: the identifier is the generated one, even an empty one over the message's own, the
  destination is the mapped one and the date is new. The broker itself is called with the
  destination as it was before the mapping.
\<close>

lemma sendBatch_prepares:
  assumes "sendBatch P destination ms isEvent w = (Inr sent, w')"
    and "\<And>i. i \<in> set (interceptors P) \<Longrightarrow> preSend i = None"
  shows "list_all2 (\<lambda>m m'. payload m' = payload m
      \<and> map_get (headers m') HDR_DESTINATION = Some (transform (channelMapping P) destination)
      \<and> (\<exists>i now. \<forall>k. k \<noteq> HDR_DESTINATION \<longrightarrow> map_get (headers m') k =
          (if k = HDR_DATE then Some now else if k = HDR_ID then Some i else map_get (headers m) k))) ms sent
    \<and> (\<exists>w1 w2. targetSendBatch P destination sent isEvent w1 = (Inr (), w2))"
proof -
  obtain ps w1 w2 w3 w4 where prep: "mapEff (prepareMessageHeaders P destination) ms w = (Inr ps, w1)"
    and sent: "mapEff (runPreSend (interceptors P)) ps w1 = (Inr sent, w2)"
    and target: "targetSendBatch P destination sent isEvent w3 = (Inr (), w4)"
    using assms(1) by (rule sendBatch_InrE)
  have "runPreSend (interceptors P) = ret"
    using assms(2) by (intro runPreSend_none) simp
  then have "sent = ps"
    using sent by (simp add: mapEff_ret [where g = "\<lambda>x. x"])
  moreover have "list_all2 (prepared_for P destination) ms ps"
    using prep prepareMessageHeaders_prepared by (rule mapEff_pointwise)
  moreover have "payload m' = payload m
      \<and> map_get (headers m') HDR_DESTINATION = Some (transform (channelMapping P) destination)
      \<and> (\<exists>i now. \<forall>k. k \<noteq> HDR_DESTINATION \<longrightarrow> map_get (headers m') k =
          (if k = HDR_DATE then Some now else if k = HDR_ID then Some i else map_get (headers m) k))"
    if "prepared_for P destination m m'" for m m'
    using that by (force simp: prepared_for_def message_header_defs)
  ultimately show ?thesis
    using target by (intro conjI exI) (rule list_all2_mono, blast)
qed

lemma mapEff_toString_filled:
  "(\<And>m. m \<in> set ms \<Longrightarrow> filled m HDR_TYPE) \<Longrightarrow> \<exists>ts. mapEff (\<lambda>m. lift (toString m)) ms w = (Inr ts, w)"
  using mapEff_toString [of ms w] by simp

text \<open>
  A broker that rejects. The interceptors are called once more for every message and the
  error is thrown on; for a single message they are given the error, for a batch they are not:
  to them the batch looks like a success.
\<close>

lemma rejected_send_reported:
  assumes "mapEff (prepareMessageHeaders P destination) ms w = (Inr ps, w1)"
    and "mapEff (runPreSend (interceptors P)) ps w1 = (Inr sent, w2)"
    and "\<And>m. m \<in> set sent \<Longrightarrow> getRequiredHeader m HDR_TYPE = Inr (ty m)"
    and "targetSendBatch P destination sent isEvent w2 = (Inl err, w3)"
    and "\<And>s. sent = [s] \<Longrightarrow> targetSend P destination s isEvent w2 = (Inl err, w3)"
  shows "sendBatch P destination ms isEvent w =
      andThen (forEach (\<lambda>m. runPostSend (interceptors P) m None) sent) (\<lambda>_. throw err) w3
    \<and> (\<forall>m s. ms = [m] \<longrightarrow> sent = [s] \<longrightarrow> send P destination m isEvent w =
      andThen (runPostSend (interceptors P) s (Some err)) (\<lambda>_. throw err) w3)"
proof -
  have filled: "m \<in> set sent \<Longrightarrow> filled m HDR_TYPE" for m
    using assms(3) [of m] by (simp add: getRequiredHeader_eq split: if_splits)
  then obtain ts where "mapEff (\<lambda>m. lift (toString m)) sent w2 = (Inr ts, w2)"
    using mapEff_toString_filled [of sent w2] by blast
  then have batch: "sendBatch P destination ms isEvent w =
      andThen (forEach (\<lambda>m. runPostSend (interceptors P) m None) sent) (\<lambda>_. throw err) w3"
    using assms(1,2,4) by (simp add: sendBatch_def andThen_def tryCatch_def)
  have "send P destination m isEvent w = andThen (runPostSend (interceptors P) s (Some err)) (\<lambda>_. throw err) w3"
    if single: "ms = [m]" "sent = [s]" for m s
  proof -
    have "filled s HDR_TYPE" using filled [of s] single(2) by simp
    then obtain t where "toString s = Inr t" using toString_total by blast
    moreover obtain p where p: "prepareMessageHeaders P destination m w = (Inr p, w1)" "ps = [p]"
      using assms(1) single by (auto simp: andThen_eq_Inr)
    moreover have "runPreSend (interceptors P) p w1 = (Inr s, w2)"
      using assms(2) single p(2) by (auto simp: andThen_eq_Inr)
    ultimately show ?thesis
      using assms(5) [OF single(2)] by (simp add: send_def andThen_def tryCatch_def)
  qed
  with batch show ?thesis by blast
qed

section \<open>Receiving\<close>

text \<open>
  Who receives a message through the in-memory broker: after a subscription, a message that
  is sent to a channel goes to the handlers the channel had before and then to the new one, as often as
  the \<^emph>\<open>mapped\<close> channels of the subscription name that channel. Each runs, whatever the others
  do. The subscription's undoing leaves no handler of anyone.
\<close>

lemma in_memory_delivery:
  assumes "subscribe in_memory_consumer s channels h e C = (unsubscribe, C')"
  shows "snd (mem_send (target C') destination m isEvent w) =
      fold (\<lambda>handle w. snd (handle m w))
        (getHandlersByChannel (target C) destination
          @ replicate (count_list (map (transform (consumerMapping C)) channels) destination)
              (\<lambda>m. handleMessage C s m h)) w
    \<and> fst (mem_send (unsubscribe (target C')) destination m isEvent w) = Inr ()
    \<and> snd (mem_send (unsubscribe (target C')) destination m isEvent w) = w"
proof -
  have C': "target C' = snd (mem_subscribe s (map (transform (consumerMapping C)) channels)
      (\<lambda>m. handleMessage C s m h) e (target C))" and u: "unsubscribe (target C') = []"
    using assms by (auto simp: subscribe_in_memory)
  show ?thesis
    unfolding u mem_send_def snd_mem_dispatchMessage
    by (simp add: C' in_memory.handlersOf_sub getHandlersByChannel_def [of "[]"] mem_dispatchMessage_eq)
qed

section \<open>Duplicates\<close>

text \<open>
  The table of received messages when its primary key is enforced, as \<open>INSERT\<close> does, beside
  the world of the handlers. (TypeORM's \<open>save\<close> updates a row that is already there.)
\<close>

definition table_insert :: "string \<Rightarrow> string \<Rightarrow> ((string \<times> string) list \<times> 'w, unit) eff" where
  "table_insert consumerId messageId p =
     (if (consumerId, messageId) \<in> set (fst p) then (Inl (ErrorException ''duplicate key''), p)
      else (Inr (), ((consumerId, messageId) # fst p, snd p)))"

definition table_upsert :: "string \<Rightarrow> string \<Rightarrow> ((string \<times> string) list \<times> 'w, unit) eff" where
  "table_upsert consumerId messageId p =
     (Inr (), (List.insert (consumerId, messageId) (fst p), snd p))"

definition beside :: "('a \<Rightarrow> ('w, 'b) eff) \<Rightarrow> 'a \<Rightarrow> ('t \<times> 'w, 'b) eff" where
  "beside h a p = (case h a (snd p) of (r, w') \<Rightarrow> (r, (fst p, w')))"

text \<open>The messages whose identifier has not been seen before.\<close>

fun fresh :: "string \<Rightarrow> (string \<times> string) list \<Rightarrow> message list \<Rightarrow> message list" where
  "fresh s seen [] = []"
| "fresh s seen (m # ms) =
     (let k = (s, getHeader m HDR_ID '''')
      in if k \<in> set seen then fresh s seen ms else m # fresh s (k # seen) ms)"

lemma handled_once_insert:
  "(\<And>m. m \<in> set ms \<Longrightarrow> filled m HDR_ID) \<Longrightarrow>
   (case forEach (\<lambda>m. tryCatch (db_doWithMessage table_insert s m (beside h)) (\<lambda>_. ret ())) ms (seen, w) of
      (r, p) \<Rightarrow> (r, snd p)) = forEach (\<lambda>m. tryCatch (h m) (\<lambda>_. ret ())) (fresh s seen ms) w"
proof (induction ms arbitrary: seen w)
  case (Cons m ms)
  let ?k = "(s, getHeader m HDR_ID '''')"
  have filled: "filled m HDR_ID" and IH: "(case forEach (\<lambda>m. tryCatch (db_doWithMessage table_insert s m (beside h))
      (\<lambda>_. ret ())) ms (seen, w) of (r, p) \<Rightarrow> (r, snd p)) =
      forEach (\<lambda>m. tryCatch (h m) (\<lambda>_. ret ())) (fresh s seen ms) w" for seen w
    using Cons by simp_all
  show ?case
  proof (cases "?k \<in> set seen")
    case True
    then have "db_doWithMessage table_insert s m (beside h) (seen, w) = (Inr (), (seen, w))"
      using filled by (intro db_doWithMessage_rejected) (simp_all add: table_insert_def)
    then show ?thesis
      using IH True by (simp add: tryCatch_Inr andThen_Inr)
  next
    case False
    then have "db_doWithMessage table_insert s m (beside h) (seen, w) = beside h m (?k # seen, w)"
      using filled by (intro db_doWithMessage_saved) (simp_all add: table_insert_def)
    moreover obtain r w1 where hm: "h m w = (r, w1)" by fastforce
    moreover have "beside h m (?k # seen, w) = (r, (?k # seen, w1))"
      by (simp add: beside_def hm)
    ultimately show ?thesis
      using IH False by (cases r) (simp_all add: tryCatch_Inr tryCatch_Inl andThen_Inr)
  qed
qed simp

lemma handled_always_upsert:
  "(\<And>m. m \<in> set ms \<Longrightarrow> filled m HDR_ID) \<Longrightarrow>
   (case forEach (\<lambda>m. tryCatch (db_doWithMessage table_upsert s m (beside h)) (\<lambda>_. ret ())) ms (seen, w) of
      (r, p) \<Rightarrow> (r, snd p)) = forEach (\<lambda>m. tryCatch (h m) (\<lambda>_. ret ())) ms w"
proof (induction ms arbitrary: seen w)
  case (Cons m ms)
  have "db_doWithMessage table_upsert s m (beside h) (seen, w) =
      beside h m (List.insert (s, getHeader m HDR_ID '''') seen, w)"
    using Cons.prems [of m] by (intro db_doWithMessage_saved) (simp_all add: table_upsert_def)
  moreover obtain r w1 where hm: "h m w = (r, w1)" by fastforce
  moreover have "beside h m (seen', w) = (r, (seen', w1))" for seen' :: "(string \<times> string) list"
    by (simp add: beside_def hm)
  ultimately show ?case
    using Cons by (cases r) (simp_all add: tryCatch_Inr tryCatch_Inl andThen_Inr)
qed simp

text \<open>
  C20: The detector over a table with an enforced key handles every message once: of a sequence
  of deliveries exactly those are handled, in their order, whose identifier the subscriber has not
  received before. A message counts as received before its handler runs: one whose handler throws
  is not handled again. With \<open>save\<close>, which updates the row that is there, every delivery is handled.
\<close>

theorem handled_once:
  assumes "\<And>m. m \<in> set ms \<Longrightarrow> map_get (headers m) HDR_ID \<notin> {None, Some ''''}"
  shows "(case forEach (\<lambda>m. tryCatch (db_doWithMessage table_insert s m (beside h)) (\<lambda>_. ret ())) ms (seen, w) of
      (r, p) \<Rightarrow> (r, snd p)) = forEach (\<lambda>m. tryCatch (h m) (\<lambda>_. ret ())) (fresh s seen ms) w
    \<and> (case forEach (\<lambda>m. tryCatch (db_doWithMessage table_upsert s m (beside h)) (\<lambda>_. ret ())) ms (seen, w) of
      (r, p) \<Rightarrow> (r, snd p)) = forEach (\<lambda>m. tryCatch (h m) (\<lambda>_. ret ())) ms w"
proof -
  have "m \<in> set ms \<Longrightarrow> filled m HDR_ID" for m
    using assms [of m] by (auto simp: filled_def getHeader_def)
  then show ?thesis
    by (intro conjI handled_once_insert handled_always_upsert) auto
qed

section \<open>Commands and replies\<close>



lemma cd_invoke_rejected:
  assumes "ch_invoke h cm w = (Inl err, w1)" and "\<not> ch_withLock h"
    and "withFailure S (Some (caught err)) = Inr f"
  shows "cd_invoke S h cm w = (Inr [f], w1)"
  using assms by (simp add: cd_invoke_def andThen_def tryCatch_def failureOf_def)

text \<open>
  The answer to a command whose handler rejects is one failure: it carries the outcome
  \<open>FAILURE\<close>, the class of the error as its type, the identifier of the command it is in reply to,
  and every header of the command under its name for replies.
\<close>

lemma rejected_command_answered:
  assumes "findTargetMethod (commandHandlers D) m = Inr (Some h)" and "\<not> ch_withLock h"
    and "getRequiredHeader m REPLY_TO = Inr ch" and "getRequiredHeader m HDR_TYPE = Inr ty"
    and "map_wf (headers m)" and "parsePayload (dispatcherSerializer D) (ch_command h) m = Inr cmd"
    and "correlateMessageHeaders (headers m) = Inr c"
    and "ch_invoke h \<lparr>cm_command = cmd, cm_correlation = c, cm_message = m\<rparr> w = (Inl err, w1)"
    and "constructor_name (caught err) \<noteq> ''''" and "\<not> thrown_text err"
  shows "\<exists>reply. cd_handleMessage (cd_invoke (dispatcherSerializer D)) D m w =
      andThen (sendBatch (messageProducer D) ch [reply] False) (\<lambda>_. ret ()) w1
    \<and> map_get (headers reply) REPLY_OUTCOME = Some ''FAILURE''
    \<and> map_get (headers reply) REPLY_TYPE = Some (constructor_name (caught err))
    \<and> map_get (headers reply) IN_REPLY_TO = Some (text_of (map_get (headers m) HDR_ID))
    \<and> (\<forall>name v. map_get (headers m) (COMMAND_HEADER_PREFIX @ name) = Some v \<longrightarrow>
         map_get (headers reply) (COMMAND_REPLY_PREFIX @ name) = Some v)"
proof -
  let ?S = "dispatcherSerializer D"
  obtain f where f: "withFailure ?S (Some (caught err)) = Inr f"
    using withFailure_caught [OF assms(10)] by blast
  have c: "c = correlated (headers m)"
    using assms(7) by (simp add: correlateMessageHeaders_eq)
  have "map_get (headers f) HDR_TYPE = Some (constructor_name (caught err))"
    using f withReply_headers by (simp add: withFailure_def)
  then have "filled f HDR_TYPE"
    using assms(9) by (simp add: filled_def getHeader_def)
  then obtain t where t: "toString f = Inr t"
    using toString_total by blast
  have "cd_invoke ?S h \<lparr>cm_command = cmd, cm_correlation = c, cm_message = m\<rparr> w = (Inr [f], w1)"
    using assms(8,2) f by (rule cd_invoke_rejected)
  then have "cd_replies (cd_invoke ?S) D h c ch m w = (Inr (Some [f]), w1)"
    using assms(6) t by (simp add: cd_replies_def andThen_def tryCatch_def)
  then have "cd_handleMessage (cd_invoke ?S) D m w = sendReplies D c [f] ch w1"
    using assms(1,3,7) by (simp add: cd_handleMessage_def andThen_def)
  also have "\<dots> = andThen (sendBatch (messageProducer D) ch [failure_reply ?S m err] False) (\<lambda>_. ret ()) w1"
    using f by (simp add: sendReplies_def failure_reply_def reply_message_def c)
  finally show ?thesis
    using failure_reply_headers [OF assms(5,10), where S = "?S"] by blast
qed

section \<open>Concrete instances\<close>

lemma sendBatch_prepares_witness:
  "\<exists>sent. fst (sendBatch sample_producer ''orders'' [sample_message [(HDR_TYPE, ''T'')]] False []) = Inr sent
     \<and> list_all2 (\<lambda>m m'. payload m' = payload m) [sample_message [(HDR_TYPE, ''T'')]] sent"
proof -
  let ?m = "sample_message [(HDR_TYPE, ''T'')]"
  let ?p = "prepared sample_producer ''orders'' ''m1'' ''2021-01-01T00:00:00.000Z'' ?m"
  have "sendBatch sample_producer ''orders'' [?m] False [] = (Inr [?p], [(''orders'', [?p])])"
    by (subst sendBatch_sample) (simp_all add: sample_message_def new_message_def filled_def getHeader_def)
  then show ?thesis
    using sendBatch_prepares [of sample_producer "''orders''" "[?m]" False "[]" "[?p]"]
    by (auto simp: sample_producer_def elim: list_all2_mono)
qed

text \<open>A broker that is down, with an interceptor that notes what it is told after each send.\<close>

definition failing_producer :: "exn option list producer" where
  "failing_producer =
     \<lparr>channelMapping = [], generateMessageId = ret ''m1'',
      targetSend = (\<lambda>_ _ _. throw (ErrorException ''down'')),
      targetSendBatch = (\<lambda>_ _ _. throw (ErrorException ''down'')),
      interceptors = [\<lparr>preSend = None, postSend = Some (\<lambda>_ err log. (Inr (), log @ [err]))\<rparr>],
      currentDate = ret ''2021-01-01T00:00:00.000Z''\<rparr>"

lemma rejected_send_reported_witness:
  "sendBatch failing_producer ''orders'' [sample_message [(HDR_TYPE, ''T'')]] False [] =
      (Inl (ErrorException ''down''), [None])
   \<and> send failing_producer ''orders'' (sample_message [(HDR_TYPE, ''T'')]) False [] =
      (Inl (ErrorException ''down''), [Some (ErrorException ''down'')])"
proof -
  let ?m = "sample_message [(HDR_TYPE, ''T'')]"
  let ?p = "prepared failing_producer ''orders'' ''m1'' ''2021-01-01T00:00:00.000Z'' ?m"
  have "mapEff (prepareMessageHeaders failing_producer ''orders'') [?m] [] = (Inr [?p], [])"
    by (simp add: prepareMessageHeaders_def prepared_def failing_producer_def)
  moreover have "mapEff (runPreSend (interceptors failing_producer)) [?p] [] = (Inr [?p], [])"
    by (simp add: failing_producer_def)
  moreover have "getRequiredHeader ?p HDR_TYPE = Inr ''T''"
    by (simp add: getRequiredHeader_Inr prepared_def sample_message_def new_message_def message_header_defs)
  ultimately show ?thesis
    using rejected_send_reported [of failing_producer "''orders''" "[?m]" "[]" "[?p]" "[]" "[?p]" "[]"
        "\<lambda>_. ''T''" False "ErrorException ''down''" "[]"]
    by (simp add: failing_producer_def runPostSend_def andThen_def)
qed

definition sample_consumer :: "(message list handlers, message list) convoy_consumer" where
  "sample_consumer = \<lparr>doWithMessage = base_doWithMessage,
     consumerMapping = mapping_with ''orders'' ''orders.v2'' [], subs = [], target = []\<rparr>"

definition noting_handler :: "message list handler" where
  "noting_handler m log = (Inr (), log @ [m])"

lemma in_memory_delivery_witness:
  "snd (mem_send (target (snd (subscribe in_memory_consumer ''s'' [''orders''] noting_handler None sample_consumer)))
      ''orders'' (sample_message []) False []) = []
   \<and> snd (mem_send (target (snd (subscribe in_memory_consumer ''s'' [''orders''] noting_handler None sample_consumer)))
      ''orders.v2'' (sample_message []) False []) = [sample_message []]"
proof -
  note delivery = in_memory_delivery [of "''s''" "[''orders'']" noting_handler None sample_consumer
    "fst (subscribe in_memory_consumer ''s'' [''orders''] noting_handler None sample_consumer)"
    "snd (subscribe in_memory_consumer ''s'' [''orders''] noting_handler None sample_consumer)" _
    "sample_message []" False "[]", simplified]
  show ?thesis
    by (simp add: delivery) (simp add: sample_consumer_def transform_with getHandlersByChannel_def handleMessage_def
        base_doWithMessage_def noting_handler_def)
qed

lemma handled_once_witness:
  "snd (snd (forEach (\<lambda>m. tryCatch (db_doWithMessage table_insert ''s'' m (beside noting_handler)) (\<lambda>_. ret ()))
      [sample_message [(HDR_ID, ''1'')], sample_message [(HDR_ID, ''1'')]] ([], []))) =
    [sample_message [(HDR_ID, ''1'')]]"
proof -
  have "(case forEach (\<lambda>m. tryCatch (db_doWithMessage table_insert ''s'' m (beside noting_handler)) (\<lambda>_. ret ()))
      [sample_message [(HDR_ID, ''1'')], sample_message [(HDR_ID, ''1'')]] ([], []) of (r, p) \<Rightarrow> (r, snd p)) =
    (Inr (), [sample_message [(HDR_ID, ''1'')]])"
    using handled_once [of "[sample_message [(HDR_ID, ''1'')], sample_message [(HDR_ID, ''1'')]]" "''s''"
      noting_handler "[]" "[]"]
    by (simp add: sample_message_def new_message_def noting_handler_def andThen_def tryCatch_def getHeader_def)
  then show ?thesis
    by (simp split: prod.splits)
qed

definition resource_handler :: "unit command_handler" where
  "resource_handler = \<lparr>ch_channel = ''customers'', ch_command = ''ReserveCredit'',
     ch_invoke = (\<lambda>_. throw (ErrorException ''no credit'')), ch_withLock = False, ch_optionsPreLock = None,
     ch_resource = Some ''/customers/{id}'', ch_isSaga = False, ch_preLock = None\<rparr>"


definition customers_dispatcher :: "broker_log dispatcher" where
  "customers_dispatcher = dispatcher_create sample_producer sample_serializer ''d''
     [\<lparr>ch_channel = ''customers'', ch_command = ''ReserveCredit'',
       ch_invoke = (\<lambda>_. throw (ErrorException ''no credit'')), ch_withLock = False, ch_optionsPreLock = None,
       ch_resource = None, ch_isSaga = False, ch_preLock = None\<rparr>]"

definition customers_command :: message where
  "customers_command = sample_message [(HDR_TYPE, ''ReserveCredit''), (COMMAND_TYPE, ''ReserveCredit''),
     (REPLY_TO, ''replies''), (HDR_ID, ''m0'')]"

lemma customers_command_get:
  "map_get (headers customers_command) HDR_TYPE = Some ''ReserveCredit''"
  "map_get (headers customers_command) COMMAND_TYPE = Some ''ReserveCredit''"
  "map_get (headers customers_command) REPLY_TO = Some ''replies''"
  "map_wf (headers customers_command)"
  by (simp_all add: customers_command_def sample_message_def new_message_def map_wf_def message_header_defs
      command_header_defs)

lemma customers_target:
  "findTargetMethod (commandHandlers customers_dispatcher) customers_command =
     Inr (Some (hd (commandHandlers customers_dispatcher)))"
proof -
  have "getRequiredHeader customers_command COMMAND_TYPE = Inr ''ReserveCredit''"
    by (simp add: getRequiredHeader_Inr customers_command_get)
  then show ?thesis
    by (simp add: findTargetMethod_def customers_dispatcher_def dispatcher_create_def handles_def
        commandTypeMatches_def ch_resourceMatches_def)
qed


lemma rejected_command_answered_witness:
  "\<exists>reply. cd_handleMessage (cd_invoke sample_serializer) customers_dispatcher customers_command [] =
      andThen (sendBatch sample_producer ''replies'' [reply] False) (\<lambda>_. ret ()) []
    \<and> map_get (headers reply) REPLY_OUTCOME = Some ''FAILURE''"
proof -
  have parse: "parsePayload (dispatcherSerializer customers_dispatcher)
      (ch_command (hd (commandHandlers customers_dispatcher))) customers_command =
    Inr \<lparr>obj_class = ''ReserveCredit'', obj_own = JObj []\<rparr>"
    by (simp add: parsePayload_def customers_dispatcher_def dispatcher_create_def sample_serializer_def
        customers_command_def sample_message_def new_message_def)
  have headers: "getRequiredHeader customers_command REPLY_TO = Inr ''replies''"
    "getRequiredHeader customers_command HDR_TYPE = Inr ''ReserveCredit''"
    by (simp_all add: getRequiredHeader_Inr customers_command_get)
  show ?thesis
    using rejected_command_answered [OF customers_target _ headers customers_command_get(4) parse
        correlateMessageHeaders_eq, of "[]" "ErrorException ''no credit''" "[]"]
    by (simp add: customers_dispatcher_def dispatcher_create_def caught_def thrown_text_def) blast
qed

end
