(* ===== verification/Events.thy ===== *)
theory Events
  imports MessagingProps
begin

text \<open>
  Domain events as messages: their headers and names (\<open>events/common/\<close>), the publisher
  (\<open>events/publisher/domain-event-publisher.ts\<close>), the publisher of one class of aggregates
  (\<open>events/aggregate/aggregate-domain-event-publisher.ts\<close>), and the handlers and their dispatcher
  (\<open>events/subscriber/\<close>).
\<close>

section \<open>Headers and names\<close>

definition EVENT_TYPE :: string where "EVENT_TYPE = ''event_type''"
definition AGGREGATE_TYPE :: string where "AGGREGATE_TYPE = ''event_aggregate_type''"
definition AGGREGATE_ID :: string where "AGGREGATE_ID = ''event_aggregate_id''"

lemmas event_header_defs = EVENT_TYPE_def AGGREGATE_TYPE_def AGGREGATE_ID_def

definition eventToExternalEventType :: "string option \<Rightarrow> jsobj \<Rightarrow> string" where
  "eventToExternalEventType aggregateType event = obj_class event"

definition externalEventTypeToEventClassName :: "string option \<Rightarrow> string \<Rightarrow> string" where
  "externalEventTypeToEventClassName aggregateType eventTypeHeader = eventTypeHeader"

section \<open>Publishing\<close>

text \<open>An identifier that is a number is made a text when it is set as a header.\<close>

definition createMessageForDomainEvent ::
    "serializer \<Rightarrow> string \<Rightarrow> string \<Rightarrow> headers \<Rightarrow> jsobj \<Rightarrow> exn + message" where
  "createMessageForDomainEvent S aggregateType aggregateId h event =
     (case withPayload S (ObjectArg event) of
        Inl e \<Rightarrow> Inl e
      | Inr b \<Rightarrow> Inr (build
          (withHeader EVENT_TYPE (obj_class event)
            (withHeader AGGREGATE_TYPE aggregateType
              (withHeader AGGREGATE_ID aggregateId
                (withHeader HDR_PARTITION_ID aggregateId
                  (withExtraHeaders h
                    (withReference (obj_class event) b))))))))"

definition publish ::
    "serializer \<Rightarrow> 'w producer \<Rightarrow> string \<Rightarrow> string \<Rightarrow> jsobj list \<Rightarrow> headers \<Rightarrow> ('w, unit) eff" where
  "publish S P aggregateType aggregateId domainEvents h =
     andThen (lift (traverse (createMessageForDomainEvent S aggregateType aggregateId h) domainEvents))
       (\<lambda>messages. andThen (sendBatch P aggregateType messages True) (\<lambda>_. ret ()))"

text \<open>
  The publisher of a class of aggregates. The key that \<open>@AggregateId()\<close> has left on the class, if any,
  and the aggregate's properties give its identifier; one that is empty or 0 counts as missing. The
  annotation is looked up on the instance, whose prototype carries it.
\<close>

definition getAggregateId :: "string option \<Rightarrow> jsobj \<Rightarrow> json option" where
  "getAggregateId key aggregate =
     (case key of None \<Rightarrow> own_property ''undefined'' aggregate | Some k \<Rightarrow> own_property k aggregate)"

definition aggregate_publish ::
    "serializer \<Rightarrow> 'w producer \<Rightarrow> string \<Rightarrow> string option \<Rightarrow> jsobj \<Rightarrow> jsobj list \<Rightarrow> ('w, unit) eff" where
  "aggregate_publish S P aggregateType key aggregate events =
     (let annotated = getAggregateId key aggregate;
          i = (if (case annotated of None \<Rightarrow> False | Some j \<Rightarrow> truthy j) then annotated
               else own_property ''id'' aggregate)
      in if (case i of None \<Rightarrow> False | Some j \<Rightarrow> truthy j)
         then publish S P aggregateType (property_text i) events []
         else throw (RuntimeException ''Missing @AggregateId()''))"

section \<open>Handlers\<close>

record envelope =
  ev_message :: message
  ev_aggregateType :: string
  ev_aggregateId :: string
  ev_eventId :: string
  ev_event :: jsobj

record 'w event_handler =
  eh_event :: string
  eh_invoke :: "envelope \<Rightarrow> ('w, unit) eff"
  eh_aggregateType :: string

definition eh_handles :: "'w event_handler \<Rightarrow> message \<Rightarrow> exn + bool" where
  "eh_handles h m =
     (if eh_aggregateType h = getHeader m AGGREGATE_TYPE ''''
      then map_sum id (\<lambda>t. eh_event h = t) (getRequiredHeader m EVENT_TYPE)
      else Inr False)"

definition eh_findTargetMethod :: "'w event_handler list \<Rightarrow> message \<Rightarrow> exn + 'w event_handler option" where
  "eh_findTargetMethod hs m = findThrowing (\<lambda>h. eh_handles h m) hs"

definition getAggregateTypesAndEvents :: "'w event_handler list \<Rightarrow> string list" where
  "getAggregateTypesAndEvents hs = map eh_aggregateType hs"

record 'w event_handlers_builder =
  eb_handlers :: "'w event_handler list"
  eb_aggregateType :: string

definition forAggregateType :: "string \<Rightarrow> 'w event_handlers_builder" where
  "forAggregateType aggregateType = \<lparr>eb_handlers = [], eb_aggregateType = aggregateType\<rparr>"

definition onEvent ::
    "string \<Rightarrow> (envelope \<Rightarrow> ('w, unit) eff) \<Rightarrow> 'w event_handlers_builder \<Rightarrow> 'w event_handlers_builder" where
  "onEvent event h b = b\<lparr>eb_handlers := eb_handlers b @
     [\<lparr>eh_event = event, eh_invoke = h, eh_aggregateType = eb_aggregateType b\<rparr>]\<rparr>"

definition andForAggregateType :: "string \<Rightarrow> 'w event_handlers_builder \<Rightarrow> 'w event_handlers_builder" where
  "andForAggregateType aggregateType b = b\<lparr>eb_aggregateType := aggregateType\<rparr>"

definition ehb_build :: "'w event_handlers_builder \<Rightarrow> 'w event_handler list" where
  "ehb_build b = eb_handlers b"

section \<open>The dispatcher\<close>

record 'w event_dispatcher =
  eventDispatcherId :: string
  domainEventHandlers :: "'w event_handler list"
  eventSerializer :: serializer

definition ed_handleMessage :: "'w event_dispatcher \<Rightarrow> message \<Rightarrow> ('w, unit) eff" where
  "ed_handleMessage D m =
     andThen (lift (getRequiredHeader m AGGREGATE_TYPE)) (\<lambda>aggregateType.
     andThen (lift (eh_findTargetMethod (domainEventHandlers D) m)) (\<lambda>handler.
       case handler of
         None \<Rightarrow> ret ()
       | Some h \<Rightarrow>
           andThen (lift (parsePayload (eventSerializer D) (eh_event h) m)) (\<lambda>event.
           andThen (lift (getRequiredHeader m AGGREGATE_ID)) (\<lambda>aggregateId.
           andThen (lift (getRequiredHeader m HDR_ID)) (\<lambda>messageId.
             eh_invoke h \<lparr>ev_message = m, ev_aggregateType = aggregateType, ev_aggregateId = aggregateId,
               ev_eventId = messageId, ev_event = event\<rparr>)))))"

definition ed_subscribe ::
    "('c, 'w) message_consumer \<Rightarrow> 'w event_dispatcher \<Rightarrow> ('c, 'w) convoy_consumer \<Rightarrow>
     ('c \<Rightarrow> 'c) \<times> ('c, 'w) convoy_consumer" where
  "ed_subscribe T D C =
     subscribe T (eventDispatcherId D) (getAggregateTypesAndEvents (domainEventHandlers D))
       (ed_handleMessage D) (Some True) C"

definition event_dispatcher_create :: "serializer \<Rightarrow> string \<Rightarrow> 'w event_handler list \<Rightarrow> 'w event_dispatcher" where
  "event_dispatcher_create S dispatcherId hs =
     \<lparr>eventDispatcherId = dispatcherId, domainEventHandlers = hs, eventSerializer = S\<rparr>"

section \<open>From the publisher to the handler\<close>

definition event_message :: "serializer \<Rightarrow> string \<Rightarrow> string \<Rightarrow> headers \<Rightarrow> jsobj \<Rightarrow> message" where
  "event_message S aggregateType aggregateId h event =
     (case createMessageForDomainEvent S aggregateType aggregateId h event of Inr m \<Rightarrow> m)"

lemma createMessageForDomainEvent_ok:
  "createMessageForDomainEvent S ty i h event = Inr (event_message S ty i h event)"
  by (simp add: createMessageForDomainEvent_def event_message_def)

lemma event_message_headers:
  "map_wf h \<Longrightarrow> map_get (headers (event_message S ty i h event)) k =
    (if k = EVENT_TYPE then Some (obj_class event) else if k = AGGREGATE_TYPE then Some ty
     else if k = AGGREGATE_ID \<or> k = HDR_PARTITION_ID then Some i
     else case map_get h k of Some v \<Rightarrow> Some v | None \<Rightarrow> if k = HDR_TYPE then Some (obj_class event) else None)"
  by (auto simp: event_message_def createMessageForDomainEvent_def map_of_rev map_add_def
      event_header_defs message_header_defs split: option.splits if_splits)

lemma event_message_payload:
  "payload (event_message S ty i h event) = classToPlain S (obj_class event) (obj_own event)"
  by (simp add: event_message_def createMessageForDomainEvent_def)

lemma publish_eq:
  "publish S P ty i evs h =
     andThen (sendBatch P ty (map (event_message S ty i h) evs) True) (\<lambda>_. ret ())"
  by (simp add: publish_def createMessageForDomainEvent_ok traverse_total)

lemma eh_findTargetMethod_published:
  assumes "getHeader m AGGREGATE_TYPE '''' = ty" and "getRequiredHeader m EVENT_TYPE = Inr c"
  shows "eh_findTargetMethod hs m = Inr (find (\<lambda>h. eh_aggregateType h = ty \<and> eh_event h = c) hs)"
  unfolding eh_findTargetMethod_def
  by (rule findThrowing_total) (simp add: eh_handles_def assms)

text \<open>
  C28: A published event reaches its handler. The message that the publisher makes of an event, once
  the producer has prepared it, makes the dispatcher call the first handler of that class of
  events and that type of aggregates, with the aggregate's identifier and type, the identifier
  of the message and the event itself, provided that the serializer restores what it
  serializes. Without such a handler the message is taken and nothing happens.
\<close>

theorem published_event_handled:
  assumes "createMessageForDomainEvent (eventSerializer D) ty i h event = Inr m" and "map_wf h"
    and "prepareMessageHeaders P ch m w = (Inr m', w1)"
    and "map_get (headers m') HDR_ID = Some mid" and "mid \<noteq> ''''"
    and "ty \<noteq> ''''" and "i \<noteq> ''''" and "obj_class event \<noteq> ''''"
    and "validatedPlainToClass (eventSerializer D) (obj_class event)
           (classToPlain (eventSerializer D) (obj_class event) (obj_own event)) = Inr event"
  shows "ed_handleMessage D m' w2 =
    (case find (\<lambda>h. eh_aggregateType h = ty \<and> eh_event h = obj_class event) (domainEventHandlers D) of
       None \<Rightarrow> (Inr (), w2)
     | Some H \<Rightarrow> eh_invoke H \<lparr>ev_message = m', ev_aggregateType = ty, ev_aggregateId = i,
         ev_eventId = mid, ev_event = event\<rparr> w2)"
proof -
  have m: "m = event_message (eventSerializer D) ty i h event"
    using assms(1) by (simp add: createMessageForDomainEvent_ok)
  have p: "prepared_for P ch m m'"
    using assms(3) by (rule prepareMessageHeaders_prepared)
  then have get: "map_get (headers m') EVENT_TYPE = Some (obj_class event)"
    "map_get (headers m') AGGREGATE_TYPE = Some ty" "map_get (headers m') AGGREGATE_ID = Some i"
    using assms(2) by (auto simp: prepared_for_def m event_message_headers event_header_defs message_header_defs)
  have pay: "payload m' = classToPlain (eventSerializer D) (obj_class event) (obj_own event)"
    using p by (simp add: prepared_for_def m event_message_payload)
  have req: "getRequiredHeader m' EVENT_TYPE = Inr (obj_class event)" "getRequiredHeader m' AGGREGATE_TYPE = Inr ty"
    "getRequiredHeader m' AGGREGATE_ID = Inr i" "getRequiredHeader m' HDR_ID = Inr mid"
    using get assms(4-8) by (simp_all add: getRequiredHeader_Inr)
  have find: "eh_findTargetMethod (domainEventHandlers D) m' =
      Inr (find (\<lambda>h. eh_aggregateType h = ty \<and> eh_event h = obj_class event) (domainEventHandlers D))"
    using get(2) req(1) by (intro eh_findTargetMethod_published) (simp_all add: getHeader_def)
  show ?thesis
  proof (cases "find (\<lambda>h. eh_aggregateType h = ty \<and> eh_event h = obj_class event) (domainEventHandlers D)")
    case None
    then show ?thesis by (simp add: ed_handleMessage_def req find)
  next
    case (Some H)
    then have "eh_event H = obj_class event" by (auto simp: find_Some_iff)
    then have "parsePayload (eventSerializer D) (eh_event H) m' = Inr event"
      by (simp add: parsePayload_def pay assms(9))
    then show ?thesis by (simp add: ed_handleMessage_def req find Some)
  qed
qed

definition sample_event_dispatcher :: "envelope list event_dispatcher" where
  "sample_event_dispatcher = event_dispatcher_create sample_serializer ''d''
     (ehb_build (onEvent ''OrderCreated'' (\<lambda>e log. (Inr (), log @ [e])) (forAggregateType ''Order'')))"

lemma published_event_handled_witness:
  "\<exists>m m' w1. createMessageForDomainEvent sample_serializer ''Order'' ''7'' [] (sample_object ''OrderCreated'') = Inr m
     \<and> prepareMessageHeaders sample_producer ''Order'' m [] = (Inr m', w1)
     \<and> ed_handleMessage sample_event_dispatcher m' [] =
        (Inr (), [\<lparr>ev_message = m', ev_aggregateType = ''Order'', ev_aggregateId = ''7'', ev_eventId = ''m1'',
           ev_event = sample_object ''OrderCreated''\<rparr>])"
proof -
  let ?m = "event_message sample_serializer ''Order'' ''7'' [] (sample_object ''OrderCreated'')"
  let ?m' = "prepared sample_producer ''Order'' ''m1'' ''2021-01-01T00:00:00.000Z'' ?m"
  have m: "createMessageForDomainEvent sample_serializer ''Order'' ''7'' [] (sample_object ''OrderCreated'') = Inr ?m"
    by (rule createMessageForDomainEvent_ok)
  have p: "prepareMessageHeaders sample_producer ''Order'' ?m [] = (Inr ?m', [])"
    by (simp add: prepareMessageHeaders_def prepared_def sample_producer_def)
  have s: "eventSerializer sample_event_dispatcher = sample_serializer"
    by (simp add: sample_event_dispatcher_def event_dispatcher_create_def)
  have v: "validatedPlainToClass sample_serializer c (classToPlain sample_serializer c j) =
      Inr \<lparr>obj_class = c, obj_own = j\<rparr>" for c j
    by (simp add: sample_serializer_def)
  have "map_get (headers ?m') HDR_ID = Some ''m1''"
    by (simp add: prepared_def message_header_defs)
  moreover have "obj_class (sample_object ''OrderCreated'') = ''OrderCreated''"
    by (simp add: sample_object_def)
  ultimately have "ed_handleMessage sample_event_dispatcher ?m' [] =
      (Inr (), [\<lparr>ev_message = ?m', ev_aggregateType = ''Order'', ev_aggregateId = ''7'', ev_eventId = ''m1'',
         ev_event = sample_object ''OrderCreated''\<rparr>])"
    using published_event_handled [of sample_event_dispatcher, unfolded s, OF m _ p, of "''m1''" "[]"]
    by (simp add: v) (simp add: sample_event_dispatcher_def event_dispatcher_create_def ehb_build_def
        onEvent_def forAggregateType_def)
  then show ?thesis using m p by blast
qed

end
