(* ===== verification/Initializer.thy ===== *)
theory Initializer
  imports Participant Events
begin

text \<open>
  The decorators that mark the handlers of an application (\<open>core/decorators.ts\<close>, \<open>core/tokens.ts\<close>) and the
  service that subscribes a dispatcher for every class of handlers when the application starts
  (\<open>core/initializer.service.ts\<close>).

  The classes with handlers, which the explorer of \<open>@nestjs/cqrs\<close> finds, and their instances, which the
  injector of NestJS makes, are parameters.
\<close>

section \<open>Metadata\<close>

datatype core_token =
    COMMAND_HANDLER_METADATA            \<comment> \<open>the key of \<open>@nestjs/cqrs\<close> for a class with command handlers\<close>
  | FROM_CHANNEL_METADATA | AGGREGATE_TYPE_METADATA | DOMAIN_EVENT_HANDLER
  | COMMAND_MESSAGE_HANDLER | COMMAND_MESSAGE_HANDLER_OPTIONS
  | SAGA_COMMAND_HANDLER_METADATA | HAS_COMMAND_HANDLER_METADATA
  | COMMAND_WITH_DESTINATION

record 'w handler_options =
  withLockOption :: bool
  preLockOption :: "(command_msg \<Rightarrow> ('w, string) eff) option"

datatype 'w core_value =
    MetaFlag | MetaText string | MetaClass string | MetaOptions "'w handler_options"

text \<open>
  The metadata of an object, by key and property, followed by that of the objects it inherits from:
  \<open>Reflect.getMetadata\<close> goes along the prototypes, \<open>Reflect.defineMetadata\<close> writes to the first.
\<close>

type_synonym 'w core_metadata = "(core_token \<times> string option, 'w core_value) jsmap list"

fun getMetadata :: "core_token \<Rightarrow> string option \<Rightarrow> 'w core_metadata \<Rightarrow> 'w core_value option" where
  "getMetadata token property [] = None"
| "getMetadata token property (m # ms) =
     (case map_get m (token, property) of Some v \<Rightarrow> Some v | None \<Rightarrow> getMetadata token property ms)"

definition hasMetadata :: "core_token \<Rightarrow> string option \<Rightarrow> 'w core_metadata \<Rightarrow> bool" where
  "hasMetadata token property ms = (getMetadata token property ms \<noteq> None)"

fun defineOwn :: "core_token \<Rightarrow> string option \<Rightarrow> 'w core_value \<Rightarrow> 'w core_metadata \<Rightarrow> 'w core_metadata" where
  "defineOwn token property v [] = [map_set (token, property) v []]"
| "defineOwn token property v (m # ms) = map_set (token, property) v m # ms"

lemma getMetadata_define [simp]:
  "getMetadata token property (defineOwn token' property' v ms) =
     (if token = token' \<and> property = property' then Some v else getMetadata token property ms)"
  by (cases ms) auto

text \<open>
  A class of handlers: the metadata of the class and of its prototype, the own property names of
  the prototype, and the methods of an instance, seen as handlers of commands and of events.
\<close>

record 'w handler_class =
  hc_name :: string
  hc_properties :: "string list"
  hc_class :: "'w core_metadata"
  hc_prototype :: "'w core_metadata"
  hc_command :: "string \<Rightarrow> command_msg \<Rightarrow> ('w, handler_result) eff"
  hc_event :: "string \<Rightarrow> envelope \<Rightarrow> ('w, unit) eff"

section \<open>Decorators\<close>

definition OnEvent :: "string \<Rightarrow> string \<Rightarrow> 'w handler_class \<Rightarrow> 'w handler_class" where
  "OnEvent event propertyKey c = c\<lparr>hc_prototype :=
     defineOwn DOMAIN_EVENT_HANDLER (Some propertyKey) (MetaClass event) (hc_prototype c)\<rparr>"

text \<open>A class, or a property of the prototype when one is given.\<close>

definition CommandDestination :: "string \<Rightarrow> string option \<Rightarrow> 'w handler_class \<Rightarrow> 'w handler_class" where
  "CommandDestination ch propertyKey c =
     (case propertyKey of
        None \<Rightarrow> c\<lparr>hc_class := defineOwn COMMAND_WITH_DESTINATION None (MetaText ch) (hc_class c)\<rparr>
      | Some p \<Rightarrow> c\<lparr>hc_prototype := defineOwn COMMAND_WITH_DESTINATION (Some p) (MetaText ch) (hc_prototype c)\<rparr>)"

definition OnMessage ::
    "string \<Rightarrow> 'w handler_options \<Rightarrow> string \<Rightarrow> 'w handler_class \<Rightarrow> 'w handler_class" where
  "OnMessage msg options propertyKey c = c\<lparr>hc_prototype :=
     defineOwn COMMAND_MESSAGE_HANDLER_OPTIONS (Some propertyKey) (MetaOptions options)
       (defineOwn COMMAND_MESSAGE_HANDLER (Some propertyKey) (MetaClass msg) (hc_prototype c))\<rparr>"

text \<open>
  The type of the aggregate is a text or a function that gives a class. What the decorator keeps is a
  function that gives the text, or the name of the class.
\<close>

datatype aggregate_type_arg = TypeText string | TypeClass string

fun aggregate_type_text :: "aggregate_type_arg \<Rightarrow> string" where
  "aggregate_type_text (TypeText t) = t"
| "aggregate_type_text (TypeClass name) = name"

definition EventHandlersOf :: "aggregate_type_arg \<Rightarrow> 'w handler_class \<Rightarrow> 'w handler_class" where
  "EventHandlersOf aggregateType c = c\<lparr>hc_class :=
     defineOwn AGGREGATE_TYPE_METADATA None (MetaText (aggregate_type_text aggregateType)) (hc_class c)\<rparr>"

definition CommandHandlers :: "string \<Rightarrow> 'w handler_class \<Rightarrow> 'w handler_class" where
  "CommandHandlers ch c = c\<lparr>hc_class :=
     defineOwn FROM_CHANNEL_METADATA None (MetaText ch)
       (defineOwn COMMAND_HANDLER_METADATA None MetaFlag (hc_class c))\<rparr>"

definition SagaCommandHandlers :: "string \<Rightarrow> 'w handler_class \<Rightarrow> 'w handler_class" where
  "SagaCommandHandlers ch c =
     (let marked = (if hasMetadata COMMAND_HANDLER_METADATA None (hc_class c)
                    then defineOwn HAS_COMMAND_HANDLER_METADATA None MetaFlag (hc_class c)
                    else defineOwn COMMAND_HANDLER_METADATA None MetaFlag (hc_class c))
      in c\<lparr>hc_class := defineOwn FROM_CHANNEL_METADATA None (MetaText ch)
             (defineOwn SAGA_COMMAND_HANDLER_METADATA None MetaFlag marked)\<rparr>)"

section \<open>The initializer\<close>

record ('c, 'w) initializer =
  in_broker :: "('c, 'w) message_consumer"
  in_producer :: "'w producer"
  in_serializer :: serializer
  in_lockManager :: "'w lock_manager option"   \<comment> \<open>of the factory of saga dispatchers, which is optional\<close>
  in_get :: "string \<Rightarrow> exn + unit"          \<comment> \<open>the injector: what is thrown for a class it does not have\<close>

definition getMethodTypes :: "core_token \<Rightarrow> 'w handler_class \<Rightarrow> (string \<times> string) list" where
  "getMethodTypes token inst =
     map (\<lambda>property. (property,
            case getMetadata token (Some property) (hc_prototype inst) of Some (MetaClass type) \<Rightarrow> type | _ \<Rightarrow> ''''))
       (filter (\<lambda>property. hasMetadata token (Some property) (hc_prototype inst)) (hc_properties inst))"

definition optionsOf :: "'w handler_class \<Rightarrow> string \<Rightarrow> 'w handler_options" where
  "optionsOf inst property =
     (case getMetadata COMMAND_MESSAGE_HANDLER_OPTIONS (Some property) (hc_prototype inst) of
        Some (MetaOptions options) \<Rightarrow> options
      | _ \<Rightarrow> \<lparr>withLockOption = False, preLockOption = None\<rparr>)"

definition plainHandlers :: "string \<Rightarrow> 'w handler_class \<Rightarrow> 'w command_handler list" where
  "plainHandlers ch inst =
     hb_build (fold (\<lambda>(property, type) builder.
         hb_onMessage type (hc_command inst property) (withLockOption (optionsOf inst property))
           (preLockOption (optionsOf inst property)) builder)
       (getMethodTypes COMMAND_MESSAGE_HANDLER inst) (hb_fromChannel ch))"

text \<open>
  \<open>new SagaCommandHandler(channel, type, handler, options)\<close>: its parameter \<open>preLock\<close>, the sixth, is not given,
  whatever the options hold.
\<close>

definition sagaHandlers :: "string \<Rightarrow> 'w handler_class \<Rightarrow> 'w command_handler list" where
  "sagaHandlers ch inst =
     map (\<lambda>(property, type).
         \<lparr>ch_channel = ch, ch_command = type, ch_invoke = hc_command inst property,
          ch_withLock = withLockOption (optionsOf inst property),
          ch_optionsPreLock = preLockOption (optionsOf inst property), ch_resource = None,
          ch_isSaga = True, ch_preLock = None\<rparr>)
       (getMethodTypes COMMAND_MESSAGE_HANDLER inst)"

definition eventHandlers :: "string \<Rightarrow> 'w handler_class \<Rightarrow> 'w event_handler list" where
  "eventHandlers aggregateType inst =
     ehb_build (fold (\<lambda>(property, type) builder. onEvent type (hc_event inst property) builder)
       (getMethodTypes DOMAIN_EVENT_HANDLER inst) (forAggregateType aggregateType))"

definition saga_subscribe ::
    "('c, 'w) message_consumer \<Rightarrow> 'w lock_manager \<Rightarrow> 'w dispatcher \<Rightarrow> ('c, 'w) convoy_consumer \<Rightarrow>
     ('c \<Rightarrow> 'c) \<times> ('c, 'w) convoy_consumer" where
  "saga_subscribe T L D C =
     subscribe T (commandDispatcherId D) (getChannels (commandHandlers D)) (saga_handleMessage L D) None C"

definition subscribeSagaHandlers ::
    "('c, 'w) initializer \<Rightarrow> string \<Rightarrow> 'w handler_class \<Rightarrow> (('c, 'w) convoy_consumer, unit) eff" where
  "subscribeSagaHandlers I ch c C =
     (case in_lockManager I of
        None \<Rightarrow> (Inr (), C)
      | Some L \<Rightarrow>
          (let (L', D) = saga_dispatcher_create (in_producer I) (in_serializer I) L (hc_name c) (sagaHandlers ch c)
           in (Inr (), snd (saga_subscribe (in_broker I) L' D C))))"

text \<open>
  What the callback for one class does before it first waits: whether the subscription of the saga
  handlers is still to come, because it waits for that of the plain ones, is its result.
\<close>

definition initCommands ::
    "('c, 'w) initializer \<Rightarrow> 'w handler_class \<Rightarrow> (('c, 'w) convoy_consumer, (string \<times> 'w handler_class) option) eff" where
  "initCommands I c C =
     (case getMetadata FROM_CHANNEL_METADATA None (hc_class c) of
        Some (MetaText ch) \<Rightarrow>
          (if ch = '''' then (Inr None, C)
           else case in_get I (hc_name c) of Inl e \<Rightarrow> (Inl e, C) | Inr _ \<Rightarrow>
           (if hasMetadata HAS_COMMAND_HANDLER_METADATA None (hc_class c) then
             (let D = dispatcher_create (in_producer I) (in_serializer I) (hc_name c) (plainHandlers ch c);
                  C' = snd (cd_subscribe (in_broker I) (cd_invoke (in_serializer I)) D C)
              in (Inr (if hasMetadata SAGA_COMMAND_HANDLER_METADATA None (hc_class c) then Some (ch, c) else None), C'))
           else if hasMetadata SAGA_COMMAND_HANDLER_METADATA None (hc_class c) then
             andThen (subscribeSagaHandlers I ch c) (\<lambda>_. ret None) C
           else (Inr None, C)))
      | _ \<Rightarrow> (Inr None, C))"

definition initEvents ::
    "('c, 'w) initializer \<Rightarrow> 'w handler_class \<Rightarrow> (('c, 'w) convoy_consumer, (string \<times> 'w handler_class) option) eff" where
  "initEvents I c C =
     (case getMetadata AGGREGATE_TYPE_METADATA None (hc_class c) of
        Some (MetaText aggregateType) \<Rightarrow>
          (case in_get I (hc_name c) of
             Inl e \<Rightarrow> (Inl e, C)
           | Inr _ \<Rightarrow> (Inr None, snd (ed_subscribe (in_broker I)
               (event_dispatcher_create (in_serializer I) (hc_name c) (eventHandlers aggregateType c)) C)))
      | _ \<Rightarrow> (Inr None, C))"

text \<open>
  All callbacks run up to their first wait, in order; then those that have saga handlers left
  subscribe them. \<open>Promise.all\<close> rejects with the first rejection; the others are not stopped by it.
\<close>

definition initializer_onModuleInit ::
    "('c, 'w) initializer \<Rightarrow> 'w handler_class list \<Rightarrow> 'w handler_class list \<Rightarrow>
     (('c, 'w) convoy_consumer, unit) eff" where
  "initializer_onModuleInit I commands events C =
     (case startAll (\<lambda>f. Inr f) (map (initCommands I) commands @ map (initEvents I) events) C of
        (Inl e, C1) \<Rightarrow> (Inl e, C1)
      | (Inr rs, C1) \<Rightarrow>
          (let later = [x. Inr (Some x) \<leftarrow> rs];
               (rs', C2) = startAll (\<lambda>(ch, c). Inr (subscribeSagaHandlers I ch c)) later C1
           in (case settleAll rs of
                 Inl e \<Rightarrow> (Inl e, C2)
               | Inr _ \<Rightarrow> (case rs' of
                     Inl e \<Rightarrow> (Inl e, C2)
                   | Inr us \<Rightarrow> (map_sum id (\<lambda>_. ()) (settleAll us), C2)))))"

section \<open>What is subscribed\<close>

lemma getChannels_sagaHandlers:
  "getChannels (sagaHandlers ch c) = replicate (length (getMethodTypes COMMAND_MESSAGE_HANDLER c)) ch"
  by (simp add: getChannels_def sagaHandlers_def split_def comp_def map_replicate_const)

lemma fold_onMessage:
  "fold (\<lambda>(property, type) builder. hb_onMessage type (h property) (l property) (p property) builder) pts b =
     b\<lparr>hb_handlers := hb_handlers b @ map (\<lambda>(property, type).
         \<lparr>ch_channel = hb_channel b, ch_command = type, ch_invoke = h property, ch_withLock = l property,
          ch_optionsPreLock = p property, ch_resource = None, ch_isSaga = False, ch_preLock = None\<rparr>) pts\<rparr>"
  by (induction pts arbitrary: b) (auto simp: hb_onMessage_def)

lemma fold_onEvent:
  "fold (\<lambda>(property, type) builder. onEvent type (h property) builder) pts b =
     b\<lparr>eb_handlers := eb_handlers b @ map (\<lambda>(property, type).
         \<lparr>eh_event = type, eh_invoke = h property, eh_aggregateType = eb_aggregateType b\<rparr>) pts\<rparr>"
  by (induction pts arbitrary: b) (auto simp: onEvent_def)

lemma plainHandlers_eq:
  "plainHandlers ch c = map (\<lambda>(property, type).
     \<lparr>ch_channel = ch, ch_command = type, ch_invoke = hc_command c property,
      ch_withLock = withLockOption (optionsOf c property), ch_optionsPreLock = preLockOption (optionsOf c property),
      ch_resource = None, ch_isSaga = False, ch_preLock = None\<rparr>) (getMethodTypes COMMAND_MESSAGE_HANDLER c)"
  unfolding plainHandlers_def fold_onMessage by (simp add: hb_build_def hb_fromChannel_def)

lemma eventHandlers_eq:
  "eventHandlers ty c = map (\<lambda>(property, type).
     \<lparr>eh_event = type, eh_invoke = hc_event c property, eh_aggregateType = ty\<rparr>) (getMethodTypes DOMAIN_EVENT_HANDLER c)"
  unfolding eventHandlers_def fold_onEvent by (simp add: ehb_build_def forAggregateType_def)

lemma getAggregateTypes_eventHandlers:
  "getAggregateTypesAndEvents (eventHandlers ty c) = replicate (length (getMethodTypes DOMAIN_EVENT_HANDLER c)) ty"
  by (simp add: getAggregateTypesAndEvents_def eventHandlers_eq split_def comp_def map_replicate_const)

text \<open>The subscription of the plain handlers of a class, which its saga handlers wait for.\<close>

definition subscribePlainHandlers ::
    "('c, 'w) initializer \<Rightarrow> string \<Rightarrow> 'w handler_class \<Rightarrow> ('c, 'w) convoy_consumer \<Rightarrow> ('c, 'w) convoy_consumer" where
  "subscribePlainHandlers I ch c C = snd (cd_subscribe (in_broker I) (cd_invoke (in_serializer I))
     (dispatcher_create (in_producer I) (in_serializer I) (hc_name c) (plainHandlers ch c)) C)"


section \<open>How often a message is handled\<close>

lemma snd_mem_send:
  "snd (mem_send c destination m e w) = fold (\<lambda>handle w. snd (handle m w)) (getHandlersByChannel c destination) w"
  by (simp add: mem_send_def snd_mem_dispatchMessage)

lemma fold_replicate_handler:
  "fold (\<lambda>handle w. snd (handle m w)) (replicate n h) w = ((\<lambda>w. snd (h m w)) ^^ n) w"
  by (induction n arbitrary: w) (simp_all add: funpow_Suc_right del: funpow.simps(2))

lemma getHandlersByChannel_Nil: "getHandlersByChannel [] destination = []"
  by (simp add: getHandlersByChannel_def)

lemma count_list_replicate: "count_list (replicate n x) y = (if x = y then n else 0)"
  by (induction n) auto

lemma handlers_after_subscribe:
  "getHandlersByChannel (target (snd (subscribe in_memory_consumer s (replicate n ch) h e C))) destination =
     getHandlersByChannel (target C) destination @
       (if transform (consumerMapping C) ch = destination then replicate n (\<lambda>m. handleMessage C s m h) else [])"
  by (simp add: subscribe_in_memory in_memory.handlersOf_sub count_list_replicate)

lemma subscribe_keeps:
  "consumerMapping (snd (subscribe T s chs h e C)) = consumerMapping C"
  "doWithMessage (snd (subscribe T s chs h e C)) = doWithMessage C"
  by (auto simp: subscribe_def Let_def split: prod.split)

definition sagaDispatcher :: "('c, 'w) initializer \<Rightarrow> string \<Rightarrow> 'w handler_class \<Rightarrow> 'w dispatcher" where
  "sagaDispatcher I ch c = dispatcher_create (in_producer I) (in_serializer I) (hc_name c) (sagaHandlers ch c)"

definition eventDispatcher :: "('c, 'w) initializer \<Rightarrow> string \<Rightarrow> 'w handler_class \<Rightarrow> 'w event_dispatcher" where
  "eventDispatcher I ty c = event_dispatcher_create (in_serializer I) (hc_name c) (eventHandlers ty c)"

lemma initialized_classes:
  assumes "\<not> hasMetadata COMMAND_HANDLER_METADATA None (hc_class c)"
    and "\<not> hasMetadata HAS_COMMAND_HANDLER_METADATA None (hc_class c)"
    and "\<And>name. in_get I name = Inr ()" and "ch \<noteq> ''''" and "in_lockManager I = Some L"
  shows "initializer_onModuleInit I [SagaCommandHandlers ch c] [EventHandlersOf ty d] C = (Inr (),
     snd (ed_subscribe (in_broker I) (eventDispatcher I (aggregate_type_text ty) d)
       (snd (saga_subscribe (in_broker I) L (sagaDispatcher I ch c) C))))"
proof -
  have "sagaHandlers ch (SagaCommandHandlers ch c) = sagaHandlers ch c" "hc_name (SagaCommandHandlers ch c) = hc_name c"
    "eventHandlers t (EventHandlersOf ty d) = eventHandlers t d" "hc_name (EventHandlersOf ty d) = hc_name d" for t
    by (simp_all add: sagaHandlers_def eventHandlers_eq getMethodTypes_def SagaCommandHandlers_def EventHandlersOf_def
        optionsOf_def Let_def)
  moreover have "initCommands I (SagaCommandHandlers ch c) C =
      andThen (subscribeSagaHandlers I ch (SagaCommandHandlers ch c)) (\<lambda>_. ret None) C"
    using assms by (simp add: initCommands_def SagaCommandHandlers_def hasMetadata_def Let_def)
  moreover have "initEvents I (EventHandlersOf ty d) C = (Inr None, snd (ed_subscribe (in_broker I)
      (eventDispatcher I (aggregate_type_text ty) (EventHandlersOf ty d)) C))" for C
    using assms by (simp add: initEvents_def EventHandlersOf_def eventDispatcher_def)
  ultimately show ?thesis
    using assms(5)
    by (simp add: initializer_onModuleInit_def subscribeSagaHandlers_def andThen_def Let_def
        saga_dispatcher_create_def sagaDispatcher_def eventDispatcher_def)
qed

text \<open>
  A message is handled once for every method of the class that handles it. The
  dispatcher of a class subscribes to its channel as often as it has methods, and the in-memory broker
  gives it a message for each of these subscriptions: a command is run, and answered, as many times as the
  class has command handlers, and an event as many times as it has event handlers.
\<close>

lemma handled_per_method:
  assumes "\<not> hasMetadata COMMAND_HANDLER_METADATA None (hc_class c)"
    and "\<not> hasMetadata HAS_COMMAND_HANDLER_METADATA None (hc_class c)"
    and "\<And>name. in_get I name = Inr ()" and "ch \<noteq> ''''" and "in_lockManager I = Some L"
    and "in_broker I = in_memory_consumer" and "doWithMessage C = base_doWithMessage" and "target C = []"
    and "transform (consumerMapping C) ch \<noteq> transform (consumerMapping C) (aggregate_type_text ty)"
    and "initializer_onModuleInit I [SagaCommandHandlers ch c] [EventHandlersOf ty d] C = (r, C')"
  shows "r = Inr ()
    \<and> snd (mem_send (target C') (transform (consumerMapping C) ch) m False w) =
        ((\<lambda>w. snd (saga_handleMessage L (sagaDispatcher I ch c) m w))
           ^^ length (getMethodTypes COMMAND_MESSAGE_HANDLER c)) w
    \<and> snd (mem_send (target C') (transform (consumerMapping C) (aggregate_type_text ty)) m True w) =
        ((\<lambda>w. snd (ed_handleMessage (eventDispatcher I (aggregate_type_text ty) d) m w))
           ^^ length (getMethodTypes DOMAIN_EVENT_HANDLER d)) w"
proof -
  have C': "r = Inr ()" "C' = snd (ed_subscribe in_memory_consumer (eventDispatcher I (aggregate_type_text ty) d)
       (snd (saga_subscribe in_memory_consumer L (sagaDispatcher I ch c) C)))"
    using assms(10) initialized_classes [OF assms(1-5), of ty d C] by (simp_all add: assms(6))
  have chans: "getChannels (commandHandlers (sagaDispatcher I ch c)) =
      replicate (length (getMethodTypes COMMAND_MESSAGE_HANDLER c)) ch"
    "getAggregateTypesAndEvents (domainEventHandlers (eventDispatcher I t d)) =
      replicate (length (getMethodTypes DOMAIN_EVENT_HANDLER d)) t" for t
    by (simp_all add: sagaDispatcher_def eventDispatcher_def dispatcher_create_def event_dispatcher_create_def
        getChannels_sagaHandlers getAggregateTypes_eventHandlers)
  show ?thesis
    using assms(7-9) unfolding C' snd_mem_send
    by (simp add: ed_subscribe_def saga_subscribe_def chans handlers_after_subscribe subscribe_keeps
        fold_replicate_handler handleMessage_def base_doWithMessage_def getHandlersByChannel_Nil)
qed

section \<open>A concrete class\<close>

text \<open>A class with two methods for commands and one with two methods for events.\<close>

definition sample_class :: "broker_log handler_class" where
  "sample_class =
     OnMessage ''ReserveCredit'' \<lparr>withLockOption = False, preLockOption = None\<rparr> ''reserveCredit''
       (OnMessage ''ReleaseCredit'' \<lparr>withLockOption = False, preLockOption = None\<rparr> ''releaseCredit''
         \<lparr>hc_name = ''CustomerCommandHandlers'', hc_properties = [''constructor'', ''reserveCredit'', ''releaseCredit''],
          hc_class = [], hc_prototype = [],
          hc_command = (\<lambda>property cm log. (Inr (One ReplyNothing), log @ [(property, [])])),
          hc_event = (\<lambda>property ev. ret ())\<rparr>)"

definition sample_event_class :: "broker_log handler_class" where
  "sample_event_class =
     OnEvent ''CustomerCreated'' ''onCreated'' (OnEvent ''CustomerRenamed'' ''onRenamed''
       \<lparr>hc_name = ''CustomerHistory'', hc_properties = [''constructor'', ''onCreated'', ''onRenamed''],
        hc_class = [], hc_prototype = [], hc_command = (\<lambda>property cm. ret (One ReplyNothing)),
        hc_event = (\<lambda>property ev log. (Inr (), log @ [(property, [ev_message ev])]))\<rparr>)"

definition sample_initializer :: "(broker_log handlers, broker_log) initializer" where
  "sample_initializer = \<lparr>in_broker = in_memory_consumer, in_producer = sample_producer,
     in_serializer = sample_serializer, in_lockManager = Some (sample_lock_manager True), in_get = (\<lambda>_. Inr ())\<rparr>"

definition sample_broker :: "(broker_log handlers, broker_log) convoy_consumer" where
  "sample_broker = \<lparr>doWithMessage = base_doWithMessage, consumerMapping = [], subs = [], target = []\<rparr>"

definition sample_event_message :: message where
  "sample_event_message = sample_message [(HDR_TYPE, ''CustomerCreated''), (HDR_ID, ''m1''),
     (AGGREGATE_TYPE, ''Customer''), (AGGREGATE_ID, ''7''), (EVENT_TYPE, ''CustomerCreated'')]"

lemma sample_method_types:
  "getMethodTypes COMMAND_MESSAGE_HANDLER sample_class =
     [(''reserveCredit'', ''ReserveCredit''), (''releaseCredit'', ''ReleaseCredit'')]"
  "getMethodTypes DOMAIN_EVENT_HANDLER sample_event_class =
     [(''onCreated'', ''CustomerCreated''), (''onRenamed'', ''CustomerRenamed'')]"
  by (simp_all add: getMethodTypes_def sample_class_def sample_event_class_def OnMessage_def OnEvent_def hasMetadata_def)


lemma sample_event_handled:
  "ed_handleMessage (eventDispatcher sample_initializer ''Customer'' sample_event_class) sample_event_message log =
     (Inr (), log @ [(''onCreated'', [sample_event_message])])"
proof -
  have h: "getHeader sample_event_message AGGREGATE_TYPE '''' = ''Customer''"
    "getHeader sample_event_message AGGREGATE_ID '''' = ''7''"
    "getHeader sample_event_message EVENT_TYPE '''' = ''CustomerCreated''"
    "getHeader sample_event_message HDR_ID '''' = ''m1''"
    "payload sample_event_message = JObj []"
    by (simp_all add: sample_event_message_def sample_message_def new_message_def getHeader_def
        event_header_defs message_header_defs)
  then have r: "getRequiredHeader sample_event_message AGGREGATE_TYPE = Inr ''Customer''"
    "getRequiredHeader sample_event_message AGGREGATE_ID = Inr ''7''"
    "getRequiredHeader sample_event_message EVENT_TYPE = Inr ''CustomerCreated''"
    "getRequiredHeader sample_event_message HDR_ID = Inr ''m1''"
    by (simp_all add: getRequiredHeader_eq filled_def)
  have "hc_event sample_event_class p ev log = (Inr (), log @ [(p, [ev_message ev])])" for p ev log
    by (simp add: sample_event_class_def OnEvent_def)
  moreover have "domainEventHandlers (eventDispatcher sample_initializer ''Customer'' sample_event_class) =
      [\<lparr>eh_event = ''CustomerCreated'', eh_invoke = hc_event sample_event_class ''onCreated'', eh_aggregateType = ''Customer''\<rparr>,
       \<lparr>eh_event = ''CustomerRenamed'', eh_invoke = hc_event sample_event_class ''onRenamed'', eh_aggregateType = ''Customer''\<rparr>]"
    by (simp add: eventDispatcher_def event_dispatcher_create_def eventHandlers_eq sample_method_types)
  moreover have "eventSerializer (eventDispatcher sample_initializer ''Customer'' sample_event_class) = sample_serializer"
    by (simp add: eventDispatcher_def event_dispatcher_create_def sample_initializer_def)
  ultimately show ?thesis
    by (simp add: ed_handleMessage_def eh_findTargetMethod_def eh_handles_def h r parsePayload_def sample_serializer_def)
qed

lemma handled_per_method_witness:
  "snd (mem_send (target (snd (initializer_onModuleInit sample_initializer
        [SagaCommandHandlers ''customers'' sample_class]
        [EventHandlersOf (TypeText ''Customer'') sample_event_class] sample_broker)))
      ''Customer'' sample_event_message True []) =
     [(''onCreated'', [sample_event_message]), (''onCreated'', [sample_event_message])]"
proof -
  have "\<not> hasMetadata COMMAND_HANDLER_METADATA None (hc_class sample_class)"
    "\<not> hasMetadata HAS_COMMAND_HANDLER_METADATA None (hc_class sample_class)"
    by (simp_all add: sample_class_def OnMessage_def hasMetadata_def)
  then show ?thesis
    using handled_per_method [of sample_class sample_initializer "''customers''" "sample_lock_manager True" sample_broker
        "TypeText ''Customer''" sample_event_class
        "fst (initializer_onModuleInit sample_initializer [SagaCommandHandlers ''customers'' sample_class]
          [EventHandlersOf (TypeText ''Customer'') sample_event_class] sample_broker)"
        "snd (initializer_onModuleInit sample_initializer [SagaCommandHandlers ''customers'' sample_class]
          [EventHandlersOf (TypeText ''Customer'') sample_event_class] sample_broker)" sample_event_message "[]"]
    by (simp add: sample_event_handled sample_method_types numeral_2_eq_2) (simp add: sample_initializer_def sample_broker_def transform_def)
qed

end
