(* ===== verification/Schema.thy ===== *)
theory Schema
  imports Json
begin

text \<open>
  The schemas of events (\<open>events/aggregate/schema/\<close>): the versions of an aggregate's events with their
  renames and upcasters, the upcasting of stored events, the manager that keeps the schemas and the
  builders that configure it.

  A class is its name, which takes the place of the class itself as the key of the manager's map.
  The metadata of an event is a record of texts and numbers.
\<close>

type_synonym metadata = "(string, json) jsmap"

record event_id_type_data =
  ei_eventId :: string
  ei_eventType :: string
  ei_eventData :: json
  ei_metadata :: "metadata option"

section \<open>Versions\<close>

type_synonym upcaster = "json \<Rightarrow> exn + json"

record event_rename =
  oldEventName :: string
  newEventType :: string

record event_transform =
  et_eventName :: string
  et_upcaster :: upcaster

record schema_version =
  sv_version :: int
  sv_renames :: "event_rename list"
  sv_transforms :: "event_transform list"

definition rename_isFor :: "string \<Rightarrow> event_rename \<Rightarrow> bool" where
  "rename_isFor eventType r = (eventType = oldEventName r)"

definition transform_isFor :: "string \<Rightarrow> event_transform \<Rightarrow> bool" where
  "transform_isFor eventType t = (eventType = et_eventName t)"

definition findUpcaster :: "string \<Rightarrow> schema_version \<Rightarrow> upcaster option" where
  "findUpcaster eventType v = map_option et_upcaster (find (transform_isFor eventType) (sv_transforms v))"

definition maybeRename :: "string \<Rightarrow> schema_version \<Rightarrow> string" where
  "maybeRename eventType v =
     (case find (rename_isFor eventType) (sv_renames v) of None \<Rightarrow> eventType | Some r \<Rightarrow> newEventType r)"

section \<open>The schema of an aggregate\<close>

record aggregate_schema =
  as_aggregateType :: string
  as_versions :: "schema_version list"

record new_event_and_upcasters =
  neu_upcasters :: "upcaster list"
  neu_eventType :: "string option"

definition neu_isEmpty :: "new_event_and_upcasters \<Rightarrow> bool" where
  "neu_isEmpty n = (neu_eventType n = None \<and> neu_upcasters n = [])"

definition CONVOY_SCHEMA_VERSION :: string where "CONVOY_SCHEMA_VERSION = ''convoy_schema_version''"

definition schema_currentVersion :: "aggregate_schema \<Rightarrow> exn + int" where
  "schema_currentVersion A =
     (if as_versions A = [] then Inl TypeError else Inr (sv_version (last (as_versions A))))"

definition eventVersion :: "event_id_type_data \<Rightarrow> json" where
  "eventVersion e =
     (case ei_metadata e of
        None \<Rightarrow> JNum (-1)
      | Some md \<Rightarrow> (case map_get md CONVOY_SCHEMA_VERSION of
            None \<Rightarrow> JNum (-1) | Some v \<Rightarrow> if v = JNull then JNum (-1) else v))"

definition needsUpcast :: "int \<Rightarrow> json \<Rightarrow> bool" where
  "needsUpcast latestVersion actualVersion = (JNum latestVersion \<noteq> actualVersion)"

definition withNewVersion :: "int \<Rightarrow> metadata option \<Rightarrow> metadata" where
  "withNewVersion currentVersion md =
     map_set CONVOY_SCHEMA_VERSION (JNum currentVersion) (case md of None \<Rightarrow> [] | Some m \<Rightarrow> m)"

fun upcastLoop :: "schema_version list \<Rightarrow> string \<Rightarrow> upcaster list \<Rightarrow> string \<times> upcaster list" where
  "upcastLoop [] eventType upcasters = (eventType, upcasters)"
| "upcastLoop (v # vs) eventType upcasters =
     (let ty = maybeRename eventType v
      in upcastLoop vs ty (case findUpcaster ty v of None \<Rightarrow> upcasters | Some u \<Rightarrow> upcasters @ [u]))"

text \<open>The versions to upcast from and to are given and not used: the loop starts at the first one.\<close>

definition findUpcasters ::
    "aggregate_schema \<Rightarrow> string \<Rightarrow> json \<Rightarrow> int \<Rightarrow> new_event_and_upcasters" where
  "findUpcasters A originalEventType fromVersion toVersion =
     (case upcastLoop (as_versions A) originalEventType [] of (eventType, upcasters) \<Rightarrow>
        \<lparr>neu_upcasters = upcasters,
         neu_eventType = (if eventType = originalEventType then None else Some eventType)\<rparr>)"

fun reduceUpcasters :: "upcaster list \<Rightarrow> json \<Rightarrow> exn + json" where
  "reduceUpcasters [] j = Inr j"
| "reduceUpcasters (u # us) j = (case u j of Inl e \<Rightarrow> Inl e | Inr j' \<Rightarrow> reduceUpcasters us j')"

definition upcast :: "aggregate_schema \<Rightarrow> event_id_type_data \<Rightarrow> int \<Rightarrow> json \<Rightarrow> exn + event_id_type_data" where
  "upcast A e toVersion fromVersion =
     (let n = findUpcasters A (ei_eventType e) fromVersion toVersion
      in if neu_isEmpty n then Inr e
         else case reduceUpcasters (neu_upcasters n) (ei_eventData e) of
             Inl x \<Rightarrow> Inl x
           | Inr eventData \<Rightarrow> (case schema_currentVersion A of
                 Inl x \<Rightarrow> Inl x
               | Inr current \<Rightarrow> Inr (e\<lparr>
                   ei_eventType := (case neu_eventType n of
                      None \<Rightarrow> ei_eventType e | Some t \<Rightarrow> t),
                   ei_metadata := Some (withNewVersion current (ei_metadata e)),
                   ei_eventData := eventData\<rparr>)))"

definition maybeUpcast :: "aggregate_schema \<Rightarrow> int \<Rightarrow> event_id_type_data \<Rightarrow> exn + event_id_type_data" where
  "maybeUpcast A latestVersion e =
     (if needsUpcast latestVersion (eventVersion e) then upcast A e latestVersion (eventVersion e) else Inr e)"

definition schema_upcastEvents ::
    "aggregate_schema \<Rightarrow> event_id_type_data list \<Rightarrow> exn + event_id_type_data list" where
  "schema_upcastEvents A events =
     (case schema_currentVersion A of
        Inl e \<Rightarrow> Inl e | Inr v \<Rightarrow> traverse (maybeUpcast A v) events)"

section \<open>The manager\<close>

type_synonym schema_manager = "(string, aggregate_schema) jsmap"

definition add_schema :: "aggregate_schema \<Rightarrow> schema_manager \<Rightarrow> exn + schema_manager" where
  "add_schema A m =
     (if map_has m (as_aggregateType A)
      then Inl (RuntimeException (''Already defined: '' @ as_aggregateType A))
      else Inr (map_set (as_aggregateType A) A m))"

definition manager_currentVersion :: "schema_manager \<Rightarrow> string \<Rightarrow> exn + int option" where
  "manager_currentVersion m aggregateType =
     (case map_get m aggregateType of
        None \<Rightarrow> Inr None | Some A \<Rightarrow> map_sum id Some (schema_currentVersion A))"

definition currentSchemaMetadata :: "schema_manager \<Rightarrow> string \<Rightarrow> exn + metadata option" where
  "currentSchemaMetadata m aggregateType =
     map_sum id (\<lambda>v. case v of
        None \<Rightarrow> None
      | Some n \<Rightarrow> if n = 0 then None else Some [(CONVOY_SCHEMA_VERSION, JNum n)])
       (manager_currentVersion m aggregateType)"

definition upcastEvents ::
    "schema_manager \<Rightarrow> string \<Rightarrow> event_id_type_data list \<Rightarrow> exn + event_id_type_data list" where
  "upcastEvents m aggregateType events =
     (case map_get m aggregateType of
        None \<Rightarrow> Inr events | Some A \<Rightarrow> schema_upcastEvents A events)"

text \<open>An event as a subscriber receives it (\<open>serialized-event.ts\<close>); its context is a text.\<close>

record serialized_event =
  se_id :: string
  se_entityId :: string
  se_entityType :: string
  se_eventData :: json
  se_eventType :: string
  se_partition :: int
  se_offset :: int
  se_eventContext :: string
  se_metadata :: "metadata option"

definition upcastEvent :: "schema_manager \<Rightarrow> serialized_event \<Rightarrow> exn + serialized_event" where
  "upcastEvent m se =
     (let original = \<lparr>ei_eventId = se_id se, ei_eventType = se_eventType se,
            ei_eventData = se_eventData se, ei_metadata = se_metadata se\<rparr>
      in case upcastEvents m (se_entityType se) [original] of
           Inl e \<Rightarrow> Inl e
         | Inr us \<Rightarrow> Inr (se\<lparr>se_eventData := ei_eventData (hd us), se_eventType := ei_eventType (hd us),
             se_metadata := ei_metadata (hd us)\<rparr>))"

section \<open>The builders\<close>

record schema_builder =
  sb_aggregateType :: string
  sb_versions :: "schema_version list"

record version_builder =
  vb_parent :: schema_builder
  vb_version :: int
  vb_renames :: "event_rename list"
  vb_transforms :: "event_transform list"

definition forAggregate :: "string \<Rightarrow> schema_builder" where
  "forAggregate aggregateType = \<lparr>sb_aggregateType = aggregateType, sb_versions = []\<rparr>"

definition addVersion ::
    "int \<Rightarrow> event_rename list \<Rightarrow> event_transform list \<Rightarrow> schema_builder \<Rightarrow> schema_builder" where
  "addVersion version renames transforms b = b\<lparr>sb_versions := sb_versions b @
     [\<lparr>sv_version = version, sv_renames = renames, sv_transforms = transforms\<rparr>]\<rparr>"

definition sb_version :: "int \<Rightarrow> schema_builder \<Rightarrow> version_builder" where
  "sb_version value b = \<lparr>vb_parent = b, vb_version = value, vb_renames = [], vb_transforms = []\<rparr>"

definition configurable_finishForAggregate ::
    "string \<Rightarrow> schema_version list \<Rightarrow> schema_manager \<Rightarrow> exn + schema_manager" where
  "configurable_finishForAggregate aggregateType versions m =
     add_schema \<lparr>as_aggregateType = aggregateType, as_versions = versions\<rparr> m"

definition finishForAggregateAndStartNew ::
    "string \<Rightarrow> schema_version list \<Rightarrow> string \<Rightarrow> schema_manager \<Rightarrow> exn + (schema_builder \<times> schema_manager)" where
  "finishForAggregateAndStartNew aggregateType versions nextAggregateType m =
     map_sum id (\<lambda>m'. (forAggregate nextAggregateType, m'))
       (configurable_finishForAggregate aggregateType versions m)"

definition sb_forAggregate ::
    "string \<Rightarrow> schema_builder \<Rightarrow> schema_manager \<Rightarrow> exn + (schema_builder \<times> schema_manager)" where
  "sb_forAggregate aggregateType b m =
     finishForAggregateAndStartNew (sb_aggregateType b) (sb_versions b) aggregateType m"

definition sb_build :: "schema_builder \<Rightarrow> schema_manager \<Rightarrow> exn + schema_manager" where
  "sb_build b m = configurable_finishForAggregate (sb_aggregateType b) (sb_versions b) m"

definition vb_finishForAggregate :: "version_builder \<Rightarrow> schema_builder" where
  "vb_finishForAggregate v = addVersion (vb_version v) (vb_renames v) (vb_transforms v) (vb_parent v)"

definition vb_rename :: "string \<Rightarrow> string \<Rightarrow> version_builder \<Rightarrow> version_builder" where
  "vb_rename old new v = v\<lparr>vb_renames := vb_renames v @ [\<lparr>oldEventName = old, newEventType = new\<rparr>]\<rparr>"

definition vb_transform :: "string \<Rightarrow> upcaster \<Rightarrow> version_builder \<Rightarrow> version_builder" where
  "vb_transform eventType u v =
     v\<lparr>vb_transforms := vb_transforms v @ [\<lparr>et_eventName = eventType, et_upcaster = u\<rparr>]\<rparr>"

definition vb_nextVersion :: "int \<Rightarrow> version_builder \<Rightarrow> version_builder" where
  "vb_nextVersion version v = sb_version version (vb_finishForAggregate v)"

definition customize :: "version_builder \<Rightarrow> schema_manager \<Rightarrow> exn + schema_manager" where
  "customize v m = sb_build (vb_finishForAggregate v) m"

definition vb_forAggregate ::
    "string \<Rightarrow> version_builder \<Rightarrow> schema_manager \<Rightarrow> exn + (schema_builder \<times> schema_manager)" where
  "vb_forAggregate aggregateType v m = sb_forAggregate aggregateType (vb_finishForAggregate v) m"

definition vb_build :: "version_builder \<Rightarrow> schema_manager \<Rightarrow> exn + schema_manager" where
  "vb_build v m = customize v m"

section \<open>What upcasting promises\<close>

text \<open>The class that a chain of renames ends with, and the upcasters met on the way.\<close>

fun renamed :: "schema_version list \<Rightarrow> string \<Rightarrow> string" where
  "renamed [] ty = ty"
| "renamed (v # vs) ty = renamed vs (maybeRename ty v)"

fun collected :: "schema_version list \<Rightarrow> string \<Rightarrow> upcaster list" where
  "collected [] ty = []"
| "collected (v # vs) ty =
     (case findUpcaster (maybeRename ty v) v of None \<Rightarrow> [] | Some u \<Rightarrow> [u]) @ collected vs (maybeRename ty v)"

lemma upcastLoop_eq: "upcastLoop vs ty us = (renamed vs ty, us @ collected vs ty)"
  by (induction vs arbitrary: ty us) (auto simp: Let_def split: option.splits)

lemma findUpcasters_eq:
  "findUpcasters A ty from to =
     \<lparr>neu_upcasters = collected (as_versions A) ty,
      neu_eventType = (if renamed (as_versions A) ty = ty then None else Some (renamed (as_versions A) ty))\<rparr>"
  by (simp add: findUpcasters_def upcastLoop_eq)

lemma upcast_unchanged:
  "neu_isEmpty (findUpcasters A (ei_eventType e) from to) \<Longrightarrow> upcast A e to from = Inr e"
  by (simp add: upcast_def Let_def)

lemma upcast_changed:
  "\<not> neu_isEmpty (findUpcasters A (ei_eventType e) from to) \<Longrightarrow> schema_currentVersion A = Inr v \<Longrightarrow>
   upcast A e to from = map_sum id (\<lambda>d. e\<lparr>ei_eventType := renamed (as_versions A) (ei_eventType e),
      ei_metadata := Some (withNewVersion v (ei_metadata e)), ei_eventData := d\<rparr>)
     (reduceUpcasters (collected (as_versions A) (ei_eventType e)) (ei_eventData e))"
  by (auto simp: upcast_def Let_def findUpcasters_eq split: sum.split)

lemma eventVersion_upcast:
  "eventVersion (e\<lparr>ei_eventType := t, ei_metadata := Some (withNewVersion v md), ei_eventData := d\<rparr>) = JNum v"
  by (simp add: eventVersion_def withNewVersion_def)

lemma maybeUpcast_idem:
  assumes "schema_currentVersion A = Inr v" and "maybeUpcast A v e = Inr e'"
  shows "maybeUpcast A v e' = Inr e'"
proof (cases "needsUpcast v (eventVersion e)")
  case False
  then show ?thesis using assms(2) by (simp add: maybeUpcast_def)
next
  case needs: True
  show ?thesis
  proof (cases "neu_isEmpty (findUpcasters A (ei_eventType e) (eventVersion e) v)")
    case True
    then show ?thesis using assms(2) needs by (simp add: maybeUpcast_def upcast_unchanged)
  next
    case False
    then show ?thesis
      using assms(2) needs
      by (cases "reduceUpcasters (collected (as_versions A) (ei_eventType e)) (ei_eventData e)")
        (auto simp: maybeUpcast_def upcast_changed [OF False assms(1)] needsUpcast_def eventVersion_upcast
          split: if_splits)
  qed
qed

text \<open>
  C26: Upcasting is done once: the events that the manager gives back are left as they are when
  they are given to it again, for every configuration of the schemas.
\<close>

theorem upcastEvents_idempotent:
  assumes "upcastEvents m ty events = Inr events'"
  shows "upcastEvents m ty events' = Inr events'"
proof (cases "map_get m ty")
  case None
  then show ?thesis using assms by (simp add: upcastEvents_def)
next
  case (Some A)
  then obtain v where v: "schema_currentVersion A = Inr v"
    and all: "list_all2 (\<lambda>e e'. maybeUpcast A v e = Inr e') events events'"
    using assms by (auto simp: upcastEvents_def schema_upcastEvents_def traverse_Inr split: sum.splits)
  have "list_all2 (\<lambda>e e'. maybeUpcast A v e = Inr e') events' events'"
    using all maybeUpcast_idem [OF v] by (auto simp: list_all2_conv_all_nth)
  then show ?thesis
    using Some v by (simp add: upcastEvents_def schema_upcastEvents_def traverse_Inr)
qed


text \<open>A schema of two versions, the way an application configures it.\<close>

definition sample_upcaster :: "string \<Rightarrow> upcaster" where
  "sample_upcaster name j = (case j of JObj ps \<Rightarrow> Inr (JObj (ps @ [(name, JBool True)])) | _ \<Rightarrow> Inl TypeError)"

definition sample_schemas :: "exn + schema_manager" where
  "sample_schemas = customize
     (vb_transform ''NewEventB'' (sample_upcaster ''second'')
       (vb_nextVersion 2
         (vb_transform ''NewEventB'' (sample_upcaster ''first'')
           (vb_rename ''OldEvent'' ''NewEventB'' (sb_version 1 (forAggregate ''Account'')))))) []"

definition stored_event :: "string \<Rightarrow> int option \<Rightarrow> event_id_type_data" where
  "stored_event ty v = \<lparr>ei_eventId = ''1'', ei_eventType = ty, ei_eventData = JObj [],
     ei_metadata = map_option (\<lambda>n. [(CONVOY_SCHEMA_VERSION, JNum n)]) v\<rparr>"

definition upcast_event :: event_id_type_data where
  "upcast_event = \<lparr>ei_eventId = ''1'', ei_eventType = ''NewEventB'',
     ei_eventData = JObj [(''first'', JBool True), (''second'', JBool True)],
     ei_metadata = Some [(CONVOY_SCHEMA_VERSION, JNum 2)]\<rparr>"

lemmas sample_schema_defs =
  sample_schemas_def customize_def sb_build_def configurable_finishForAggregate_def add_schema_def
  map_has_def vb_finishForAggregate_def addVersion_def vb_transform_def vb_nextVersion_def vb_rename_def
  sb_version_def forAggregate_def

lemma sample_upcast:
  "\<exists>m. sample_schemas = Inr m \<and> upcastEvents m ''Account'' [stored_event ''NewEventB'' (Some 1)] = Inr [upcast_event]"
  by (simp add: sample_schema_defs upcastEvents_def schema_upcastEvents_def schema_currentVersion_def
      maybeUpcast_def needsUpcast_def stored_event_def eventVersion_def upcast_def findUpcasters_def
      maybeRename_def findUpcaster_def transform_isFor_def rename_isFor_def neu_isEmpty_def Let_def
      sample_upcaster_def upcast_event_def withNewVersion_def)

lemma upcastEvents_idempotent_witness:
  "\<exists>m. sample_schemas = Inr m \<and> upcastEvents m ''Account'' [upcast_event] = Inr [upcast_event]"
  using sample_upcast upcastEvents_idempotent by blast


end
