(* ===== verification/Snapshots.thy ===== *)
theory Snapshots
  imports Schema Paths
begin

text \<open>
  Snapshots (\<open>events/aggregate/snapshot/\<close>): the context of an event that came through Kafka, written as the
  text \<open>etpo:id:topic:partition:offset\<close> (\<open>etpo-event-context.ts\<close>), the offsets of the events that
  triggered a snapshot (\<open>snapshot-triggering-events.ts\<close>) and the manager of the strategies
  (\<open>snapshot-manager.ts\<close>).
\<close>

section \<open>The context of an event\<close>

text \<open>\<open>parseInt\<close> gives \<open>NaN\<close>, here \<open>None\<close>, for a text that starts with no number.\<close>

record etpo =
  etpo_id :: string
  etpo_topic :: string
  etpo_partition :: "int option"
  etpo_offset :: int

definition PREFIX :: string where "PREFIX = ''etpo:''"

definition number_text :: "int option \<Rightarrow> string" where
  "number_text n = (case n of None \<Rightarrow> ''NaN'' | Some i \<Rightarrow> show_int i)"

definition eventToken :: "etpo \<Rightarrow> string" where
  "eventToken d = PREFIX @ etpo_id d @ '':'' @ etpo_topic d @ '':''
     @ number_text (etpo_partition d) @ '':'' @ show_int (etpo_offset d)"

definition isEtpoEvent :: "string option \<Rightarrow> bool" where
  "isEtpoEvent triggeringEvent = (case triggeringEvent of None \<Rightarrow> False | Some t \<Rightarrow> startsWith t PREFIX)"

text \<open>
  \<open>const [id, topic, partition, offset] = ....split(':')\<close>: parts that are not there are undefined.
  \<open>BigInt(undefined)\<close> throws, so a decoded context has a topic.
\<close>

definition etpo_decode :: "string \<Rightarrow> exn + etpo option" where
  "etpo_decode triggeringEvent =
     (if isEtpoEvent (Some triggeringEvent) then
        (case split_on CHR '':'' (drop (length PREFIX) triggeringEvent) of
           i # topic # part # offset # _ \<Rightarrow>
             map_sum id (\<lambda>off. Some \<lparr>etpo_id = i, etpo_topic = topic, etpo_partition = parseInt part,
               etpo_offset = off\<rparr>) (parseBigInt offset)
         | _ \<Rightarrow> Inl TypeError)
      else Inr None)"

section \<open>Triggering events\<close>

type_synonym triggering_events = "(string, (int option, int) jsmap) jsmap"

definition ste_isEmpty :: "triggering_events \<Rightarrow> bool" where
  "ste_isEmpty ste = (length ste < 1)"

definition add_offset :: "string \<Rightarrow> int option \<Rightarrow> int \<Rightarrow> triggering_events \<Rightarrow> triggering_events" where
  "add_offset topic part offset ste =
     (case map_get ste topic of
        None \<Rightarrow> map_set topic [(part, offset)] ste
      | Some pos \<Rightarrow>
          (case map_get pos part of
             None \<Rightarrow> map_set topic (map_set part offset pos) ste
           | Some maxOffset \<Rightarrow>
               if offset > maxOffset then map_set topic (map_set part offset pos) ste else ste))"

text \<open>The destructuring of what \<open>decode\<close> gives throws when it gives nothing.\<close>

definition add_trigger :: "string \<Rightarrow> triggering_events \<Rightarrow> exn + triggering_events" where
  "add_trigger triggeringEvent ste =
     (case etpo_decode triggeringEvent of
        Inl e \<Rightarrow> Inl e
      | Inr None \<Rightarrow> Inl TypeError
      | Inr (Some d) \<Rightarrow> Inr (add_offset (etpo_topic d) (etpo_partition d) (etpo_offset d) ste))"

fun add_triggers :: "string list \<Rightarrow> triggering_events \<Rightarrow> exn + triggering_events" where
  "add_triggers [] ste = Inr ste"
| "add_triggers (t # ts) ste =
     (case add_trigger t ste of Inl e \<Rightarrow> Inl e | Inr ste' \<Rightarrow> add_triggers ts ste')"

definition new_SnapshotTriggeringEvents :: "string list option \<Rightarrow> exn + triggering_events" where
  "new_SnapshotTriggeringEvents triggeringEvents =
     (case triggeringEvents of None \<Rightarrow> Inr [] | Some ts \<Rightarrow> add_triggers ts [])"

definition serialize :: "triggering_events \<Rightarrow> string list" where
  "serialize ste = concat (map (\<lambda>(topic, po).
     map (\<lambda>(part, offset). eventToken \<lparr>etpo_id = ''????'', etpo_topic = topic,
       etpo_partition = part, etpo_offset = offset\<rparr>) po) ste)"

definition checkForDuplicateEvent :: "etpo \<Rightarrow> triggering_events \<Rightarrow> exn + unit" where
  "checkForDuplicateEvent d ste =
     (case map_get ste (etpo_topic d) of
        None \<Rightarrow> Inr ()
      | Some pos \<Rightarrow> (case map_get pos (etpo_partition d) of
            None \<Rightarrow> Inr ()
          | Some maxOffset \<Rightarrow>
              if etpo_offset d \<le> maxOffset then Inl DuplicateTriggeringEventException else Inr ()))"

record loaded_snapshot =
  ls_type :: string
  ls_json :: string
  ls_entityVersion :: string
  ls_triggeringEvents :: "string list option"

definition checkSnapshotForDuplicateEvent :: "loaded_snapshot \<Rightarrow> etpo \<Rightarrow> exn + unit" where
  "checkSnapshotForDuplicateEvent previousSnapshot eventContext =
     (case ls_triggeringEvents previousSnapshot of
        None \<Rightarrow> Inr ()
      | Some ts \<Rightarrow>
          (case etpo_decode (eventToken eventContext) of
             Inl e \<Rightarrow> Inl e
           | Inr None \<Rightarrow> Inr ()
           | Inr (Some tpo) \<Rightarrow>
               (case new_SnapshotTriggeringEvents (Some ts) of
                  Inl e \<Rightarrow> Inl e
                | Inr ste \<Rightarrow> checkForDuplicateEvent tpo ste)))"

text \<open>The events are given by their triggering events; one that has none is undefined.\<close>

definition create_triggering ::
    "string option list \<Rightarrow> etpo option \<Rightarrow> loaded_snapshot option \<Rightarrow> exn + triggering_events" where
  "create_triggering events eventContext previousSnapshot =
     (case new_SnapshotTriggeringEvents (Option.bind previousSnapshot ls_triggeringEvents) of
        Inl e \<Rightarrow> Inl e
      | Inr ste \<Rightarrow>
          (case add_triggers (map the (filter isEtpoEvent events)) ste of
             Inl e \<Rightarrow> Inl e
           | Inr ste' \<Rightarrow>
               if isEtpoEvent (map_option eventToken eventContext)
               then add_trigger (eventToken (the eventContext)) ste'
               else Inr ste'))"

section \<open>The manager\<close>

text \<open>
  A strategy of the application makes a snapshot of an aggregate and the aggregate of a snapshot. An
  aggregate is an object of the application, known by a reference of type \<open>'a\<close> to the world that
  keeps its properties; \<open>classOf\<close> is \<open>constructor.name\<close>. The manager's store is filled when the module
  starts, from the strategies the framework has found, with the aggregate and the snapshot that the decorator has
  kept for each; a later strategy for the same aggregate replaces the earlier one.
\<close>

record event_with_metadata =
  ew_event :: jsobj
  ew_eventId :: string
  ew_metadata :: "metadata option"

record ('a, 'w) snapshot_strategy =
  possibleSnapshot ::
    "'a \<Rightarrow> event_with_metadata list \<Rightarrow> jsobj list \<Rightarrow> string option \<Rightarrow> ('w, jsobj option) eff"
  ss_recreateAggregate :: "string \<Rightarrow> jsobj \<Rightarrow> ('w, 'a) eff"

type_synonym ('a, 'w) snapshot_store = "(string, string \<times> ('a, 'w) snapshot_strategy) jsmap"

definition manager_init ::
    "(string \<times> string \<times> ('a, 'w) snapshot_strategy) list \<Rightarrow> ('a, 'w) snapshot_store" where
  "manager_init strategies =
     map_from (map (\<lambda>(aggregate, snapshot, strategy). (aggregate, (snapshot, strategy))) strategies)"

definition getSnapshots :: "('a, 'w) snapshot_store \<Rightarrow> string list" where
  "getSnapshots store = map (\<lambda>(_, snapshot, _). snapshot) store"

definition possiblySnapshot ::
    "('a \<Rightarrow> string) \<Rightarrow> ('a, 'w) snapshot_store \<Rightarrow> 'a \<Rightarrow> event_with_metadata list \<Rightarrow> jsobj list \<Rightarrow>
     string option \<Rightarrow> ('w, jsobj option) eff" where
  "possiblySnapshot classOf store aggregate oldEvents newEvents version =
     (case map_get store (classOf aggregate) of
        None \<Rightarrow> ret None
      | Some (_, strategy) \<Rightarrow> possibleSnapshot strategy aggregate oldEvents newEvents version)"

definition recreateFromSnapshot ::
    "('a, 'w) snapshot_store \<Rightarrow> string \<Rightarrow> jsobj \<Rightarrow> ('w, 'a option) eff" where
  "recreateFromSnapshot store aggregateType snapshot =
     (case map_get store aggregateType of
        None \<Rightarrow> ret None
      | Some (_, strategy) \<Rightarrow>
          andThen (ss_recreateAggregate strategy aggregateType snapshot) (\<lambda>a. ret (Some a)))"

section \<open>The text of a context\<close>

lemma number_text_chars: "CHR '':'' \<notin> set (number_text n)" "CHR '':'' \<notin> set (show_int i)"
  using show_int_chars [of "CHR '':''"] by (auto simp: number_text_def is_digit_def split: option.splits)

lemma parseInt_number_text [simp]: "parseInt (number_text n) = n"
proof (cases n)
  case None
  then show ?thesis
    by (simp add: number_text_def parseInt_def scan_int_def scan_nat_def is_digit_def)
qed (simp add: number_text_def)

lemma etpo_decode_token:
  assumes "CHR '':'' \<notin> set (etpo_id d)" and "CHR '':'' \<notin> set (etpo_topic d)"
  shows "etpo_decode (eventToken d) = Inr (Some d)"
proof -
  have "split_on CHR '':'' (drop (length PREFIX) (eventToken d)) =
      [etpo_id d, etpo_topic d, number_text (etpo_partition d), show_int (etpo_offset d)]"
    using assms number_text_chars
    by (simp add: eventToken_def split_on_append split_on_no_sep)
  then show ?thesis
    by (simp add: etpo_decode_def isEtpoEvent_def startsWith_append eventToken_def)
qed

lemma etpo_decode_topic: "etpo_decode t = Inr (Some d) \<Longrightarrow> CHR '':'' \<notin> set (etpo_topic d)"
proof -
  assume d: "etpo_decode t = Inr (Some d)"
  have "\<And>s. s \<in> set (split_on CHR '':'' (drop (length PREFIX) t)) \<Longrightarrow> CHR '':'' \<notin> set s"
    by (rule split_on_segments)
  then show ?thesis
    using d by (auto simp: etpo_decode_def map_sum_eq_Inr split: if_splits list.splits)
qed

section \<open>The greatest offsets\<close>

definition offset_of :: "triggering_events \<Rightarrow> string \<Rightarrow> int option \<Rightarrow> int option" where
  "offset_of ste topic part = Option.bind (map_get ste topic) (\<lambda>pos. map_get pos part)"

lemma offset_of_add:
  "offset_of (add_offset t p x ste) t' p' =
     (if t' = t \<and> p' = p then Some (case offset_of ste t p of None \<Rightarrow> x | Some m \<Rightarrow> max m x)
      else offset_of ste t' p')"
  by (auto simp: offset_of_def add_offset_def split: option.splits)

lemma checkForDuplicateEvent_iff:
  "checkForDuplicateEvent d ste =
     (if \<exists>m. offset_of ste (etpo_topic d) (etpo_partition d) = Some m \<and> etpo_offset d \<le> m
      then Inl DuplicateTriggeringEventException else Inr ())"
  by (auto simp: checkForDuplicateEvent_def offset_of_def split: option.splits)

lemma add_trigger_Inr:
  "add_trigger tok ste = Inr ste' \<longleftrightarrow> (\<exists>d. etpo_decode tok = Inr (Some d)
     \<and> ste' = add_offset (etpo_topic d) (etpo_partition d) (etpo_offset d) ste)"
  by (auto simp: add_trigger_def split: sum.splits option.splits)

lemma offset_reached_add:
  "(\<exists>m. offset_of (add_offset t p y ste) t' p' = Some m \<and> x \<le> m) \<longleftrightarrow>
     (\<exists>m. offset_of ste t' p' = Some m \<and> x \<le> m) \<or> t' = t \<and> p' = p \<and> x \<le> y"
  by (auto simp: offset_of_add max_def split: option.splits)

lemma offset_reached:
  "add_triggers ts ste = Inr ste' \<Longrightarrow>
     (\<exists>m. offset_of ste' t p = Some m \<and> x \<le> m) \<longleftrightarrow>
       (\<exists>m. offset_of ste t p = Some m \<and> x \<le> m)
       \<or> (\<exists>tok \<in> set ts. \<exists>d. etpo_decode tok = Inr (Some d) \<and> etpo_topic d = t \<and> etpo_partition d = p
            \<and> x \<le> etpo_offset d)"
proof (induction ts arbitrary: ste)
  case Nil
  then show ?case by simp
next
  case (Cons tok ts)
  then obtain ste1 where "add_trigger tok ste = Inr ste1" and ts: "add_triggers ts ste1 = Inr ste'"
    by (auto split: sum.splits)
  then obtain d where "etpo_decode tok = Inr (Some d)"
    and "ste1 = add_offset (etpo_topic d) (etpo_partition d) (etpo_offset d) ste"
    by (auto simp: add_trigger_Inr)
  then show ?case
    using Cons.IH [OF ts] by (auto simp: offset_reached_add)
qed

text \<open>
  A triggering event is a duplicate exactly when the snapshot has seen one of the same topic and
  partition that is not older: whatever the order the events came in, the record of a snapshot keeps
  the greatest offset of each partition, and an event is rejected when its offset does not exceed it.
\<close>

lemma duplicate_trigger_iff:
  assumes "new_SnapshotTriggeringEvents (Some tokens) = Inr ste"
  shows "checkForDuplicateEvent d ste =
    (if \<exists>token \<in> set tokens. \<exists>d'. etpo_decode token = Inr (Some d') \<and> etpo_topic d' = etpo_topic d
          \<and> etpo_partition d' = etpo_partition d \<and> etpo_offset d \<le> etpo_offset d'
     then Inl DuplicateTriggeringEventException else Inr ())"
proof -
  have "add_triggers tokens [] = Inr ste"
    using assms by (simp add: new_SnapshotTriggeringEvents_def)
  from offset_reached [OF this] show ?thesis
    unfolding checkForDuplicateEvent_iff by (simp add: offset_of_def)
qed

section \<open>Serialization\<close>

definition triggering_wf :: "triggering_events \<Rightarrow> bool" where
  "triggering_wf ste \<longleftrightarrow> map_wf ste \<and>
     (\<forall>(topic, po) \<in> set ste. CHR '':'' \<notin> set topic \<and> map_wf po \<and> po \<noteq> [])"

lemma map_set_last: "k \<notin> fst ` set m \<Longrightarrow> map_set k v (m @ [(k, w)]) = m @ [(k, v)]"
  by (induction m) auto

lemma map_set_new: "k \<notin> fst ` set m \<Longrightarrow> map_set k v m = m @ [(k, v)]"
  by (induction m) auto

lemma map_get_last: "k \<notin> fst ` set m \<Longrightarrow> map_get (m @ [(k, w)]) k = Some w"
  by (induction m) auto

lemma map_get_new: "k \<notin> fst ` set m \<Longrightarrow> map_get m k = None"
  by (induction m) auto

lemma set_map_set: "set (map_set k v m) \<subseteq> insert (k, v) (set m)"
  by (induction m) auto

lemma map_set_nonempty [simp]: "map_set k v m \<noteq> []"
  by (cases m) (auto simp: prod.case_eq_if)

lemma triggering_wf_add:
  assumes "triggering_wf ste" and "CHR '':'' \<notin> set topic"
  shows "triggering_wf (add_offset topic part x ste)"
proof -
  have upd: "triggering_wf (map_set topic po ste)" if "map_wf po" "po \<noteq> []" for po
    using assms that set_map_set [of topic po ste] unfolding triggering_wf_def by fastforce
  have old: "map_wf po" if "map_get ste topic = Some po" for po
    using assms(1) map_of_SomeD [OF that] unfolding triggering_wf_def by fastforce
  show ?thesis
    using assms(1) old by (auto simp: add_offset_def map_wf_def [of "[(part, x)]"]
        intro!: upd map_wf_set split: option.splits)
qed

lemma triggering_wf_adds: "add_triggers ts ste = Inr ste' \<Longrightarrow> triggering_wf ste \<Longrightarrow> triggering_wf ste'"
  by (induction ts arbitrary: ste)
    (auto split: sum.splits simp: add_trigger_Inr, metis triggering_wf_add etpo_decode_topic)

lemma add_triggers_append:
  "add_triggers (xs @ ys) ste = (case add_triggers xs ste of Inl e \<Rightarrow> Inl e | Inr ste' \<Rightarrow> add_triggers ys ste')"
  by (induction xs arbitrary: ste) (auto split: sum.split)

definition snapshot_token :: "string \<Rightarrow> int option \<times> int \<Rightarrow> string" where
  "snapshot_token topic = (\<lambda>(part, x). eventToken \<lparr>etpo_id = ''????'', etpo_topic = topic,
     etpo_partition = part, etpo_offset = x\<rparr>)"

lemma serialize_Cons: "serialize ((topic, po) # ste) = map (snapshot_token topic) po @ serialize ste"
  by (simp add: serialize_def snapshot_token_def)

lemma add_snapshot_token:
  "CHR '':'' \<notin> set topic \<Longrightarrow> add_trigger (snapshot_token topic (part, x)) ste = Inr (add_offset topic part x ste)"
  by (simp add: add_trigger_def snapshot_token_def etpo_decode_token)

lemma add_partitions:
  assumes "CHR '':'' \<notin> set topic" and "topic \<notin> fst ` set ste"
  shows "distinct (map fst (pre @ po)) \<Longrightarrow> pre \<noteq> [] \<Longrightarrow>
    add_triggers (map (snapshot_token topic) po) (ste @ [(topic, pre)]) = Inr (ste @ [(topic, pre @ po)])"
proof (induction po arbitrary: pre)
  case Nil
  then show ?case by simp
next
  case (Cons kv po)
  obtain part x where kv: "kv = (part, x)" by fastforce
  have "part \<notin> fst ` set pre" using Cons.prems(1) kv by auto
  then have "add_offset topic part x (ste @ [(topic, pre)]) = ste @ [(topic, pre @ [(part, x)])]"
    using assms(2) by (simp add: add_offset_def map_get_last map_get_new map_set_last map_set_new del: map_of_append)
  then show ?case
    using Cons.IH [of "pre @ [(part, x)]"] Cons.prems assms(1) kv by (simp add: add_snapshot_token)
qed

lemma add_serialized:
  "triggering_wf (acc @ ste) \<Longrightarrow> add_triggers (serialize ste) acc = Inr (acc @ ste)"
proof (induction ste arbitrary: acc)
  case Nil
  then show ?case by (simp add: serialize_def)
next
  case (Cons tp ste)
  obtain topic po where tp: "tp = (topic, po)" by fastforce
  from Cons.prems have wf: "CHR '':'' \<notin> set topic" "map_wf po" "po \<noteq> []" "topic \<notin> fst ` set acc"
    unfolding triggering_wf_def tp map_wf_def by auto
  then obtain part x rest where po: "po = (part, x) # rest" by (cases po) auto
  have "add_triggers (map (snapshot_token topic) po) acc =
      add_triggers (map (snapshot_token topic) rest) (acc @ [(topic, [(part, x)])])"
    using wf by (simp add: po add_snapshot_token add_offset_def map_get_new map_set_new)
  also have "\<dots> = Inr (acc @ [tp])"
    using add_partitions [OF wf(1) wf(4), of "[(part, x)]" rest] wf(2) by (simp add: po tp map_wf_def)
  finally show ?case
    using Cons.IH [of "acc @ [tp]"] Cons.prems by (simp add: tp serialize_Cons add_triggers_append)
qed

text \<open>
  C13: The triggering events of a snapshot survive the database: what is made of any list of events is
  restored from its serialized form, entry by entry and in the same order.
\<close>

theorem triggering_events_roundtrip:
  assumes "new_SnapshotTriggeringEvents tokens = Inr ste"
  shows "new_SnapshotTriggeringEvents (Some (serialize ste)) = Inr ste"
proof -
  have "triggering_wf ste"
    using assms triggering_wf_adds [where ste = "[]"]
    by (auto simp: new_SnapshotTriggeringEvents_def triggering_wf_def split: option.splits)
  then show ?thesis
    using add_serialized [of "[]" ste] by (simp add: new_SnapshotTriggeringEvents_def)
qed

text \<open>
  The context of an event is read back from its text, when neither its identifier nor its topic
  contains a colon; with a colon in the topic the parts shift and another context is read, or none.
\<close>

lemma etpo_roundtrip:
  "(CHR '':'' \<notin> set (etpo_id d) \<and> CHR '':'' \<notin> set (etpo_topic d)) =
     (etpo_decode (eventToken d) = Inr (Some d))"
proof
  assume "etpo_decode (eventToken d) = Inr (Some d)"
  then have topic: "CHR '':'' \<notin> set (etpo_topic d)"
    by (rule etpo_decode_topic)
  have "etpo_id d = hd (split_on CHR '':'' (drop (length PREFIX) (eventToken d)))"
    using \<open>etpo_decode (eventToken d) = Inr (Some d)\<close>
    by (auto simp: etpo_decode_def map_sum_eq_Inr split: if_splits list.splits)
  then have "CHR '':'' \<notin> set (etpo_id d)"
    using split_on_segments [of "etpo_id d" "CHR '':''"] by (metis hd_in_set split_on_not_Nil)
  with topic show "CHR '':'' \<notin> set (etpo_id d) \<and> CHR '':'' \<notin> set (etpo_topic d)" by simp
qed (simp add: etpo_decode_token)

section \<open>Concrete instances\<close>

definition sample_context :: "string \<Rightarrow> int \<Rightarrow> int \<Rightarrow> etpo" where
  "sample_context topic part offset =
     \<lparr>etpo_id = ''eventid'', etpo_topic = topic, etpo_partition = Some part, etpo_offset = offset\<rparr>"

lemma sample_decode: "CHR '':'' \<notin> set topic \<Longrightarrow>
    etpo_decode (eventToken (sample_context topic part x)) = Inr (Some (sample_context topic part x))"
  by (intro etpo_decode_token) (simp_all add: sample_context_def)

lemma sample_triggers:
  "new_SnapshotTriggeringEvents (Some [eventToken (sample_context ''topica'' 1 99),
     eventToken (sample_context ''topica'' 1 98)]) = Inr [(''topica'', [(Some 1, 99)])]"
  by (simp add: new_SnapshotTriggeringEvents_def add_trigger_def sample_decode)
    (simp add: sample_context_def add_offset_def)

lemma duplicate_trigger_iff_witness:
  "checkForDuplicateEvent (sample_context ''topica'' 1 99) [(''topica'', [(Some 1, 99)])] =
      Inl DuplicateTriggeringEventException
   \<and> checkForDuplicateEvent (sample_context ''topica'' 1 100) [(''topica'', [(Some 1, 99)])] = Inr ()
   \<and> checkForDuplicateEvent (sample_context ''topica'' 2 99) [(''topica'', [(Some 1, 99)])] = Inr ()"
  using duplicate_trigger_iff [OF sample_triggers]
  by (simp add: sample_decode) (simp add: sample_context_def)

lemma triggering_events_roundtrip_witness:
  "new_SnapshotTriggeringEvents (Some (serialize [(''topica'', [(Some 1, 99)])])) =
     Inr [(''topica'', [(Some 1, 99)])]"
  by (rule triggering_events_roundtrip [OF sample_triggers])

end
