(* ===== verification/Aggregates.thy ===== *)
theory Aggregates
  imports Snapshots
begin

text \<open>
  Aggregates and their events (\<open>events/aggregate/\<close>): applying events and what happens when there is
  no method for it (\<open>aggregates.ts\<close>, \<open>missing-apply-event-method-strategy.ts\<close>), the aggregates that
  process commands (\<open>command-processing-aggregate.ts\<close>, \<open>decorators.ts\<close>) and the mapping between
  events, snapshots and their stored form (\<open>crud/aggregate-crud-mapping.ts\<close>).

  An aggregate is an object that its methods change. The model knows it by a reference of type \<open>'a\<close>;
  its properties are in the world, which the methods of the application read and write.
\<close>

section \<open>Applying events\<close>

text \<open>
  What the framework uses of an aggregate: \<open>plainToClass(type, {})\<close>, the name of its class, the undefined
  reference, and its methods. Reading \<open>aggregate.applyEvent\<close> throws when the aggregate is undefined; it
  gives nothing when the aggregate has no such function.
\<close>

record ('a, 'w) aggregate_env =
  newAggregate :: "string \<Rightarrow> ('w, 'a) eff"
  classOf :: "'a \<Rightarrow> string"
  undefinedAggregate :: "'a"
  applyEventOf :: "'a \<Rightarrow> exn + (jsobj \<Rightarrow> ('w, 'a) eff) option"
  processOf :: "'a \<Rightarrow> jsobj \<Rightarrow> ('w, jsobj list) eff"

record ('a, 'w) missing_apply_strategy =
  ms_supports :: "'a \<Rightarrow> exn \<Rightarrow> bool"
  ms_handle :: "'a \<Rightarrow> exn \<Rightarrow> ('w, unit) eff"

definition default_strategy :: "('a, 'w) missing_apply_strategy" where
  "default_strategy = \<lparr>ms_supports = (\<lambda>_ _. True), ms_handle = (\<lambda>_ error. throw error)\<rparr>"

definition composite_strategy ::
    "('a, 'w) missing_apply_strategy list \<Rightarrow> ('a, 'w) missing_apply_strategy" where
  "composite_strategy strategies =
     \<lparr>ms_supports = (\<lambda>a error. list_ex (\<lambda>s. ms_supports s a error) strategies),
      ms_handle = (\<lambda>a error. case find (\<lambda>s. ms_supports s a error) strategies of
         None \<Rightarrow> ms_handle default_strategy a error | Some s \<Rightarrow> ms_handle s a error)\<rparr>"

definition applyOne ::
    "('a, 'w) aggregate_env \<Rightarrow> ('a, 'w) missing_apply_strategy \<Rightarrow> 'a \<Rightarrow> jsobj \<Rightarrow> ('w, 'a) eff" where
  "applyOne E strategy aggregate event =
     tryCatch
       (case applyEventOf E aggregate of
          Inl e \<Rightarrow> throw e
        | Inr None \<Rightarrow> throw MissingApplyMethodException
        | Inr (Some f) \<Rightarrow> f event)
       (\<lambda>err. if err = MissingApplyMethodException
              then andThen (ms_handle strategy aggregate err) (\<lambda>_. ret aggregate)
              else ret aggregate)"

fun applyEvents ::
    "('a, 'w) aggregate_env \<Rightarrow> ('a, 'w) missing_apply_strategy \<Rightarrow> 'a \<Rightarrow> jsobj list \<Rightarrow> ('w, 'a) eff" where
  "applyEvents E strategy aggregate [] = ret aggregate"
| "applyEvents E strategy aggregate (event # events) =
     andThen (applyOne E strategy aggregate event) (\<lambda>a. applyEvents E strategy a events)"

definition recreateAggregate ::
    "('a, 'w) aggregate_env \<Rightarrow> ('a, 'w) missing_apply_strategy \<Rightarrow> string \<Rightarrow> jsobj list \<Rightarrow> ('w, 'a) eff" where
  "recreateAggregate E strategy aggregateType events =
     andThen (newAggregate E aggregateType) (\<lambda>a. applyEvents E strategy a events)"

section \<open>Aggregates that process commands\<close>

text \<open>
  Metadata is kept for a target and one of its properties. The decorators of a method are given the
  prototype of its class; \<open>handle\<close> asks for the metadata of the class itself. \<open>x.constructor\<close> is the class
  of an instance, and \<open>Function\<close> for a class.
\<close>

datatype meta_key = APPLY_EVENT_METADATA | PROCESS_COMMAND_METADATA
datatype meta_target = ClassItself | ClassPrototype
datatype ctor = FunctionCtor | ClassCtor string

type_synonym class_metadata = "(meta_key \<times> meta_target \<times> string, string) jsmap"

definition defineMetadata ::
    "meta_key \<Rightarrow> string \<Rightarrow> meta_target \<Rightarrow> string \<Rightarrow> class_metadata \<Rightarrow> class_metadata" where
  "defineMetadata key value target propertyKey md = map_set (key, target, propertyKey) value md"

definition ApplyEvent :: "string \<Rightarrow> string \<Rightarrow> class_metadata \<Rightarrow> class_metadata" where
  "ApplyEvent event propertyKey md = defineMetadata APPLY_EVENT_METADATA event ClassPrototype propertyKey md"

definition ProcessCommand :: "string \<Rightarrow> string \<Rightarrow> class_metadata \<Rightarrow> class_metadata" where
  "ProcessCommand cmd propertyKey md = defineMetadata PROCESS_COMMAND_METADATA cmd ClassPrototype propertyKey md"

text \<open>
  \<open>cpa_names\<close> are the own property names of the prototype and \<open>cpa_apply\<close> and \<open>cpa_process\<close> its methods, seen as
  methods that take an event and that take a command.
\<close>

record ('a, 'w) processing_class =
  cpa_names :: "string list"
  cpa_metadata :: class_metadata
  cpa_apply :: "string \<Rightarrow> 'a \<Rightarrow> jsobj \<Rightarrow> ('w, 'a) eff"
  cpa_process :: "string \<Rightarrow> 'a \<Rightarrow> jsobj \<Rightarrow> ('w, jsobj list) eff"

definition cpa_findMethod :: "('a, 'w) processing_class \<Rightarrow> meta_key \<Rightarrow> jsobj \<Rightarrow> string option" where
  "cpa_findMethod K metadataKey target =
     find (\<lambda>key. map_option (\<lambda>_. FunctionCtor) (map_get (cpa_metadata K) (metadataKey, ClassItself, key))
             = Some (ClassCtor (obj_class target))) (cpa_names K)"

definition cpa_handle ::
    "('a, 'w) processing_class \<Rightarrow> (string \<Rightarrow> 'a \<Rightarrow> jsobj \<Rightarrow> ('w, 'r) eff) \<Rightarrow> 'a \<Rightarrow> jsobj \<Rightarrow> meta_key \<Rightarrow>
     ('w, 'r) eff" where
  "cpa_handle K method this target metadataKey =
     (case cpa_findMethod K metadataKey target of
        None \<Rightarrow> throw (ErrorException ''not found'')
      | Some methodName \<Rightarrow> method methodName this target)"

definition cpa_applyEvent :: "('a, 'w) processing_class \<Rightarrow> 'a \<Rightarrow> jsobj \<Rightarrow> ('w, 'a) eff" where
  "cpa_applyEvent K this event = cpa_handle K (cpa_apply K) this event APPLY_EVENT_METADATA"

definition cpa_processCommand :: "('a, 'w) processing_class \<Rightarrow> 'a \<Rightarrow> jsobj \<Rightarrow> ('w, jsobj list) eff" where
  "cpa_processCommand K this cmd = cpa_handle K (cpa_process K) this cmd PROCESS_COMMAND_METADATA"

text \<open>An environment whose aggregates extend \<open>CommandProcessingAggregate\<close> and override none of its methods.\<close>

definition processes_with :: "('a, 'w) aggregate_env \<Rightarrow> (string \<Rightarrow> ('a, 'w) processing_class) \<Rightarrow> bool" where
  "processes_with E K \<longleftrightarrow>
     (\<forall>a. applyEventOf E a = (if a = undefinedAggregate E then Inl TypeError
                               else Inr (Some (cpa_applyEvent (K (classOf E a)) a)))) \<and>
     (\<forall>a. a \<noteq> undefinedAggregate E \<longrightarrow> processOf E a = cpa_processCommand (K (classOf E a)) a)"

section \<open>The mapping to stored events\<close>

record event_type_data =
  td_eventType :: string
  td_eventData :: json
  td_metadata :: "metadata option"

record serialized_snapshot =
  sn_type :: string
  sn_json :: string

definition toSerializedEventsWithIds ::
    "event_type_data list \<Rightarrow> string list \<Rightarrow> (string option \<times> event_type_data) list" where
  "toSerializedEventsWithIds serializedEvents eventIds =
     map (\<lambda>(se, idx). (if idx < length eventIds then Some (eventIds ! idx) else None, se))
       (zip serializedEvents [0..<length serializedEvents])"

definition toSerializedSnapshot :: "jsobj \<Rightarrow> serialized_snapshot" where
  "toSerializedSnapshot snapshot = \<lparr>sn_type = obj_class snapshot, sn_json = stringify (obj_own snapshot)\<rparr>"

definition toSnapshot ::
    "(string \<Rightarrow> json \<Rightarrow> exn + jsobj) \<Rightarrow> ('a, 'w) snapshot_store \<Rightarrow> serialized_snapshot \<Rightarrow> exn + jsobj" where
  "toSnapshot validated store ss =
     (case find (\<lambda>snapshot. snapshot = sn_type ss) (getSnapshots store) of
        None \<Rightarrow> Inl (ErrorException (''Could not find snapshot '' @ sn_type ss))
      | Some type \<Rightarrow> (case jsonParse (sn_json ss) of
            Inl e \<Rightarrow> Inl e | Inr j \<Rightarrow> validated type j))"

definition toEventTypeAndData :: "jsobj \<Rightarrow> metadata option \<Rightarrow> event_type_data" where
  "toEventTypeAndData event md =
     \<lparr>td_eventType = obj_class event, td_eventData = obj_own event,
      td_metadata = Some (case md of None \<Rightarrow> [] | Some m \<Rightarrow> m)\<rparr>"

definition toEvent :: "(string \<Rightarrow> json \<Rightarrow> exn + jsobj) \<Rightarrow> string \<Rightarrow> json \<Rightarrow> exn + jsobj" where
  "toEvent validated type data = validated type data"

definition toEventWithMetadata ::
    "(string \<Rightarrow> json \<Rightarrow> exn + jsobj) \<Rightarrow> event_id_type_data \<Rightarrow> exn + event_with_metadata" where
  "toEventWithMetadata validated e =
     map_sum id (\<lambda>event. \<lparr>ew_event = event, ew_eventId = ei_eventId e, ew_metadata = ei_metadata e\<rparr>)
       (toEvent validated (ei_eventType e) (ei_eventData e))"

section \<open>What applying does\<close>

lemma cpa_findMethod_None [simp]: "cpa_findMethod K key target = None"
  by (auto simp: cpa_findMethod_def find_None_iff split: option.splits)

lemma cpa_handle_throws: "cpa_handle K method this target key = throw (ErrorException ''not found'')"
  by (simp add: cpa_handle_def)

lemma applyOne_processing:
  assumes "processes_with E K"
  shows "applyOne E strategy a event = ret a"
  using assms
  by (auto simp: applyOne_def processes_with_def cpa_applyEvent_def cpa_handle_throws split: if_splits)

lemma applyEvents_processing: "processes_with E K \<Longrightarrow> applyEvents E strategy a events = ret a"
  by (induction events) (simp_all add: applyOne_processing)


text \<open>
  Applying events never fails for want of a method's success: when every aggregate has the method and
  none reports a missing one, all events are applied in order; an event whose method throws leaves the
  reference as it was and what the method did before in the world, and nobody is told.
\<close>

lemma applyEvents_folds:
  assumes "\<And>a. applyEventOf E a = Inr (Some (f a))"
    and "\<And>a e w. fst (f a e w) \<noteq> Inl MissingApplyMethodException"
  shows "applyEvents E strategy a events w =
    (case fold (\<lambda>e (a, w). case f a e w of (Inr a', w') \<Rightarrow> (a', w') | (Inl _, w') \<Rightarrow> (a, w')) events (a, w) of
       (a', w') \<Rightarrow> (Inr a', w'))"
proof (induction events arbitrary: a w)
  case (Cons e events)
  obtain r w1 where r: "f a e w = (r, w1)" by fastforce
  then have "r \<noteq> Inl MissingApplyMethodException" using assms(2) [of a e w] by simp
  then have "applyOne E strategy a e w = (Inr (case r of Inr a' \<Rightarrow> a' | Inl _ \<Rightarrow> a), w1)"
    using r by (auto simp: applyOne_def assms(1) tryCatch_def split: sum.split)
  then show ?case
    using Cons r by (cases r) (simp_all add: andThen_def)
qed simp

section \<open>Concrete instances\<close>

text \<open>
  An account whose balance is the world; aggregate 0 is the undefined one. A debit beyond the balance throws
  after the balance has been changed.
\<close>

definition account_apply :: "nat \<Rightarrow> jsobj \<Rightarrow> (int, nat) eff" where
  "account_apply a event balance =
     (case obj_own event of
        JNum n \<Rightarrow> (if balance < n then Inl (ErrorException ''overdrawn'') else Inr a, balance - n)
      | _ \<Rightarrow> (Inl TypeError, balance))"

definition account_env :: "(nat, int) aggregate_env" where
  "account_env = \<lparr>newAggregate = (\<lambda>_ _. (Inr 1, 0)), classOf = (\<lambda>_. ''Account''), undefinedAggregate = 0,
     applyEventOf = (\<lambda>a. Inr (Some (account_apply a))), processOf = (\<lambda>_ _. ret [])\<rparr>"

definition debited :: "int \<Rightarrow> jsobj" where
  "debited n = \<lparr>obj_class = ''AccountDebited'', obj_own = JNum n\<rparr>"

lemma applyEvents_folds_witness:
  "applyEvents account_env default_strategy 1 [debited 3, debited 9, debited 1] 10 = (Inr 1, -3)"
  using applyEvents_folds [of account_env account_apply default_strategy 1 "[debited 3, debited 9, debited 1]" 10]
  by (simp add: account_env_def account_apply_def debited_def split: json.split)

definition account_class :: "(nat, int) processing_class" where
  "account_class = \<lparr>cpa_names = [''constructor'', ''debit'', ''debited''],
     cpa_metadata = ProcessCommand ''DebitAccount'' ''debit'' (ApplyEvent ''AccountDebited'' ''debited'' []),
     cpa_apply = (\<lambda>_. account_apply), cpa_process = (\<lambda>_ _ cmd. ret [cmd])\<rparr>"

definition processing_env :: "(nat, int) aggregate_env" where
  "processing_env = account_env\<lparr>
     applyEventOf := (\<lambda>a. if a = 0 then Inl TypeError else Inr (Some (cpa_applyEvent account_class a))),
     processOf := cpa_processCommand account_class\<rparr>"

lemma processing_env_ok: "processes_with processing_env (\<lambda>_. account_class)"
  by (simp add: processes_with_def processing_env_def account_env_def)


end
