(* ===== verification/Hash.thy ===== *)
theory Hash
  imports Prelude "HOL-Library.Word" "HOL-Library.Signed_Division"
begin

text \<open>
  The hash of an entity's identifier (\<open>common/utils.ts\<close>) and the partition that the events
  in the database are given (\<open>events/aggregate/crud/aggregate-crud.ts\<close>).

  The operators \<open><<\<close> and \<open>&\<close> of JavaScript work on 32-bit integers: \<open>hash & hash\<close> wraps the sum. Between
  them the code computes with numbers far below \<open>2^53\<close>, which are exact. The hash is therefore a
  word of 32 bits, read as a signed integer.
\<close>

definition hash_step :: "32 word \<Rightarrow> char \<Rightarrow> 32 word" where
  "hash_step hash c = push_bit 5 hash - hash + of_nat (of_char c)"

definition hashCode :: "string \<Rightarrow> int" where
  "hashCode str = sint (foldl hash_step 0 str)"

definition hash_partition :: "string \<Rightarrow> int" where
  "hash_partition aggregateId = hashCode aggregateId smod 8"

text \<open>The hash as mathematics has it, with no wrapping: a polynomial in 31.\<close>

definition poly_hash :: "string \<Rightarrow> int" where
  "poly_hash str = foldl (\<lambda>h c. 31 * h + int (of_char c)) 0 str"

lemma hash_step_31: "hash_step h c = 31 * h + of_nat (of_char c)"
  by (simp add: hash_step_def push_bit_eq_mult)

lemma foldl_hash:
  "foldl hash_step (of_int h) str = of_int (foldl (\<lambda>h c. 31 * h + int (of_char c)) h str)"
proof (induction str arbitrary: h)
  case (Cons c str)
  have "hash_step (of_int h) c = of_int (31 * h + int (of_char c))"
    by (simp add: hash_step_31)
  then show ?case by (simp only: foldl_Cons Cons.IH)
qed simp

text \<open>
  The hash is the polynomial in 31 wrapped to 32 bits: between \<open>-2^31\<close> and \<open>2^31 - 1\<close>, and
  equal to the unwrapped value modulo \<open>2^32\<close>.
\<close>

lemma hashCode_wraps:
  "hashCode str = (poly_hash str + 2 ^ 31) mod 2 ^ 32 - 2 ^ 31"
proof -
  have "hashCode str = sint (of_int (poly_hash str) :: 32 word)"
    using foldl_hash [of 0 str] by (simp add: hashCode_def poly_hash_def)
  also have "\<dots> = signed_take_bit 31 (poly_hash str)"
    by (simp add: sint_uint unsigned_of_int take_bit_signed_take_bit signed_take_bit_take_bit)
  finally show ?thesis
    by (simp add: signed_take_bit_eq_take_bit_shift take_bit_eq_mod)
qed


end
