(* ===== verification/AggregateStore.thy ===== *)
theory AggregateStore
  imports Aggregates Hash Events
begin

text \<open>
  Storing aggregates as events (\<open>events/aggregate/crud/\<close>): the access to the database
  (\<open>aggregate-crud-access.ts\<close>), the subscriptions to what is stored (\<open>aggregate-crud.ts\<close>) and the store that
  the repositories use (\<open>aggregate-store-crud.ts\<close>).

  The tables, through TypeORM, are parameters, as is the generator of identifiers. What a query is
  given is kept as it is passed: some queries are given a class where the column holds its name, and a
  version that is an event.
\<close>

section \<open>The tables\<close>

datatype sql_value = SqlText string | SqlClass string | SqlEvent jsobj | SqlUndefined

record event_row =
  er_eventId :: string
  er_eventType :: string
  er_eventData :: json
  er_entityType :: string
  er_entityId :: string
  er_triggeringEvent :: "string option"
  er_metadata :: metadata

record snapshot_row =
  sr_snapshotType :: "string option"
  sr_snapshotJson :: "json option"
  sr_entityVersion :: string
  sr_entityType :: string
  sr_entityId :: string
  sr_triggeringEvents :: triggering_events

record 'w event_tables =
  newUuid :: "('w, string) eff"
  saveEntity :: "string \<Rightarrow> string \<Rightarrow> string \<Rightarrow> ('w, string \<times> string) eff"
  createEvent :: "event_row \<Rightarrow> ('w, unit) eff"
  inTransaction :: "('w, unit list) eff \<Rightarrow> ('w, unit list) eff"
  findSnapshot :: "string \<Rightarrow> string \<Rightarrow> ('w, snapshot_row option) eff"
  eventsOf :: "sql_value \<Rightarrow> string \<Rightarrow> ('w, event_row list) eff"
  eventsAfter :: "sql_value \<Rightarrow> string \<Rightarrow> string \<Rightarrow> ('w, event_row list) eff"
  updateEntity :: "string \<Rightarrow> string \<Rightarrow> string \<Rightarrow> sql_value \<Rightarrow> sql_value \<Rightarrow> ('w, nat option) eff"
  previousSnapshotOf :: "sql_value \<Rightarrow> string \<Rightarrow> ('w, snapshot_row option) eff"
  saveSnapshot :: "snapshot_row \<Rightarrow> ('w, unit) eff"

text \<open>
  The options of the three operations, of which each uses some. A triggering event is the token of
  its context.
\<close>

record crud_options =
  co_eventMetadata :: "metadata option"
  co_triggeringEvent :: "string option"
  co_entityId :: "string option"
  co_snapshot :: "jsobj option"

record publishable_events =
  pe_aggregateType :: string
  pe_entityId :: string
  pe_eventsWithIds :: "event_id_type_data list"

record save_update_result =
  sur_entityId :: string
  sur_entityVersion :: string
  sur_eventIds :: "string list"
  sur_publishable :: publishable_events

record loaded_events =
  le_events :: "event_id_type_data list"
  le_snapshot :: "(serialized_snapshot \<times> string) option"

section \<open>The access to the database\<close>

definition toEventId :: "'w event_tables \<Rightarrow> event_type_data \<Rightarrow> ('w, event_id_type_data) eff" where
  "toEventId T td = andThen (newUuid T) (\<lambda>i.
     ret \<lparr>ei_eventId = i, ei_eventType = td_eventType td, ei_eventData = td_eventData td,
          ei_metadata = td_metadata td\<rparr>)"

definition to_row :: "string \<Rightarrow> string \<Rightarrow> string option \<Rightarrow> event_id_type_data \<Rightarrow> event_row" where
  "to_row entityType entityId triggeringEvent e =
     \<lparr>er_eventId = ei_eventId e, er_eventType = ei_eventType e, er_eventData = ei_eventData e,
      er_entityType = entityType, er_entityId = entityId, er_triggeringEvent = triggeringEvent,
      er_metadata = (case ei_metadata e of None \<Rightarrow> [] | Some m \<Rightarrow> m)\<rparr>"

definition createEvents :: "'w event_tables \<Rightarrow> event_row list \<Rightarrow> ('w, unit) eff" where
  "createEvents T rows = andThen (inTransaction T (promiseAll (createEvent T) rows)) (\<lambda>_. ret ())"

definition option_token :: "crud_options option \<Rightarrow> string option" where
  "option_token options = Option.bind options co_triggeringEvent"

definition access_save ::
    "'w event_tables \<Rightarrow> string \<Rightarrow> event_type_data list \<Rightarrow> crud_options option \<Rightarrow>
     ('w, save_update_result) eff" where
  "access_save T entityType events options =
     andThen (mapEff (toEventId T) events) (\<lambda>eventsWithIds.
     andThen (case Option.bind options co_entityId of
                None \<Rightarrow> newUuid T
              | Some i \<Rightarrow> if i = '''' then newUuid T else ret i) (\<lambda>entityId.
       if eventsWithIds = [] then throw TypeError
       else andThen (saveEntity T entityType entityId (ei_eventId (last eventsWithIds))) (\<lambda>(i, version).
            andThen (createEvents T (map (to_row entityType entityId (option_token options)) eventsWithIds)) (\<lambda>_.
              ret \<lparr>sur_entityId = i, sur_entityVersion = version, sur_eventIds = map ei_eventId eventsWithIds,
                sur_publishable = \<lparr>pe_aggregateType = entityType, pe_entityId = i,
                  pe_eventsWithIds = eventsWithIds\<rparr>\<rparr>))))"

text \<open>
  An event that is loaded is given the class expression \<open>class {}\<close> as its type; as the value of the
  property \<open>eventType\<close> that class is named after it.
\<close>

definition loaded_event :: "event_row \<Rightarrow> event_id_type_data" where
  "loaded_event e = \<lparr>ei_eventId = er_eventId e, ei_eventType = ''eventType'', ei_eventData = er_eventData e,
     ei_metadata = Some (er_metadata e)\<rparr>"

definition stored_snapshot :: "snapshot_row \<Rightarrow> serialized_snapshot" where
  "stored_snapshot s = \<lparr>sn_type = (case sr_snapshotType s of None \<Rightarrow> '''' | Some t \<Rightarrow> t),
     sn_json = (case sr_snapshotJson s of None \<Rightarrow> ''null'' | Some j \<Rightarrow> stringify j)\<rparr>"

definition access_find ::
    "'w event_tables \<Rightarrow> string \<Rightarrow> string \<Rightarrow> crud_options option \<Rightarrow> ('w, loaded_events) eff" where
  "access_find T entityType entityId options =
     andThen (findSnapshot T entityType entityId) (\<lambda>snapshot.
     andThen (case snapshot of
                Some s \<Rightarrow> eventsAfter T (SqlText entityType) entityId (sr_entityVersion s)
              | None \<Rightarrow> eventsOf T (SqlText entityType) entityId) (\<lambda>events.
       if option_token options \<noteq> None \<and>
          find (\<lambda>e. option_token options = er_triggeringEvent e) events \<noteq> None
       then throw DuplicateTriggeringEventException
       else if snapshot = None \<and> events = [] then throw (EntityNotFoundException entityType entityId)
       else ret \<lparr>le_events = map loaded_event events,
              le_snapshot = map_option (\<lambda>s. (stored_snapshot s, sr_entityVersion s)) snapshot\<rparr>))"

definition access_snapshot :: "'w event_tables \<Rightarrow> string \<Rightarrow> string \<Rightarrow> string \<Rightarrow> ('w, unit) eff" where
  "access_snapshot T entityType entityId updatedEntityVersion =
     andThen (previousSnapshotOf T (SqlClass entityType) entityId) (\<lambda>previousSnapshot.
     andThen (case previousSnapshot of
                Some s \<Rightarrow> eventsAfter T (SqlClass entityType) entityId (sr_entityVersion s)
              | None \<Rightarrow> eventsOf T (SqlClass entityType) entityId) (\<lambda>oldEvents.
     andThen (lift (create_triggering (map er_triggeringEvent oldEvents) None None)) (\<lambda>triggeringEvents.
       saveSnapshot T \<lparr>sr_snapshotType = Option.bind previousSnapshot sr_snapshotType,
         sr_snapshotJson = Option.bind previousSnapshot sr_snapshotJson, sr_entityVersion = updatedEntityVersion,
         sr_entityType = entityType, sr_entityId = entityId, sr_triggeringEvents = triggeringEvents\<rparr>)))"

definition access_update ::
    "'w event_tables \<Rightarrow> string \<Rightarrow> string \<Rightarrow> sql_value \<Rightarrow> event_type_data list \<Rightarrow>
     crud_options option \<Rightarrow> ('w, save_update_result) eff" where
  "access_update T entityType entityId entityVersion events options =
     andThen (mapEff (toEventId T) events) (\<lambda>eventsWithIds.
       if eventsWithIds = [] then throw TypeError
       else (let version = ei_eventId (last eventsWithIds) in
         andThen (updateEntity T version entityType entityId (SqlClass entityType) entityVersion) (\<lambda>affected.
           if affected \<noteq> Some 1 then throw OptimisticLockingException
           else andThen (if Option.bind options co_snapshot \<noteq> None
                         then access_snapshot T entityType entityId version else ret ()) (\<lambda>_.
                andThen (createEvents T (map (to_row entityType entityId (option_token options)) eventsWithIds)) (\<lambda>_.
                  ret \<lparr>sur_entityId = entityId, sur_entityVersion = version,
                    sur_eventIds = map ei_eventId eventsWithIds,
                    sur_publishable = \<lparr>pe_aggregateType = entityType, pe_entityId = entityId,
                      pe_eventsWithIds = eventsWithIds\<rparr>\<rparr>)))))"

section \<open>Subscriptions\<close>

type_synonym aggregates_and_events = "(string, string \<times> string list) jsmap"

record 'w subscription =
  sub_subscriberId :: string
  sub_aggregatesAndEvents :: aggregates_and_events
  sub_handler :: "serialized_event \<Rightarrow> ('w, unit) eff"

type_synonym 'w aggregate_subscriptions = "(string, 'w subscription list) jsmap"

definition isInterestedIn :: "'w subscription \<Rightarrow> string \<Rightarrow> string \<Rightarrow> bool" where
  "isInterestedIn s aggregateType eventType =
     (case map_get (sub_aggregatesAndEvents s) aggregateType of
        None \<Rightarrow> False | Some (_, events) \<Rightarrow> eventType \<in> set events)"

definition published_event :: "publishable_events \<Rightarrow> event_id_type_data \<Rightarrow> serialized_event" where
  "published_event p e =
     \<lparr>se_id = ei_eventId e, se_entityId = pe_entityId p, se_entityType = pe_aggregateType p,
      se_eventData = ei_eventData e, se_eventType = ei_eventType e,
      se_partition = hash_partition (pe_entityId p), se_offset = 1, se_eventContext = ei_eventId e,
      se_metadata = ei_metadata e\<rparr>"

definition crud_publish :: "'w aggregate_subscriptions \<Rightarrow> publishable_events \<Rightarrow> ('w, unit) eff" where
  "crud_publish registry p =
     (case map_get registry (pe_aggregateType p) of
        None \<Rightarrow> ret ()
      | Some subscriptions \<Rightarrow>
          forEach (\<lambda>s. forEach (\<lambda>e.
            if isInterestedIn s (pe_aggregateType p) (ei_eventType e)
            then sub_handler s (published_event p e) else ret ()) (pe_eventsWithIds p)) subscriptions)"

definition crud_subscribe ::
    "string \<Rightarrow> aggregates_and_events \<Rightarrow> (serialized_event \<Rightarrow> ('w, unit) eff) \<Rightarrow>
     'w aggregate_subscriptions \<Rightarrow> 'w aggregate_subscriptions" where
  "crud_subscribe subscriberId aggregatesAndEvents h registry =
     fold (\<lambda>(aggregateType, _) registry. map_set aggregateType
         ((case map_get registry aggregateType of None \<Rightarrow> [] | Some l \<Rightarrow> l) @
            [\<lparr>sub_subscriberId = subscriberId, sub_aggregatesAndEvents = aggregatesAndEvents, sub_handler = h\<rparr>]) registry)
       aggregatesAndEvents registry"

definition crud_find ::
    "'w event_tables \<Rightarrow> string \<Rightarrow> string \<Rightarrow> crud_options option \<Rightarrow> ('w, loaded_events) eff" where
  "crud_find T aggregateType entityId options = access_find T aggregateType entityId options"

definition crud_save ::
    "'w event_tables \<Rightarrow> 'w aggregate_subscriptions \<Rightarrow> string \<Rightarrow> event_type_data list \<Rightarrow>
     crud_options option \<Rightarrow> ('w, save_update_result) eff" where
  "crud_save T registry aggregateType events options =
     andThen (access_save T aggregateType events options) (\<lambda>result.
     andThen (crud_publish registry (sur_publishable result)) (\<lambda>_. ret result))"

definition crud_update ::
    "'w event_tables \<Rightarrow> 'w aggregate_subscriptions \<Rightarrow> string \<Rightarrow> string \<Rightarrow> sql_value \<Rightarrow> event_type_data list \<Rightarrow>
     crud_options option \<Rightarrow> ('w, save_update_result) eff" where
  "crud_update T registry entityType entityId entityVersion events options =
     andThen (access_update T entityType entityId entityVersion events options) (\<lambda>result.
     andThen (crud_publish registry (sur_publishable result)) (\<lambda>_. ret result))"

section \<open>The store\<close>

text \<open>
  What the store is made of. The version of an entity is a text when it comes from the database;
  the store gives the last event itself where there are events.
\<close>

record ('a, 'w) aggregate_store =
  as_env :: "('a, 'w) aggregate_env"
  as_strategy :: "('a, 'w) missing_apply_strategy"
  as_snapshots :: "('a, 'w) snapshot_store"
  as_schemas :: schema_manager
  as_tables :: "'w event_tables"
  as_registry :: "'w aggregate_subscriptions"
  as_validated :: "string \<Rightarrow> json \<Rightarrow> exn + jsobj"

record 'a entity_with_metadata =
  em_snapshotVersion :: "string option"
  em_events :: "event_with_metadata list"
  em_entityVersion :: sql_value
  em_entityId :: string
  em_entity :: 'a

definition withSchemaMetadata ::
    "schema_manager \<Rightarrow> string \<Rightarrow> metadata option \<Rightarrow> exn + metadata" where
  "withSchemaMetadata m aggregateType eventMetadata =
     map_sum id (\<lambda>schemaMetadata.
        let given = (case eventMetadata of None \<Rightarrow> [] | Some md \<Rightarrow> md)
        in case schemaMetadata of None \<Rightarrow> given | Some sm \<Rightarrow> map_from (sm @ given))
       (currentSchemaMetadata m aggregateType)"

definition serializedMetadata ::
    "('a, 'w) aggregate_store \<Rightarrow> string \<Rightarrow> crud_options option \<Rightarrow> exn + metadata option" where
  "serializedMetadata Z aggregateType options =
     (case options of
        None \<Rightarrow> Inr None
      | Some opts \<Rightarrow> map_sum id Some (withSchemaMetadata (as_schemas Z) aggregateType (co_eventMetadata opts)))"

definition store_save ::
    "('a, 'w) aggregate_store \<Rightarrow> 'a \<Rightarrow> jsobj list \<Rightarrow> crud_options option \<Rightarrow> ('w, save_update_result) eff" where
  "store_save Z aggregate events options =
     andThen (lift (serializedMetadata Z (classOf (as_env Z) aggregate) options)) (\<lambda>md.
       crud_save (as_tables Z) (as_registry Z) (classOf (as_env Z) aggregate)
         (map (\<lambda>event. toEventTypeAndData event md) events) options)"

definition store_find ::
    "('a, 'w) aggregate_store \<Rightarrow> string \<Rightarrow> string \<Rightarrow> crud_options option \<Rightarrow> ('w, 'a entity_with_metadata) eff" where
  "store_find Z aggregateType entityId options =
     andThen (crud_find (as_tables Z) aggregateType entityId options) (\<lambda>outcome.
     andThen (lift (upcastEvents (as_schemas Z) aggregateType (le_events outcome))) (\<lambda>upcasted.
     andThen (lift (traverse (toEventWithMetadata (as_validated Z)) upcasted)) (\<lambda>eventsWithIds.
     andThen
       (case le_snapshot outcome of
          Some (ss, _) \<Rightarrow>
            andThen (lift (toSnapshot (as_validated Z) (as_snapshots Z) ss)) (\<lambda>s.
            andThen (recreateFromSnapshot (as_snapshots Z) aggregateType s) (\<lambda>snapshot.
              applyEvents (as_env Z) (as_strategy Z)
                (case snapshot of None \<Rightarrow> undefinedAggregate (as_env Z) | Some a \<Rightarrow> a) (map ew_event eventsWithIds)))
        | None \<Rightarrow> recreateAggregate (as_env Z) (as_strategy Z) aggregateType (map ew_event eventsWithIds)) (\<lambda>entity.
     ret \<lparr>em_snapshotVersion = map_option snd (le_snapshot outcome), em_events = eventsWithIds,
          em_entityVersion =
            (if eventsWithIds \<noteq> [] then SqlEvent (ew_event (last eventsWithIds))
             else case le_snapshot outcome of None \<Rightarrow> SqlUndefined | Some (_, v) \<Rightarrow> SqlText v),
          em_entityId = entityId, em_entity = entity\<rparr>))))"

definition store_update ::
    "('a, 'w) aggregate_store \<Rightarrow> 'a \<Rightarrow> sql_value \<Rightarrow> string \<Rightarrow> jsobj list \<Rightarrow> crud_options option \<Rightarrow>
     ('w, save_update_result) eff" where
  "store_update Z aggregate entityVersion entityId events options =
     andThen (lift (serializedMetadata Z (classOf (as_env Z) aggregate) options)) (\<lambda>md.
       crud_update (as_tables Z) (as_registry Z) (classOf (as_env Z) aggregate) entityId entityVersion
         (map (\<lambda>event. toEventTypeAndData event md) events) options)"

end
