(* ===== verification/AggregateRepository.thy ===== *)
theory AggregateRepository
  imports AggregateStore
begin

text \<open>
  The repository of one class of aggregates (\<open>events/aggregate/aggregate-repository.ts\<close>) and its
  interceptor (\<open>aggregate-repository-interceptor.ts\<close>): a command is processed by the aggregate that
  is recreated from the store, and the events it gives are stored.

  \<open>rxRetry\<close> is what the operators of the library rxjs make of the outcome of the request: \<open>from\<close>,
  \<open>retryWhen\<close> and \<open>firstValueFrom\<close>. It is a parameter.
\<close>

section \<open>Interceptors\<close>

text \<open>
  The events and options that an interceptor is given and gives. The repository spreads the options into
  that record, so their fields stand beside the events (\<open>ue_spread\<close>) and its own field \<open>options\<close> is not set.
\<close>

record update_events =
  ue_events :: "jsobj list"
  ue_options :: "crud_options option"
  ue_spread :: "crud_options option"

record ('a, 'w) repository_interceptor =
  ri_transformUpdate :: "'a \<Rightarrow> update_events \<Rightarrow> ('w, update_events) eff"
  ri_handleException :: "'a \<Rightarrow> exn option \<Rightarrow> crud_options option \<Rightarrow> ('w, update_events option) eff"

definition default_interceptor :: "('a, 'w) repository_interceptor" where
  "default_interceptor = \<lparr>ri_transformUpdate = (\<lambda>_ ueo. ret ueo), ri_handleException = (\<lambda>_ _ _. ret None)\<rparr>"

section \<open>The repository\<close>

record command_outcome =
  oc_events :: "jsobj list"
  oc_throwable :: "exn option"

definition isFailure :: "command_outcome \<Rightarrow> bool" where
  "isFailure oc = (oc_throwable oc \<noteq> None)"

record ('a, 'w) aggregate_repository =
  ar_type :: string
  ar_store :: "('a, 'w) aggregate_store"
  ar_interceptor :: "('a, 'w) repository_interceptor"
  ar_optionsInterceptor :: "('a, 'w) repository_interceptor option"   \<comment> \<open>\<open>options.interceptor\<close>\<close>
  ar_rxRetry :: "exn + (string \<times> sql_value) \<Rightarrow> exn + (string \<times> sql_value)"

definition getAggregateRepositoryToken :: "string option \<Rightarrow> exn + string" where
  "getAggregateRepositoryToken aggregate =
     (case aggregate of
        None \<Rightarrow> Inl (RuntimeException ''A circular dependency has been detected: @InjectAggregateRepository()'')
      | Some name \<Rightarrow> Inr (name @ ''AggregateRepository''))"

text \<open>
  \<open>find = this.aggregateStore.find\<close> takes the function out of the store: called on the repository, its
  \<open>this\<close> is the repository, which has no \<open>aggregateCrud\<close>.
\<close>

definition repo_find ::
    "('a, 'w) aggregate_repository \<Rightarrow> string \<Rightarrow> string \<Rightarrow> crud_options option \<Rightarrow> ('w, 'a entity_with_metadata) eff" where
  "repo_find R aggregateType entityId options = throw TypeError"

definition effectiveInterceptor :: "('a, 'w) aggregate_repository \<Rightarrow> ('a, 'w) repository_interceptor" where
  "effectiveInterceptor R = (case ar_optionsInterceptor R of None \<Rightarrow> ar_interceptor R | Some i \<Rightarrow> i)"

definition transformUpdateEventsAndOptions ::
    "('a, 'w) aggregate_repository \<Rightarrow> 'a \<Rightarrow> command_outcome \<Rightarrow> crud_options option \<Rightarrow> ('w, update_events) eff" where
  "transformUpdateEventsAndOptions R aggregate outcome options =
     (if isFailure outcome then
        andThen (ri_handleException (effectiveInterceptor R) aggregate (oc_throwable outcome) options) (\<lambda>handled.
          case handled of None \<Rightarrow> throw CommandProcessingFailedException | Some u \<Rightarrow> ret u)
      else
        andThen (applyEvents (as_env (ar_store R)) (as_strategy (ar_store R)) aggregate (oc_events outcome)) (\<lambda>_.
          ri_transformUpdate (effectiveInterceptor R) aggregate
            \<lparr>ue_events = oc_events outcome, ue_options = None, ue_spread = options\<rparr>))"

definition withPossibleSnapshot ::
    "('a, 'w) aggregate_repository \<Rightarrow> 'a \<Rightarrow> event_with_metadata list \<Rightarrow> jsobj list \<Rightarrow> string option \<Rightarrow>
     crud_options option \<Rightarrow> ('w, crud_options option) eff" where
  "withPossibleSnapshot R aggregate oldEvents newEvents snapshotVersion options =
     andThen (possiblySnapshot (classOf (as_env (ar_store R))) (as_snapshots (ar_store R)) aggregate
                oldEvents newEvents snapshotVersion) (\<lambda>snapshot.
       ret (case snapshot of
          Some s \<Rightarrow> Some \<lparr>co_eventMetadata = None, co_triggeringEvent = None, co_entityId = None, co_snapshot = Some s\<rparr>
        | None \<Rightarrow> options))"

definition processCommand ::
    "('a, 'w) aggregate_repository \<Rightarrow> 'a \<Rightarrow> jsobj option \<Rightarrow> ('w, command_outcome) eff" where
  "processCommand R aggregate cmd =
     (case cmd of
        None \<Rightarrow> ret \<lparr>oc_events = [], oc_throwable = None\<rparr>
      | Some c \<Rightarrow> tryCatch
          (andThen (processOf (as_env (ar_store R)) aggregate c) (\<lambda>events.
             ret \<lparr>oc_events = events, oc_throwable = None\<rparr>))
          (\<lambda>err. ret \<lparr>oc_events = [], oc_throwable = Some err\<rparr>))"

definition storeUpdate ::
    "('a, 'w) aggregate_repository \<Rightarrow> string \<Rightarrow> 'a entity_with_metadata \<Rightarrow> update_events \<Rightarrow>
     ('w, string \<times> sql_value) eff" where
  "storeUpdate R entityId em transformed =
     tryCatch
       (andThen (withPossibleSnapshot R (em_entity em) (em_events em) (ue_events transformed)
                   (em_snapshotVersion em) (ue_options transformed)) (\<lambda>snapshot.
        andThen (store_update (ar_store R) (em_entity em) (em_entityVersion em) (em_entityId em)
                   (ue_events transformed) snapshot) (\<lambda>result.
          ret (sur_entityId result, SqlText (sur_entityVersion result)))))
       (\<lambda>err. if err = DuplicateTriggeringEventException
              then andThen (store_find (ar_store R) (ar_type R) entityId None) (\<lambda>found.
                     ret (em_entityId found, em_entityVersion found))
              else ret (entityId, em_entityVersion em))"

definition updateRequest ::
    "('a, 'w) aggregate_repository \<Rightarrow> string \<Rightarrow> ('a \<Rightarrow> ('w, jsobj option) eff) \<Rightarrow> crud_options option \<Rightarrow>
     ('w, string \<times> sql_value) eff" where
  "updateRequest R entityId commandProvider options =
     andThen (store_find (ar_store R) (ar_type R) entityId options) (\<lambda>em.
     andThen (commandProvider (em_entity em)) (\<lambda>cmd.
     andThen (processCommand R (em_entity em) cmd) (\<lambda>outcome.
     andThen (transformUpdateEventsAndOptions R (em_entity em) outcome options) (\<lambda>transformed.
       if ue_events transformed = [] then ret (entityId, em_entityVersion em)
       else storeUpdate R entityId em transformed))))"

definition updateWithProvidedCommand ::
    "('a, 'w) aggregate_repository \<Rightarrow> string \<Rightarrow> ('a \<Rightarrow> ('w, jsobj option) eff) \<Rightarrow> crud_options option \<Rightarrow>
     ('w, string \<times> sql_value) eff" where
  "updateWithProvidedCommand R entityId commandProvider options w =
     (case updateRequest R entityId commandProvider options w of (r, w') \<Rightarrow> (ar_rxRetry R r, w'))"

definition repo_save ::
    "('a, 'w) aggregate_repository \<Rightarrow> jsobj \<Rightarrow> crud_options option \<Rightarrow> ('w, string \<times> sql_value) eff" where
  "repo_save R cmd options =
     (let E = as_env (ar_store R) in
      andThen (newAggregate E (ar_type R)) (\<lambda>aggregate.
      andThen (processOf E aggregate cmd) (\<lambda>events.
      andThen (applyEvents E (as_strategy (ar_store R)) aggregate events) (\<lambda>_.
      andThen (store_save (ar_store R) aggregate events options) (\<lambda>result.
        ret (sur_entityId result, SqlText (sur_entityVersion result)))))))"

definition repo_update ::
    "('a, 'w) aggregate_repository \<Rightarrow> string \<Rightarrow> jsobj \<Rightarrow> crud_options option \<Rightarrow> ('w, string \<times> sql_value) eff" where
  "repo_update R entityId cmd options = updateWithProvidedCommand R entityId (\<lambda>_. ret (Some cmd)) options"

section \<open>Handlers of stored events\<close>

text \<open>
  The context an event handler is given (\<open>events/workflow/event-handler-context.ts\<close>): it saves and updates
  aggregates through their repositories, with the context of the event as the trigger. \<open>repositories\<close>
  is what the application's container finds under a token.
\<close>

definition handler_save ::
    "(string \<Rightarrow> exn + ('a, 'w) aggregate_repository) \<Rightarrow> string \<Rightarrow> string \<Rightarrow> jsobj \<Rightarrow> string option \<Rightarrow>
     ('w, string \<times> sql_value) eff" where
  "handler_save repositories eventContext aggregate cmd entityId =
     andThen (lift (getAggregateRepositoryToken (Some aggregate))) (\<lambda>token.
     andThen (lift (repositories token)) (\<lambda>R.
       repo_save R cmd (Some \<lparr>co_eventMetadata = None, co_triggeringEvent = Some eventContext,
         co_entityId = entityId, co_snapshot = None\<rparr>)))"

definition handler_update ::
    "(string \<Rightarrow> exn + ('a, 'w) aggregate_repository) \<Rightarrow> string \<Rightarrow> string \<Rightarrow> string \<Rightarrow> jsobj \<Rightarrow>
     ('w, string \<times> sql_value) eff" where
  "handler_update repositories eventContext aggregate entityId cmd =
     andThen (lift (getAggregateRepositoryToken (Some aggregate))) (\<lambda>token.
     andThen (lift (repositories token)) (\<lambda>R.
       repo_update R entityId cmd (Some \<lparr>co_eventMetadata = None, co_triggeringEvent = Some eventContext,
         co_entityId = None, co_snapshot = None\<rparr>)))"

section \<open>What is stored and found\<close>

lemma createEvents_nothing:
  assumes "\<And>row w. createEvent T row w = (Inr (), w)" and "\<And>f. inTransaction T f = f"
  shows "createEvents T rows w = (Inr (), w)"
proof -
  have "promiseAll (createEvent T) rows w = (Inr (map (\<lambda>_. ()) rows), w)"
    by (induction rows) (simp_all add: assms(1))
  then show ?thesis by (simp add: createEvents_def assms(2) andThen_def)
qed

lemma mapEff_keeps:
  assumes "mapEff f xs w = (r, w')" and "\<And>x w r w'. f x w = (r, w') \<Longrightarrow> g w' = g w"
  shows "g w' = g w"
  using assms(1)
proof (induction xs arbitrary: w r)
  case (Cons x xs)
  obtain y w1 where y: "f x w = (y, w1)" by fastforce
  then have "g w1 = g w" by (rule assms(2))
  then show ?case
    using Cons y by (cases y) (auto simp: andThen_def split: prod.splits sum.splits)
qed simp

text \<open>What a step of a computation keeps, the whole of it keeps.\<close>

lemma andThen_keeps:
  assumes "andThen m f w = (r, w')" and "\<And>r w1. m w = (r, w1) \<Longrightarrow> g w1 = g w"
    and "\<And>a w1 r w2. f a w1 = (r, w2) \<Longrightarrow> g w2 = g w1"
  shows "g w' = g w"
  using assms by (auto simp: andThen_def split: prod.splits sum.splits)

text \<open>
  What a repository saves is not there to be found. The events are given to TypeORM's \<open>create\<close>, which
  makes objects of them and writes nothing, inside a transaction that commits nothing: an aggregate
  without stored events has none after \<open>save\<close> either, and looking for it rejects with an
  \<open>EntityNotFoundException\<close>, although \<open>save\<close> gave back its identifier.
\<close>

lemma saved_events_lost:
  assumes create: "\<And>row w. createEvent T row w = (Inr (), w)" and "\<And>f. inTransaction T f = f"
    and ids: "\<And>w r w'. newUuid T w = (r, w') \<Longrightarrow> rows w' = rows w"
    and entity: "\<And>t i v w r w'. saveEntity T t i v w = (r, w') \<Longrightarrow> rows w' = rows w"
    and read: "\<And>t i w. eventsOf T (SqlText t) i w = (Inr (filter (\<lambda>e. er_entityType e = t \<and> er_entityId e = i) (rows w)), w)"
    and "\<And>t i w. findSnapshot T t i w = (Inr None, w)"
    and "rows w = []"
    and "access_save T ty events options w = (Inr result, w')"
  shows "access_find T ty (sur_entityId result) None w' = (Inl (EntityNotFoundException ty (sur_entityId result)), w')"
proof -
  have no_rows: "createEvents T rs w1 = (Inr (), w1)" for rs w1
    using assms(1,2) by (rule createEvents_nothing)
  obtain es w1 i w2 jv w3 where es: "mapEff (toEventId T) events w = (Inr es, w1)"
    and i: "(case Option.bind options co_entityId of
        None \<Rightarrow> newUuid T | Some i \<Rightarrow> if i = '''' then newUuid T else ret i) w1 = (Inr i, w2)"
    and jv: "saveEntity T ty i (ei_eventId (last es)) w2 = (Inr jv, w3)" and "w' = w3"
    using assms(8) by (auto simp: access_save_def andThen_eq_Inr no_rows split: if_splits prod.splits)
  have "rows w1 = rows w"
    using es by (rule mapEff_keeps) (auto simp: toEventId_def andThen_def dest: ids split: prod.splits sum.splits)
  moreover have "rows w2 = rows w1"
    using i ids by (auto split: option.splits if_splits)
  ultimately have "rows w' = rows w"
    using entity [OF jv] \<open>w' = w3\<close> by simp
  then show ?thesis
    by (simp add: access_find_def andThen_def assms(6,7) read option_token_def)
qed

lemma mapEff_InrI: "(\<And>x w. \<exists>y w'. f x w = (Inr y, w')) \<Longrightarrow> \<exists>ys w'. mapEff f xs w = (Inr ys, w') \<and> length ys = length xs"
proof (induction xs arbitrary: w)
  case (Cons x xs)
  obtain y w1 where "f x w = (Inr y, w1)" using Cons.prems by blast
  moreover obtain ys w2 where "mapEff f xs w1 = (Inr ys, w2)" "length ys = length xs"
    using Cons by blast
  ultimately show ?case by (simp add: andThen_def)
qed simp

lemma access_update_refused:
  assumes "\<And>w. \<exists>i w'. newUuid T w = (Inr i, w')" and "events \<noteq> []"
    and "\<And>v w. \<exists>w'. updateEntity T v ty i (SqlClass ty) ver w = (Inr (Some 0), w')"
  shows "\<exists>w'. access_update T ty i ver events options w = (Inl OptimisticLockingException, w')"
proof -
  have "\<exists>e w'. toEventId T td w = (Inr e, w')" for td w
    using assms(1) [of w] by (auto simp: toEventId_def andThen_def)
  then obtain es w1 where es: "mapEff (toEventId T) events w = (Inr es, w1)" "length es = length events"
    using mapEff_InrI [of "toEventId T" events w] by blast
  moreover have "es \<noteq> []" using es(2) assms(2) by auto
  moreover obtain w2 where "updateEntity T (ei_eventId (last es)) ty i (SqlClass ty) ver w1 = (Inr (Some 0), w2)"
    using assms(3) by blast
  ultimately show ?thesis
    by (simp add: access_update_def andThen_def Let_def)
qed

lemma store_find_version:
  assumes "store_find Z ty i options w = (Inr em, w')" and "em_events em \<noteq> []"
  shows "\<exists>event. em_entityVersion em = SqlEvent event"
  using assms by (auto simp: store_find_def andThen_eq_Inr)


section \<open>Subscribers of stored events\<close>

lemma forEach_filter:
  "forEach (\<lambda>x. if P x then f x else ret ()) xs = forEach f (filter P xs)"
  by (induction xs) auto

lemma forEach_map: "forEach f (map g xs) = forEach (\<lambda>x. f (g x)) xs"
  by (induction xs) auto

definition serve :: "publishable_events \<Rightarrow> 'w subscription \<Rightarrow> ('w, unit) eff" where
  "serve p s = forEach (\<lambda>e.
     if isInterestedIn s (pe_aggregateType p) (ei_eventType e)
     then sub_handler s (published_event p e) else ret ()) (pe_eventsWithIds p)"

lemma crud_publish_serve:
  "crud_publish registry p =
     (case map_get registry (pe_aggregateType p) of None \<Rightarrow> ret () | Some l \<Rightarrow> forEach (serve p) l)"
  unfolding crud_publish_def serve_def by (rule refl)

lemma serve_new:
  "serve p \<lparr>sub_subscriberId = s, sub_aggregatesAndEvents = [(pe_aggregateType p, (c, evs))], sub_handler = h\<rparr> =
     forEach h (map (published_event p) (filter (\<lambda>e. ei_eventType e \<in> set evs) (pe_eventsWithIds p)))"
  unfolding serve_def forEach_filter forEach_map by (simp add: isInterestedIn_def)

lemma andThen_unit [simp]: "andThen m (\<lambda>_. Pair (Inr ())) = m"
  by (rule ext) (simp add: andThen_def split: prod.splits sum.splits)

text \<open>
  A subscription is served what it asked for: once \<open>subscribe\<close> has been called for one class of
  aggregates, every publication for that class first serves the earlier subscribers and then gives
  the new handler, one after the other, the published events whose class it named, with the
  aggregate's identifier and type. Publications for other classes are as before.
\<close>

lemma subscriber_served:
  "crud_publish (crud_subscribe s [(ty, (c, evs))] h registry) p =
     andThen (crud_publish registry p) (\<lambda>_.
       if pe_aggregateType p = ty
       then forEach h (map (published_event p) (filter (\<lambda>e. ei_eventType e \<in> set evs) (pe_eventsWithIds p)))
       else ret ())"
  by (cases "map_get registry ty")
    (auto simp: crud_publish_serve serve_new crud_subscribe_def forEach_append split: option.split)

section \<open>Concrete instances\<close>

text \<open>
  A database whose world is the table of events: \<open>create\<close> writes nothing, and the row of an entity is
  updated only when the version given is the text that the column holds.
\<close>

definition sample_tables :: "event_row list event_tables" where
  "sample_tables = \<lparr>newUuid = ret ''u1'', saveEntity = (\<lambda>ty i v. ret (i, v)), createEvent = (\<lambda>_. ret ()),
     inTransaction = (\<lambda>f. f), findSnapshot = (\<lambda>_ _. ret None),
     eventsOf = (\<lambda>t i rows. (Inr (filter (\<lambda>e. SqlText (er_entityType e) = t \<and> er_entityId e = i) rows), rows)),
     eventsAfter = (\<lambda>_ _ _. ret []),
     updateEntity = (\<lambda>_ _ _ _ version. ret (if version = SqlText ''u0'' then Some 1 else Some 0)),
     previousSnapshotOf = (\<lambda>_ _. ret None), saveSnapshot = (\<lambda>_. ret ())\<rparr>"

lemma saved_events_lost_witness:
  "\<exists>result. access_save sample_tables ''Account''
        [toEventTypeAndData \<lparr>obj_class = ''AccountCreated'', obj_own = JObj []\<rparr> None] None [] = (Inr result, [])
     \<and> sur_entityId result = ''u1''
     \<and> access_find sample_tables ''Account'' ''u1'' None [] = (Inl (EntityNotFoundException ''Account'' ''u1''), [])"
proof -
  obtain result where saved: "access_save sample_tables ''Account''
        [toEventTypeAndData \<lparr>obj_class = ''AccountCreated'', obj_own = JObj []\<rparr> None] None [] = (Inr result, [])"
    and i: "sur_entityId result = ''u1''"
    by (simp add: access_save_def toEventId_def sample_tables_def createEvents_def andThen_def)
  have "access_find sample_tables ''Account'' (sur_entityId result) None [] =
      (Inl (EntityNotFoundException ''Account'' (sur_entityId result)), [])"
    by (rule saved_events_lost [where rows = "\<lambda>w. w", OF _ _ _ _ _ _ _ saved])
      (simp_all add: sample_tables_def)
  then show ?thesis using saved i by simp
qed

definition sample_row :: event_row where
  "sample_row = \<lparr>er_eventId = ''u0'', er_eventType = ''AccountCreated'', er_eventData = JNum 5,
     er_entityType = ''Account'', er_entityId = ''a1'', er_triggeringEvent = None, er_metadata = []\<rparr>"

definition sample_repository :: "(nat, event_row list) aggregate_repository" where
  "sample_repository = \<lparr>ar_type = ''Account'',
     ar_store = \<lparr>as_env = \<lparr>newAggregate = (\<lambda>_. ret 1), classOf = (\<lambda>_. ''Account''), undefinedAggregate = 0,
         applyEventOf = (\<lambda>a. Inr (Some (\<lambda>_. ret a))), processOf = (\<lambda>_ c. ret [c])\<rparr>,
       as_strategy = default_strategy, as_snapshots = [], as_schemas = [], as_tables = sample_tables,
       as_registry = [], as_validated = (\<lambda>c j. Inr \<lparr>obj_class = c, obj_own = j\<rparr>)\<rparr>,
     ar_interceptor = default_interceptor, ar_optionsInterceptor = None, ar_rxRetry = id\<rparr>"

definition found_account :: "nat entity_with_metadata" where
  "found_account =
     (let e = \<lparr>obj_class = ''eventType'', obj_own = JNum 5\<rparr>
      in \<lparr>em_snapshotVersion = None, em_events = [\<lparr>ew_event = e, ew_eventId = ''u0'', ew_metadata = Some []\<rparr>],
          em_entityVersion = SqlEvent e, em_entityId = ''a1'', em_entity = 1\<rparr>)"

lemma sample_find: "store_find (ar_store sample_repository) ''Account'' ''a1'' None [sample_row] =
    (Inr found_account, [sample_row])"
proof -
  have rows: "filter (\<lambda>e. er_entityType e = ''Account'' \<and> er_entityId e = ''a1'') [sample_row] = [sample_row]"
    by (simp add: sample_row_def)
  show ?thesis
    by (simp add: store_find_def crud_find_def access_find_def sample_repository_def sample_tables_def
        andThen_def option_token_def upcastEvents_def toEventWithMetadata_def toEvent_def recreateAggregate_def
        applyOne_def tryCatch_def found_account_def Let_def rows)
      (simp add: loaded_event_def sample_row_def)
qed

definition credit_events :: update_events where
  "credit_events = \<lparr>ue_events = [\<lparr>obj_class = ''AccountCredited'', obj_own = JNum 3\<rparr>], ue_options = None,
     ue_spread = None\<rparr>"


end
