(* ===== verification/Avro.thy ===== *)
theory Avro
  imports Samples
begin

text \<open>
  The Avro schemas of Kafka messages: how a schema is made of the schema of a class
  (\<open>messaging/broker/kafka/avro-schema.ts\<close>), and the registry of the schemas
  (\<open>avro-schema-registry.ts\<close>).

  The schema of a class is an object of the package \<open>@deepkit/type\<close>; the model has what the code
  reads of it, as a tree, so of classes that do not refer to each other in a circle.
\<close>

section \<open>Schemas\<close>

datatype property_schema =
    PropertySchema property_kind bool bool             \<comment> \<open>\<open>isOptional\<close>, \<open>isNullable\<close>\<close>
and property_kind =
    PClass class_schema
  | PArray "property_schema list"                      \<comment> \<open>\<open>templateArgs\<close>\<close>
  | PUnion "property_schema list"
  | PEnum "json list"                                  \<comment> \<open>the values of the enum\<close>
  | PPrimitive string
and class_schema =
    ClassSchema string "string option" "(string \<times> property_schema) list"
      \<comment> \<open>name, namespace of its Avro metadata, properties\<close>

text \<open>\<open>xs.flatMap(f)\<close> flattens the results that are arrays.\<close>

definition flat :: "json list \<Rightarrow> json list" where
  "flat vs = concat (map (\<lambda>v. case v of JArr ws \<Rightarrow> ws | _ \<Rightarrow> [v]) vs)"

definition with_null :: "bool \<Rightarrow> json \<Rightarrow> json" where
  "with_null nullable value =
     (if nullable then (case value of JArr ws \<Rightarrow> JArr (JStr ''null'' # ws) | _ \<Rightarrow> JArr [JStr ''null'', value])
      else value)"

text \<open>An undefined namespace is a property the JSON text of the schema does not have.\<close>

fun avro_property :: "property_schema \<Rightarrow> json"
  and avro_kind :: "property_kind \<Rightarrow> json"
  and avro_class :: "class_schema \<Rightarrow> string option \<Rightarrow> json" where
  "avro_property (PropertySchema k optional nullable) = with_null (optional \<or> nullable) (avro_kind k)"
| "avro_kind (PClass c) =
     (case c of ClassSchema name meta props \<Rightarrow>
        (case meta of None \<Rightarrow> avro_class c None | Some ns \<Rightarrow> JStr (ns @ ''.'' @ name)))"
| "avro_kind (PArray args) = JObj [(''type'', JStr ''array''), (''items'', JArr (flat (map avro_property args)))]"
| "avro_kind (PUnion args) = JArr (flat (map avro_property args))"
| "avro_kind (PEnum vs) = JObj [(''type'', JStr ''enum''), (''symbols'', JArr vs)]"
| "avro_kind (PPrimitive t) = (if t = ''number'' then JStr ''int'' else JStr t)"
| "avro_class (ClassSchema name meta props) namespace =
     (let ns = (case namespace of Some n \<Rightarrow> if n = '''' then meta else Some n | None \<Rightarrow> meta)
      in JObj ([(''name'', JStr name)] @ (case ns of None \<Rightarrow> [] | Some n \<Rightarrow> [(''namespace'', JStr n)])
           @ [(''type'', JStr ''record''),
              (''fields'', JArr (map (\<lambda>(n, p). JObj [(''name'', JStr n), (''type'', avro_property p)]) props))]))"

section \<open>The registry\<close>

record avro_entry =
  ae_target :: class_schema
  ae_namespace :: string
  ae_version :: nat
  ae_compatibility :: "string option"
  ae_schema :: "json option"

definition class_name :: "class_schema \<Rightarrow> string" where
  "class_name c = (case c of ClassSchema n _ _ \<Rightarrow> n)"

text \<open>\<open>@AvroSchema(namespace, compatibility, version)\<close>\<close>

definition AvroSchema :: "string \<Rightarrow> string option \<Rightarrow> nat \<Rightarrow> class_schema \<Rightarrow> avro_entry list \<Rightarrow> avro_entry list" where
  "AvroSchema namespace compatibility version c internal = internal @
     [\<lparr>ae_target = c, ae_namespace = namespace, ae_version = version, ae_compatibility = compatibility,
       ae_schema = None\<rparr>]"

fun lazyLoadAvroSchema :: "string \<Rightarrow> string \<Rightarrow> avro_entry list \<Rightarrow> (exn + json) \<times> avro_entry list" where
  "lazyLoadAvroSchema name namespace [] = (Inl (RuntimeException ''nothing found''), [])"
| "lazyLoadAvroSchema name namespace (e # es) =
     (if class_name (ae_target e) = name then
        (case ae_schema e of
           Some s \<Rightarrow> (Inr s, e # es)
         | None \<Rightarrow> (let s = avro_class (ae_target e) (Some namespace) in (Inr s, e\<lparr>ae_schema := Some s\<rparr> # es)))
      else (let (r, es') = lazyLoadAvroSchema name namespace es in (r, e # es')))"

record avro_record =
  ar_version :: nat
  ar_namespace :: string
  ar_schema :: json

definition avro_records :: "avro_entry list \<Rightarrow> (string, avro_record) jsmap" where
  "avro_records internal = map_from (map (\<lambda>e. (class_name (ae_target e),
     \<lparr>ar_version = ae_version e, ar_namespace = ae_namespace e,
      ar_schema = avro_class (ae_target e) (Some (ae_namespace e))\<rparr>)) internal)"

text \<open>The registry of the package \<open>@kafkajs/confluent-schema-registry\<close>.\<close>

record 'w schema_registry =
  registerSchema :: "json \<Rightarrow> string \<Rightarrow> ('w, nat) eff"
  encodeWith :: "nat \<Rightarrow> json \<Rightarrow> ('w, string) eff"
  decodeValue :: "string \<Rightarrow> ('w, string option) eff"       \<comment> \<open>the text of the decoded value\<close>

definition avro_onModuleInit :: "'w schema_registry option \<Rightarrow> avro_entry list \<Rightarrow> ('w, (string, avro_record) jsmap) eff" where
  "avro_onModuleInit registry internal =
     (case registry of
        None \<Rightarrow> ret []
      | Some R \<Rightarrow> (let records = avro_records internal
          in andThen (forEach (\<lambda>(type, r). andThen
                 (registerSchema R (ar_schema r) (ar_namespace r @ ''.'' @ type)) (\<lambda>_. ret ())) records)
               (\<lambda>_. ret records)))"

definition SCHEMA_NAMESPACE :: string where "SCHEMA_NAMESPACE = ''schema_namespace''"
definition SCHEMA_VERSION :: string where "SCHEMA_VERSION = ''schema_version''"
definition SCHEMA_ID :: string where "SCHEMA_ID = ''schema_id''"
definition SCHEMA_SUBJECT :: string where "SCHEMA_SUBJECT = ''schema_subject''"

text \<open>\<open>encode\<close> gives the encoded payload and the message with the headers it has set.\<close>

definition avro_encode ::
    "'w schema_registry \<Rightarrow> (string, avro_record) jsmap \<Rightarrow> message \<Rightarrow> ('w, string \<times> message) eff" where
  "avro_encode R records m =
     andThen (lift (message_type m)) (\<lambda>type.
       case map_get records type of
         None \<Rightarrow> throw TypeError
       | Some r \<Rightarrow>
           (let subject = ar_namespace r @ ''.'' @ type;
                m1 = setHeaders (map_from ([(SCHEMA_NAMESPACE, ar_namespace r),
                       (SCHEMA_VERSION, show_nat (ar_version r)), (SCHEMA_SUBJECT, subject)] @ headers m)) m
            in andThen (registerSchema R (ar_schema r) subject) (\<lambda>registryId.
               (let m2 = setHeader SCHEMA_ID (show_nat registryId) m1
                in andThen (encodeWith R registryId (payload m2)) (\<lambda>v. ret (v, m2))))))"

definition avro_decode :: "string \<Rightarrow> ('w, string) eff" where
  "avro_decode p = throw (ErrorException ''Not implemented!'')"

section \<open>What a schema says\<close>

lemma lazyLoad_cached:
  assumes "lazyLoadAvroSchema name ns es = (Inr s, es')"
  shows "lazyLoadAvroSchema name ns' es' = (Inr s, es')"
  using assms
proof (induction es arbitrary: es')
  case Nil
  then show ?case by simp
next
  case (Cons e es)
  then show ?case
    by (auto simp: Let_def split: if_splits option.splits prod.splits)
qed

text \<open>
  A class is loaded once: the schema and its namespace are those of the first request for it,
  and a later one, with whatever namespace, gives the same schema and changes nothing.
\<close>

lemma lazyLoadAvroSchema_idempotent:
  assumes "lazyLoadAvroSchema name ns es = (Inr s, es')"
  shows "lazyLoadAvroSchema name ns' es' = (Inr s, es') \<and> map ae_target es' = map ae_target es"
proof -
  have "lazyLoadAvroSchema name ns es = (r, es') \<Longrightarrow> map ae_target es' = map ae_target es" for r es es'
    by (induction es arbitrary: es') (auto simp: Let_def split: if_splits option.splits prod.splits)
  then show ?thesis using lazyLoad_cached [OF assms] assms by blast
qed

end
