(* ===== verification/KafkaOffsets.thy ===== *)
theory KafkaOffsets
  imports Samples
begin

text \<open>
  Which offsets of a Kafka topic are committed (\<open>messaging/broker/kafka/\<close>):
  \<open>topic-partition-offsets.ts\<close> for one partition, \<open>topic-partition-offset-tracker.ts\<close> for all of
  them, and \<open>kafka-message-processor.ts\<close>, which notes an offset before and after the handlers.
\<close>

section \<open>One partition\<close>

record tp_offset =
  tp_topic :: string
  tp_partition :: nat
  tp_offset :: int

record offsets =
  unprocessed :: "int list"
  processed :: "int list"

definition new_offsets :: offsets where
  "new_offsets = \<lparr>unprocessed = [], processed = []\<rparr>"

definition noteUnprocessed :: "int \<Rightarrow> offsets \<Rightarrow> offsets" where
  "noteUnprocessed x t = t\<lparr>unprocessed := unprocessed t @ [x]\<rparr>"

definition noteProcessed :: "int \<Rightarrow> offsets \<Rightarrow> offsets" where
  "noteProcessed x t = t\<lparr>processed := processed t @ [x]\<rparr>"

definition toCommit :: "offsets \<Rightarrow> int option" where
  "toCommit t = find (\<lambda>x. x \<in> set (processed t)) (unprocessed t)"

definition noteCommitted :: "int \<Rightarrow> offsets \<Rightarrow> offsets" where
  "noteCommitted x t = t\<lparr>unprocessed := filter (\<lambda>y. x \<le> y) (unprocessed t),
     processed := filter (\<lambda>y. x \<le> y) (processed t)\<rparr>"

definition getPending :: "offsets \<Rightarrow> int list" where
  "getPending t = filter (\<lambda>x. x \<in> set (processed t)) (unprocessed t)"

lemma toCommit_Some:
  "toCommit t = Some x \<Longrightarrow> x \<in> set (unprocessed t) \<and> x \<in> set (processed t)"
  by (auto simp: toCommit_def find_Some_iff)

lemma toCommit_pending: "toCommit t = (case getPending t of [] \<Rightarrow> None | x # _ \<Rightarrow> Some x)"
  by (simp add: toCommit_def getPending_def find_filter)

section \<open>The life of a partition\<close>

text \<open>
  What happens to a partition, newest event first: messages are fetched with growing offsets,
  their processing ends, in order or not, and what \<open>toCommit\<close> gives is committed as the
  offset after it.
\<close>

datatype offset_event = Noted int | Done int | Committed int

inductive tp_run :: "bool \<Rightarrow> offset_event list \<Rightarrow> offsets \<Rightarrow> bool" for ordered :: bool where
  Start: "tp_run ordered [] new_offsets"
| Note: "tp_run ordered evs t \<Longrightarrow> (\<And>y. Noted y \<in> set evs \<Longrightarrow> y < x) \<Longrightarrow>
     tp_run ordered (Noted x # evs) (noteUnprocessed x t)"
| Process: "tp_run ordered evs t \<Longrightarrow> x \<in> set (unprocessed t) \<Longrightarrow>
     (\<And>y. ordered \<Longrightarrow> Noted y \<in> set evs \<Longrightarrow> y < x \<Longrightarrow> Done y \<in> set evs) \<Longrightarrow>
     tp_run ordered (Done x # evs) (noteProcessed x t)"
| Commit: "tp_run ordered evs t \<Longrightarrow> toCommit t = Some x \<Longrightarrow>
     tp_run ordered (Committed (x + 1) # evs) (noteCommitted (x + 1) t)"

inductive_cases tp_run_ConsE: "tp_run ordered (e # evs) t"

lemma tp_run_noted:
  "tp_run ordered evs t \<Longrightarrow> set (unprocessed t) \<subseteq> {x. Noted x \<in> set evs}
     \<and> set (processed t) \<subseteq> {x. Done x \<in> set evs} \<and> {x. Done x \<in> set evs} \<subseteq> {x. Noted x \<in> set evs}"
  by (induction rule: tp_run.induct)
    (auto simp: new_offsets_def noteUnprocessed_def noteProcessed_def noteCommitted_def)

lemma tp_run_done_closed:
  "tp_run True evs t \<Longrightarrow> Done x \<in> set evs \<Longrightarrow> Noted y \<in> set evs \<Longrightarrow> y < x \<Longrightarrow> Done y \<in> set evs"
proof (induction arbitrary: x y rule: tp_run.induct)
  case (Note evs t z)
  then have "Noted x \<in> set evs" using tp_run_noted by fastforce
  then have "y \<noteq> z" using Note by force
  then show ?case using Note by auto
qed auto

lemma tp_run_committed:
  "tp_run ordered evs t \<Longrightarrow> Committed c \<in> set evs \<Longrightarrow> Noted (c - 1) \<in> set evs"
proof (induction rule: tp_run.induct)
  case (Commit evs t x)
  then show ?case using toCommit_Some [OF Commit.hyps(2)] tp_run_noted [OF Commit.hyps(1)] by auto
qed auto


text \<open>
  When they are not processed in order, a commit can pass a message that has not been
  processed, and the partition forgets it: it will never be pending again.
\<close>

lemma unordered_commit_loses:
  "\<exists>evs t. tp_run False evs t \<and> Committed 7 \<in> set evs \<and> Noted 5 \<in> set evs \<and> Done 5 \<notin> set evs
     \<and> 5 \<notin> set (unprocessed t)"
proof -
  have "tp_run False [] new_offsets" by (rule tp_run.Start)
  then have "tp_run False [Noted 5] (noteUnprocessed 5 new_offsets)"
    by (rule tp_run.Note) simp
  then have "tp_run False [Noted 6, Noted 5] (noteUnprocessed 6 (noteUnprocessed 5 new_offsets))"
    by (rule tp_run.Note) auto
  then have "tp_run False [Done 6, Noted 6, Noted 5]
      (noteProcessed 6 (noteUnprocessed 6 (noteUnprocessed 5 new_offsets)))"
    by (rule tp_run.Process) (simp_all add: noteUnprocessed_def)
  then have "tp_run False [Committed (6 + 1), Done 6, Noted 6, Noted 5]
      (noteCommitted (6 + 1) (noteProcessed 6 (noteUnprocessed 6 (noteUnprocessed 5 new_offsets))))"
    by (rule tp_run.Commit) (simp add: toCommit_def noteProcessed_def noteUnprocessed_def new_offsets_def)
  then show ?thesis
    by (intro exI conjI) (assumption, simp_all add: noteCommitted_def)
qed

section \<open>All partitions\<close>

text \<open>The array of a topic has holes where no message of a partition has been seen.\<close>

type_synonym tracker = "(string, offsets option list) jsmap"

definition array_get :: "nat \<Rightarrow> 'a option list \<Rightarrow> 'a option" where
  "array_get i xs = (if i < length xs then xs ! i else None)"

definition array_put :: "nat \<Rightarrow> 'a \<Rightarrow> 'a option list \<Rightarrow> 'a option list" where
  "array_put i v xs =
     (if i < length xs then xs[i := Some v] else xs @ replicate (i - length xs) None @ [Some v])"

lemma array_get_Nil [simp]: "array_get i [] = None"
  by (simp add: array_get_def)

lemma array_get_put: "array_get j (array_put i v xs) = (if j = i then Some v else array_get j xs)"
  by (auto simp: array_get_def array_put_def nth_append nth_Cons')

definition getState :: "tracker \<Rightarrow> string \<times> nat \<Rightarrow> offsets option" where
  "getState st tp = (case map_get st (fst tp) of None \<Rightarrow> None | Some ps \<Rightarrow> array_get (snd tp) ps)"

definition putState :: "string \<times> nat \<Rightarrow> offsets \<Rightarrow> tracker \<Rightarrow> tracker" where
  "putState tp t st =
     (let st1 = (if map_has st (fst tp) then st else map_set (fst tp) [] st)
      in (case map_get st1 (fst tp) of
            None \<Rightarrow> st1
          | Some ps \<Rightarrow> map_set (fst tp) (array_put (snd tp) t ps) st1))"

interpretation tracker: keyed_store getState putState
  by unfold_locales
    (auto simp: getState_def putState_def Let_def map_has_def array_get_put split: option.splits)

definition fetch :: "string \<times> nat \<Rightarrow> tracker \<Rightarrow> offsets \<times> tracker" where
  "fetch tp st = (case getState st tp of
     Some t \<Rightarrow> (t, st) | None \<Rightarrow> (new_offsets, putState tp new_offsets st))"

text \<open>The object that \<open>fetch\<close> gives is the one in the state: it is changed in place.\<close>

definition on_partition :: "(offsets \<Rightarrow> offsets) \<Rightarrow> string \<times> nat \<Rightarrow> tracker \<Rightarrow> tracker" where
  "on_partition f tp st = (let (t, st1) = fetch tp st in putState tp (f t) st1)"

definition tr_noteUnprocessed :: "tp_offset \<Rightarrow> tracker \<Rightarrow> tracker" where
  "tr_noteUnprocessed o' = on_partition (noteUnprocessed (tp_offset o')) (tp_topic o', tp_partition o')"

definition tr_noteProcessed :: "tp_offset \<Rightarrow> tracker \<Rightarrow> tracker" where
  "tr_noteProcessed o' = on_partition (noteProcessed (tp_offset o')) (tp_topic o', tp_partition o')"

definition tr_noteCommitted :: "tp_offset list \<Rightarrow> tracker \<Rightarrow> tracker" where
  "tr_noteCommitted tpos st =
     fold (\<lambda>o'. on_partition (noteCommitted (tp_offset o')) (tp_topic o', tp_partition o')) tpos st"

definition partitionToCommit :: "nat \<times> offsets option \<Rightarrow> (nat \<times> int) option" where
  "partitionToCommit pt =
     (case snd pt of None \<Rightarrow> None | Some t \<Rightarrow> map_option (\<lambda>off. (fst pt, off)) (toCommit t))"

definition topicOffsets :: "string \<times> offsets option list \<Rightarrow> tp_offset list" where
  "topicOffsets tps =
     map (\<lambda>(part, off). \<lparr>tp_topic = fst tps, tp_partition = part, tp_offset = off + 1\<rparr>)
       (List.map_filter partitionToCommit (zip [0..<length (snd tps)] (snd tps)))"

definition offsetsToCommit :: "tracker \<Rightarrow> tp_offset list" where
  "offsetsToCommit st = concat (map topicOffsets st)"

definition getPendingOffsets :: "tp_offset \<Rightarrow> tracker \<Rightarrow> int list \<times> tracker" where
  "getPendingOffsets o' st =
     (let (t, st1) = fetch (tp_topic o', tp_partition o') st in (getPending t, st1))"

definition offsets_at :: "tracker \<Rightarrow> string \<times> nat \<Rightarrow> offsets" where
  "offsets_at st tp = (case getState st tp of None \<Rightarrow> new_offsets | Some t \<Rightarrow> t)"

lemma offsets_at_on_partition:
  "offsets_at (on_partition f tp st) tp' = (if tp' = tp then f (offsets_at st tp) else offsets_at st tp')"
  by (auto simp: on_partition_def fetch_def offsets_at_def tracker.get_put split: option.split)

lemma fetch_eq: "fst (fetch tp st) = offsets_at st tp"
  by (simp add: fetch_def offsets_at_def split: option.split)

lemma set_map_filter: "set (List.map_filter f xs) = {y. \<exists>x \<in> set xs. f x = Some y}"
  by (induction xs) (auto simp: map_filter_simps split: option.splits)

lemma topicOffsets_iff:
  "\<lparr>tp_topic = topic, tp_partition = p, tp_offset = off\<rparr> \<in> set (topicOffsets (topic', ps)) \<longleftrightarrow>
     topic' = topic \<and> p < length ps \<and> (\<exists>t. ps ! p = Some t \<and> toCommit t = Some (off - 1))"
proof -
  have "(p, off - 1) \<in> set (List.map_filter partitionToCommit (zip [0..<length ps] ps)) \<longleftrightarrow>
      p < length ps \<and> (\<exists>t. ps ! p = Some t \<and> toCommit t = Some (off - 1))"
    unfolding set_map_filter
    by (auto simp: in_set_zip partitionToCommit_def split: option.splits intro!: bexI [of _ "(p, ps ! p)"]
        exI [of _ p])
  moreover have "\<lparr>tp_topic = topic, tp_partition = p, tp_offset = off\<rparr> \<in> set (topicOffsets (topic', ps)) \<longleftrightarrow>
      topic' = topic \<and> (p, off - 1) \<in> set (List.map_filter partitionToCommit (zip [0..<length ps] ps))"
    by (force simp: topicOffsets_def)
  ultimately show ?thesis by simp
qed

lemma offsetsToCommit_iff:
  assumes "map_wf st"
  shows "\<lparr>tp_topic = topic, tp_partition = p, tp_offset = off\<rparr> \<in> set (offsetsToCommit st) \<longleftrightarrow>
    toCommit (offsets_at st (topic, p)) = Some (off - 1)"
proof -
  have n: "toCommit new_offsets = None" by (simp add: toCommit_def new_offsets_def)
  have "\<lparr>tp_topic = topic, tp_partition = p, tp_offset = off\<rparr> \<in> set (offsetsToCommit st) \<longleftrightarrow>
      (\<exists>ps. (topic, ps) \<in> set st \<and> p < length ps \<and> (\<exists>t. ps ! p = Some t \<and> toCommit t = Some (off - 1)))"
  proof -
    have "o' \<in> set (offsetsToCommit st) \<longleftrightarrow> (\<exists>t ps. (t, ps) \<in> set st \<and> o' \<in> set (topicOffsets (t, ps)))" for o'
      by (auto simp: offsetsToCommit_def)
    then show ?thesis by (simp add: topicOffsets_iff)
  qed
  also have "\<dots> \<longleftrightarrow> (\<exists>ps. map_get st topic = Some ps \<and> p < length ps
      \<and> (\<exists>t. ps ! p = Some t \<and> toCommit t = Some (off - 1)))"
    using assms by (auto simp: map_wf_def)
  also have "\<dots> \<longleftrightarrow> toCommit (offsets_at st (topic, p)) = Some (off - 1)"
    using n by (auto simp: offsets_at_def getState_def array_get_def split: option.splits)
  finally show ?thesis .
qed

section \<open>The processor of a topic\<close>

record 'w processor =
  pr_handlers :: "'w handler list"
  pr_tracker :: tracker

definition new_processor :: "'w processor" where
  "new_processor = \<lparr>pr_handlers = [], pr_tracker = []\<rparr>"

definition pr_addHandler :: "'w handler \<Rightarrow> 'w processor \<Rightarrow> 'w processor" where
  "pr_addHandler h p = p\<lparr>pr_handlers := pr_handlers p @ [h]\<rparr>"

text \<open>\<open>process\<close> gives the offset or the exception, the processor and the world.\<close>

definition process ::
    "message \<Rightarrow> string \<Rightarrow> nat \<Rightarrow> string \<Rightarrow> 'w processor \<Rightarrow> 'w \<Rightarrow> (exn + tp_offset) \<times> 'w processor \<times> 'w" where
  "process m topic part off p w =
     (case parseBigInt off of
        Inl e \<Rightarrow> (Inl e, p, w)
      | Inr x \<Rightarrow>
          (let o' = \<lparr>tp_topic = topic, tp_partition = part, tp_offset = x\<rparr>;
               p1 = p\<lparr>pr_tracker := tr_noteUnprocessed o' (pr_tracker p)\<rparr>
           in (case promiseAll (\<lambda>handle. handle m) (pr_handlers p) w of
                 (Inl e, w') \<Rightarrow> (Inl e, p1, w')
               | (Inr _, w') \<Rightarrow> (Inr o', p1\<lparr>pr_tracker := tr_noteProcessed o' (pr_tracker p1)\<rparr>, w'))))"

definition noteOffsetsCommitted :: "tp_offset list \<Rightarrow> 'w processor \<Rightarrow> 'w processor" where
  "noteOffsetsCommitted tpos p = p\<lparr>pr_tracker := tr_noteCommitted tpos (pr_tracker p)\<rparr>"

definition serializeOffsetsToCommit :: "tp_offset list \<Rightarrow> (string \<times> nat \<times> string) list" where
  "serializeOffsetsToCommit tpos =
     map (\<lambda>o'. (tp_topic o', tp_partition o', show_int (tp_offset o'))) tpos"

definition pr_offsetsToCommit :: "'w processor \<Rightarrow> tp_offset list" where
  "pr_offsetsToCommit p = offsetsToCommit (pr_tracker p)"

lemma map_wf_putState: "map_wf st \<Longrightarrow> map_wf (putState tp t st)"
  by (auto simp: putState_def Let_def split: option.split)

lemma map_wf_on_partition: "map_wf st \<Longrightarrow> map_wf (on_partition f tp st)"
  by (auto simp: on_partition_def fetch_def map_wf_putState split: option.split)

lemma tracker_ops_at:
  "offsets_at (tr_noteUnprocessed o' st) tp =
     (if tp = (tp_topic o', tp_partition o') then noteUnprocessed (tp_offset o') (offsets_at st tp) else offsets_at st tp)"
  "offsets_at (tr_noteProcessed o' st) tp =
     (if tp = (tp_topic o', tp_partition o') then noteProcessed (tp_offset o') (offsets_at st tp) else offsets_at st tp)"
  "map_wf st \<Longrightarrow> map_wf (tr_noteUnprocessed o' st)"
  "map_wf st \<Longrightarrow> map_wf (tr_noteProcessed o' st)"
  by (simp_all add: tr_noteUnprocessed_def tr_noteProcessed_def offsets_at_on_partition map_wf_on_partition)

text \<open>
  A message whose handlers fail is noted but never done, and the next message of the partition
  that succeeds commits past it: after \<open>process\<close> has rejected the offset \<open>x\<close> and accepted \<open>y\<close>,
  the offset to commit is \<open>y + 1\<close>, and once that is noted nothing before it is pending.
\<close>

lemma failed_message_skipped:
  assumes "map_wf (pr_tracker p)" and "offsets_at (pr_tracker p) (topic, part) = new_offsets"
    and "x < y"
    and "process m topic part (show_int x) p w = (Inl e, p1, w1)"
    and "process m' topic part (show_int y) p1 w1 = (Inr o', p2, w2)"
  shows "\<lparr>tp_topic = topic, tp_partition = part, tp_offset = y + 1\<rparr> \<in> set (pr_offsetsToCommit p2)
    \<and> x \<in> set (unprocessed (offsets_at (pr_tracker p2) (topic, part)))
    \<and> x \<notin> set (unprocessed (noteCommitted (y + 1) (offsets_at (pr_tracker p2) (topic, part))))"
proof -
  have p1: "pr_tracker p1 = tr_noteUnprocessed \<lparr>tp_topic = topic, tp_partition = part, tp_offset = x\<rparr> (pr_tracker p)"
    using assms(4) by (auto simp: process_def Let_def split: prod.splits sum.splits)
  have p2: "pr_tracker p2 = tr_noteProcessed \<lparr>tp_topic = topic, tp_partition = part, tp_offset = y\<rparr>
      (tr_noteUnprocessed \<lparr>tp_topic = topic, tp_partition = part, tp_offset = y\<rparr> (pr_tracker p1))"
    using assms(5) by (auto simp: process_def Let_def split: prod.splits sum.splits)
  have t: "offsets_at (pr_tracker p2) (topic, part) =
      noteProcessed y (noteUnprocessed y (noteUnprocessed x new_offsets))"
    using assms(2) by (simp add: p1 p2 tracker_ops_at)
  have "toCommit (noteProcessed y (noteUnprocessed y (noteUnprocessed x new_offsets))) = Some y"
    using assms(3) by (simp add: toCommit_def noteProcessed_def noteUnprocessed_def new_offsets_def)
  moreover have "map_wf (pr_tracker p2)"
    using assms(1) by (simp add: p1 p2 tracker_ops_at)
  ultimately show ?thesis
    using assms(3) t offsetsToCommit_iff [of "pr_tracker p2" topic part "y + 1"]
    by (simp add: pr_offsetsToCommit_def noteCommitted_def noteProcessed_def noteUnprocessed_def)
qed

text \<open>
  A partition that is processed one message at a time: after the handlers have succeeded the
  offset to commit is the one after the message, and when it is noted nothing is left to do.
\<close>

lemma processed_message_committed:
  assumes "map_wf (pr_tracker p)" and "offsets_at (pr_tracker p) (topic, part) = new_offsets"
    and "process m topic part (show_int x) p w = (Inr o', p1, w1)"
  shows "(\<lparr>tp_topic = topic, tp_partition = part, tp_offset = off\<rparr> \<in> set (pr_offsetsToCommit p1) \<longleftrightarrow> off = x + 1)
    \<and> noteCommitted (x + 1) (offsets_at (pr_tracker p1) (topic, part)) = new_offsets"
proof -
  have p1: "pr_tracker p1 = tr_noteProcessed \<lparr>tp_topic = topic, tp_partition = part, tp_offset = x\<rparr>
      (tr_noteUnprocessed \<lparr>tp_topic = topic, tp_partition = part, tp_offset = x\<rparr> (pr_tracker p))"
    using assms(3) by (auto simp: process_def Let_def split: prod.splits sum.splits)
  have t: "offsets_at (pr_tracker p1) (topic, part) = noteProcessed x (noteUnprocessed x new_offsets)"
    using assms(2) by (simp add: p1 tracker_ops_at)
  have "map_wf (pr_tracker p1)"
    using assms(1) by (simp add: p1 tracker_ops_at)
  then show ?thesis
    using t offsetsToCommit_iff [of "pr_tracker p1" topic part off]
    by (auto simp: pr_offsetsToCommit_def toCommit_def noteCommitted_def noteProcessed_def
        noteUnprocessed_def new_offsets_def)
qed

section \<open>A concrete processor\<close>

definition sample_processor :: "nat processor" where
  "sample_processor = pr_addHandler (\<lambda>m n. if n = 0 then (Inl (ErrorException ''unavailable''), 1) else (Inr (), n + 1)) new_processor"

lemma sample_processor_runs:
  "\<exists>p1. process m topic part (show_int x) sample_processor 0 = (Inl (ErrorException ''unavailable''), p1, 1)
     \<and> (\<exists>o' p2. process m topic part (show_int y) p1 1 = (Inr o', p2, 2))"
  by (simp add: process_def sample_processor_def pr_addHandler_def new_processor_def Let_def)

lemma offsets_at_Nil: "offsets_at [] tp = new_offsets"
  by (simp add: offsets_at_def getState_def)

lemma failed_message_skipped_witness:
  "\<exists>p2. \<lparr>tp_topic = ''t'', tp_partition = 0, tp_offset = 7\<rparr> \<in> set (pr_offsetsToCommit (p2 :: nat processor))"
proof -
  obtain p1 o' p2 where "process (sample_message []) ''t'' 0 (show_int 5) sample_processor 0 =
      (Inl (ErrorException ''unavailable''), p1, 1)"
    and "process (sample_message []) ''t'' 0 (show_int 6) p1 1 = (Inr o', p2, 2)"
    using sample_processor_runs by blast
  then show ?thesis
    using failed_message_skipped [of sample_processor "''t''" 0 5 6]
    by (fastforce simp: sample_processor_def pr_addHandler_def new_processor_def offsets_at_Nil)
qed

lemma processed_message_committed_witness:
  "\<exists>p1. \<lparr>tp_topic = ''t'', tp_partition = 0, tp_offset = 6\<rparr> \<in> set (pr_offsetsToCommit (p1 :: nat processor))"
proof -
  obtain o' p1 w1 where "process (sample_message []) ''t'' 0 (show_int 5) sample_processor 1 = (Inr o', p1, w1)"
    by (auto simp: process_def sample_processor_def pr_addHandler_def new_processor_def Let_def)
  then show ?thesis
    using processed_message_committed [of sample_processor "''t''" 0 "sample_message []" 5 1 o' p1 w1 6]
    by (auto simp: sample_processor_def pr_addHandler_def new_processor_def offsets_at_Nil)
qed


end
