(* ===== verification/Kafka.thy ===== *)
theory Kafka
  imports Avro KafkaOffsets
begin

text \<open>
  Messages on Kafka (\<open>messaging/broker/kafka/\<close>): what a message becomes on a topic and back
  (\<open>kafka-message-builder.ts\<close>, \<open>kafka-message.ts\<close>), the consumer that commits offsets
  (\<open>kafka-message-consumer.ts\<close>) and the producer (\<open>kafka-message-producer.ts\<close>). The client itself
  (\<open>kafkajs\<close>) is a parameter.
\<close>

section \<open>Messages\<close>

definition KAFKA_PARTITION :: string where "KAFKA_PARTITION = ''kafka_partition''"
definition KAFKA_OFFSET :: string where "KAFKA_OFFSET = ''kafka_offset''"
definition KAFKA_TOPIC :: string where "KAFKA_TOPIC = ''kafka_topic''"

record kafka_payload =
  kp_topic :: string
  kp_partition :: nat
  kp_offset :: string
  kp_key :: "string option"
  kp_value :: "string option"
  kp_headers :: "(string \<times> string) list option"

definition new_KafkaMessage :: "json \<Rightarrow> headers \<Rightarrow> kafka_payload \<Rightarrow> message" where
  "new_KafkaMessage p h kp =
     setHeader KAFKA_OFFSET (kp_offset kp)
       (setHeader KAFKA_PARTITION (show_nat (kp_partition kp))
         (setHeader KAFKA_TOPIC (kp_topic kp) (new_message p h)))"

definition KafkaMessage_from :: "message \<Rightarrow> kafka_payload \<Rightarrow> message" where
  "KafkaMessage_from m kp = new_KafkaMessage (payload m) (headers m) kp"

definition kafka_topic :: "message \<Rightarrow> exn + string" where
  "kafka_topic m = getRequiredHeader m KAFKA_TOPIC"

definition kafka_offset :: "message \<Rightarrow> exn + int" where
  "kafka_offset m = (case getRequiredHeader m KAFKA_OFFSET of Inl e \<Rightarrow> Inl e | Inr s \<Rightarrow> parseBigInt s)"

section \<open>To and from a topic\<close>

record producer_message =
  pm_key :: string
  pm_value :: string
  pm_headers :: "(string \<times> string) list"

definition headers_json :: "(string \<times> string) list \<Rightarrow> json" where
  "headers_json h = JObj (map (\<lambda>(k, v). (k, JStr v)) h)"

text \<open>
  The value that is encoded with the schema registry is not the one that is sent; encoding only
  leaves its headers on the message.
\<close>

definition km_to ::
    "'w schema_registry option \<Rightarrow> (string, avro_record) jsmap \<Rightarrow> message \<Rightarrow> ('w, producer_message) eff" where
  "km_to registry records m =
     andThen (case registry of
                None \<Rightarrow> ret (stringify (payload m), m)
              | Some R \<Rightarrow> avro_encode R records m) (\<lambda>vm.
       let m' = snd vm; h = asRecord (headers m')
       in andThen (lift (message_id m')) (\<lambda>key.
          ret \<lparr>pm_key = key,
               pm_value = stringify (JObj [(''payload'', payload m'), (''headers'', headers_json h)]),
               pm_headers = h\<rparr>))"

text \<open>
  \<open>value!.toString()\<close> of every entry of the spread headers; null has none. A payload is what
  \<open>MessageBuilder.withPayload\<close> makes of a plain value: undefined is the empty object, a text is
  parsed again, and anything else is an instance of the class the engine gives it.
\<close>

fun header_texts :: "(string \<times> json) list \<Rightarrow> exn + (string \<times> string) list" where
  "header_texts [] = Inr []"
| "header_texts ((k, v) # kvs) =
     (if v = JNull then Inl TypeError
      else map_sum id (\<lambda>rest. (k, js_text v) # rest) (header_texts kvs))"

definition plain_builder :: "serializer \<Rightarrow> json option \<Rightarrow> exn + message_builder" where
  "plain_builder S p =
     (case p of
        None \<Rightarrow> withPayload S (TextArg ''{}'')
      | Some JNull \<Rightarrow> Inl TypeError
      | Some (JStr s) \<Rightarrow> withPayload S (TextArg s)
      | Some (JBool b) \<Rightarrow> Inr (if b then withReference ''Boolean'' (builder_of (classToPlain S ''Boolean'' (JBool b)))
                           else builder_of (classToPlain S ''Boolean'' (JBool b)))
      | Some (JNum n) \<Rightarrow> Inr (if n \<noteq> 0 then withReference ''Number'' (builder_of (classToPlain S ''Number'' (JNum n)))
                          else builder_of (classToPlain S ''Number'' (JNum n)))
      | Some (JArr vs) \<Rightarrow> withPayload S (ObjectArg \<lparr>obj_class = ''Array'', obj_own = JArr vs\<rparr>)
      | Some (JObj ps) \<Rightarrow> withPayload S (ObjectArg \<lparr>obj_class = ''Object'', obj_own = JObj ps\<rparr>))"

text \<open>
  The properties of \<open>data\<close>: reading one of null is a \<open>TypeError\<close>. \<open>data.headers\<close> is spread as the
  properties it has when it is an object, which is what \<open>to\<close> writes.
\<close>

definition spread_headers :: "json option \<Rightarrow> (string \<times> json) list" where
  "spread_headers h = (case h of Some (JObj ps) \<Rightarrow> ps | _ \<Rightarrow> [])"

definition km_from :: "serializer \<Rightarrow> 'w schema_registry option \<Rightarrow> kafka_payload \<Rightarrow> ('w, message) eff" where
  "km_from S registry kp =
     andThen (case registry of
                None \<Rightarrow> ret None
              | Some R \<Rightarrow> (case kp_value kp of None \<Rightarrow> throw TypeError | Some v \<Rightarrow> decodeValue R v)) (\<lambda>decoded.
       case (case decoded of Some d \<Rightarrow> Some d | None \<Rightarrow> kp_value kp) of
         None \<Rightarrow> throw TypeError
       | Some text \<Rightarrow>
           andThen (lift (jsonParse text)) (\<lambda>data.
           if data = JNull then throw TypeError
           else
           andThen (lift (case kp_headers kp of
                None \<Rightarrow> Inr []
              | Some h \<Rightarrow> map_sum id map_from (header_texts (map_from
                  (map (\<lambda>(k, v). (k, JStr v)) h @ spread_headers (json_property ''headers'' data)))))) (\<lambda>headers.
           andThen (lift (plain_builder S (json_property ''payload'' data))) (\<lambda>b.
             case kp_key kp of
               None \<Rightarrow> throw TypeError
             | Some key \<Rightarrow> ret (KafkaMessage_from
                 (build (withExtraHeaders headers (withHeader HDR_ID key b))) kp)))))"

section \<open>The producer\<close>

definition kafka_sendBatch ::
    "(string \<Rightarrow> producer_message list \<Rightarrow> ('w, unit) eff) \<Rightarrow> 'w schema_registry option \<Rightarrow>
     (string, avro_record) jsmap \<Rightarrow> string \<Rightarrow> message list \<Rightarrow> bool \<Rightarrow> ('w, unit) eff" where
  "kafka_sendBatch clientSend registry records destination ms isEvent =
     andThen (promiseAll (km_to registry records) ms) (\<lambda>pms. clientSend destination pms)"

definition kafka_send ::
    "(string \<Rightarrow> producer_message list \<Rightarrow> ('w, unit) eff) \<Rightarrow> 'w schema_registry option \<Rightarrow>
     (string, avro_record) jsmap \<Rightarrow> string \<Rightarrow> message \<Rightarrow> bool \<Rightarrow> ('w, unit) eff" where
  "kafka_send clientSend registry records destination m isEvent =
     kafka_sendBatch clientSend registry records destination [m] isEvent"

section \<open>The consumer\<close>

type_synonym 'w processors = "(string, 'w processor) jsmap"

definition addHandlerToProcessor :: "string \<Rightarrow> 'w handler \<Rightarrow> 'w processors \<Rightarrow> 'w processors" where
  "addHandlerToProcessor ch h ps =
     (let p = (case map_get ps ch of None \<Rightarrow> new_processor | Some p \<Rightarrow> p)
      in map_set ch (pr_addHandler h p) ps)"

text \<open>The state beside the processors is the client's, which is told the topics.\<close>

definition kafka_subscribe ::
    "(string \<Rightarrow> 'k \<Rightarrow> 'k) \<Rightarrow> string \<Rightarrow> string list \<Rightarrow> 'w handler \<Rightarrow> bool option \<Rightarrow> 'w processors \<times> 'k \<Rightarrow>
     ('w processors \<times> 'k \<Rightarrow> 'w processors \<times> 'k) \<times> ('w processors \<times> 'k)" where
  "kafka_subscribe clientSubscribe subscriberId topics h isEvent c =
     (\<lambda>(ps, k). (fold map_delete topics ps, k),
      fold (\<lambda>ch (ps, k). (addHandlerToProcessor ch h ps, clientSubscribe ch k)) topics c)"

definition kafka_consumer :: "(string \<Rightarrow> 'k \<Rightarrow> 'k) \<Rightarrow> ('w processors \<times> 'k, 'w) message_consumer" where
  "kafka_consumer clientSubscribe =
     \<lparr>consumer_subscribe = kafka_subscribe clientSubscribe, consumer_close = (\<lambda>c. c)\<rparr>"

definition maybeCommitOffsets ::
    "((string \<times> nat \<times> string) list \<Rightarrow> ('w, unit) eff) \<Rightarrow> 'w processor \<Rightarrow> 'w \<Rightarrow> (exn + unit) \<times> 'w processor \<times> 'w" where
  "maybeCommitOffsets commitOffsets p w =
     (let tpos = pr_offsetsToCommit p
      in (case commitOffsets (serializeOffsetsToCommit tpos) w of
            (Inl e, w') \<Rightarrow> (Inl e, p, w')
          | (Inr _, w') \<Rightarrow> (Inr (), noteOffsetsCommitted tpos p, w')))"

text \<open>\<open>eachMessage\<close> of \<open>consumer.run\<close>: the processors are part of the state it changes.\<close>

definition eachMessage ::
    "serializer \<Rightarrow> 'w schema_registry option \<Rightarrow> ((string \<times> nat \<times> string) list \<Rightarrow> ('w, unit) eff) \<Rightarrow>
     kafka_payload \<Rightarrow> 'w processors \<times> 'w \<Rightarrow> (exn + unit) \<times> ('w processors \<times> 'w)" where
  "eachMessage S registry commitOffsets kp c =
     (let (ps, w) = c
      in (case map_get ps (kp_topic kp) of
            None \<Rightarrow> (Inl (RuntimeException (''No KafkaMessageProcessor available for topic '' @ kp_topic kp)), (ps, w))
          | Some p \<Rightarrow>
              (case km_from S registry kp w of
                 (Inl e, w1) \<Rightarrow> (Inl e, (ps, w1))
               | (Inr m, w1) \<Rightarrow>
                   (case process m (kp_topic kp) (kp_partition kp) (kp_offset kp) p w1 of
                      (Inl e, p1, w2) \<Rightarrow> (Inl e, (map_set (kp_topic kp) p1 ps, w2))
                    | (Inr _, p1, w2) \<Rightarrow>
                        (case maybeCommitOffsets commitOffsets p1 w2 of
                           (r, p2, w3) \<Rightarrow> (r, (map_set (kp_topic kp) p2 ps, w3)))))))"

text \<open>\<open>setConsumerAssignments\<close>: the smallest partition of every member, \<open>None\<close> for no partition.\<close>

definition setConsumerAssignments :: "(string \<times> int list) list \<Rightarrow> (string, int option) jsmap" where
  "setConsumerAssignments assignment =
     fold (\<lambda>(memberId, ps) acc.
        map_from ((memberId, if ps = [] then None else Some (Min (set ps))) # acc)) assignment []"

section \<open>There and back\<close>

lemma header_texts_JStr: "header_texts (map (\<lambda>(k, v). (k, JStr v)) h) = Inr h"
  by (induction h) auto

lemma map_set_map: "map_set k (f v) (map (\<lambda>(k, v). (k, f v)) m) = map (\<lambda>(k, v). (k, f v)) (map_set k v m)"
  by (induction m) auto

lemma map_from_map: "map_from (map (\<lambda>(k, v). (k, f v)) kvs) = map (\<lambda>(k, v). (k, f v)) (map_from kvs)"
proof -
  have "fold (\<lambda>(k, v). map_set k v) (map (\<lambda>(k, v). (k, f v)) kvs) (map (\<lambda>(k, v). (k, f v)) m) =
      map (\<lambda>(k, v). (k, f v)) (fold (\<lambda>(k, v). map_set k v) kvs m)" for m
    by (induction kvs arbitrary: m) (auto simp: map_set_map)
  from this [of "[]"] show ?thesis by (simp add: map_from_def)
qed

lemma map_from_twice: "map_wf h \<Longrightarrow> map_from (h @ h) = h"
proof -
  assume wf: "map_wf h"
  have "fold (\<lambda>(k, v). map_set k v) xs h = h" if "set xs \<subseteq> set h" for xs
    using that
  proof (induction xs)
    case (Cons kv xs)
    obtain k v where kv: "kv = (k, v)" by fastforce
    have "map_of h k = Some v"
      using Cons.prems wf kv by (simp add: map_wf_def)
    then have "map_set k v h = h"
      using wf by (induction h) (auto simp: map_wf_def)
    then show ?case using Cons kv by simp
  qed simp
  then show ?thesis
    using map_from_id [OF wf] by (simp add: map_from_def)
qed


definition sample_kafka_message :: message where
  "sample_kafka_message = sample_message [(HDR_ID, ''m1''), (HDR_TYPE, ''OrderCreated'')]"

definition sample_pm :: producer_message where
  "sample_pm = \<lparr>pm_key = ''m1'', pm_value = stringify (JObj [(''payload'', JObj []),
     (''headers'', headers_json [(HDR_ID, ''m1''), (HDR_TYPE, ''OrderCreated'')])]),
     pm_headers = [(HDR_ID, ''m1''), (HDR_TYPE, ''OrderCreated'')]\<rparr>"

definition sample_kp :: kafka_payload where
  "sample_kp = \<lparr>kp_topic = ''orders'', kp_partition = 2, kp_offset = ''41'', kp_key = Some (pm_key sample_pm),
     kp_value = Some (pm_value sample_pm), kp_headers = Some (pm_headers sample_pm)\<rparr>"

lemma sample_km_to: "km_to None [] sample_kafka_message () = (Inr sample_pm, ())"
  by (simp add: km_to_def sample_kafka_message_def sample_message_def new_message_def asRecord_def
      map_from_def message_id_def getRequiredHeader_eq filled_def getHeader_def message_header_defs
      sample_pm_def Let_def)


end
