(* ===== verification/Workflow.thy ===== *)
theory Workflow
  imports AggregateRepository Kafka
begin

text \<open>
  The workflow over stored events (\<open>events/workflow/\<close>): the options of a subscriber
  (\<open>event-subscriber.ts\<close>), the dispatcher that subscribes the handlers of an application and calls them
  (\<open>event-dispatcher-initializer.ts\<close>, \<open>dispatched-event.ts\<close>), and the subscription to the events that
  Kafka delivers (\<open>kafka/kafka-aggregate-subscriptions.ts\<close>).
\<close>

section \<open>Subscribers\<close>

datatype durability = DURABLE | TRANSIENT
datatype initial_position = BEGINNING | END_OF_STREAM

record subscriber_options =
  so_durability :: durability
  so_readFrom :: initial_position
  so_progressNotifications :: bool

text \<open>The decorator is given some of the options; the others have a default.\<close>

definition EventSubscriber ::
    "durability option \<Rightarrow> initial_position option \<Rightarrow> bool option \<Rightarrow> subscriber_options" where
  "EventSubscriber d r p =
     \<lparr>so_durability = (case d of None \<Rightarrow> DURABLE | Some d \<Rightarrow> d),
      so_readFrom = (case r of None \<Rightarrow> BEGINNING | Some r \<Rightarrow> r),
      so_progressNotifications = (case p of None \<Rightarrow> False | Some p \<Rightarrow> p)\<rparr>"

section \<open>Dispatching\<close>

record dispatched_event =
  de_entityId :: string
  de_eventId :: string
  de_event :: jsobj
  de_offset :: int
  de_eventContext :: string
  de_metadata :: "metadata option"

definition toDispatchedEvent ::
    "(string \<Rightarrow> json \<Rightarrow> exn + jsobj) \<Rightarrow> serialized_event \<Rightarrow> exn + dispatched_event" where
  "toDispatchedEvent validated se =
     map_sum id (\<lambda>event. \<lparr>de_entityId = se_id se, de_eventId = se_entityId se, de_event = event,
         de_offset = se_offset se, de_eventContext = se_eventContext se, de_metadata = se_metadata se\<rparr>)
       (validated (se_eventType se) (se_eventData se))"

text \<open>
  The initializer finds the subscribers of the application and, once for all, the methods of all of them that are
  decorated as event handlers, each with its class of events. \<open>aggregateOf\<close> is what the decorator
  \<open>@EventAggregate\<close> has left on a class of events. The handler's argument, an \<open>EventHandlerContext\<close>, is the
  dispatched event.
\<close>

record 'w handler_method =
  hm_event :: string
  hm_handler :: "dispatched_event \<Rightarrow> ('w, unit) eff"

definition method_handler ::
    "(string \<Rightarrow> json \<Rightarrow> exn + jsobj) \<Rightarrow> schema_manager \<Rightarrow> 'w handler_method \<Rightarrow> serialized_event \<Rightarrow>
     ('w, unit) eff" where
  "method_handler validated schemas meth se =
     andThen (lift (upcastEvent schemas se)) (\<lambda>upcasted.
     andThen (lift (toDispatchedEvent validated upcasted)) (hm_handler meth))"

definition subscribe_method ::
    "(string \<Rightarrow> aggregates_and_events \<Rightarrow> subscriber_options \<Rightarrow> (serialized_event \<Rightarrow> ('w, unit) eff) \<Rightarrow> 'r \<Rightarrow> 'r) \<Rightarrow>
     (string \<Rightarrow> string option) \<Rightarrow> (string \<Rightarrow> json \<Rightarrow> exn + jsobj) \<Rightarrow> schema_manager \<Rightarrow>
     string \<times> subscriber_options \<Rightarrow> 'w handler_method \<Rightarrow> ('r, unit) eff" where
  "subscribe_method sub aggregateOf validated schemas es meth registry =
     (case aggregateOf (hm_event meth) of
        None \<Rightarrow> (Inl TypeError, registry)
      | Some aggregate \<Rightarrow>
          (Inr (), sub (fst es) (map_from [(aggregate, (aggregate, [hm_event meth]))]) (snd es)
             (method_handler validated schemas meth) registry))"

definition workflow_onModuleInit ::
    "(string \<Rightarrow> aggregates_and_events \<Rightarrow> subscriber_options \<Rightarrow> (serialized_event \<Rightarrow> ('w, unit) eff) \<Rightarrow> 'r \<Rightarrow> 'r) \<Rightarrow>
     (string \<Rightarrow> string option) \<Rightarrow> (string \<Rightarrow> json \<Rightarrow> exn + jsobj) \<Rightarrow> schema_manager \<Rightarrow>
     (string \<times> subscriber_options) list \<Rightarrow> 'w handler_method list \<Rightarrow> ('r, unit) eff" where
  "workflow_onModuleInit sub aggregateOf validated schemas eventSubscribers eventHandlerMethods =
     andThen (promiseAll (\<lambda>es. forEach (subscribe_method sub aggregateOf validated schemas es) eventHandlerMethods)
        eventSubscribers) (\<lambda>_. ret ())"

section \<open>Events from Kafka\<close>

text \<open>The payload of the message, an object with the properties of a \<open>KafkaPublishedEvent\<close>.\<close>

record kafka_published_event =
  kpe_id :: string
  kpe_entityId :: string
  kpe_entityType :: string
  kpe_eventData :: string
  kpe_eventType :: string
  kpe_metadata :: "string option"

definition metadata_of :: "json \<Rightarrow> metadata" where
  "metadata_of j = (case j of JObj ps \<Rightarrow> map_from ps | _ \<Rightarrow> [])"

definition toSerializedEvent ::
    "aggregates_and_events \<Rightarrow> string \<Rightarrow> int \<Rightarrow> int \<Rightarrow> kafka_published_event \<Rightarrow> exn + serialized_event" where
  "toSerializedEvent aggregatesAndEvents topic part offset pe =
     (case map_get aggregatesAndEvents (kpe_entityType pe) of
        None \<Rightarrow> Inl TypeError
      | Some (aggregate, events) \<Rightarrow>
          (case find (\<lambda>e. e = kpe_eventType pe) events of
             None \<Rightarrow> Inl (ErrorException ''Missing event type'')
           | Some eventType \<Rightarrow>
               (case jsonParse (kpe_eventData pe) of
                  Inl e \<Rightarrow> Inl e
                | Inr eventData \<Rightarrow>
                    map_sum id (\<lambda>md. \<lparr>se_id = kpe_id pe, se_entityId = kpe_entityId pe, se_entityType = aggregate,
                        se_eventData = eventData, se_eventType = eventType, se_partition = part,
                        se_offset = offset,
                        se_eventContext = eventToken \<lparr>etpo_id = kpe_id pe, etpo_topic = topic,
                          etpo_partition = Some part, etpo_offset = offset\<rparr>,
                        se_metadata = md\<rparr>)
                      (case kpe_metadata pe of
                         None \<Rightarrow> Inr None
                       | Some t \<Rightarrow> if t = '''' then Inr None
                                   else map_sum id (\<lambda>j. Some (metadata_of j)) (jsonParse t)))))"

definition kafka_handler ::
    "aggregates_and_events \<Rightarrow> (serialized_event \<Rightarrow> ('w, unit) eff) \<Rightarrow>
     string \<times> int \<times> int \<times> kafka_published_event \<Rightarrow> ('w, unit) eff" where
  "kafka_handler aggregatesAndEvents h m =
     (case m of (topic, part, offset, pe) \<Rightarrow>
        andThen (lift (toSerializedEvent aggregatesAndEvents topic part offset pe)) (\<lambda>se.
          if map_has aggregatesAndEvents (se_entityType se) then h se else ret ()))"

definition aggregate_kafka_subscribe ::
    "(string \<Rightarrow> string list \<Rightarrow> (string \<times> int \<times> int \<times> kafka_published_event \<Rightarrow> ('w, unit) eff) \<Rightarrow> 'c \<Rightarrow> 'c) \<Rightarrow>
     string \<Rightarrow> aggregates_and_events \<Rightarrow> (serialized_event \<Rightarrow> ('w, unit) eff) \<Rightarrow> 'c \<Rightarrow> 'c" where
  "aggregate_kafka_subscribe consumerSubscribe subscriberId aggregatesAndEvents h c =
     consumerSubscribe subscriberId (map fst aggregatesAndEvents) (kafka_handler aggregatesAndEvents h) c"

section \<open>Who handles what\<close>

text \<open>The registry of the events in the database as the initializer's \<open>aggregateEvents\<close>.\<close>

abbreviation database_events ::
    "string \<Rightarrow> aggregates_and_events \<Rightarrow> subscriber_options \<Rightarrow> (serialized_event \<Rightarrow> ('w, unit) eff) \<Rightarrow>
     'w aggregate_subscriptions \<Rightarrow> 'w aggregate_subscriptions" where
  "database_events s aes options h registry \<equiv> crud_subscribe s aes h registry"

definition handle_published ::
    "(string \<Rightarrow> string option) \<Rightarrow> (string \<Rightarrow> json \<Rightarrow> exn + jsobj) \<Rightarrow> schema_manager \<Rightarrow> publishable_events \<Rightarrow>
     'w handler_method \<Rightarrow> ('w, unit) eff" where
  "handle_published aggregateOf validated schemas p meth =
     (if aggregateOf (hm_event meth) = Some (pe_aggregateType p)
      then forEach (method_handler validated schemas meth)
             (map (published_event p) (filter (\<lambda>e. ei_eventType e = hm_event meth) (pe_eventsWithIds p)))
      else ret ())"

lemma subscribe_method_publish:
  assumes "aggregateOf (hm_event meth) \<noteq> None"
  shows "\<exists>registry'. subscribe_method database_events aggregateOf validated schemas es meth registry =
      (Inr (), registry')
    \<and> crud_publish registry' p = andThen (crud_publish registry p)
        (\<lambda>_. handle_published aggregateOf validated schemas p meth)"
proof -
  obtain aggregate where a: "aggregateOf (hm_event meth) = Some aggregate"
    using assms by blast
  then show ?thesis
    by (auto simp: subscribe_method_def map_from_def subscriber_served handle_published_def)
qed

lemma andThen_forEach_Cons:
  "andThen m (\<lambda>_. forEach f (x # xs)) = andThen (andThen m (\<lambda>_. f x)) (\<lambda>_. forEach f xs)"
  by (simp add: andThen_assoc)

lemma subscribe_methods_publish:
  assumes "\<And>meth. meth \<in> set found \<Longrightarrow> aggregateOf (hm_event meth) \<noteq> None"
  shows "\<exists>registry'. forEach (subscribe_method database_events aggregateOf validated schemas es) found registry =
      (Inr (), registry')
    \<and> crud_publish registry' p = andThen (crud_publish registry p)
        (\<lambda>_. forEach (handle_published aggregateOf validated schemas p) found)"
  using assms
proof (induction found arbitrary: registry)
  case Nil
  then show ?case by simp
next
  case (Cons meth found)
  obtain r1 where r1: "subscribe_method database_events aggregateOf validated schemas es meth registry = (Inr (), r1)"
    "crud_publish r1 p = andThen (crud_publish registry p) (\<lambda>_. handle_published aggregateOf validated schemas p meth)"
    using subscribe_method_publish Cons.prems by (metis list.set_intros(1))
  obtain r2 where "forEach (subscribe_method database_events aggregateOf validated schemas es) found r1 = (Inr (), r2)"
    "crud_publish r2 p = andThen (crud_publish r1 p) (\<lambda>_. forEach (handle_published aggregateOf validated schemas p) found)"
    using Cons.IH [of r1] Cons.prems by auto
  then show ?case
    unfolding andThen_forEach_Cons using r1 by (auto simp: andThen_Inr)
qed

text \<open>
  Every subscriber is given every handler. The initializer does not ask whose method a handler is:
  after it has run, the events that are published for an aggregate are handled by all the handlers
  of the application, in their order, once for each subscriber. With two subscribers every handler handles
  every event of its class twice.
\<close>

lemma handlers_per_subscriber:
  assumes "\<And>meth. meth \<in> set found \<Longrightarrow> aggregateOf (hm_event meth) \<noteq> None"
  shows "\<exists>registry. workflow_onModuleInit database_events aggregateOf validated schemas subscribers found [] = (Inr (), registry)
    \<and> crud_publish registry p =
        forEach (handle_published aggregateOf validated schemas p) (concat (replicate (length subscribers) found))"
proof -
  let ?all = "\<lambda>n. forEach (handle_published aggregateOf validated schemas p) (concat (replicate n found))"
  have "\<exists>rs registry'. promiseAll (\<lambda>es. forEach (subscribe_method database_events aggregateOf validated schemas es) found)
        subscribers registry = (Inr rs, registry')
      \<and> crud_publish registry' p = andThen (crud_publish registry p) (\<lambda>_. ?all (length subscribers))" for registry
  proof (induction subscribers arbitrary: registry)
    case Nil
    then show ?case by simp
  next
    case (Cons es subscribers)
    obtain r1 where r1: "forEach (subscribe_method database_events aggregateOf validated schemas es) found registry =
        (Inr (), r1)" "crud_publish r1 p = andThen (crud_publish registry p)
        (\<lambda>_. forEach (handle_published aggregateOf validated schemas p) found)"
      using subscribe_methods_publish [of found aggregateOf validated schemas es registry p] assms by blast
    show ?case
      using Cons.IH [of r1] r1 by (auto simp: forEach_append andThen_assoc Let_def)
  qed
  from this [of "[]"] show ?thesis
    by (auto simp: workflow_onModuleInit_def andThen_Inr crud_publish_def)
qed

definition noting_method :: "string \<Rightarrow> string list handler_method" where
  "noting_method name = \<lparr>hm_event = ''AccountDebited'', hm_handler = (\<lambda>de log. (Inr (), log @ [name @ de_entityId de]))\<rparr>"

definition account_debited :: publishable_events where
  "account_debited = \<lparr>pe_aggregateType = ''Account'', pe_entityId = ''a1'', pe_eventsWithIds =
     [\<lparr>ei_eventId = ''u1'', ei_eventType = ''AccountDebited'', ei_eventData = JNum 3, ei_metadata = None\<rparr>]\<rparr>"

text \<open>Two subscribers with one method each: four calls, each with the identifier of the event for the entity's.\<close>

lemma handlers_per_subscriber_witness:
  "\<exists>registry. workflow_onModuleInit database_events (\<lambda>_. Some ''Account'') (\<lambda>c j. Inr \<lparr>obj_class = c, obj_own = j\<rparr>) []
       [(''A'', EventSubscriber None None None), (''B'', EventSubscriber None None None)]
       [noting_method ''a:'', noting_method ''b:''] [] = (Inr (), registry)
     \<and> crud_publish registry account_debited [] = (Inr (), [''a:u1'', ''b:u1'', ''a:u1'', ''b:u1''])"
  using handlers_per_subscriber [of "[noting_method ''a:'', noting_method ''b:'']" "\<lambda>_. Some ''Account''"
      "\<lambda>c j. Inr \<lparr>obj_class = c, obj_own = j\<rparr>" "[]"
      "[(''A'', EventSubscriber None None None), (''B'', EventSubscriber None None None)]" account_debited]
  by (auto simp: handle_published_def noting_method_def account_debited_def method_handler_def upcastEvent_def
      upcastEvents_def toDispatchedEvent_def published_event_def numeral_2_eq_2 andThen_def)

end
