(* ===== verification/SagaTyping.thy ===== *)
theory SagaTyping
  imports SagaRefinement
begin

text \<open>
  The texts that a saga keeps its state in, as a type: which texts a definition can leave behind, and that they are
  all understood again. The rules below are the two ways the texts come about; preservation and progress are
  shown for them as for the typing of a small language.
\<close>

section \<open>The texts of a saga\<close>

inductive saga_text :: "serializer \<Rightarrow> 's saga_step list \<Rightarrow> string \<Rightarrow> bool" for S steps where
  created: "start steps s = (Inr a, s') \<Longrightarrow> sa_updatedState a = Some t \<Longrightarrow> saga_text S steps t"
| replied: "saga_text S steps t \<Longrightarrow> handleReply S steps t m s = (Inr a, s') \<Longrightarrow> sa_updatedState a = Some t' \<Longrightarrow>
    saga_text S steps t'"


text \<open>A text of the type: of a step that the saga has, or of the end.\<close>

definition running_text :: "nat \<Rightarrow> string \<Rightarrow> bool" where
  "running_text n t \<longleftrightarrow> (\<exists>st. t = encodeExecutionState st \<and> \<not> es_endState st
     \<and> 0 \<le> currentlyExecuting st \<and> currentlyExecuting st < int n)"

definition text_ok :: "nat \<Rightarrow> string \<Rightarrow> bool" where
  "text_ok n t \<longleftrightarrow> t = encodeExecutionState makeEndState \<or> running_text n t"

text \<open>What the next step leaves behind: an end exactly where no text of a step is left.\<close>

lemma executeNextStep_text:
  assumes "executeNextStep steps st s = (Inr a, s')"
  shows "\<exists>t. sa_updatedState a = Some t
    \<and> (if sa_endState a then t = encodeExecutionState makeEndState else running_text (length steps) t)"
  using executeNextStep_Inr [OF assms] by (auto simp: running_text_def moves_def)

lemma handleReply_text:
  assumes "handleReply S steps t m s = (Inr a, s')"
  shows "\<exists>t'. sa_updatedState a = Some t'
    \<and> (if sa_endState a then t' = encodeExecutionState makeEndState else running_text (length steps) t')"
  by (rule handleReply_Inr [OF assms]) (rule executeNextStep_text)

lemma saga_text_ok: "saga_text S steps t \<Longrightarrow> text_ok (length steps) t"
proof (induction rule: saga_text.induct)
  case (created s a s' t)
  then show ?case
    using executeNextStep_text [of steps new_SagaExecutionState s a s'] by (auto simp: start_def text_ok_def split: if_splits)
next
  case (replied t m s a s' t')
  then show ?case
    using handleReply_text [of S steps t m s a s'] by (auto simp: text_ok_def split: if_splits)
qed

lemma running_not_end: "running_text n t \<Longrightarrow> t \<noteq> encodeExecutionState makeEndState"
  by (auto simp: running_text_def encodeExecutionState_inject makeEndState_def)

lemma end_text_refused:
  "handleReply S steps (encodeExecutionState makeEndState) m s =
     (Inl (RuntimeException (''Saga step is missing for execution state '' @ encodeExecutionState makeEndState)), s)"
  by (simp add: handleReply_def step_at_def makeEndState_def andThen_def)

lemma running_step:
  assumes "running_text (length steps) t"
  shows "\<exists>st step. decodeExecutionState t = Inr st \<and> step_at steps (currentlyExecuting st) = Some step \<and> step \<in> set steps"
  using assms by (auto simp: running_text_def step_at_def nat_less_iff)

text \<open>
  C10: The texts of a saga are well typed. Whatever its steps and its replies are, a text the saga is left with is that
  of a step the saga has or that of the end; it is the end exactly when the actions that left it say so (preservation).
  The text of a step is understood and its step is found (progress); to the text of the end every reply is
  refused with the exception that the step is missing, and nothing happens.
\<close>

theorem saga_texts_typed:
  assumes "saga_text S steps t"
  shows "(t = encodeExecutionState makeEndState
        \<and> (\<forall>m s. handleReply S steps t m s = (Inl (RuntimeException (''Saga step is missing for execution state '' @ t)), s)))
      \<or> (running_text (length steps) t
        \<and> (\<exists>st step. decodeExecutionState t = Inr st \<and> step_at steps (currentlyExecuting st) = Some step \<and> step \<in> set steps)
        \<and> (\<forall>m s a s'. handleReply S steps t m s = (Inr a, s') \<longrightarrow> (\<exists>t'. sa_updatedState a = Some t' \<and> saga_text S steps t'
            \<and> (if sa_endState a then t' = encodeExecutionState makeEndState else running_text (length steps) t'))))"
proof -
  have preserved: "\<exists>t'. sa_updatedState a = Some t' \<and> saga_text S steps t'
      \<and> (if sa_endState a then t' = encodeExecutionState makeEndState else running_text (length steps) t')"
    if "handleReply S steps t m s = (Inr a, s')" for m s a s'
    using handleReply_text [OF that] saga_text.replied [OF assms that] by blast
  from saga_text_ok [OF assms] show ?thesis
    unfolding text_ok_def
  proof
    assume "t = encodeExecutionState makeEndState"
    then show ?thesis by (simp add: end_text_refused)
  next
    assume "running_text (length steps) t"
    then show ?thesis
      using running_step preserved by (intro disjI2 conjI allI impI)
  qed
qed

lemma saga_texts_typed_witness:
  "\<exists>t st step. saga_text sample_serializer (map plain_step sample_plan) t \<and> running_text 4 t
    \<and> decodeExecutionState t = Inr st \<and> step_at (map plain_step sample_plan) (currentlyExecuting st) = Some step"
proof -
  have four: "length (map plain_step sample_plan) = 4"
    by (simp add: sample_plan_def)
  have "start (map plain_step sample_plan) () = (Inr (sends sample_plan () False 1), ())"
    using start_plain [of sample_plan "()"] by (simp add: sample_plan_todo)
  then obtain t where t: "sa_updatedState (sends sample_plan () False 1) = Some t" "saga_text sample_serializer (map plain_step sample_plan) t"
    using saga_text.created by (fastforce simp: sends_def)
  have "t = encodeExecutionState \<lparr>currentlyExecuting = 1, es_compensating = False, es_endState = False\<rparr>"
    using t(1) by (simp add: sends_def)
  then have "running_text 4 t"
    by (auto simp: running_text_def)
  then show ?thesis
    using t(2) saga_texts_typed [OF t(2)] running_not_end [of 4 t] four by metis
qed

end
