(* ===== verification/SagaLiveness.thy ===== *)
theory SagaLiveness
  imports SagaRuns
begin

text \<open>
  A saga and its participants together: every command that has been sent is answered, and every answer
  is handled by the manager. Whatever the participants answer to the actions, this comes to an end, in at
  most twice as many rounds as the saga has steps, provided that compensations succeed.
\<close>

section \<open>Rounds of answers\<close>

text \<open>
  The messages are answered in the order they were sent; \<open>k\<close> of them have been. A round that does not return,
  or in which the manager throws, gives none.
\<close>

fun rounds :: "('d, 'w) saga_manager \<Rightarrow> ('w \<Rightarrow> (string \<times> message) list) \<Rightarrow> (message \<Rightarrow> message) \<Rightarrow> nat \<Rightarrow> nat \<Rightarrow> 'w \<Rightarrow>
    (nat \<times> 'w) option" where
  "rounds M sent answer 0 k w = Some (k, w)"
| "rounds M sent answer (Suc n) k w =
     (if k < length (sent w)
      then (case sm_handleMessage M (answer (snd (sent w ! k))) w of
          Some (Inr _, w') \<Rightarrow> rounds M sent answer n (Suc k) w'
        | _ \<Rightarrow> None)
      else Some (k, w))"

section \<open>A saga that waits for an answer\<close>

lemma todo_data_plan: "state_ok (length plan) st \<Longrightarrow> todo (data_plan plan) (d, w) st = todo plan d st"
  by (auto simp: todo_def data_plan_def candidates_def state_ok_def min_def intro!: filter_cong)

text \<open>What a reply leads to, in the terms of the list of steps to do.\<close>

lemma reply_moves:
  assumes "state_ok (length plan) st" and "0 \<le> currentlyExecuting st"
    and "wanted d (es_compensating st) (plan ! nat (currentlyExecuting st))"
    and "is_reply out m" and "es_compensating st \<longrightarrow> out = SUCCESS"
  defines "st' \<equiv> (if out = SUCCESS then st else startCompensating st)"
  shows "handleReply S (map plain_step (data_plan plan)) (encodeExecutionState st) m (d, w) =
    (Inr (case todo plan d st' of [] \<Rightarrow> makeEndStateSagaActions st' | j # _ \<Rightarrow> sends plan d (es_compensating st') j), (d, w))"
proof -
  have lt: "currentlyExecuting st < int (length plan)"
    using assms(1) by (simp add: state_ok_def)
  have ok: "state_ok (length plan) st'"
    using assms(1,2) lt by (simp add: st'_def state_ok_def startCompensating_def)
  have "handleReply S (map plain_step (data_plan plan)) (encodeExecutionState st) m (d, w) =
      executeNextStep (map plain_step (data_plan plan)) st' (d, w)"
    using handleReply_plain [of st "data_plan plan" "(d, w)" out m S] assms lt
    by (auto simp: data_plan_def nat_less_iff)
  also have "\<dots> = (case todo plan d st' of [] \<Rightarrow> (Inr (makeEndStateSagaActions st'), (d, w))
      | j # _ \<Rightarrow> (Inr (sends (data_plan plan) (d, w) (es_compensating st') j), (d, w)))"
    using executeNextStep_todo [of "data_plan plan" st' "(d, w)"] ok by (simp add: data_plan_def todo_data_plan [unfolded data_plan_def])
  also have "\<dots> = (Inr (case todo plan d st' of [] \<Rightarrow> makeEndStateSagaActions st'
      | j # _ \<Rightarrow> sends plan d (es_compensating st') j), (d, w))"
    using todo_Cons [of plan d st'] by (auto simp: sends_data_plan split: list.split)
  finally show ?thesis .
qed

text \<open>An instance that waits for the answer to the message \<open>x\<close>, and one that has ended.\<close>

definition waiting ::
    "'w producer \<Rightarrow> serializer \<Rightarrow> string \<Rightarrow> ('d plain \<times> 'd plain) list \<Rightarrow> 'd \<Rightarrow> 'd saga_instance \<Rightarrow> exec_state \<Rightarrow>
     string \<times> message \<Rightarrow> bool" where
  "waiting P S ty plan d i st x \<longleftrightarrow> si_sagaType i = ty \<and> si_sagaData i = d \<and> si_destinationsAndResources i = []
     \<and> si_stateName i = encodeExecutionState st
     \<and> state_ok (length plan) st \<and> 0 \<le> currentlyExecuting st
     \<and> wanted d (es_compensating st) (plan ! nat (currentlyExecuting st))
     \<and> delivered P S ty (si_sagaId i) (command_of d (es_compensating st) (plan ! nat (currentlyExecuting st))) x"

text \<open>The rounds that are left at most.\<close>

definition rounds_left :: "nat \<Rightarrow> exec_state \<Rightarrow> nat" where
  "rounds_left n st = (if es_compensating st then Suc (nat (currentlyExecuting st))
     else 2 * n - nat (currentlyExecuting st))"

text \<open>Participants that answer: an action as \<open>out\<close> says, a compensation with success, each to the instance.\<close>

definition answers ::
    "'w producer \<Rightarrow> serializer \<Rightarrow> string \<Rightarrow> string option \<Rightarrow> ('d plain \<times> 'd plain) list \<Rightarrow> 'd \<Rightarrow> (nat \<Rightarrow> outcome) \<Rightarrow>
     (message \<Rightarrow> message) \<Rightarrow> bool" where
  "answers P S ty sid plan d out answer \<longleftrightarrow> (\<forall>j < length plan. \<forall>c x. wanted d c (plan ! j) \<longrightarrow>
     delivered P S ty sid (command_of d c (plan ! j)) x \<longrightarrow>
     routed ty sid (answer (snd x)) \<and> is_reply (if c then SUCCESS else out j) (answer (snd x)))"

lemma answersD:
  assumes "answers P S ty sid plan d out answer" and "j < length plan" and "wanted d c (plan ! j)"
    and "delivered P S ty sid (command_of d c (plan ! j)) x"
  shows "routed ty sid (answer (snd x))" and "is_reply (if c then SUCCESS else out j) (answer (snd x))"
  using assms unfolding answers_def by blast+

text \<open>What is known of the outcomes while a saga runs.\<close>

definition outcomes_so_far :: "('d plain \<times> 'd plain) list \<Rightarrow> 'd \<Rightarrow> (nat \<Rightarrow> outcome) \<Rightarrow> exec_state \<Rightarrow> bool" where
  "outcomes_so_far plan d out st \<longleftrightarrow>
     (if es_compensating st then \<exists>j \<in> set (actions_todo plan d). out j = FAILURE
      else \<forall>j \<in> set (actions_todo plan d). int j < currentlyExecuting st \<longrightarrow> out j = SUCCESS)"

lemma todo_forward:
  assumes "\<not> es_compensating st" and "-1 \<le> currentlyExecuting st"
  shows "set (todo plan d st) = {j \<in> set (actions_todo plan d). currentlyExecuting st < int j}"
    and "todo plan d st = j # js \<Longrightarrow> k \<in> set (todo plan d st) \<Longrightarrow> j \<le> k"
proof -
  show "set (todo plan d st) = {j \<in> set (actions_todo plan d). currentlyExecuting st < int j}"
    using assms by (auto simp: todo_def candidates_def actions_todo_def)
  have "sorted (todo plan d st)"
    using assms(1) sorted_filter [of "\<lambda>x. x" "[nat (currentlyExecuting st + 1)..<length plan]"]
    by (simp add: todo_def candidates_def)
  then show "todo plan d st = j # js \<Longrightarrow> k \<in> set (todo plan d st) \<Longrightarrow> j \<le> k"
    by auto
qed

lemma todo_backward:
  "es_compensating st \<Longrightarrow> j \<in> set (todo plan d st) \<Longrightarrow> int j < currentlyExecuting st"
  by (auto simp: todo_def candidates_def)

text \<open>The next state after an answer: nearer to the end, and with what is known of the outcomes.\<close>

lemma next_waiting:
  assumes ok: "state_ok (length plan) st" "0 \<le> currentlyExecuting st"
    and w: "wanted d (es_compensating st) (plan ! nat (currentlyExecuting st))"
    and so_far: "outcomes_so_far plan d out st"
    and out0: "out0 = (if es_compensating st then SUCCESS else out (nat (currentlyExecuting st)))"
    and st': "st' = (if out0 = SUCCESS then st else startCompensating st)"
  shows "todo plan d st' = [] \<Longrightarrow> es_compensating st' \<longleftrightarrow> (\<exists>j \<in> set (actions_todo plan d). out j = FAILURE)"
    and "todo plan d st' = j # js \<Longrightarrow> rounds_left (length plan) (at_step st' j) < rounds_left (length plan) st
      \<and> outcomes_so_far plan d out (at_step st' j)"
proof -
  let ?k = "nat (currentlyExecuting st)"
  have lt: "currentlyExecuting st < int (length plan)" and k: "int ?k = currentlyExecuting st"
    using ok by (simp_all add: state_ok_def)
  have mine: "?k \<in> set (actions_todo plan d)" if "\<not> es_compensating st"
    using w lt that ok(2) by (auto simp: actions_todo_def)
  have failed: "\<exists>j \<in> set (actions_todo plan d). out j = FAILURE" if "es_compensating st'"
  proof (cases "es_compensating st")
    case True
    then show ?thesis using so_far by (simp add: outcomes_so_far_def)
  next
    case False
    then have "out ?k = FAILURE"
      using that st' out0 by (cases "out ?k") auto
    then show ?thesis using mine [OF False] by blast
  qed
  have fine: "\<not> es_compensating st \<and> st' = st \<and> out ?k = SUCCESS" if "\<not> es_compensating st'"
    using that st' out0 by (auto simp: startCompensating_def split: if_splits)
  have upto: "out j = SUCCESS" if "\<not> es_compensating st'" and "j \<in> set (actions_todo plan d)" and "int j \<le> currentlyExecuting st" for j
    using fine [OF that(1)] so_far that(2,3) k by (cases "j = ?k") (auto simp: outcomes_so_far_def)
  show "es_compensating st' \<longleftrightarrow> (\<exists>j \<in> set (actions_todo plan d). out j = FAILURE)" if "todo plan d st' = []"
  proof
    assume "\<exists>j \<in> set (actions_todo plan d). out j = FAILURE"
    then obtain j where j: "j \<in> set (actions_todo plan d)" "out j = FAILURE" by blast
    show "es_compensating st'"
    proof (rule ccontr)
      assume forward: "\<not> es_compensating st'"
      have "currentlyExecuting st < int j"
        using upto [OF forward j(1)] j(2) by force
      then show False
        using todo_forward(1) [of st plan d] fine [OF forward] that j(1) ok(2) by auto
    qed
  qed (rule failed)
  show "rounds_left (length plan) (at_step st' j) < rounds_left (length plan) st \<and> outcomes_so_far plan d out (at_step st' j)"
    if cons: "todo plan d st' = j # js"
  proof (cases "es_compensating st'")
    case True
    then have "int j < currentlyExecuting st'" and "currentlyExecuting st' = currentlyExecuting st"
      using todo_backward [of st' j plan d] cons st' by (auto simp: startCompensating_def)
    then show ?thesis
      using failed [OF True] True lt by (auto simp: rounds_left_def at_step_def outcomes_so_far_def)
  next
    case False
    note f = fine [OF False]
    have j: "currentlyExecuting st < int j" "j < length plan"
      using todo_forward(1) [of st plan d] f cons ok(2) todo_Cons(2) [OF cons] by auto
    moreover have "out k = SUCCESS" if "k \<in> set (actions_todo plan d)" "int k < int j" for k
    proof (cases "int k \<le> currentlyExecuting st")
      case True
      then show ?thesis using upto False that(1) by blast
    next
      case False
      then have "k \<in> set (todo plan d st)"
        using todo_forward(1) [of st plan d] f that(1) ok(2) by auto
      then show ?thesis
        using todo_forward(2) [of st plan d j js k] f cons that(2) ok(2) by auto
    qed
    ultimately show ?thesis
      using f ok(2) by (auto simp: rounds_left_def at_step_def outcomes_so_far_def)
  qed
qed

context saga_environment
begin

text \<open>One round: the answer is handled, and the saga has ended or waits again, nearer to its end.\<close>

lemma round_step:
  assumes "saved w = Some i" and wt: "waiting P S ty plan d i st x" and cl: "classes_named plan d"
    and an: "answers P S ty (si_sagaId i) plan d out answer" and so_far: "outcomes_so_far plan d out st"
  shows "\<exists>i' w' xs. sm_handleMessage (plain_manager R P S ty dt (map plain_step (data_plan plan))) (answer (snd x)) w = Some (Inr (), w')
    \<and> saved w' = Some i' \<and> si_sagaId i' = si_sagaId i \<and> sent w' = sent w @ xs
    \<and> (xs = [] \<and> si_endState i' \<and> si_sagaData i' = d
         \<and> (si_compensating i' \<longleftrightarrow> (\<exists>j \<in> set (actions_todo plan d). out j = FAILURE))
       \<or> (\<exists>st' y. xs = [y] \<and> waiting P S ty plan d i' st' y \<and> outcomes_so_far plan d out st'
            \<and> rounds_left (length plan) st' < rounds_left (length plan) st))"
proof -
  let ?steps = "map plain_step (data_plan plan)"
  let ?k = "nat (currentlyExecuting st)"
  define out0 where "out0 = (if es_compensating st then SUCCESS else out ?k)"
  define st1 where "st1 = (if out0 = SUCCESS then st else startCompensating st)"
  define a where "a = (case todo plan d st1 of [] \<Rightarrow> makeEndStateSagaActions st1 | j # _ \<Rightarrow> sends plan d (es_compensating st1) j)"
  have ok: "state_ok (length plan) st" "0 \<le> currentlyExecuting st" "?k < length plan"
    and w: "wanted d (es_compensating st) (plan ! ?k)"
    using wt by (auto simp: waiting_def state_ok_def nat_less_iff)
  have reply: "is_reply out0 (answer (snd x))" "routed ty (si_sagaId i) (answer (snd x))"
    using answersD [OF an ok(3) w, of x] wt by (auto simp: waiting_def out0_def)
  have h: "handleReply S ?steps (si_stateName i) (answer (snd x)) (si_sagaData i, v) = (Inr a, (d, v))" for v
    using reply_moves [OF ok(1,2) w reply(1), of S v] wt unfolding a_def st1_def
    by (simp add: waiting_def out0_def)
  have remote: "remote_actions a"
    by (rule handleReply_remote [OF data_plan_participants h])
  have named: "named a"
    using todo_Cons [of plan d st1] sends_named [OF cl] named_end by (auto simp: a_def split: list.split)
  obtain i' w' xs where step: "sm_handleMessage (plain_manager R P S ty dt ?steps) (answer (snd x)) w = Some (Inr (), w')"
      "saved w' = Some i'" "si_sagaId i' = si_sagaId i" "sent w' = sent w @ xs"
    and re: "reached ty a d i'" and xs: "list_all2 (delivered P S ty (si_sagaId i)) (sa_commands a) xs"
    using replies [OF assms(1) _ _ reply(2) h remote named, of dt] wt unfolding waiting_def by blast
  note next_facts = next_waiting [OF ok(1,2) w so_far out0_def st1_def]
  show ?thesis
  proof (cases "todo plan d st1")
    case Nil
    then have "a = makeEndStateSagaActions st1" by (simp add: a_def)
    then have "xs = [] \<and> si_endState i' \<and> si_sagaData i' = d
        \<and> (si_compensating i' \<longleftrightarrow> (\<exists>j \<in> set (actions_todo plan d). out j = FAILURE))"
      using re xs next_facts(1) [OF Nil] by (simp add: reached_def end_actions)
    then show ?thesis using step by blast
  next
    case (Cons j js)
    note j = todo_Cons [OF Cons]
    have a: "a = sends plan d (es_compensating st1) j" using Cons by (simp add: a_def)
    then obtain y where y: "xs = [y]" "delivered P S ty (si_sagaId i) (command_of d (es_compensating st1) (plan ! j)) y"
      using xs by (auto simp: sends_def step_actions_def list_all2_Cons1)
    have "waiting P S ty plan d i' (at_step st1 j) y"
      using re y(2) j step(3) a by (auto simp: waiting_def reached_def sends_def at_step_def state_ok_def step_actions_def)
    then show ?thesis
      using step y(1) next_facts(2) [OF Cons] by blast
  qed
qed

end

lemma rounds_done: "length (sent w) \<le> k \<Longrightarrow> rounds M sent answer n k w = Some (k, w)"
  by (cases n) simp_all

definition ended :: "('d plain \<times> 'd plain) list \<Rightarrow> 'd \<Rightarrow> (nat \<Rightarrow> outcome) \<Rightarrow> 'd saga_instance \<Rightarrow> bool" where
  "ended plan d out i \<longleftrightarrow> si_endState i \<and> si_sagaData i = d
     \<and> (si_compensating i \<longleftrightarrow> (\<exists>j \<in> set (actions_todo plan d). out j = FAILURE))"

context saga_environment
begin

lemma rounds_end:
  assumes "saved w = Some i" and "waiting P S ty plan d i st x" and cl: "classes_named plan d"
    and "answers P S ty (si_sagaId i) plan d out answer" and "outcomes_so_far plan d out st"
    and "sent w = before @ [x]" and "rounds_left (length plan) st \<le> n"
  shows "\<exists>w' i'. rounds (plain_manager R P S ty dt (map plain_step (data_plan plan))) sent answer n (length before) w =
      Some (length (sent w'), w') \<and> saved w' = Some i' \<and> si_sagaId i' = si_sagaId i \<and> ended plan d out i'"
  using assms
proof (induction n arbitrary: w i st x before)
  case 0
  then show ?case
    by (auto simp: rounds_left_def waiting_def state_ok_def split: if_splits)
next
  case (Suc n)
  let ?M = "plain_manager R P S ty dt (map plain_step (data_plan plan))"
  obtain i' w' xs where step: "sm_handleMessage ?M (answer (snd x)) w = Some (Inr (), w')"
    and i': "saved w' = Some i'" "si_sagaId i' = si_sagaId i" and xs: "sent w' = sent w @ xs"
    and or: "xs = [] \<and> si_endState i' \<and> si_sagaData i' = d
         \<and> (si_compensating i' \<longleftrightarrow> (\<exists>j \<in> set (actions_todo plan d). out j = FAILURE))
       \<or> (\<exists>st' y. xs = [y] \<and> waiting P S ty plan d i' st' y \<and> outcomes_so_far plan d out st'
            \<and> rounds_left (length plan) st' < rounds_left (length plan) st)"
    using round_step [OF Suc.prems(1-5), of dt] by blast
  have round: "rounds ?M sent answer (Suc n) (length before) w = rounds ?M sent answer n (length (before @ [x])) w'"
    using step Suc.prems(6) by simp
  from or show ?case
  proof (elim disjE exE conjE)
    fix st' y
    assume "xs = [y]" and "waiting P S ty plan d i' st' y" and "outcomes_so_far plan d out st'"
      and "rounds_left (length plan) st' < rounds_left (length plan) st"
    then show ?case
      using Suc.IH [of w' i' st' y "before @ [x]"] Suc.prems(3,4,6,7) i' xs round by simp
  next
    assume "xs = []" "si_endState i'" "si_sagaData i' = d"
      "si_compensating i' \<longleftrightarrow> (\<exists>j \<in> set (actions_todo plan d). out j = FAILURE)"
    then show ?case
      using Suc.prems(6) i' xs rounds_done [of sent w' "length (before @ [x])" ?M answer n] round
      by (intro exI [of _ w'] exI [of _ i']) (simp add: ended_def)
  qed
qed

text \<open>From the creation of the instance on.\<close>

lemma saga_rounds_end:
  assumes cl: "classes_named plan d" and an: "\<And>v j. saved v = Some j \<Longrightarrow> answers P S ty (si_sagaId j) plan d out answer"
    and M: "M = plain_manager R P S ty dt (map plain_step (data_plan plan))"
  shows "\<exists>i w1 w2 i'. sm_create M LockUndefined LockUndefined (d, w) = Some (Inr i, (d, w1))
    \<and> rounds M sent answer (2 * length plan) (length (sent w)) w1 = Some (length (sent w2), w2)
    \<and> saved w2 = Some i' \<and> ended plan d out i'"
proof -
  define a where "a = (case actions_todo plan d of [] \<Rightarrow> makeEndStateSagaActions new_SagaExecutionState
    | j # _ \<Rightarrow> sends plan d False j)"
  have a: "start (map plain_step (data_plan plan)) (d, v) = (Inr a, (d, v))" for v
    using start_plain [of "data_plan plan" "(d, v)"] todo_wanted [of _ plan d]
    by (cases "actions_todo plan d") (simp_all add: a_def data_plan_todo sends_data_plan)
  have remote: "remote_actions a"
    by (rule executeNextStep_remote [OF data_plan_participants a [unfolded start_def]])
  have named: "named a"
    using todo_wanted [of _ plan d] sends_named [OF cl] named_end by (auto simp: a_def split: list.split)
  obtain i w1 xs where c: "sm_create M LockUndefined LockUndefined (d, w) = Some (Inr i, (d, w1))"
    and i: "saved w1 = Some i" "reached ty a d i"
    and xs: "sent w1 = sent w @ xs" "list_all2 (delivered P S ty (si_sagaId i)) (sa_commands a) xs"
    using creates [OF a remote named, where w = w and dt = dt and S = S] unfolding M by blast
  show ?thesis
  proof (cases "actions_todo plan d")
    case Nil
    then have "xs = []" "ended plan d out i"
      using xs(2) i(2) by (simp_all add: a_def end_actions reached_def ended_def new_SagaExecutionState_def)
    then show ?thesis
      using c i(1) xs(1) rounds_done [of sent w1 "length (sent w)" M answer "2 * length plan"] by auto
  next
    case (Cons j js)
    let ?st = "at_step new_SagaExecutionState j"
    have "sorted (actions_todo plan d)"
      using sorted_filter [of "\<lambda>x. x" "[0..<length plan]"] by (simp add: actions_todo_def)
    then have least: "j \<le> k" if "k \<in> set (actions_todo plan d)" for k
      using Cons that by auto
    obtain y where y: "xs = [y]" "delivered P S ty (si_sagaId i) (command_of d False (plan ! j)) y"
      using xs(2) Cons by (auto simp: a_def sends_def step_actions_def list_all2_Cons1)
    have "waiting P S ty plan d i ?st y"
      using i(2) y(2) todo_wanted [of j plan d] Cons
      by (auto simp: waiting_def reached_def a_def sends_def at_step_def state_ok_def step_actions_def new_SagaExecutionState_def)
    moreover have "outcomes_so_far plan d out ?st"
      using least by (fastforce simp: outcomes_so_far_def at_step_def new_SagaExecutionState_def)
    moreover have "rounds_left (length plan) ?st \<le> 2 * length plan"
      by (simp add: rounds_left_def at_step_def new_SagaExecutionState_def)
    ultimately show ?thesis
      using rounds_end [OF i(1) _ cl an [OF i(1)], of ?st y "sent w" "2 * length plan" dt] c xs(1) y(1) unfolding M by auto
  qed
qed

end

section \<open>The repository in memory\<close>

context memory_environment
begin

lemma memory_rounds_end:
  assumes "classes_named plan d" and "answers P S ty None plan d out answer"
    and "M = plain_manager mem_repository P S ty dt (map plain_step (data_plan plan))"
  shows "\<exists>i w1 w2 i'. sm_create M LockUndefined LockUndefined (d, w) = Some (Inr i, (d, w1))
    \<and> rounds M mem_sent answer (2 * length plan) (length (mem_sent w)) w1 = Some (length (mem_sent w2), w2)
    \<and> mem_saved ty w2 = Some i' \<and> ended plan d out i'"
proof (rule memory.saga_rounds_end [OF assms(1) _ assms(3)])
  fix v :: "'d instance_store \<times> sent_log" and j
  assume "mem_saved ty v = Some j"
  then have "si_sagaId j = None"
    by (auto simp: mem_saved_def split: option.splits if_splits)
  then show "answers P S ty (si_sagaId j) plan d out answer"
    using assms(2) by simp
qed

end

text \<open>
  C3: Every saga ends. Whatever its participants answer to the actions, as long as each command is answered
  and compensations succeed, the creation returns, the answers to all the messages sent since are handled
  within twice as many rounds as the saga has steps, no message is left without its answer, and the instance
  in the repository has ended: with its data, and compensating exactly when one of its actions fails.
\<close>

theorem every_saga_ends:
  assumes "memory_environment P newId now" and "classes_named plan d"
    and "answers P S ty None plan d out answer"
    and "M = plain_manager mem_repository P S ty dt (map plain_step (data_plan plan))"
  shows "\<exists>i w1 w2 i'. sm_create M LockUndefined LockUndefined (d, w) = Some (Inr i, (d, w1))
    \<and> rounds M mem_sent answer (2 * length plan) (length (mem_sent w)) w1 = Some (length (mem_sent w2), w2)
    \<and> mem_saved ty w2 = Some i' \<and> si_endState i' \<and> si_sagaData i' = d
    \<and> (si_compensating i' \<longleftrightarrow> (\<exists>j \<in> set (actions_todo plan d). out j = FAILURE))"
  using memory_environment.memory_rounds_end [OF assms] unfolding ended_def by blast

lemma sample_answers:
  "answers P S ''CreateOrderSaga'' None plan d (\<lambda>_. SUCCESS) (\<lambda>_. routed_reply SUCCESS)"
  by (simp add: answers_def routed_reply_facts)

lemma every_saga_ends_witness:
  "\<exists>i w1 w2 i'. sm_create sample_run_manager LockUndefined LockUndefined ((), ([], [])) = Some (Inr i, ((), w1))
    \<and> rounds sample_run_manager mem_sent (\<lambda>_. routed_reply SUCCESS) (2 * length sample_plan) 0 w1 = Some (length (mem_sent w2), w2)
    \<and> mem_saved ''CreateOrderSaga'' w2 = Some i' \<and> si_endState i' \<and> \<not> si_compensating i'"
proof -
  note ends = every_saga_ends [OF logging.memory_environment_axioms [of "[]"] sample_plan_named sample_answers
      sample_run_manager_def, of "([], [])"]
  then show ?thesis by (auto simp: mem_sent_def)
qed

end
