(* ===== verification/FtgoTicket.thy ===== *)
theory FtgoTicket
  imports Dispatcher
begin

text \<open>
  The tickets of the kitchen service of the ftgo application (\<open>examples/ftgo-app/services/kitchen/\<close>):
  the aggregate with its states (\<open>entities/ticket.entity.ts\<close>), the service that loads, changes, saves
  and publishes it (\<open>services/ticket.service.ts\<close>) and the handlers of the commands that the sagas
  send (\<open>handlers/ticket-commands-handler.ts\<close>).

  A method of a ticket is an effect on the ticket, which it changes in place. Dates are numbers of
  milliseconds, and \<open>now\<close> is what \<open>new Date()\<close> gives. The database is a parameter.
\<close>

section \<open>Line items\<close>

record line_item =
  item_id :: int
  item_menuItemId :: int
  item_name :: string
  item_quantity :: int

section \<open>Tickets\<close>

datatype ticket_state = CREATE_PENDING | AWAITING_ACCEPTANCE | ACCEPTED | PREPARING | READY_FOR_PICKUP
  | PICKED_UP | CANCEL_PENDING | CANCELLED | REVISION_PENDING

fun ticket_state_text :: "ticket_state option \<Rightarrow> string" where
  "ticket_state_text None = ''null''"
| "ticket_state_text (Some CREATE_PENDING) = ''CREATE_PENDING''"
| "ticket_state_text (Some AWAITING_ACCEPTANCE) = ''AWAITING_ACCEPTANCE''"
| "ticket_state_text (Some ACCEPTED) = ''ACCEPTED''"
| "ticket_state_text (Some PREPARING) = ''PREPARING''"
| "ticket_state_text (Some READY_FOR_PICKUP) = ''READY_FOR_PICKUP''"
| "ticket_state_text (Some PICKED_UP) = ''PICKED_UP''"
| "ticket_state_text (Some CANCEL_PENDING) = ''CANCEL_PENDING''"
| "ticket_state_text (Some CANCELLED) = ''CANCELLED''"
| "ticket_state_text (Some REVISION_PENDING) = ''REVISION_PENDING''"

text \<open>The previous state is null until one is kept, and restoring it makes the state null then.\<close>

record ticket =
  tk_id :: int
  tk_restaurantId :: int
  tk_orderId :: int
  tk_state :: "ticket_state option"
  tk_previousState :: "ticket_state option"
  tk_lineItems :: "line_item list"
  tk_readyBy :: int
  tk_acceptTime :: int
  tk_preparingTime :: int
  tk_pickedUpTime :: int
  tk_readyForPickupTime :: int

datatype ticket_event = TicketCreated int | TicketAccepted int | TicketPreparationStarted
  | TicketPreparationCompleted | TicketPickedUp | TicketCancelled | TicketRevised

definition unsupported :: "ticket \<Rightarrow> exn" where
  "unsupported t = UnsupportedStateTransitionException (ticket_state_text (tk_state t))"

definition ticket_confirmCreate :: "(ticket, ticket_event list) eff" where
  "ticket_confirmCreate t =
     (if tk_state t = Some CREATE_PENDING
      then (Inr [TicketCreated (tk_id t)], t\<lparr>tk_state := Some AWAITING_ACCEPTANCE\<rparr>)
      else (Inl (unsupported t), t))"

definition ticket_cancelCreate :: "(ticket, ticket_event list) eff" where
  "ticket_cancelCreate t = (Inr [], t)"

text \<open>
  When the time of acceptance is not after \<open>readyBy\<close>, \<open>accept\<close> makes an \<open>IllegalArgumentException\<close> that it does
  not throw.
\<close>

definition ticket_accept :: "int \<Rightarrow> int \<Rightarrow> (ticket, ticket_event list) eff" where
  "ticket_accept now ready t =
     (if tk_state t = Some AWAITING_ACCEPTANCE
      then (Inr [TicketAccepted ready],
        t\<lparr>tk_state := Some ACCEPTED, tk_readyBy := ready, tk_acceptTime := now\<rparr>)
      else (Inl (unsupported t), t))"

definition ticket_preparing :: "int \<Rightarrow> (ticket, ticket_event list) eff" where
  "ticket_preparing now t =
     (if tk_state t = Some ACCEPTED
      then (Inr [TicketPreparationStarted], t\<lparr>tk_state := Some PREPARING, tk_preparingTime := now\<rparr>)
      else (Inl (unsupported t), t))"

definition ticket_readyForPickup :: "int \<Rightarrow> (ticket, ticket_event list) eff" where
  "ticket_readyForPickup now t =
     (if tk_state t = Some PREPARING
      then (Inr [TicketPreparationCompleted], t\<lparr>tk_state := Some READY_FOR_PICKUP, tk_readyForPickupTime := now\<rparr>)
      else (Inl (unsupported t), t))"

definition ticket_pickedUp :: "int \<Rightarrow> (ticket, ticket_event list) eff" where
  "ticket_pickedUp now t =
     (if tk_state t = Some READY_FOR_PICKUP
      then (Inr [TicketPickedUp], t\<lparr>tk_state := Some PICKED_UP, tk_pickedUpTime := now\<rparr>)
      else (Inl (unsupported t), t))"

definition ticket_changeLineItemQuantity :: "(ticket, ticket_event list) eff" where
  "ticket_changeLineItemQuantity t =
     (if tk_state t = Some AWAITING_ACCEPTANCE \<or> tk_state t = Some PREPARING then (Inr [], t)
      else (Inl (unsupported t), t))"

definition ticket_cancel :: "(ticket, ticket_event list) eff" where
  "ticket_cancel t =
     (if tk_state t = Some AWAITING_ACCEPTANCE \<or> tk_state t = Some ACCEPTED
      then (Inr [], t\<lparr>tk_previousState := tk_state t, tk_state := Some CANCEL_PENDING\<rparr>)
      else (Inl (unsupported t), t))"

definition ticket_confirmCancel :: "(ticket, ticket_event list) eff" where
  "ticket_confirmCancel t =
     (if tk_state t = Some CANCEL_PENDING then (Inr [TicketCancelled], t\<lparr>tk_state := Some CANCELLED\<rparr>)
      else (Inl (unsupported t), t))"

definition ticket_undoCancel :: "(ticket, ticket_event list) eff" where
  "ticket_undoCancel t =
     (if tk_state t = Some CANCEL_PENDING then (Inr [], t\<lparr>tk_state := tk_previousState t\<rparr>)
      else (Inl (unsupported t), t))"

definition ticket_beginReviseOrder :: "line_item list \<Rightarrow> (ticket, ticket_event list) eff" where
  "ticket_beginReviseOrder revisedOrderLineItems t =
     (if tk_state t = Some AWAITING_ACCEPTANCE \<or> tk_state t = Some ACCEPTED
      then (Inr [], t\<lparr>tk_previousState := tk_state t, tk_state := Some REVISION_PENDING\<rparr>)
      else (Inl (unsupported t), t))"

definition ticket_undoBeginReviseOrder :: "(ticket, ticket_event list) eff" where
  "ticket_undoBeginReviseOrder t =
     (if tk_state t = Some REVISION_PENDING then (Inr [], t\<lparr>tk_state := tk_previousState t\<rparr>)
      else (Inl (unsupported t), t))"

definition ticket_confirmReviseTicket :: "line_item list \<Rightarrow> (ticket, ticket_event list) eff" where
  "ticket_confirmReviseTicket revisedOrderLineItems t =
     (if tk_state t = Some REVISION_PENDING then (Inr [TicketRevised], t\<lparr>tk_state := tk_previousState t\<rparr>)
      else (Inl (unsupported t), t))"

section \<open>The life of a ticket\<close>

datatype ticket_op = ConfirmCreate | CancelCreate | Accept int int | Preparing int | ReadyForPickup int
  | PickedUp int | ChangeLineItemQuantity | Cancel | ConfirmCancel | UndoCancel
  | BeginReviseOrder "line_item list" | UndoBeginReviseOrder | ConfirmReviseTicket "line_item list"

fun perform :: "ticket_op \<Rightarrow> (ticket, ticket_event list) eff" where
  "perform ConfirmCreate = ticket_confirmCreate"
| "perform CancelCreate = ticket_cancelCreate"
| "perform (Accept now ready) = ticket_accept now ready"
| "perform (Preparing now) = ticket_preparing now"
| "perform (ReadyForPickup now) = ticket_readyForPickup now"
| "perform (PickedUp now) = ticket_pickedUp now"
| "perform ChangeLineItemQuantity = ticket_changeLineItemQuantity"
| "perform Cancel = ticket_cancel"
| "perform ConfirmCancel = ticket_confirmCancel"
| "perform UndoCancel = ticket_undoCancel"
| "perform (BeginReviseOrder items) = ticket_beginReviseOrder items"
| "perform UndoBeginReviseOrder = ticket_undoBeginReviseOrder"
| "perform (ConfirmReviseTicket items) = ticket_confirmReviseTicket items"

lemmas ticket_defs = ticket_confirmCreate_def ticket_cancelCreate_def ticket_accept_def ticket_preparing_def
  ticket_readyForPickup_def ticket_pickedUp_def ticket_changeLineItemQuantity_def ticket_cancel_def
  ticket_confirmCancel_def ticket_undoCancel_def ticket_beginReviseOrder_def ticket_undoBeginReviseOrder_def
  ticket_confirmReviseTicket_def

text \<open>A ticket that was created pending, the calls that were made on it, and the events they gave.\<close>

inductive ticket_life :: "ticket \<Rightarrow> ticket_event list \<Rightarrow> bool" where
  created: "tk_state t = Some CREATE_PENDING \<Longrightarrow> tk_previousState t = None \<Longrightarrow> ticket_life t []"
| performed: "ticket_life t es \<Longrightarrow> perform opn t = (Inr new, t') \<Longrightarrow> ticket_life t' (es @ new)"
| refused: "ticket_life t es \<Longrightarrow> perform opn t = (Inl e, t') \<Longrightarrow> ticket_life t' es"

inductive_cases ticket_lifeE: "ticket_life t es"

lemma perform_refused: "perform opn t = (Inl e, t') \<Longrightarrow> t' = t \<and> e = unsupported t"
  by (cases opn) (auto simp: ticket_defs split: if_splits)

text \<open>The milestones that lead to a state, told from the state and the one that is kept.\<close>

datatype milestone = Created | Accepted | Started | Completed | Collected | Cancelled

fun milestones :: "ticket_event \<Rightarrow> milestone list" where
  "milestones (TicketCreated _) = [Created]"
| "milestones (TicketAccepted _) = [Accepted]"
| "milestones TicketPreparationStarted = [Started]"
| "milestones TicketPreparationCompleted = [Completed]"
| "milestones TicketPickedUp = [Collected]"
| "milestones TicketCancelled = [Cancelled]"
| "milestones TicketRevised = []"

fun way_to :: "ticket_state \<Rightarrow> milestone list" where
  "way_to AWAITING_ACCEPTANCE = [Created]"
| "way_to ACCEPTED = [Created, Accepted]"
| "way_to PREPARING = [Created, Accepted, Started]"
| "way_to READY_FOR_PICKUP = [Created, Accepted, Started, Completed]"
| "way_to PICKED_UP = [Created, Accepted, Started, Completed, Collected]"
| "way_to _ = []"

fun story :: "ticket_state \<Rightarrow> ticket_state option \<Rightarrow> milestone list" where
  "story CANCEL_PENDING (Some p) = way_to p"
| "story REVISION_PENDING (Some p) = way_to p"
| "story CANCELLED (Some p) = way_to p @ [Cancelled]"
| "story s _ = way_to s"

definition ticket_ok :: "ticket \<Rightarrow> ticket_event list \<Rightarrow> bool" where
  "ticket_ok t es \<longleftrightarrow> (\<exists>s. tk_state t = Some s \<and> concat (map milestones es) = story s (tk_previousState t)
     \<and> (s \<in> {CANCEL_PENDING, REVISION_PENDING, CANCELLED} \<longrightarrow>
          tk_previousState t \<in> {Some AWAITING_ACCEPTANCE, Some ACCEPTED}))"

lemma perform_ok:
  assumes "ticket_ok t es" and "perform opn t = (Inr new, t')"
  shows "ticket_ok t' (es @ new)"
  using assms
  by (cases opn) (auto simp: ticket_ok_def ticket_defs split: if_splits)

lemma ticket_life_ok: "ticket_life t es \<Longrightarrow> ticket_ok t es"
proof (induction rule: ticket_life.induct)
  case (created t)
  then show ?case by (simp add: ticket_ok_def)
next
  case (performed t es opn new t')
  then show ?case by (rule_tac perform_ok)
next
  case (refused t es opn e t')
  then show ?case using perform_refused [of opn t e t'] by simp
qed

text \<open>
  C16: The life of a ticket. Whatever calls are made on it, and whatever it refuses, a ticket always has
  a state; while it is being cancelled or revised it keeps one of the two states it can go back to; and
  the events it has given tell its state: they are, revisions apart, the milestones
  created, accepted, started, completed and collected in this order up to its state, followed by
  the cancellation when it is cancelled, which only happens before the preparation starts.
\<close>

theorem ticket_story:
  assumes "ticket_life t es"
  shows "\<exists>s. tk_state t = Some s \<and> concat (map milestones es) = story s (tk_previousState t)
    \<and> (s \<in> {CANCEL_PENDING, REVISION_PENDING, CANCELLED} \<longrightarrow>
        tk_previousState t \<in> {Some AWAITING_ACCEPTANCE, Some ACCEPTED})"
  using ticket_life_ok [OF assms] by (simp add: ticket_ok_def)

definition sample_ticket :: ticket where
  "sample_ticket = \<lparr>tk_id = 1, tk_restaurantId = 2, tk_orderId = 3, tk_state = Some CREATE_PENDING,
     tk_previousState = None, tk_lineItems = [], tk_readyBy = 0, tk_acceptTime = 0, tk_preparingTime = 0,
     tk_pickedUpTime = 0, tk_readyForPickupTime = 0\<rparr>"

lemma ticket_story_witness:
  "concat (map milestones [TicketCreated 1, TicketAccepted 50, TicketCancelled]) = story CANCELLED (Some ACCEPTED)"
proof -
  let ?t1 = "sample_ticket\<lparr>tk_state := Some AWAITING_ACCEPTANCE\<rparr>"
  let ?t2 = "?t1\<lparr>tk_state := Some ACCEPTED, tk_readyBy := 50, tk_acceptTime := 90\<rparr>"
  let ?t3 = "?t2\<lparr>tk_previousState := Some ACCEPTED, tk_state := Some CANCEL_PENDING\<rparr>"
  let ?t4 = "?t3\<lparr>tk_state := Some CANCELLED\<rparr>"
  have "ticket_life sample_ticket []"
    by (rule created) (simp_all add: sample_ticket_def)
  then have "ticket_life ?t1 ([] @ [TicketCreated 1])"
    by (rule performed [where opn = ConfirmCreate]) (simp add: ticket_defs sample_ticket_def)
  then have "ticket_life ?t2 (([] @ [TicketCreated 1]) @ [TicketAccepted 50])"
    by (rule performed [where opn = "Accept 90 50"]) (simp add: ticket_defs)
  then have "ticket_life ?t3 ((([] @ [TicketCreated 1]) @ [TicketAccepted 50]) @ [])"
    by (rule performed [where opn = Cancel]) (simp add: ticket_defs)
  then have "ticket_life ?t4 (((([] @ [TicketCreated 1]) @ [TicketAccepted 50]) @ []) @ [TicketCancelled])"
    by (rule performed [where opn = ConfirmCancel]) (simp add: ticket_defs)
  from ticket_story [OF this] show ?thesis by simp
qed

section \<open>The service\<close>

text \<open>\<open>createTicketRow\<close> is \<open>repository.save\<close> of a ticket that has no identifier yet: it gives the stored one.\<close>

record 'w ticket_service =
  findTicket :: "int \<Rightarrow> ('w, ticket option) eff"
  saveTicket :: "ticket \<Rightarrow> ('w, ticket) eff"
  createTicketRow :: "int \<Rightarrow> int \<Rightarrow> line_item list \<Rightarrow> ('w, ticket) eff"
  publishTicket :: "ticket \<Rightarrow> ticket_event list \<Rightarrow> ('w, unit) eff"

definition ts_findOrFail :: "'w ticket_service \<Rightarrow> int \<Rightarrow> ('w, ticket) eff" where
  "ts_findOrFail S i = andThen (findTicket S i) (\<lambda>t.
     case t of None \<Rightarrow> throw (TicketNotFoundException i) | Some t \<Rightarrow> ret t)"

definition ts_create :: "'w ticket_service \<Rightarrow> int \<Rightarrow> int \<Rightarrow> line_item list \<Rightarrow> ('w, ticket) eff" where
  "ts_create S restaurant order items =
     andThen (createTicketRow S restaurant order items) (\<lambda>t.
     andThen (publishTicket S t []) (\<lambda>_. ret t))"

text \<open>
  What every other method does with the ticket it finds: the change, which may throw, then the saving, then
  the events. The ticket that was loaded is changed in place and saved.
\<close>

definition ts_change :: "'w ticket_service \<Rightarrow> int \<Rightarrow> (ticket, ticket_event list) eff \<Rightarrow> ('w, unit) eff" where
  "ts_change S i change =
     andThen (ts_findOrFail S i) (\<lambda>t.
       case change t of
         (Inl e, _) \<Rightarrow> throw e
       | (Inr events, t') \<Rightarrow> andThen (saveTicket S t') (\<lambda>_. publishTicket S t' events))"

definition ts_accept :: "'w ticket_service \<Rightarrow> int \<Rightarrow> int \<Rightarrow> int \<Rightarrow> ('w, unit) eff" where
  "ts_accept S now ticketId ready = ts_change S ticketId (ticket_accept now ready)"

definition ts_confirmCreate :: "'w ticket_service \<Rightarrow> int \<Rightarrow> ('w, unit) eff" where
  "ts_confirmCreate S i = ts_change S i ticket_confirmCreate"

definition ts_cancelCreate :: "'w ticket_service \<Rightarrow> int \<Rightarrow> ('w, unit) eff" where
  "ts_cancelCreate S i = ts_change S i ticket_cancelCreate"

definition ts_cancel :: "'w ticket_service \<Rightarrow> int \<Rightarrow> int \<Rightarrow> ('w, unit) eff" where
  "ts_cancel S restaurant ticketId = ts_change S ticketId ticket_cancel"

definition ts_confirmCancel :: "'w ticket_service \<Rightarrow> int \<Rightarrow> int \<Rightarrow> ('w, unit) eff" where
  "ts_confirmCancel S restaurant ticketId = ts_change S ticketId ticket_confirmCancel"

definition ts_undoCancel :: "'w ticket_service \<Rightarrow> int \<Rightarrow> int \<Rightarrow> ('w, unit) eff" where
  "ts_undoCancel S restaurant ticketId = ts_change S ticketId ticket_undoCancel"

definition ts_beginReviseOrder :: "'w ticket_service \<Rightarrow> int \<Rightarrow> int \<Rightarrow> line_item list \<Rightarrow> ('w, unit) eff" where
  "ts_beginReviseOrder S restaurant ticketId revised = ts_change S ticketId (ticket_beginReviseOrder revised)"

definition ts_undoBeginReviseOrder :: "'w ticket_service \<Rightarrow> int \<Rightarrow> int \<Rightarrow> ('w, unit) eff" where
  "ts_undoBeginReviseOrder S restaurant ticketId = ts_change S ticketId ticket_undoBeginReviseOrder"

definition ts_confirmReviseTicket :: "'w ticket_service \<Rightarrow> int \<Rightarrow> int \<Rightarrow> line_item list \<Rightarrow> ('w, unit) eff" where
  "ts_confirmReviseTicket S restaurant ticketId revised = ts_change S ticketId (ticket_confirmReviseTicket revised)"

section \<open>The commands of the kitchen\<close>

text \<open>Restaurant and order are the first two fields of most commands; the identifier of a ticket is in two.\<close>

datatype kitchen_command =
    CreateTicketCommand int int "line_item list"
  | ConfirmCreateTicketCommand int
  | CancelCreateTicketCommand int
  | BeginCancelTicketCommand int int
  | ConfirmCancelTicketCommand int int
  | UndoBeginCancelTicketCommand int int
  | BeginReviseTicketCommand int int "line_item list"
  | UndoBeginReviseTicketCommand int int
  | ConfirmReviseTicketCommand int int "line_item list"

definition CreateTicketReply :: "int \<Rightarrow> jsobj" where
  "CreateTicketReply ticketId = \<lparr>obj_class = ''CreateTicketReply'', obj_own = JObj [(''ticketId'', JNum ticketId)]\<rparr>"

fun ticket_handler :: "'w ticket_service \<Rightarrow> kitchen_command \<Rightarrow> ('w, handler_result) eff" where
  "ticket_handler S (CreateTicketCommand restaurant order items) =
     andThen (ts_create S restaurant order items) (\<lambda>t.
       ret (One (ReplyObject (ObjectArg (CreateTicketReply (tk_id t))))))"
| "ticket_handler S (ConfirmCreateTicketCommand i) =
     andThen (ts_confirmCreate S i) (\<lambda>_. ret (One ReplyNothing))"
| "ticket_handler S (CancelCreateTicketCommand i) =
     andThen (ts_cancelCreate S i) (\<lambda>_. ret (One ReplyNothing))"
| "ticket_handler S (BeginCancelTicketCommand restaurant order) =
     andThen (ts_cancel S restaurant order) (\<lambda>_. ret (One ReplyNothing))"
| "ticket_handler S (ConfirmCancelTicketCommand restaurant order) =
     andThen (ts_confirmCancel S restaurant order) (\<lambda>_. ret (One ReplyNothing))"
| "ticket_handler S (UndoBeginCancelTicketCommand restaurant order) =
     andThen (ts_undoCancel S restaurant order) (\<lambda>_. ret (One ReplyNothing))"
| "ticket_handler S (BeginReviseTicketCommand restaurant order items) =
     andThen (ts_beginReviseOrder S restaurant order items) (\<lambda>_. ret (One ReplyNothing))"
| "ticket_handler S (UndoBeginReviseTicketCommand restaurant order) =
     andThen (ts_undoBeginReviseOrder S restaurant order) (\<lambda>_. ret (One ReplyNothing))"
| "ticket_handler S (ConfirmReviseTicketCommand restaurant order items) =
     andThen (ts_confirmReviseTicket S restaurant order items) (\<lambda>_. ret (One ReplyNothing))"

text \<open>The tickets of the kitchen in memory, and the events published, with the ticket they are about.\<close>

type_synonym kitchen = "(int, ticket) jsmap \<times> (int \<times> ticket_event) list"

definition kitchen_service :: "kitchen ticket_service" where
  "kitchen_service =
     \<lparr>findTicket = (\<lambda>i w. (Inr (map_get (fst w) i), w)),
      saveTicket = (\<lambda>t w. (Inr t, (map_set (tk_id t) t (fst w), snd w))),
      createTicketRow = (\<lambda>r k items w.
        let t = sample_ticket\<lparr>tk_id := int (length (fst w)) + 1, tk_restaurantId := r, tk_orderId := k, tk_lineItems := items\<rparr>
        in (Inr t, (map_set (tk_id t) t (fst w), snd w))),
      publishTicket = (\<lambda>t es w. (Inr (), (fst w, snd w @ map (Pair (tk_id t)) es)))\<rparr>"

text \<open>
  The command to cancel the ticket of an order is given to another ticket. The handler passes the
  identifier of the order where the service takes that of the ticket: when the ticket with that identifier
  can be cancelled it is cancelled, whatever order it is for, and the ticket of the order is left as it is;
  when there is none the saga is answered with a failure.
\<close>

lemma cancels_another_ticket:
  assumes "findTicket S order w = (Inr found, w1)"
  shows "ticket_handler S (BeginCancelTicketCommand restaurant order) w =
    (case found of
       None \<Rightarrow> (Inl (TicketNotFoundException order), w1)
     | Some t \<Rightarrow>
         if tk_state t \<in> {Some AWAITING_ACCEPTANCE, Some ACCEPTED}
         then andThen (saveTicket S (t\<lparr>tk_previousState := tk_state t, tk_state := Some CANCEL_PENDING\<rparr>)) (\<lambda>_.
              andThen (publishTicket S (t\<lparr>tk_previousState := tk_state t, tk_state := Some CANCEL_PENDING\<rparr>) [])
                (\<lambda>_. ret (One ReplyNothing))) w1
         else (Inl (unsupported t), w1))"
  using assms
  by (cases found) (auto simp: ts_cancel_def ts_change_def ts_findOrFail_def ticket_cancel_def andThen_def
      split: prod.split sum.split)

definition two_tickets :: "(int, ticket) jsmap" where
  "two_tickets = [(1, sample_ticket\<lparr>tk_orderId := 2, tk_state := Some ACCEPTED\<rparr>),
     (2, sample_ticket\<lparr>tk_id := 2, tk_orderId := 9, tk_state := Some ACCEPTED\<rparr>)]"

lemma cancels_another_ticket_witness:
  "map_option tk_state (map_get (fst (snd (ticket_handler kitchen_service (BeginCancelTicketCommand 5 2) (two_tickets, [])))) 2)
      = Some (Some CANCEL_PENDING)
   \<and> map_option tk_orderId (map_get two_tickets 2) = Some 9"
proof -
  have "findTicket kitchen_service 2 (two_tickets, []) = (Inr (map_get two_tickets 2), (two_tickets, []))"
    by (simp add: kitchen_service_def)
  note another = cancels_another_ticket [OF this, of 5]
  show ?thesis
    unfolding another by (simp add: kitchen_service_def two_tickets_def sample_ticket_def andThen_def)
qed

end
