(* ===== verification/FtgoOrder.thy ===== *)
theory FtgoOrder
  imports FtgoTicket
begin

text \<open>
  The orders of the ftgo application (\<open>examples/ftgo-app/services/order/\<close>): money
  (\<open>libs/common/models/money.ts\<close>), the line items of an order and what a revision changes in them
  (\<open>entities/order-line-item.entity.ts\<close>, \<open>entities/order-line-items.entity.ts\<close>), the order with its
  states (\<open>entities/order.entity.ts\<close>) and its service (\<open>services/order.service.ts\<close>).

  Amounts and quantities are integers: the code's numbers as long as they are exact.
\<close>

section \<open>Money\<close>

record money =
  amount :: int

definition new_Money :: "int option \<Rightarrow> money" where
  "new_Money a = \<lparr>amount = (case a of None \<Rightarrow> 0 | Some a \<Rightarrow> a)\<rparr>"

definition money_add :: "money \<Rightarrow> money \<Rightarrow> money" where
  "money_add m other = new_Money (Some (amount m + amount other))"

definition money_subtract :: "money \<Rightarrow> money \<Rightarrow> money" where
  "money_subtract m other = new_Money (Some (amount m - amount other))"

definition isGreaterThanOrEqual :: "money \<Rightarrow> money \<Rightarrow> bool" where
  "isGreaterThanOrEqual m other = (amount other \<le> amount m)"

definition money_multiply :: "money \<Rightarrow> int \<Rightarrow> money" where
  "money_multiply m by = new_Money (Some (amount m * by))"

lemmas money_defs = new_Money_def money_add_def money_subtract_def money_multiply_def isGreaterThanOrEqual_def

section \<open>Line items\<close>

record order_line_item = line_item +
  price :: money

definition item_total :: "order_line_item \<Rightarrow> money" where
  "item_total li = money_multiply (price li) (item_quantity li)"

definition deltaForChangedQuantity :: "order_line_item \<Rightarrow> int \<Rightarrow> money" where
  "deltaForChangedQuantity li newQuantity = money_multiply (price li) (newQuantity - item_quantity li)"

definition orderTotal :: "order_line_item list \<Rightarrow> money" where
  "orderTotal items = foldl money_add (new_Money None) (map item_total items)"

definition findItem :: "order_line_item list \<Rightarrow> int \<Rightarrow> order_line_item option" where
  "findItem items menuItem = find (\<lambda>li. item_menuItemId li = menuItem) items"

record delivery_info =
  di_time :: int
  di_address :: string

record order_revision =
  revisedOrderLineItems :: "line_item list"
  rev_deliveryInfo :: "delivery_info option"

text \<open>An item of the revision that is not in the order: \<open>lineItem!\<close> is undefined and the call throws.\<close>

definition changeToOrderTotal :: "order_line_item list \<Rightarrow> order_revision \<Rightarrow> exn + money" where
  "changeToOrderTotal items revision =
     map_sum id (foldl money_add (new_Money None))
       (traverse (\<lambda>item. case findItem items (item_menuItemId item) of
            None \<Rightarrow> Inl TypeError
          | Some lineItem \<Rightarrow> Inr (deltaForChangedQuantity lineItem (item_quantity item)))
         (revisedOrderLineItems revision))"

record line_item_quantity_change =
  currentOrderTotal :: money
  newOrderTotal :: money
  delta :: money

definition quantityChange :: "order_line_item list \<Rightarrow> order_revision \<Rightarrow> exn + line_item_quantity_change" where
  "quantityChange items revision =
     map_sum id (\<lambda>d. \<lparr>currentOrderTotal = orderTotal items,
         newOrderTotal = money_add (orderTotal items) d, delta = d\<rparr>)
       (changeToOrderTotal items revision)"

text \<open>The items are changed one after the other, and those before a missing one stay changed.\<close>

fun updateItems :: "order_revision \<Rightarrow> order_line_item list \<Rightarrow> (exn + unit) \<times> order_line_item list" where
  "updateItems revision [] = (Inr (), [])"
| "updateItems revision (li # items) =
     (case find (\<lambda>item. item_menuItemId item = item_menuItemId li) (revisedOrderLineItems revision) of
        None \<Rightarrow> (Inl IllegalArgumentException, li # items)
      | Some revised \<Rightarrow>
          (case updateItems revision items of
             (r, items') \<Rightarrow> (r, li\<lparr>item_quantity := item_quantity revised\<rparr> # items')))"

section \<open>Orders\<close>

datatype order_state = OrderApprovalPending | OrderApproved | OrderIsRejected | OrderCancelPending
  | OrderIsCancelled | OrderRevisionPending

fun order_state_text :: "order_state \<Rightarrow> string" where
  "order_state_text OrderApprovalPending = ''APPROVAL_PENDING''"
| "order_state_text OrderApproved = ''APPROVED''"
| "order_state_text OrderIsRejected = ''REJECTED''"
| "order_state_text OrderCancelPending = ''CANCEL_PENDING''"
| "order_state_text OrderIsCancelled = ''CANCELLED''"
| "order_state_text OrderRevisionPending = ''REVISION_PENDING''"

record order =
  ord_id :: int
  ord_customerId :: int
  ord_lineItems :: "order_line_item list"        \<comment> \<open>\<open>details.lineItems.lineItems\<close>\<close>
  ord_state :: order_state
  ord_deliveryInfo :: delivery_info
  ord_minimum :: money

datatype order_event = OrderAuthorized | OrderCancelled | OrderRejected
  | OrderRevisionProposed order_revision money money | OrderRevised order_revision money money

definition order_unsupported :: "order \<Rightarrow> exn" where
  "order_unsupported o' = UnsupportedStateTransitionException (order_state_text (ord_state o'))"

text \<open>A method that goes from one state to another and gives some events.\<close>

definition order_move :: "order_state \<Rightarrow> order_state \<Rightarrow> order_event list \<Rightarrow> (order, order_event list) eff" where
  "order_move from to events o' =
     (if ord_state o' = from then (Inr events, o'\<lparr>ord_state := to\<rparr>) else (Inl (order_unsupported o'), o'))"

definition order_cancel :: "(order, order_event list) eff" where
  "order_cancel = order_move OrderApproved OrderCancelPending []"

definition order_undoPendingCancel :: "(order, order_event list) eff" where
  "order_undoPendingCancel = order_move OrderCancelPending OrderApproved []"

definition order_noteCancelled :: "(order, order_event list) eff" where
  "order_noteCancelled = order_move OrderCancelPending OrderIsCancelled [OrderCancelled]"

definition order_noteApproved :: "(order, order_event list) eff" where
  "order_noteApproved = order_move OrderApprovalPending OrderApproved [OrderAuthorized]"

definition order_noteRejected :: "(order, order_event list) eff" where
  "order_noteRejected = order_move OrderApprovalPending OrderIsRejected [OrderRejected]"

definition order_noteReversingAuthorization :: "(order, unit) eff" where
  "order_noteReversingAuthorization o' = (Inl (ErrorException ''Not implemented''), o')"

definition order_revise :: "order_revision \<Rightarrow> (order, line_item_quantity_change \<times> order_event list) eff" where
  "order_revise revision o' =
     (if ord_state o' = OrderApproved then
        (case quantityChange (ord_lineItems o') revision of
           Inl e \<Rightarrow> (Inl e, o')
         | Inr change \<Rightarrow>
             if isGreaterThanOrEqual (newOrderTotal change) (ord_minimum o') then (Inl OrderMinimumNotMet, o')
             else (Inr (change, [OrderRevisionProposed revision (currentOrderTotal change) (newOrderTotal change)]),
                   o'\<lparr>ord_state := OrderRevisionPending\<rparr>))
      else (Inl (order_unsupported o'), o'))"

definition order_rejectRevision :: "(order, order_event list) eff" where
  "order_rejectRevision = order_move OrderRevisionPending OrderApproved []"

definition order_confirmRevision :: "order_revision \<Rightarrow> (order, order_event list) eff" where
  "order_confirmRevision revision o' =
     (if ord_state o' = OrderRevisionPending then
        (case quantityChange (ord_lineItems o') revision of
           Inl e \<Rightarrow> (Inl e, o')
         | Inr change \<Rightarrow>
             (let o1 = (case rev_deliveryInfo revision of None \<Rightarrow> o' | Some d \<Rightarrow> o'\<lparr>ord_deliveryInfo := d\<rparr>);
                  (r, items) = updateItems revision (ord_lineItems o1);
                  o2 = o1\<lparr>ord_lineItems := items\<rparr>
              in case r of
                   Inl e \<Rightarrow> (Inl e, o2)
                 | Inr _ \<Rightarrow> (Inr [OrderRevised revision (currentOrderTotal change) (newOrderTotal change)],
                             o2\<lparr>ord_state := OrderApproved\<rparr>)))
      else (Inl (order_unsupported o'), o'))"

section \<open>The service\<close>

record ('r, 'w) order_service =
  findOrder :: "int \<Rightarrow> ('w, order option) eff"
  saveOrder :: "order \<Rightarrow> ('w, order) eff"
  publishOrder :: "order \<Rightarrow> order_event list \<Rightarrow> ('w, unit) eff"
  createReviseSaga :: "int \<Rightarrow> int \<Rightarrow> order_revision \<Rightarrow> ('w, 'r) eff"   \<comment> \<open>customer, order, revision\<close>

definition os_findOrFail :: "('r, 'w) order_service \<Rightarrow> int \<Rightarrow> ('w, order) eff" where
  "os_findOrFail S i = andThen (findOrder S i) (\<lambda>found.
     case found of None \<Rightarrow> throw (OrderNotFoundException i) | Some o' \<Rightarrow> ret o')"

text \<open>
  \<open>update(id, mutate)\<close>. The change gives its events and a result, which \<open>beginRevise\<close> keeps in a variable of
  its own: it is given back with the order that was saved.
\<close>

definition os_update ::
    "('r, 'w) order_service \<Rightarrow> int \<Rightarrow> (order, 'a \<times> order_event list) eff \<Rightarrow> ('w, order \<times> 'a) eff" where
  "os_update S i mutate =
     andThen (os_findOrFail S i) (\<lambda>found.
       case mutate found of
         (Inl e, _) \<Rightarrow> throw e
       | (Inr (result, events), changed) \<Rightarrow>
           andThen (saveOrder S changed) (\<lambda>saved.
           andThen (publishOrder S saved events) (\<lambda>_. ret (saved, result))))"

definition plain_change :: "(order, order_event list) eff \<Rightarrow> (order, unit \<times> order_event list) eff" where
  "plain_change m = andThen m (\<lambda>events. ret ((), events))"

definition os_approve :: "('r, 'w) order_service \<Rightarrow> int \<Rightarrow> ('w, unit) eff" where
  "os_approve S i = andThen (os_update S i (plain_change order_noteApproved)) (\<lambda>_. ret ())"

definition os_reject :: "('r, 'w) order_service \<Rightarrow> int \<Rightarrow> ('w, unit) eff" where
  "os_reject S i = andThen (os_update S i (plain_change order_noteRejected)) (\<lambda>_. ret ())"

definition os_beginCancel :: "('r, 'w) order_service \<Rightarrow> int \<Rightarrow> ('w, unit) eff" where
  "os_beginCancel S i = andThen (os_update S i (plain_change order_cancel)) (\<lambda>_. ret ())"

definition os_undoCancel :: "('r, 'w) order_service \<Rightarrow> int \<Rightarrow> ('w, unit) eff" where
  "os_undoCancel S i = andThen (os_update S i (plain_change order_undoPendingCancel)) (\<lambda>_. ret ())"

definition os_revise :: "('r, 'w) order_service \<Rightarrow> int \<Rightarrow> order_revision \<Rightarrow> ('w, order) eff" where
  "os_revise S i revision =
     andThen (os_findOrFail S i) (\<lambda>o'.
     andThen (createReviseSaga S (ord_customerId o') i revision) (\<lambda>_. ret o'))"

definition os_beginRevise ::
    "('r, 'w) order_service \<Rightarrow> int \<Rightarrow> order_revision \<Rightarrow> ('w, order \<times> line_item_quantity_change) eff" where
  "os_beginRevise S i revision = os_update S i (order_revise revision)"

definition os_undoPendingRevision :: "('r, 'w) order_service \<Rightarrow> int \<Rightarrow> ('w, unit) eff" where
  "os_undoPendingRevision S i = andThen (os_update S i (plain_change order_rejectRevision)) (\<lambda>_. ret ())"

definition os_confirmRevision :: "('r, 'w) order_service \<Rightarrow> int \<Rightarrow> order_revision \<Rightarrow> ('w, unit) eff" where
  "os_confirmRevision S i revision =
     andThen (os_update S i (plain_change (order_confirmRevision revision))) (\<lambda>_. ret ())"

definition approveOrder :: "('r, 'w) order_service \<Rightarrow> int \<Rightarrow> ('w, handler_result) eff" where
  "approveOrder S orderId = andThen (os_approve S orderId) (\<lambda>_. ret (One ReplyNothing))"

definition rejectOrder :: "('r, 'w) order_service \<Rightarrow> int \<Rightarrow> ('w, handler_result) eff" where
  "rejectOrder S orderId = andThen (os_reject S orderId) (\<lambda>_. ret (One ReplyNothing))"

section \<open>What a revision does\<close>

lemma foldl_money_add: "amount (foldl money_add m ms) = amount m + sum_list (map amount ms)"
  by (induction ms arbitrary: m) (auto simp: money_defs)

lemma amount_simps:
  "amount (new_Money None) = 0" "amount (money_add m n) = amount m + amount n"
  "amount (item_total li) = amount (price li) * item_quantity li"
  by (simp_all add: money_defs item_total_def)

lemma money_eq: "m = n \<longleftrightarrow> amount m = amount (n :: money)"
  by (cases m; cases n) simp

lemma find_by_key: "distinct (map key xs) \<Longrightarrow> x \<in> set xs \<Longrightarrow> find (\<lambda>y. key y = key x) xs = Some x"
  by (induction xs) auto

lemma find_key_eq: "find (\<lambda>y. key y = k) xs = Some x \<Longrightarrow> x \<in> set xs \<and> key x = k"
  by (auto simp: find_Some_iff)

lemma sum_list_same_keys:
  fixes g :: "'k \<Rightarrow> int"
  assumes "distinct ks" and "distinct ls" and "set ks = set ls"
  shows "sum_list (map g ks) = sum_list (map g ls)"
  using assms by (simp add: sum_list_distinct_conv_sum_set)

definition revised_quantity :: "order_revision \<Rightarrow> int \<Rightarrow> int" where
  "revised_quantity revision k =
     (case find (\<lambda>item. item_menuItemId item = k) (revisedOrderLineItems revision) of
        Some item \<Rightarrow> item_quantity item | None \<Rightarrow> 0)"

lemma updateItems_all:
  "item_menuItemId ` set items \<subseteq> item_menuItemId ` set (revisedOrderLineItems revision) \<Longrightarrow>
   updateItems revision items = (Inr (),
     map (\<lambda>li. li\<lparr>item_quantity := revised_quantity revision (item_menuItemId li)\<rparr>) items)"
proof (induction items)
  case (Cons li items)
  then obtain item where "item \<in> set (revisedOrderLineItems revision)" "item_menuItemId item = item_menuItemId li"
    by force
  then have "find (\<lambda>item. item_menuItemId item = item_menuItemId li) (revisedOrderLineItems revision) \<noteq> None"
    by (auto simp: find_None_iff)
  then show ?case using Cons by (auto simp: revised_quantity_def)
qed simp

lemma updateItems_missing:
  "\<not> item_menuItemId ` set items \<subseteq> item_menuItemId ` set (revisedOrderLineItems revision) \<Longrightarrow>
   fst (updateItems revision items) = Inl IllegalArgumentException"
proof (induction items)
  case (Cons li items)
  show ?case
  proof (cases "find (\<lambda>item. item_menuItemId item = item_menuItemId li) (revisedOrderLineItems revision)")
    case (Some revised)
    then have "item_menuItemId li \<in> item_menuItemId ` set (revisedOrderLineItems revision)"
      using find_key_eq [OF Some] by force
    then show ?thesis using Cons Some by (auto split: prod.split)
  qed simp
qed simp

lemma list_all2_map_eq: "list_all2 (\<lambda>x y. f y = g x) xs ys \<Longrightarrow> map f ys = map g xs"
  by (induction rule: list_all2_induct) auto

text \<open>The announced total is that of the order with the revised quantities.\<close>

lemma quantityChange_total:
  assumes "quantityChange items revision = Inr change"
    and "distinct (map item_menuItemId items)" and "distinct (map item_menuItemId (revisedOrderLineItems revision))"
    and "item_menuItemId ` set items \<subseteq> item_menuItemId ` set (revisedOrderLineItems revision)"
  shows "orderTotal (map (\<lambda>li. li\<lparr>item_quantity := revised_quantity revision (item_menuItemId li)\<rparr>) items)
    = newOrderTotal change"
proof -
  let ?R = "revisedOrderLineItems revision"
  let ?g = "\<lambda>k. case findItem items k of Some li \<Rightarrow> amount (price li) * (revised_quantity revision k - item_quantity li)
                                       | None \<Rightarrow> 0"
  obtain ds where ds: "traverse (\<lambda>item. case findItem items (item_menuItemId item) of
        None \<Rightarrow> Inl TypeError | Some li \<Rightarrow> Inr (deltaForChangedQuantity li (item_quantity item))) ?R = Inr ds"
    and change: "newOrderTotal change = money_add (orderTotal items) (foldl money_add (new_Money None) ds)"
    using assms(1) by (auto simp: quantityChange_def changeToOrderTotal_def map_sum_eq_Inr)
  have known: "findItem items (item_menuItemId item) \<noteq> None \<and> amount d = ?g (item_menuItemId item)"
    if "(item, d) \<in> set (zip ?R ds)" for item d
  proof -
    have "item \<in> set ?R" using that by (rule set_zip_leftD)
    then have "revised_quantity revision (item_menuItemId item) = item_quantity item"
      using find_by_key [OF assms(3), of item] by (simp add: revised_quantity_def)
    moreover have "(case findItem items (item_menuItemId item) of None \<Rightarrow> Inl TypeError
        | Some li \<Rightarrow> Inr (deltaForChangedQuantity li (item_quantity item))) = Inr d"
      using ds that unfolding traverse_Inr list_all2_iff by blast
    ultimately show ?thesis
      by (auto simp: deltaForChangedQuantity_def money_defs split: option.splits)
  qed
  have len: "length ds = length ?R"
    using ds [unfolded traverse_Inr] by (simp add: list_all2_lengthD)
  have "list_all2 (\<lambda>item d. amount d = ?g (item_menuItemId item)) ?R ds"
    unfolding list_all2_iff
  proof (intro conjI ballI)
    show "case p of (item, d) \<Rightarrow> amount d = ?g (item_menuItemId item)" if "p \<in> set (zip ?R ds)" for p
      using known that by (cases p) blast
  qed (simp add: len)
  then have "map amount ds = map ?g (map item_menuItemId ?R)"
    unfolding map_map comp_def by (rule list_all2_map_eq)
  moreover have "item_menuItemId ` set ?R \<subseteq> item_menuItemId ` set items"
  proof
    fix k assume "k \<in> item_menuItemId ` set ?R"
    then obtain item where "item \<in> set ?R" "k = item_menuItemId item" by auto
    moreover from this len obtain d where "(item, d) \<in> set (zip ?R ds)"
      by (metis in_set_impl_in_set_zip1)
    ultimately show "k \<in> item_menuItemId ` set items"
      using known [of item d] find_key_eq [of item_menuItemId "item_menuItemId item" items]
      by (force simp: findItem_def)
  qed
  ultimately have "sum_list (map amount ds) = sum_list (map ?g (map item_menuItemId items))"
    using assms(2-4) sum_list_same_keys [of "map item_menuItemId ?R" "map item_menuItemId items" ?g] by auto
  also have "\<dots> = sum_list (map (\<lambda>li. amount (price li) * (revised_quantity revision (item_menuItemId li) - item_quantity li)) items)"
    unfolding map_map by (rule arg_cong [where f = sum_list], rule map_cong [OF refl])
      (simp add: findItem_def find_by_key [OF assms(2)])
  finally show ?thesis
    unfolding money_eq change
    by (simp add: orderTotal_def foldl_money_add amount_simps comp_def sum_list_addf [symmetric] right_diff_distrib)
qed


definition sample_order :: order where
  "sample_order = \<lparr>ord_id = 1, ord_customerId = 7,
     ord_lineItems = [\<lparr>item_id = 1, item_menuItemId = 10, item_name = ''Pizza'', item_quantity = 3, price = \<lparr>amount = 12\<rparr>\<rparr>],
     ord_state = OrderApproved, ord_deliveryInfo = \<lparr>di_time = 0, di_address = ''''\<rparr>, ord_minimum = \<lparr>amount = 20\<rparr>\<rparr>"

definition sample_revision :: "int \<Rightarrow> order_revision" where
  "sample_revision n = \<lparr>revisedOrderLineItems =
     [\<lparr>item_id = 1, item_menuItemId = 10, item_name = ''Pizza'', item_quantity = n\<rparr>], rev_deliveryInfo = None\<rparr>"


end
