(* ===== verification/SagaDsl.thy ===== *)
theory SagaDsl
  imports SagaDefinition Samples
begin

text \<open>
  The builders a saga is written with (\<open>sagas/orchestration/dsl/\<close>): \<open>step()\<close>, \<open>invokeLocal\<close>,
  \<open>invokeParticipant\<close>, \<open>withCompensation\<close>, \<open>onReply\<close> and \<open>build()\<close>.

  The builders of one saga share the list of its steps, which each of them extends: it is passed
  along as their parent.
\<close>

section \<open>Endpoints and parameters\<close>

record endpoint_builder =
  eb_command :: string
  eb_channel :: "string option"
  eb_replies :: "string list"

definition forCommand :: "string \<Rightarrow> endpoint_builder" where
  "forCommand cmd = \<lparr>eb_command = cmd, eb_channel = None, eb_replies = []\<rparr>"

definition eb_withChannel :: "string \<Rightarrow> endpoint_builder \<Rightarrow> endpoint_builder" where
  "eb_withChannel ch b = b\<lparr>eb_channel := Some ch\<rparr>"

definition eb_withReply :: "string \<Rightarrow> endpoint_builder \<Rightarrow> endpoint_builder" where
  "eb_withReply r b = b\<lparr>eb_replies := eb_replies b @ [r]\<rparr>"

text \<open>A channel that was never set is undefined, which is the text it has in a header.\<close>

definition eb_build :: "endpoint_builder \<Rightarrow> command_endpoint" where
  "eb_build b = \<lparr>ep_channel = text_of (eb_channel b), ep_command = eb_command b, ep_replies = eb_replies b\<rparr>"

record params_and_command =
  pc_params :: "(string, string) jsmap"
  pc_command :: jsobj

definition invocation_withCommand :: "string \<Rightarrow> string \<Rightarrow> jsobj \<Rightarrow> params_and_command" where
  "invocation_withCommand key val cmd = \<lparr>pc_params = map_from [(key, val)], pc_command = cmd\<rparr>"

section \<open>The definition builder\<close>

type_synonym 's definition_builder = "'s saga_step list"

definition addStep :: "'s saga_step \<Rightarrow> 's definition_builder \<Rightarrow> 's definition_builder" where
  "addStep step sagaSteps = sagaSteps @ [step]"

definition build_definition :: "'s definition_builder \<Rightarrow> 's saga_step list" where
  "build_definition sagaSteps = sagaSteps"

text \<open>\<open>step()\<close> of a saga starts an empty definition; a \<open>StepBuilder\<close> is its parent.\<close>

definition first_step :: "'s definition_builder" where
  "first_step = []"

section \<open>Local steps\<close>

record 's local_step_builder =
  lb_parent :: "'s definition_builder"
  lb_handler :: "('s, unit) eff"
  lb_compensation :: "('s, bool) eff option"

definition invokeLocal :: "('s, unit) eff \<Rightarrow> 's definition_builder \<Rightarrow> 's local_step_builder" where
  "invokeLocal h parent = \<lparr>lb_parent = parent, lb_handler = h, lb_compensation = None\<rparr>"

definition lb_withCompensation :: "('s, bool) eff \<Rightarrow> 's local_step_builder \<Rightarrow> 's local_step_builder" where
  "lb_withCompensation c b = b\<lparr>lb_compensation := Some c\<rparr>"

definition lb_addStep :: "'s local_step_builder \<Rightarrow> 's definition_builder" where
  "lb_addStep b = addStep (LocalStep \<lparr>ls_handler = lb_handler b, ls_compensation = lb_compensation b\<rparr>) (lb_parent b)"

definition lb_step :: "'s local_step_builder \<Rightarrow> 's definition_builder" where
  "lb_step b = lb_addStep b"

definition lb_build :: "'s local_step_builder \<Rightarrow> 's saga_step list" where
  "lb_build b = build_definition (lb_addStep b)"

section \<open>Participant steps\<close>

text \<open>
  What a provider gives: a command with its destination, or a bare command whose class says
  where it goes.
\<close>

datatype provided = WithDestination command_with_destination | BareCommand jsobj

datatype 's with_args =
    EndpointArgs command_endpoint "('s, jsobj) eff" "('s, bool) eff option"
  | ProviderArgs "('s, provided) eff" "('s, bool) eff option"

fun isEndpoint :: "'s with_args \<Rightarrow> bool" where
  "isEndpoint (EndpointArgs _ _ _) = True"
| "isEndpoint (ProviderArgs _ _) = False"

text \<open>
  The wrapper around a provider keeps the destination it has found in a variable of its own,
  which it reads on every later call: a cell of the state. \<open>destinationOf\<close> is the metadata that
  \<open>@CommandDestination()\<close> put on a class.
\<close>

record 's destination_cell =
  cell_get :: "'s \<Rightarrow> string option"
  cell_set :: "string option \<Rightarrow> 's \<Rightarrow> 's"

definition withDestination ::
    "(string \<Rightarrow> string option) \<Rightarrow> 's destination_cell \<Rightarrow> ('s, provided) eff \<Rightarrow>
     ('s, command_with_destination) eff" where
  "withDestination destinationOf cell action =
     andThen action (\<lambda>cmd.
       case cmd of
         WithDestination c \<Rightarrow> ret c
       | BareCommand c \<Rightarrow> (\<lambda>s.
           let s' = (if cell_get cell s = None \<or> cell_get cell s = Some ''''
                     then cell_set cell (destinationOf (obj_class c)) s else s)
           in (case cell_get cell s' of
                 None \<Rightarrow> (Inl (ErrorException ''Missing @CommandDestination() for [object Object]''), s')
               | Some d \<Rightarrow>
                   if d = '''' then (Inl (ErrorException ''Missing @CommandDestination() for [object Object]''), s')
                   else (Inr (new_CommandWithDestination d c None None), s'))))"

definition with_invocation ::
    "(string \<Rightarrow> string option) \<Rightarrow> 's destination_cell \<Rightarrow> 's with_args \<Rightarrow> 's invocation" where
  "with_invocation destinationOf cell args =
     (case args of
        EndpointArgs endpoint provider predicate \<Rightarrow>
          new_ParticipantEndpointInvocation endpoint provider predicate
      | ProviderArgs action predicate \<Rightarrow>
          new_ParticipantInvocation (withDestination destinationOf cell action) predicate)"

record 's invoke_builder =
  ib_parent :: "'s definition_builder"
  ib_actionReplyHandlers :: "(string, 's reply_handler) jsmap"
  ib_compensationReplyHandlers :: "(string, 's reply_handler) jsmap"
  ib_action :: "'s invocation option"
  ib_compensation :: "'s invocation option"

definition new_InvokeParticipantStepBuilder :: "'s definition_builder \<Rightarrow> 's invoke_builder" where
  "new_InvokeParticipantStepBuilder parent =
     \<lparr>ib_parent = parent, ib_actionReplyHandlers = [], ib_compensationReplyHandlers = [],
      ib_action = None, ib_compensation = None\<rparr>"

definition withAction ::
    "(string \<Rightarrow> string option) \<Rightarrow> 's destination_cell \<Rightarrow> 's with_args \<Rightarrow> 's invoke_builder \<Rightarrow> 's invoke_builder" where
  "withAction destinationOf cell args b = b\<lparr>ib_action := Some (with_invocation destinationOf cell args)\<rparr>"

definition withCompensation ::
    "(string \<Rightarrow> string option) \<Rightarrow> 's destination_cell \<Rightarrow> 's with_args \<Rightarrow> 's invoke_builder \<Rightarrow> 's invoke_builder" where
  "withCompensation destinationOf cell args b =
     b\<lparr>ib_compensation := Some (with_invocation destinationOf cell args)\<rparr>"

definition invokeParticipant ::
    "(string \<Rightarrow> string option) \<Rightarrow> 's destination_cell \<Rightarrow> 's with_args \<Rightarrow> 's definition_builder \<Rightarrow> 's invoke_builder" where
  "invokeParticipant destinationOf cell args parent =
     withAction destinationOf cell args (new_InvokeParticipantStepBuilder parent)"

definition step_withCompensation ::
    "(string \<Rightarrow> string option) \<Rightarrow> 's destination_cell \<Rightarrow> 's with_args \<Rightarrow> 's definition_builder \<Rightarrow> 's invoke_builder" where
  "step_withCompensation destinationOf cell args parent =
     withCompensation destinationOf cell args (new_InvokeParticipantStepBuilder parent)"

definition onReply :: "string \<Rightarrow> (jsobj \<Rightarrow> ('s, unit) eff) \<Rightarrow> 's invoke_builder \<Rightarrow> 's invoke_builder" where
  "onReply type handler b =
     (if ib_compensation b \<noteq> None
      then b\<lparr>ib_compensationReplyHandlers :=
             map_set type \<lparr>rh_type = type, rh_handler = handler\<rparr> (ib_compensationReplyHandlers b)\<rparr>
      else b\<lparr>ib_actionReplyHandlers :=
             map_set type \<lparr>rh_type = type, rh_handler = handler\<rparr> (ib_actionReplyHandlers b)\<rparr>)"

definition ib_addStep :: "'s invoke_builder \<Rightarrow> 's definition_builder" where
  "ib_addStep b = addStep (ParticipantInvocationStep
     \<lparr>actionReplyHandlers = ib_actionReplyHandlers b,
      compensationReplyHandlers = ib_compensationReplyHandlers b,
      participantInvocation = ib_action b, ps_compensation = ib_compensation b\<rparr>) (ib_parent b)"

definition ib_step :: "'s invoke_builder \<Rightarrow> 's definition_builder" where
  "ib_step b = ib_addStep b"

definition ib_build :: "'s invoke_builder \<Rightarrow> 's saga_step list" where
  "ib_build b = build_definition (ib_addStep b)"

section \<open>From one step to the next\<close>

text \<open>What unfolds the choice of the next step of a saga that is given as a list, and a state by its position.\<close>

lemma nextFrom_stop:
  "\<not> (0 \<le> i \<and> i < int (length steps)) \<Longrightarrow>
   nextFrom steps c i k = ret \<lparr>st_skipped = k, st_compensating = c, st_step = None\<rparr>"
  by (subst nextFrom.simps) auto

lemma nextFrom_go:
  "0 \<le> i \<Longrightarrow> i < int (length steps) \<Longrightarrow>
   nextFrom steps c i k = andThen (applies (steps ! nat i) c) (\<lambda>b.
      if b then ret \<lparr>st_skipped = k, st_compensating = c, st_step = Some (steps ! nat i)\<rparr>
      else nextFrom steps c (i + (if c then -1 else 1)) (Suc k))"
  by (subst nextFrom.simps) auto

lemmas next_step_defs = executeNextStep_def nextStepToExecute_def nextFrom_go nextFrom_stop applies_def isEmpty_def
  size_of_def executeStep_Some nextState_def saga_step_defs andThen_def tryCatch_def

definition at_position :: "int \<Rightarrow> bool \<Rightarrow> exec_state" where
  "at_position i c = \<lparr>currentlyExecuting = i, es_compensating = c, es_endState = False\<rparr>"

section \<open>What the builders build\<close>

lemmas builder_defs = ib_step_def ib_build_def ib_addStep_def onReply_def invokeParticipant_def withAction_def
  withCompensation_def step_withCompensation_def with_invocation_def new_InvokeParticipantStepBuilder_def addStep_def
  build_definition_def first_step_def
  lb_step_def lb_build_def lb_addStep_def invokeLocal_def lb_withCompensation_def

text \<open>A cell for providers that are never asked for a destination: endpoints, and those that give one.\<close>

definition no_cell :: "'s destination_cell" where
  "no_cell = \<lparr>cell_get = (\<lambda>_. None), cell_set = (\<lambda>_ s. s)\<rparr>"

lemma build_appends:
  "\<exists>step. lb_build lb = lb_parent lb @ [step]" "\<exists>step. ib_build ib = ib_parent ib @ [step]"
  by (simp_all add: lb_build_def lb_addStep_def ib_build_def ib_addStep_def build_definition_def addStep_def)

text \<open>
  A reply handler belongs to the side of the step that was declared last: before
  \<open>withCompensation\<close> it handles the replies to the action and none of the compensation's, after it
  the other way round.
\<close>

lemma onReply_side:
  assumes "filled m REPLY_TYPE" and "getHeader m REPLY_TYPE '''' = type"
  shows "getReply (last (ib_build (onReply type h b))) m (ib_compensation b \<noteq> None)
      = Inr (Some \<lparr>rh_type = type, rh_handler = h\<rparr>)
    \<and> getReply (last (ib_build (onReply type h b))) m (ib_compensation b = None)
      = getReply (last (ib_build b)) m (ib_compensation b = None)"
  using assms
  by (simp add: onReply_def ib_build_def ib_addStep_def build_definition_def addStep_def
      ps_getReply_def getRequiredHeader_filled)

section \<open>Concrete builders\<close>

lemma onReply_side_witness:
  "getReply (last (ib_build (onReply ''Reply'' (\<lambda>_. ret ()) (new_InvokeParticipantStepBuilder ([] :: unit saga_step list)))))
     (sample_reply SUCCESS) False = Inr (Some \<lparr>rh_type = ''Reply'', rh_handler = (\<lambda>_. ret ())\<rparr>)"
proof -
  have "getHeader (sample_reply SUCCESS) REPLY_TYPE '''' = ''Reply''"
    by (simp add: sample_reply_def sample_message_def new_message_def getHeader_def)
  then show ?thesis
    using onReply_side [of "sample_reply SUCCESS" "''Reply''" "\<lambda>_. ret ()"
        "new_InvokeParticipantStepBuilder ([] :: unit saga_step list)"] filled_sample_reply(1)
    by (simp add: new_InvokeParticipantStepBuilder_def)
qed

end
