(* ===== verification/CustomersOrders.thy ===== *)
theory CustomersOrders
  imports FtgoOrder SagaDsl SagaRefinement
begin

text \<open>
  The example of customers and orders (\<open>examples/sagas-customers-orders/\<close>): the customer with his credit
  limit (\<open>customers/entities/customer.entity.ts\<close>, \<open>customers/customer.service.ts\<close>,
  \<open>customers/customer-command-handlers.ts\<close>) and the saga that creates an order when the customer has the
  credit (\<open>orders/sagas/create-order/create-order.saga.ts\<close>), built with the builders of theory SagaDsl and
  run by the definitions of theory SagaDefinition.

  Its class \<open>Money\<close> is that of theory FtgoOrder without the multiplication. The tables are parameters.
\<close>

section \<open>Customers\<close>

record credit_reservation =
  cr_orderId :: int
  cr_amount :: money

record customer =
  cu_id :: int
  cu_name :: string
  cu_creditLimit :: money
  cu_creditReservations :: "credit_reservation list"

definition CustomerNotFound :: "int \<Rightarrow> jsobj" where
  "CustomerNotFound i = \<lparr>obj_class = ''CustomerNotFound'', obj_own = JObj [(''id'', JNum i)]\<rparr>"

definition CustomerCreditLimitExceeded :: jsobj where
  "CustomerCreditLimitExceeded = \<lparr>obj_class = ''CustomerCreditLimitExceeded'', obj_own = JObj []\<rparr>"

definition availableCredit :: "customer \<Rightarrow> money" where
  "availableCredit c = money_subtract (cu_creditLimit c)
     (foldl (\<lambda>totalReserved r. money_add totalReserved (cr_amount r)) (new_Money None) (cu_creditReservations c))"

definition customer_reserveCredit :: "int \<Rightarrow> money \<Rightarrow> (customer, unit) eff" where
  "customer_reserveCredit orderId orderSum c =
     (if isGreaterThanOrEqual (availableCredit c) orderSum
      then (Inr (), c\<lparr>cu_creditReservations := cu_creditReservations c @ [\<lparr>cr_orderId = orderId, cr_amount = orderSum\<rparr>]\<rparr>)
      else (Inl (ThrownObject CustomerCreditLimitExceeded), c))"

record 'w customer_repository =
  findCustomer :: "int \<Rightarrow> ('w, customer option) eff"
  saveCustomer :: "customer \<Rightarrow> ('w, customer) eff"

definition cs_reserveCredit :: "'w customer_repository \<Rightarrow> int \<Rightarrow> int \<Rightarrow> money \<Rightarrow> ('w, customer) eff" where
  "cs_reserveCredit R customerId orderId orderSum =
     andThen (findCustomer R customerId) (\<lambda>found.
       case found of
         None \<Rightarrow> throw (ThrownObject (CustomerNotFound customerId))
       | Some c \<Rightarrow> (case customer_reserveCredit orderId orderSum c of
             (Inl e, _) \<Rightarrow> throw e
           | (Inr _, c') \<Rightarrow> saveCustomer R c'))"

record reserve_credit_command =
  rc_customerId :: int
  rc_orderId :: int
  rc_orderTotal :: money

definition money_json :: "money \<Rightarrow> json" where
  "money_json m = JObj [(''amount'', JNum (amount m))]"

definition ReserveCreditCommand :: "reserve_credit_command \<Rightarrow> jsobj" where
  "ReserveCreditCommand c = \<lparr>obj_class = ''ReserveCreditCommand'', obj_own = JObj
     [(''customerId'', JNum (rc_customerId c)), (''orderId'', JNum (rc_orderId c)),
      (''orderTotal'', money_json (rc_orderTotal c))]\<rparr>"

definition CustomerCreditReserved :: "credit_reservation list \<Rightarrow> jsobj" where
  "CustomerCreditReserved rs = \<lparr>obj_class = ''CustomerCreditReserved'', obj_own = JObj [(''creditReservations'',
     JArr (map (\<lambda>r. JObj [(''orderId'', JNum (cr_orderId r)), (''amount'', money_json (cr_amount r))]) rs))]\<rparr>"

definition handler_reserveCredit :: "'w customer_repository \<Rightarrow> reserve_credit_command \<Rightarrow> ('w, handler_result) eff" where
  "handler_reserveCredit R c =
     andThen (cs_reserveCredit R (rc_customerId c) (rc_orderId c) (rc_orderTotal c)) (\<lambda>customer.
       ret (One (ReplyObject (ObjectArg (CustomerCreditReserved (cu_creditReservations customer))))))"

section \<open>The saga\<close>

datatype rejection_reason = UNKNOWN_CUSTOMER | INSUFFICIENT_CREDIT

datatype created_order_state = REJECTED | PENDING | APPROVED

record create_order_data =
  co_id :: "int option"
  co_customerId :: int
  co_orderTotal :: money
  co_rejectionReason :: "rejection_reason option"

text \<open>What an update of a row changes; a reason that is undefined is left as it is.\<close>

record order_patch =
  op_state :: created_order_state
  op_reason :: "rejection_reason option"

record 'w order_repository =
  insertOrder :: "create_order_data \<Rightarrow> ('w, int) eff"
  updateOrder :: "int option \<Rightarrow> order_patch \<Rightarrow> ('w, unit) eff"

definition handleCustomerNotFound :: "jsobj \<Rightarrow> (create_order_data \<times> 'w, unit) eff" where
  "handleCustomerNotFound reply s = (Inr (), ((fst s)\<lparr>co_rejectionReason := Some UNKNOWN_CUSTOMER\<rparr>, snd s))"

definition handleCustomerCreditLimitExceeded :: "jsobj \<Rightarrow> (create_order_data \<times> 'w, unit) eff" where
  "handleCustomerCreditLimitExceeded reply s = (Inr (), ((fst s)\<lparr>co_rejectionReason := Some INSUFFICIENT_CREDIT\<rparr>, snd s))"

text \<open>The identifier of an order that has none is undefined, and is left out of the command.\<close>

definition createReserveCreditCommand :: "(create_order_data \<times> 'w, jsobj) eff" where
  "createReserveCreditCommand s = (Inr (case co_id (fst s) of
       Some i \<Rightarrow> ReserveCreditCommand \<lparr>rc_customerId = co_customerId (fst s), rc_orderId = i,
           rc_orderTotal = co_orderTotal (fst s)\<rparr>
     | None \<Rightarrow> \<lparr>obj_class = ''ReserveCreditCommand'', obj_own = JObj
         [(''customerId'', JNum (co_customerId (fst s))), (''orderTotal'', money_json (co_orderTotal (fst s)))]\<rparr>), s)"

definition saga_create :: "'w order_repository \<Rightarrow> (create_order_data \<times> 'w, unit) eff" where
  "saga_create R s = (case insertOrder R (fst s) (snd s) of
     (Inl e, w) \<Rightarrow> (Inl e, (fst s, w))
   | (Inr i, w) \<Rightarrow> (Inr (), ((fst s)\<lparr>co_id := Some i\<rparr>, w)))"

definition saga_approve :: "'w order_repository \<Rightarrow> (create_order_data \<times> 'w, unit) eff" where
  "saga_approve R s = (case updateOrder R (co_id (fst s)) \<lparr>op_state = APPROVED, op_reason = None\<rparr> (snd s) of
     (r, w) \<Rightarrow> (r, (fst s, w)))"

definition saga_reject :: "'w order_repository \<Rightarrow> (create_order_data \<times> 'w, unit) eff" where
  "saga_reject R s = (case updateOrder R (co_id (fst s))
       \<lparr>op_state = REJECTED, op_reason = co_rejectionReason (fst s)\<rparr> (snd s) of
     (r, w) \<Rightarrow> (r, (fst s, w)))"

definition reserveCreditEndpoint :: command_endpoint where
  "reserveCreditEndpoint =
     \<lparr>ep_channel = ''customer'', ep_command = ''ReserveCreditCommand'', ep_replies = [''Success'']\<rparr>"

text \<open>
  A compensation that is an async method resolves with undefined, which counts as false. The wrapper of bare
  commands is not used, nor is its cell.
\<close>

definition createOrderSaga :: "'w order_repository \<Rightarrow> (create_order_data \<times> 'w) saga_step list" where
  "createOrderSaga R =
     lb_build (invokeLocal (saga_approve R)
       (ib_step (onReply ''CustomerCreditLimitExceeded'' handleCustomerCreditLimitExceeded
         (onReply ''CustomerNotFound'' handleCustomerNotFound
           (invokeParticipant (\<lambda>_. None) \<lparr>cell_get = (\<lambda>_. None), cell_set = (\<lambda>_ s. s)\<rparr>
             (EndpointArgs reserveCreditEndpoint createReserveCreditCommand None)
             (lb_step (lb_withCompensation (andThen (saga_reject R) (\<lambda>_. ret False))
               (invokeLocal (saga_create R) first_step))))))))"

section \<open>The order and its saga\<close>

lemma createOrderSaga_steps:
  "createOrderSaga R =
     [LocalStep \<lparr>ls_handler = saga_create R, ls_compensation = Some (andThen (saga_reject R) (\<lambda>_. ret False))\<rparr>,
      ParticipantInvocationStep
        \<lparr>actionReplyHandlers =
           [(''CustomerNotFound'', \<lparr>rh_type = ''CustomerNotFound'', rh_handler = handleCustomerNotFound\<rparr>),
            (''CustomerCreditLimitExceeded'',
              \<lparr>rh_type = ''CustomerCreditLimitExceeded'', rh_handler = handleCustomerCreditLimitExceeded\<rparr>)],
         compensationReplyHandlers = [],
         participantInvocation = Some (new_ParticipantEndpointInvocation reserveCreditEndpoint
           createReserveCreditCommand None), ps_compensation = None\<rparr>,
      LocalStep \<lparr>ls_handler = saga_approve R, ls_compensation = None\<rparr>]"
  by (simp add: createOrderSaga_def lb_build_def lb_addStep_def lb_step_def lb_withCompensation_def invokeLocal_def
      ib_step_def ib_addStep_def onReply_def invokeParticipant_def withAction_def with_invocation_def
      new_InvokeParticipantStepBuilder_def addStep_def build_definition_def first_step_def)

text \<open>Three steps: one position forward, and back to before the first.\<close>

definition at_create :: exec_state where
  "at_create = \<lparr>currentlyExecuting = 0, es_compensating = False, es_endState = False\<rparr>"

definition at_reserve :: exec_state where
  "at_reserve = \<lparr>currentlyExecuting = 1, es_compensating = False, es_endState = False\<rparr>"

definition at_approve :: exec_state where
  "at_approve = \<lparr>currentlyExecuting = 2, es_compensating = False, es_endState = False\<rparr>"

lemma started:
  "insertOrder R d w = (Inr i, w1) \<Longrightarrow>
   start (createOrderSaga R) (d, w) = (Inr (step_actions new_SagaExecutionState at_create (LocalStepOutcome None)),
     (d\<lparr>co_id := Some i\<rparr>, w1))"
  by (simp add: start_def new_SagaExecutionState_def createOrderSaga_steps next_step_defs saga_create_def at_create_def)

lemma credit_asked:
  "co_id d = Some i \<Longrightarrow>
   executeNextStep (createOrderSaga R) at_create (d, w) = (Inr (step_actions at_create at_reserve
     (RemoteStepOutcome [new_CommandWithDestination ''customer''
        (ReserveCreditCommand \<lparr>rc_customerId = co_customerId d, rc_orderId = i, rc_orderTotal = co_orderTotal d\<rparr>) None None])),
     (d, w))"
  by (simp add: createOrderSaga_steps next_step_defs at_create_def at_reserve_def new_ParticipantEndpointInvocation_def
      createReserveCreditCommand_def reserveCreditEndpoint_def)

lemma approved:
  "updateOrder R (co_id d) \<lparr>op_state = APPROVED, op_reason = None\<rparr> w = (Inr (), w1) \<Longrightarrow>
   executeNextStep (createOrderSaga R) at_reserve (d, w) =
     (Inr (step_actions at_reserve at_approve (LocalStepOutcome None)), (d, w1))"
  by (simp add: createOrderSaga_steps next_step_defs at_approve_def at_reserve_def saga_approve_def)

lemma finished:
  "executeNextStep (createOrderSaga R) at_approve s = (Inr (makeEndStateSagaActions at_approve), s)"
  by (simp add: createOrderSaga_steps next_step_defs at_approve_def)

text \<open>Asking whether the first step has a compensation runs it; the answer is no.\<close>

lemma rejected:
  "updateOrder R (co_id d) \<lparr>op_state = REJECTED, op_reason = co_rejectionReason d\<rparr> w = (Inr (), w1) \<Longrightarrow>
   executeNextStep (createOrderSaga R) (startCompensating at_reserve) (d, w) =
     (Inr (makeEndStateSagaActions (startCompensating at_reserve)), (d, w1))"
  by (simp add: createOrderSaga_steps next_step_defs at_reserve_def startCompensating_def saga_reject_def)

section \<open>From the customer's credit to the order\<close>

lemma run_saga_Cons:
  "start steps s = (Inr a, s1) \<Longrightarrow> sa_updatedState a = Some u \<Longrightarrow> drive S steps u ms s1 = (Inr as, s2) \<Longrightarrow>
   run_saga S steps ms s = (Inr (a # as), s2)"
  by (simp add: run_saga_def andThen_Inr)

lemma drive_Cons:
  "handleReply S steps t m s = (Inr a, s1) \<Longrightarrow> sa_updatedState a = Some u \<Longrightarrow>
   drive S steps u ms s1 = (Inr as, s2) \<Longrightarrow> drive S steps t (m # ms) s = (Inr (a # as), s2)"
  by (simp add: andThen_Inr)

lemma drive_Nil: "drive S steps t [] s = (Inr [], s)"
  by simp

lemma updated_state [simp]:
  "sa_updatedState (step_actions st st' oc) = Some (encodeExecutionState st')"
  "sa_updatedState (makeEndStateSagaActions st) = Some (encodeExecutionState makeEndState)"
  "sa_commands (step_actions st st' (RemoteStepOutcome cs)) = cs"
  "sa_commands (step_actions st st' (LocalStepOutcome e)) = []" "sa_commands (makeEndStateSagaActions st) = []"
  "sa_endState (makeEndStateSagaActions st)" "sa_compensating (makeEndStateSagaActions st) = es_compensating st"
  by (simp_all add: step_actions_def makeEndStateSagaActions_def actions_builder_defs)

text \<open>What the manager gives to the saga: a reply with the type and outcome of an object that was replied with.\<close>

definition replies_with :: "serializer \<Rightarrow> message \<Rightarrow> jsobj \<Rightarrow> outcome \<Rightarrow> bool" where
  "replies_with S m ob out \<longleftrightarrow> getRequiredHeader m REPLY_TYPE = Inr (obj_class ob)
     \<and> getRequiredHeader m REPLY_OUTCOME = Inr (outcome_text out)
     \<and> payload m = classToPlain S (obj_class ob) (obj_own ob)"

lemma is_reply_outcome: "is_reply out m \<Longrightarrow> getRequiredHeader m REPLY_OUTCOME = Inr (outcome_text out)"
  by (cases out) (auto simp: is_reply_def getRequiredHeader_Inr)

lemma withReply_object: "\<exists>m. withReply S (ObjectArg ob) out = Inr m"
  by (simp add: withReply_def)

lemma local_reply:
  assumes "is_reply SUCCESS m" and "st \<in> {at_create, at_approve}"
  shows "handleReply S (createOrderSaga R) (encodeExecutionState st) m s = executeNextStep (createOrderSaga R) st s"
  using assms(2) is_reply_outcome [OF assms(1)]
  by (auto simp: handleReply_def andThen_Inr step_at_def at_create_def at_approve_def createOrderSaga_steps
      ls_isSuccessfulReply_def)

definition reason_for :: "string \<Rightarrow> rejection_reason option \<Rightarrow> rejection_reason option" where
  "reason_for type old = (if type = ''CustomerNotFound'' then Some UNKNOWN_CUSTOMER
     else if type = ''CustomerCreditLimitExceeded'' then Some INSUFFICIENT_CREDIT else old)"

lemma credit_reply:
  assumes "replies_with S m ob out"
    and "validatedPlainToClass S (obj_class ob) (classToPlain S (obj_class ob) (obj_own ob)) = Inr ob"
  shows "handleReply S (createOrderSaga R) (encodeExecutionState at_reserve) m (d, w) =
    executeNextStep (createOrderSaga R) (if out = SUCCESS then at_reserve else startCompensating at_reserve)
      (d\<lparr>co_rejectionReason := reason_for (obj_class ob) (co_rejectionReason d)\<rparr>, w)"
proof -
  have "parsePayload S (obj_class ob) m = Inr ob"
    using assms by (simp add: parsePayload_def replies_with_def)
  then show ?thesis
    using assms(1)
    by (cases out) (auto simp: handleReply_def andThen_Inr step_at_def at_reserve_def createOrderSaga_steps
        saga_step_defs replies_with_def invokeReplyHandler_def handleCustomerNotFound_def reason_for_def
        handleCustomerCreditLimitExceeded_def)
qed

text \<open>What the customer's service answers, and what it does to the customer.\<close>

definition credit_outcome :: "customer option \<Rightarrow> money \<Rightarrow> rejection_reason option" where
  "credit_outcome found orderSum = (case found of
     None \<Rightarrow> Some UNKNOWN_CUSTOMER
   | Some c \<Rightarrow> if isGreaterThanOrEqual (availableCredit c) orderSum then None else Some INSUFFICIENT_CREDIT)"

text \<open>
  What the handler of the customers does with a command: it replies with an object, or throws one, that says what becomes of the
  order, and it changes no more than the row of the customer.
\<close>

lemma customer_invoked:
  assumes "findCustomer C (rc_customerId c) v = (Inr found, v1)" and "\<And>c'. \<exists>v'. saveCustomer C c' v1 = (Inr c', v')"
  shows "\<exists>r ob v2. handler_reserveCredit C c v = (r, v2) \<and> (v2 = v1 \<or> (\<exists>c'. v2 = snd (saveCustomer C c' v1)))
    \<and> gives S r (ObjectArg ob) (if credit_outcome found (rc_orderTotal c) = None then SUCCESS else FAILURE)
    \<and> reason_for (obj_class ob) None = credit_outcome found (rc_orderTotal c) \<and> obj_class ob \<noteq> ''''"
proof (cases "credit_outcome found (rc_orderTotal c)")
  case None
  then obtain cu where cu: "found = Some cu" "isGreaterThanOrEqual (availableCredit cu) (rc_orderTotal c)"
    by (auto simp: credit_outcome_def split: option.splits if_splits)
  let ?cu = "snd (customer_reserveCredit (rc_orderId c) (rc_orderTotal c) cu)"
  obtain v' where "saveCustomer C ?cu v1 = (Inr ?cu, v')"
    using assms(2) by blast
  then have "handler_reserveCredit C c v = (Inr (One (ReplyObject (ObjectArg (CustomerCreditReserved (cu_creditReservations ?cu))))), v')"
    and "v' = snd (saveCustomer C ?cu v1)"
    using assms(1) cu by (simp_all add: handler_reserveCredit_def cs_reserveCredit_def andThen_Inr customer_reserveCredit_def)
  then show ?thesis
    using None by (intro exI conjI) (auto simp: gives_def CustomerCreditReserved_def reason_for_def)
next
  case (Some reason)
  then obtain ob where "cs_reserveCredit C (rc_customerId c) (rc_orderId c) (rc_orderTotal c) v = (Inl (ThrownObject ob), v1)"
      "reason_for (obj_class ob) None = Some reason" "obj_class ob \<noteq> ''''"
    using assms(1) by (auto simp: credit_outcome_def cs_reserveCredit_def andThen_Inr customer_reserveCredit_def
        CustomerNotFound_def CustomerCreditLimitExceeded_def reason_for_def split: option.splits if_splits)
  moreover from this(1) have "handler_reserveCredit C c v = (Inl (ThrownObject ob), v1)"
    by (simp add: handler_reserveCredit_def andThen_Inl)
  ultimately show ?thesis
    using Some by (intro exI conjI) (auto simp: gives_def caught_def)
qed

text \<open>The message that such a reply arrives as.\<close>

lemma replies_with_object:
  assumes "withReply S (ObjectArg ob) out = Inr reply" and "obj_class ob \<noteq> ''''"
    and "\<And>k. k \<in> {REPLY_TYPE, REPLY_OUTCOME} \<Longrightarrow> map_get (headers m) k = map_get (headers reply) k" and "payload m = payload reply"
  shows "replies_with S m ob out"
proof -
  have "payload reply = classToPlain S (obj_class ob) (obj_own ob)"
    using assms(1) by (simp add: withReply_def) (metis build_simps builder_simps)
  then show ?thesis
    using withReply_headers [OF assms(1)] assms(2-4) by (cases out) (auto simp: replies_with_def getRequiredHeader_Inr)
qed

lemma customer_answer:
  assumes "findCustomer C (rc_customerId c) v = (Inr found, v1)" and "\<And>c' v. \<exists>v'. saveCustomer C c' v = (Inr c', v')"
    and "ch_invoke h cm = handler_reserveCredit C c" and "\<not> ch_withLock h"
    and "cd_invoke S h cm v = (Inr [reply], v2)"
    and "\<And>k. k \<in> {REPLY_TYPE, REPLY_OUTCOME} \<Longrightarrow> map_get (headers m) k = map_get (headers reply) k" and "payload m = payload reply"
  shows "\<exists>ob. replies_with S m ob (if credit_outcome found (rc_orderTotal c) = None then SUCCESS else FAILURE)
    \<and> reason_for (obj_class ob) None = credit_outcome found (rc_orderTotal c)"
proof -
  let ?out = "if credit_outcome found (rc_orderTotal c) = None then SUCCESS else FAILURE"
  obtain r ob v' where r: "handler_reserveCredit C c v = (r, v')" "gives S r (ObjectArg ob) ?out"
    and ob: "reason_for (obj_class ob) None = credit_outcome found (rc_orderTotal c)" "obj_class ob \<noteq> ''''"
    using customer_invoked [OF assms(1,2)] by metis
  obtain rep where rep: "withReply S (ObjectArg ob) ?out = Inr rep"
    using withReply_object by blast
  have "cd_invoke S h cm v = (Inr [rep], v')"
    by (rule cd_invoke_gives [OF _ assms(4) r(2) rep]) (use assms(3) r(1) in simp)
  then have "rep = reply" using assms(5) by simp
  then show ?thesis
    using replies_with_object [OF _ ob(2) assms(6,7)] rep ob(1) by blast
qed

text \<open>What is left of the saga once the answer of the customers' service is there.\<close>

lemma drive_granted:
  assumes "handleReply S (createOrderSaga R) (encodeExecutionState at_reserve) m s = executeNextStep (createOrderSaga R) at_reserve (d, w)"
    and "updateOrder R (co_id d) \<lparr>op_state = APPROVED, op_reason = None\<rparr> w = (Inr (), w')" and "is_reply SUCCESS m3"
  shows "drive S (createOrderSaga R) (encodeExecutionState at_reserve) [m, m3] s =
    (Inr [step_actions at_reserve at_approve (LocalStepOutcome None), makeEndStateSagaActions at_approve], (d, w'))"
proof -
  have ended: "handleReply S (createOrderSaga R) (encodeExecutionState at_approve) m3 (d, w') =
      (Inr (makeEndStateSagaActions at_approve), (d, w'))"
    using local_reply [OF assms(3), of at_approve S R "(d, w')"] finished [of R "(d, w')"] by simp
  show ?thesis
    using assms(1) approved [OF assms(2)] by (intro drive_Cons [OF _ _ drive_Cons [OF ended _ drive_Nil]]) simp_all
qed

lemma drive_denied:
  assumes "handleReply S (createOrderSaga R) (encodeExecutionState at_reserve) m s =
      executeNextStep (createOrderSaga R) (startCompensating at_reserve) (d, w)"
    and "updateOrder R (co_id d) \<lparr>op_state = REJECTED, op_reason = co_rejectionReason d\<rparr> w = (Inr (), w')"
  shows "drive S (createOrderSaga R) (encodeExecutionState at_reserve) [m] s =
    (Inr [makeEndStateSagaActions (startCompensating at_reserve)], (d, w'))"
  using assms(1) rejected [OF assms(2)] by (intro drive_Cons [OF _ _ drive_Nil]) simp_all

text \<open>
  The order follows the customer's credit. When an order is created, the saga asks the service of the
  customers once, for the order's own sum; and when the answer of that service reaches it, the order
  ends approved if the customer exists and has the credit, and otherwise rejected, with the reason.
  The order is rejected by the question whether its first step has a compensation, which runs it.
\<close>

lemma order_follows_credit:
  assumes inserted: "insertOrder R d w = (Inr i, w1)" and "\<And>p w. \<exists>w'. updateOrder R (Some i) p w = (Inr (), w')"
    and "co_rejectionReason d = None" and c: "c = \<lparr>rc_customerId = co_customerId d, rc_orderId = i, rc_orderTotal = co_orderTotal d\<rparr>"
    and customer: "findCustomer C (rc_customerId c) v = (Inr found, v1)" "\<And>c' v. \<exists>v'. saveCustomer C c' v = (Inr c', v')"
      "ch_invoke h cm = handler_reserveCredit C c" "\<not> ch_withLock h" "cd_invoke S h cm v = (Inr [reply], v2)"
    and delivered: "\<And>k. k \<in> {REPLY_TYPE, REPLY_OUTCOME} \<Longrightarrow> map_get (headers m) k = map_get (headers reply) k" "payload m = payload reply"
    and restores: "\<And>ob. validatedPlainToClass S (obj_class ob) (classToPlain S (obj_class ob) (obj_own ob)) = Inr ob"
    and locals: "is_reply SUCCESS m1" "is_reply SUCCESS m3"
    and out: "out = credit_outcome found (co_orderTotal d)"
  shows "\<exists>as. run_saga S (createOrderSaga R) ([m1, m] @ (if out = None then [m3] else [])) (d, w) =
      (Inr as, (d\<lparr>co_id := Some i, co_rejectionReason := out\<rparr>, snd (updateOrder R (Some i)
        \<lparr>op_state = (if out = None then APPROVED else REJECTED), op_reason = out\<rparr> w1)))
    \<and> sa_endState (last as) \<and> sa_compensating (last as) = (out \<noteq> None)
    \<and> concat (map sa_commands as) = [new_CommandWithDestination ''customer'' (ReserveCreditCommand c) None None]"
proof -
  let ?d = "d\<lparr>co_id := Some i\<rparr>"
  obtain ob where ob: "replies_with S m ob (if out = None then SUCCESS else FAILURE)" "reason_for (obj_class ob) None = out"
    using customer_answer [OF customer delivered] out c by auto
  have answered: "handleReply S (createOrderSaga R) (encodeExecutionState at_reserve) m (?d, w1) =
      executeNextStep (createOrderSaga R) (if out = None then at_reserve else startCompensating at_reserve)
        (?d\<lparr>co_rejectionReason := out\<rparr>, w1)"
    using credit_reply [OF ob(1) restores, of R ?d w1] ob(2) assms(3) by (cases out) simp_all
  have asked: "executeNextStep (createOrderSaga R) at_create (?d, w1) = (Inr (step_actions at_create at_reserve
      (RemoteStepOutcome [new_CommandWithDestination ''customer'' (ReserveCreditCommand c) None None])), (?d, w1))"
    using credit_asked [of ?d i R w1] by (simp add: c)
  have created: "handleReply S (createOrderSaga R) (encodeExecutionState at_create) m1 (?d, w1) =
      (Inr (step_actions at_create at_reserve (RemoteStepOutcome
        [new_CommandWithDestination ''customer'' (ReserveCreditCommand c) None None])), (?d, w1))"
    using local_reply [OF locals(1), of at_create S R "(?d, w1)"] asked by simp
  note run = run_saga_Cons [OF started [OF inserted] _ drive_Cons [OF created]]
  obtain w2 where w2: "updateOrder R (Some i) \<lparr>op_state = (if out = None then APPROVED else REJECTED), op_reason = out\<rparr> w1 = (Inr (), w2)"
    using assms(2) by blast
  show ?thesis
  proof (cases out)
    case None
    have "drive S (createOrderSaga R) (encodeExecutionState at_reserve) [m, m3] (?d, w1) =
        (Inr [step_actions at_reserve at_approve (LocalStepOutcome None), makeEndStateSagaActions at_approve],
          (?d\<lparr>co_rejectionReason := None\<rparr>, w2))"
      using answered None w2 locals(2) by (intro drive_granted) simp_all
    from run [OF _ _ this] show ?thesis
      using None w2 by (intro exI conjI) (auto simp: at_approve_def)
  next
    case (Some reason)
    have "drive S (createOrderSaga R) (encodeExecutionState at_reserve) [m] (?d, w1) =
        (Inr [makeEndStateSagaActions (startCompensating at_reserve)], (?d\<lparr>co_rejectionReason := Some reason\<rparr>, w2))"
      using answered Some w2 by (intro drive_denied) simp_all
    from run [OF _ _ this] show ?thesis
      using Some w2 by (intro exI conjI) (auto simp: startCompensating_def)
  qed
qed

section \<open>The credit limit\<close>

definition reserved :: "customer \<Rightarrow> int" where
  "reserved c = sum_list (map (\<lambda>r. amount (cr_amount r)) (cu_creditReservations c))"

lemma foldl_reservations:
  "amount (foldl (\<lambda>t r. money_add t (cr_amount r)) m rs) = amount m + sum_list (map (\<lambda>r. amount (cr_amount r)) rs)"
  by (induction rs arbitrary: m) (auto simp: amount_simps)

lemma availableCredit_eq: "amount (availableCredit c) = amount (cu_creditLimit c) - reserved c"
  by (simp add: availableCredit_def money_subtract_def foldl_reservations amount_simps reserved_def) (simp add: money_defs)

text \<open>A customer with the orders that have asked for his credit, each with what became of it.\<close>

inductive credit_history :: "customer \<Rightarrow> (int \<times> money \<times> bool) list \<Rightarrow> bool" where
  new_customer: "cu_creditReservations c = [] \<Longrightarrow> credit_history c []"
| granted: "credit_history c os \<Longrightarrow> customer_reserveCredit i m c = (Inr (), c') \<Longrightarrow> credit_history c' (os @ [(i, m, True)])"
| denied: "credit_history c os \<Longrightarrow> customer_reserveCredit i m c = (Inl e, c') \<Longrightarrow> credit_history c' (os @ [(i, m, False)])"

lemma credit_history_reservations:
  "credit_history c os \<Longrightarrow>
     map (\<lambda>r. (cr_orderId r, cr_amount r)) (cu_creditReservations c) = [(i, m). (i, m, ok) \<leftarrow> os, ok]"
proof (induction rule: credit_history.induct)
  case (granted c os i m c')
  then show ?case by (auto simp: customer_reserveCredit_def split: if_splits)
next
  case (denied c os i m e c')
  then show ?case by (auto simp: customer_reserveCredit_def split: if_splits)
qed simp


section \<open>Concrete customers and orders\<close>

definition sample_orders :: "order_patch list order_repository" where
  "sample_orders = \<lparr>insertOrder = (\<lambda>d log. (Inr 1, log @ [\<lparr>op_state = PENDING, op_reason = co_rejectionReason d\<rparr>])),
     updateOrder = (\<lambda>i p log. (Inr (), log @ [p]))\<rparr>"

definition sample_customers :: "customer option customer_repository" where
  "sample_customers = \<lparr>findCustomer = (\<lambda>i v. (Inr v, v)), saveCustomer = (\<lambda>c v. (Inr c, Some c))\<rparr>"

definition sample_order_data :: create_order_data where
  "sample_order_data = \<lparr>co_id = None, co_customerId = 7, co_orderTotal = \<lparr>amount = 30\<rparr>, co_rejectionReason = None\<rparr>"

lemma order_follows_credit_witness:
  "\<exists>m as. run_saga sample_serializer (createOrderSaga sample_orders) [sample_reply SUCCESS, m] (sample_order_data, []) =
    (Inr as, (sample_order_data\<lparr>co_id := Some 1, co_rejectionReason := Some UNKNOWN_CUSTOMER\<rparr>,
      [\<lparr>op_state = PENDING, op_reason = None\<rparr>, \<lparr>op_state = REJECTED, op_reason = Some UNKNOWN_CUSTOMER\<rparr>]))"
proof -
  let ?c = "\<lparr>rc_customerId = 7, rc_orderId = 1, rc_orderTotal = \<lparr>amount = 30\<rparr>\<rparr>"
  let ?h = "\<lparr>ch_channel = ''customer'', ch_command = ''ReserveCreditCommand'',
      ch_invoke = (\<lambda>_. handler_reserveCredit sample_customers ?c), ch_withLock = False, ch_optionsPreLock = None,
      ch_resource = None, ch_isSaga = True, ch_preLock = None\<rparr>"
  let ?cm = "\<lparr>cm_command = ReserveCreditCommand ?c, cm_correlation = [], cm_message = sample_message []\<rparr>"
  obtain f where "withFailure sample_serializer (Some (caught (ThrownObject (CustomerNotFound 7)))) = Inr f"
    using withFailure_caught [of "ThrownObject (CustomerNotFound 7)"] by (auto simp: thrown_text_def)
  then have refused: "cd_invoke sample_serializer ?h ?cm None = (Inr [f], None)"
    by (simp add: cd_invoke_def handler_reserveCredit_def cs_reserveCredit_def sample_customers_def andThen_def
        tryCatch_def failureOf_def)
  show ?thesis
    using order_follows_credit [of sample_orders sample_order_data "[]" 1 "[\<lparr>op_state = PENDING, op_reason = None\<rparr>]" ?c
        sample_customers None None None ?h ?cm sample_serializer f None f "sample_reply SUCCESS" "sample_reply SUCCESS"
        "Some UNKNOWN_CUSTOMER"] refused
    by (auto simp: sample_orders_def sample_customers_def sample_order_data_def is_reply_sample sample_serializer_def
        credit_outcome_def)
qed


end
