(* ===== verification/SagaExamples.thy ===== *)
theory SagaExamples
  imports SagaLiveness CustomersOrders
begin

text \<open>
  The sagas of the end-to-end tests (\<open>sagas/orchestration/dsl/e2e/\<close>): one with a step that is left out on a
  condition, one with local steps, and one with handlers for its replies. The local steps are those the loop
  of the manager is for: it is followed here turn by turn.
\<close>

section \<open>Commands\<close>

definition e2e_command :: "string \<Rightarrow> jsobj" where
  "e2e_command c = \<lparr>obj_class = c, obj_own = JObj []\<rparr>"

definition DO1_COMMAND_EXTRA_HEADERS :: headers where
  "DO1_COMMAND_EXTRA_HEADERS = map_from [(''k'', ''v'')]"

definition do1 :: "exn + command_with_destination" where
  "do1 = cb_build (cb_withExtraHeaders (MapHeaders DO1_COMMAND_EXTRA_HEADERS) (cb_to ''participant1'' (cb_send (e2e_command ''Do1Command''))))"

definition undo1 :: command_with_destination where
  "undo1 = new_CommandWithDestination ''participant1'' (e2e_command ''Undo1Command'') None None"

definition do2 :: command_with_destination where
  "do2 = new_CommandWithDestination ''participant2'' (e2e_command ''Do2Command'') None None"

definition undo2 :: command_with_destination where
  "undo2 = new_CommandWithDestination ''participant2'' (e2e_command ''Undo2Command'') None None"

text \<open>A provider that makes a command with its destination, and a condition on the data.\<close>

definition makes :: "exn + command_with_destination \<Rightarrow> ('d \<Rightarrow> bool) option \<Rightarrow> ('d \<times> 'w) with_args" where
  "makes c p = ProviderArgs (\<lambda>s. (map_sum id WithDestination c, s)) (map_option (\<lambda>q s. (Inr (q (fst s)), s)) p)"

definition invokes :: "('d \<times> 'w) with_args \<Rightarrow> ('d \<times> 'w) definition_builder \<Rightarrow> ('d \<times> 'w) invoke_builder" where
  "invokes = invokeParticipant (\<lambda>_. None) no_cell"

definition compensates :: "('d \<times> 'w) with_args \<Rightarrow> ('d \<times> 'w) invoke_builder \<Rightarrow> ('d \<times> 'w) invoke_builder" where
  "compensates = withCompensation (\<lambda>_. None) no_cell"

section \<open>The saga with local steps\<close>

text \<open>
  The methods of \<open>LocalSagaSteps\<close> work on the data of the saga. They are empty in the source and are given
  another behaviour by its tests: they are parameters here. The compensation is a \<open>void\<close> method, so that it gives
  undefined, which counts as false.
\<close>

record 'd local_saga_steps =
  localStep1 :: "'d \<Rightarrow> (exn + unit) \<times> 'd"
  localStep1Compensation :: "'d \<Rightarrow> 'd"
  localStep3 :: "'d \<Rightarrow> (exn + unit) \<times> 'd"

definition on_saga_data :: "('d \<Rightarrow> (exn + 'a) \<times> 'd) \<Rightarrow> ('d \<times> 'w, 'a) eff" where
  "on_saga_data f s = (fst (f (fst s)), (snd (f (fst s)), snd s))"

definition localSaga :: "'d local_saga_steps \<Rightarrow> ('d \<times> 'w) saga_step list" where
  "localSaga L =
     lb_build (invokeLocal (on_saga_data (localStep3 L))
       (ib_step (compensates (makes (Inr undo2) None) (invokes (makes (Inr do2) None)
         (lb_step (lb_withCompensation (on_saga_data (\<lambda>d. (Inr False, localStep1Compensation L d)))
           (invokeLocal (on_saga_data (localStep1 L)) first_step)))))))"


text \<open>
  Steps that answer every question a definition asks in the same way: a definition made of them behaves
  the same. An invocation without a predicate is one whose predicate always holds.
\<close>

definition alike :: "'s saga_step \<Rightarrow> 's saga_step \<Rightarrow> bool" where
  "alike a b \<longleftrightarrow> (\<forall>c. applies a c = applies b c \<and> createStepOutcome a c = createStepOutcome b c
     \<and> (\<forall>m. getReply a m c = getReply b m c \<and> isSuccessfulReply a c m = isSuccessfulReply b c m))"

lemma alike_refl [simp]: "alike a a"
  by (simp add: alike_def)

lemma alike_plain:
  "alike (ParticipantInvocationStep \<lparr>actionReplyHandlers = [], compensationReplyHandlers = [],
      participantInvocation = map_option (\<lambda>c. new_ParticipantInvocation (\<lambda>s. (Inr c, s)) None) a,
      ps_compensation = map_option (\<lambda>c. new_ParticipantInvocation (\<lambda>s. (Inr c, s)) None) b\<rparr>)
    (plain_step (map_option (\<lambda>c. (\<lambda>_. True, \<lambda>_. c)) a, map_option (\<lambda>c. (\<lambda>_. True, \<lambda>_. c)) b))"
  by (cases a; cases b)
    (auto simp: alike_def applies_def plain_step_def plain_invocation_def new_ParticipantInvocation_def saga_step_defs fun_eq_iff)

definition same_step :: "'s step_to_execute \<Rightarrow> 's step_to_execute \<Rightarrow> bool" where
  "same_step t u \<longleftrightarrow> st_skipped t = st_skipped u \<and> st_compensating t = st_compensating u \<and> rel_option alike (st_step t) (st_step u)"

lemma nextFrom_alike:
  assumes "list_all2 alike as bs"
  shows "rel_prod (rel_sum (=) same_step) (=) (nextFrom as c i k s) (nextFrom bs c i k s)"
  using assms
proof (induction as c i k arbitrary: s rule: nextFrom.induct)
  case (1 as c i k)
  note len = list_all2_lengthD [OF "1.prems"]
  show ?case
  proof (cases "0 \<le> i \<and> i < int (length as)")
    case False
    then show ?thesis
      using len by (simp add: nextFrom_stop same_step_def)
  next
    case True
    then have a: "alike (as ! nat i) (bs ! nat i)"
      using "1.prems" by (simp add: list_all2_nthD nat_less_iff)
    obtain r s' where r: "applies (as ! nat i) c s = (r, s')" "applies (bs ! nat i) c s = (r, s')"
      using a by (metis alike_def prod.exhaust)
    show ?thesis
    proof (cases r)
      case (Inl e)
      then show ?thesis using r True len by (simp add: nextFrom_go andThen_def)
    next
      case (Inr b)
      then show ?thesis
        using r True len a "1.IH" [OF True] "1.prems"
        by (cases b) (simp_all add: nextFrom_go andThen_def same_step_def)
    qed
  qed
qed

lemma executeNextStep_alike:
  assumes "list_all2 alike as bs"
  shows "executeNextStep as st s = executeNextStep bs st s"
proof -
  have "executeStep t st = executeStep u st" if "same_step t u" "\<not> isEmpty t" for t u
    using that by (cases "st_step t"; cases "st_step u") (auto simp: same_step_def isEmpty_def executeStep_Some alike_def)
  then have go: "(if isEmpty t then ret (makeEndStateSagaActions st) else executeStep t st) =
      (if isEmpty u then ret (makeEndStateSagaActions st) else executeStep u st)" if "same_step t u" for t u
    using that by (auto simp: isEmpty_def same_step_def)
  let ?i = "currentlyExecuting st + (if es_compensating st then -1 else 1)"
  obtain r s1 where r: "nextFrom as (es_compensating st) ?i 0 s = (r, s1)" by (rule prod.exhaust)
  obtain r' s2 where r': "nextFrom bs (es_compensating st) ?i 0 s = (r', s2)" by (rule prod.exhaust)
  have "rel_sum (=) same_step r r'" and s2: "s2 = s1"
    using nextFrom_alike [OF assms, of "es_compensating st" ?i 0 s] by (simp_all add: r r')
  from this(1) show ?thesis
  proof (cases rule: rel_sum.cases)
    case (1 e e')
    then show ?thesis by (simp add: executeNextStep_def nextStepToExecute_def andThen_def r r' s2)
  next
    case (2 t u)
    then show ?thesis using go [OF 2(3)] by (simp add: executeNextStep_def nextStepToExecute_def andThen_def r r' s2)
  qed
qed

lemma handleReply_alike:
  assumes "list_all2 alike as bs"
  shows "handleReply S as t m s = handleReply S bs t m s"
proof -
  have "rel_option alike (step_at as i) (step_at bs i)" for i
    using assms list_all2_lengthD [OF assms] by (auto simp: step_at_def list_all2_nthD nat_less_iff)
  note at = this
  have same: "executeNextStep as = executeNextStep bs"
    using executeNextStep_alike [OF assms] by (intro ext)
  show ?thesis
  proof (cases "decodeExecutionState t")
    case (Inl e)
    then show ?thesis by (simp add: handleReply_def andThen_Inl)
  next
    case (Inr st)
    from at [of "currentlyExecuting st"] show ?thesis
    proof (cases rule: option.rel_cases)
      case None
      then show ?thesis using Inr by (simp add: handleReply_def andThen_Inr)
    next
      case (Some a b)
      then have "getReply a m (es_compensating st) = getReply b m (es_compensating st)"
        "isSuccessfulReply a (es_compensating st) m = isSuccessfulReply b (es_compensating st) m"
        by (simp_all add: alike_def)
      then show ?thesis unfolding handleReply_def same using Inr Some by (simp add: andThen_Inr)
    qed
  qed
qed

lemma nest_definition_alike: "list_all2 alike as bs \<Longrightarrow> nest_definition S as = nest_definition S bs"
  using executeNextStep_alike handleReply_alike by (fastforce simp: nest_definition_def start_def fun_eq_iff)

lemma plain_manager_alike:
  "list_all2 alike as bs \<Longrightarrow> plain_manager R P S ty dt as = plain_manager R P S ty dt bs"
  using nest_definition_alike [of as bs S] by (simp add: plain_manager_def)

section \<open>The loop over local steps, turn by turn\<close>

lemma local_message_reply:
  "\<exists>m. createSuccessMessage M = Inr m \<and> is_reply SUCCESS m" "\<exists>m. createFailureMessage M = Inr m \<and> is_reply FAILURE m"
proof -
  have "case jsonParse ''{}'' of Inl _ \<Rightarrow> False | Inr _ \<Rightarrow> True" by code_simp
  then obtain j where "jsonParse ''{}'' = Inr j" by (auto split: sum.splits)
  then show "\<exists>m. createSuccessMessage M = Inr m \<and> is_reply SUCCESS m" "\<exists>m. createFailureMessage M = Inr m \<and> is_reply FAILURE m"
    by (auto simp: createSuccessMessage_def createFailureMessage_def local_message_def withPayload_def is_reply_def filled_def
        getHeader_def Success_def Failure_def command_header_defs message_header_defs)
qed

lemma replyLocally_plain:
  "replyLocally (plain_manager R P S ty dt steps) a (Inr m) = handleReply S steps (text_of (sa_updatedState a)) m"
  by (simp add: replyLocally_def andThen_Pair)

text \<open>A step that throws is replied to at once, before the instance is saved.\<close>

lemma local_failure:
  assumes "sa_localException a = Some e" and "sa_updatedState a = Some u"
    and "\<And>m. is_reply FAILURE m \<Longrightarrow> handleReply S steps u m s = (Inr a', s')"
  shows "processActions (plain_manager R P S ty dt steps) i a s = processActions (plain_manager R P S ty dt steps) i a' s'"
proof -
  obtain m where "createFailureMessage (plain_manager R P S ty dt steps) = Inr m" "is_reply FAILURE m"
    using local_message_reply(2) by blast
  then show ?thesis
    using assms by (subst processActions.simps) (simp add: replyLocally_plain text_of_def)
qed

context saga_environment
begin

lemma local_turn_from:
  assumes "saved w = Some j" and "si_sagaType i = si_sagaType j" and "si_sagaId i = si_sagaId j" and "si_destinationsAndResources i = []"
    and a: "sa_local a" "sa_localException a = None" "sa_updatedState a = Some u" "u \<noteq> ''''" "sa_commands a = []"
  shows "\<exists>i1 w1. saved w1 = Some i1 \<and> si_sagaType i1 = si_sagaType i \<and> si_sagaId i1 = si_sagaId i \<and> si_destinationsAndResources i1 = []
    \<and> sent w1 = sent w \<and> performActions (plain_manager R P S ty dt steps) i a (d, w) = (Inr i1, (d, w1))
    \<and> (\<forall>a' s. (\<forall>m. is_reply SUCCESS m \<longrightarrow> handleReply S steps u m (d, w1) = (Inr a', s)) \<longrightarrow>
        processActions (plain_manager R P S ty dt steps) i a (d, w) = processActions (plain_manager R P S ty dt steps) i1 a' s)"
proof -
  have "named a" using a(5) by (simp add: named_def)
  obtain i1 w1 where p: "performActions (plain_manager R P S ty dt steps) i a (d, w) = (Inr i1, (d, w1))"
    and i1: "saved w1 = Some i1" "si_sagaType i1 = si_sagaType i" "si_sagaId i1 = si_sagaId i" "si_destinationsAndResources i1 = []"
    and "sent w1 = sent w"
    using performs [OF assms(1-4) a(3,4) \<open>named a\<close>, of S dt steps d] a(5) assms(4) by auto
  moreover obtain m where "createSuccessMessage (plain_manager R P S ty dt steps) = Inr m" "is_reply SUCCESS m"
    using local_message_reply(1) by blast
  then have "processActions (plain_manager R P S ty dt steps) i a (d, w) = processActions (plain_manager R P S ty dt steps) i1 a' s"
    if "\<forall>m. is_reply SUCCESS m \<longrightarrow> handleReply S steps u m (d, w1) = (Inr a', s)" for a' s
    using a p that by (subst processActions.simps) (simp add: replyLocally_plain text_of_def)
  ultimately show ?thesis by blast
qed

lemma local_turn:
  assumes "saved w = Some j" and "si_sagaType i = si_sagaType j" and "si_sagaId i = si_sagaId j" and "si_destinationsAndResources i = []"
    and a: "sa_local a" "sa_localException a = None" "sa_updatedState a = Some u" "u \<noteq> ''''" "sa_commands a = []"
    and reply: "\<And>m v. is_reply SUCCESS m \<Longrightarrow> handleReply S steps u m (d, v) = (Inr a', (d', v))"
  shows "\<exists>i1 w1. processActions (plain_manager R P S ty dt steps) i a (d, w) = processActions (plain_manager R P S ty dt steps) i1 a' (d', w1)
    \<and> saved w1 = Some i1 \<and> si_sagaType i1 = si_sagaType i \<and> si_sagaId i1 = si_sagaId i \<and> si_destinationsAndResources i1 = []
    \<and> sent w1 = sent w"
  using local_turn_from [OF assms(1-9), of S dt steps d] reply by blast

end

section \<open>The saga with local steps, from position to position\<close>

lemma localSaga_steps:
  "localSaga L =
    [LocalStep \<lparr>ls_handler = on_saga_data (localStep1 L),
       ls_compensation = Some (on_saga_data (\<lambda>d. (Inr False, localStep1Compensation L d)))\<rparr>,
     ParticipantInvocationStep \<lparr>actionReplyHandlers = [], compensationReplyHandlers = [],
       participantInvocation = Some (with_invocation (\<lambda>_. None) no_cell (makes (Inr do2) None)),
       ps_compensation = Some (with_invocation (\<lambda>_. None) no_cell (makes (Inr undo2) None))\<rparr>,
     LocalStep \<lparr>ls_handler = on_saga_data (localStep3 L), ls_compensation = None\<rparr>]"
  by (simp add: localSaga_def builder_defs invokes_def compensates_def)

lemmas local_saga_defs = localSaga_steps on_saga_data_def with_invocation_def makes_def withDestination_def
  new_ParticipantInvocation_def next_step_defs at_position_def new_SagaExecutionState_def

definition local_outcome :: "bool \<Rightarrow> int \<Rightarrow> int \<Rightarrow> exn + unit \<Rightarrow> saga_actions" where
  "local_outcome c i j r = step_actions (at_position i c) (at_position j c) (LocalStepOutcome (case r of Inl e \<Rightarrow> Some e | Inr _ \<Rightarrow> None))"

definition commanded :: "bool \<Rightarrow> int \<Rightarrow> int \<Rightarrow> command_with_destination \<Rightarrow> saga_actions" where
  "commanded c i j cmd = step_actions (at_position i c) (at_position j c) (RemoteStepOutcome [cmd])"

lemma local_saga_next:
  "start (localSaga L) (d, w) = (Inr (local_outcome False (-1) 0 (fst (localStep1 L d))), (snd (localStep1 L d), w))"
  "executeNextStep (localSaga L) (at_position 0 False) (d, w) = (Inr (commanded False 0 1 do2), (d, w))"
  "executeNextStep (localSaga L) (at_position 1 False) (d, w) =
     (Inr (local_outcome False 1 2 (fst (localStep3 L d))), (snd (localStep3 L d), w))"
  "executeNextStep (localSaga L) (at_position 2 False) (d, w) = (Inr (makeEndStateSagaActions (at_position 2 False)), (d, w))"
  "executeNextStep (localSaga L) (at_position 2 True) (d, w) = (Inr (commanded True 2 1 undo2), (d, w))"
  "executeNextStep (localSaga L) (at_position 1 True) (d, w) =
     (Inr (makeEndStateSagaActions (at_position 1 True)), (localStep1Compensation L d, w))"
  by (auto simp: local_saga_defs local_outcome_def commanded_def start_def split: sum.splits)

lemma local_saga_reply:
  assumes "is_reply out m" and "(i, c) \<in> {(0, False), (1, False), (2, False), (1, True)}"
  shows "handleReply S (localSaga L) (encodeExecutionState (at_position i c)) m s =
    (if out = SUCCESS then executeNextStep (localSaga L) (at_position i c) s
     else if c then (Inl (UnsupportedOperationException ''Failure when compensating''), s)
     else executeNextStep (localSaga L) (at_position i True) s)"
proof -
  have "getRequiredHeader m REPLY_TYPE = Inr (getHeader m REPLY_TYPE '''')"
    using assms(1) by (simp add: is_reply_def getRequiredHeader_filled)
  then show ?thesis
    using assms(2) is_reply_outcome [OF assms(1)]
    by (cases out) (auto simp: handleReply_def andThen_Inr andThen_Inl step_at_def at_position_def localSaga_steps
        saga_step_defs startCompensating_def with_invocation_def makes_def new_ParticipantInvocation_def)
qed

lemma outcome_facts [simp]:
  "sa_local (local_outcome c i j r)" "sa_updatedState (local_outcome c i j r) = Some (encodeExecutionState (at_position j c))"
  "sa_commands (local_outcome c i j r) = []" "sa_localException (local_outcome c i j (Inr x)) = None"
  "sa_localException (local_outcome c i j (Inl e)) = Some e"
  "sa_updatedState (commanded c i j cmd) = Some (encodeExecutionState (at_position j c))"
  "sa_commands (commanded c i j cmd) = [cmd]" "remote_actions (commanded c i j cmd)"
  by (simp_all add: local_outcome_def commanded_def step_actions_def remote_actions_def encodeExecutionState_filled)

lemma commanded_named: "named (commanded c i j do2)" "named (commanded c i j undo2)"
  by (simp_all add: named_def do2_def undo2_def new_CommandWithDestination_def e2e_command_def)

lemma end_remote [simp]: "remote_actions (makeEndStateSagaActions st)"
  by (simp add: remote_actions_def encodeExecutionState_filled)

context saga_environment
begin

lemma creates_throws:
  assumes "\<And>w. start steps (d, w) = (Inr a, (d0, w))" and "sa_localException a = Some e"
  shows "\<exists>i w'. sm_create (plain_manager R P S ty dt steps) LockUndefined LockUndefined (d, w) = Some (Inl e, (d0, w'))
    \<and> saved w' = Some i \<and> si_stateName i = ''????'' \<and> sent w' = sent w"
proof -
  let ?i = "new_SagaInstance ty None ''????'' None (dt d) d"
  obtain sid w1 where "saveInstance R ?i w = (Inr (?i\<lparr>si_sagaId := sid\<rparr>), w1)"
    and "saved w1 = Some (?i\<lparr>si_sagaId := sid\<rparr>)" "sent w1 = sent w"
    using save [of ?i w] by (auto simp: new_SagaInstance_def)
  then show ?thesis
    using assms by (intro exI [of _ "?i\<lparr>si_sagaId := sid\<rparr>"] exI [of _ w1])
      (simp add: sm_create_def thenLoop_def createInstance_def andThen_def getData_def onWorld_def Let_def new_SagaInstance_def)
qed

lemma local_saga_created:
  assumes "localStep1 L d = (Inr (), d1)"
  shows "\<exists>i w' x. sm_create (plain_manager R P S ty dt (localSaga L)) LockUndefined LockUndefined (d, w) = Some (Inr i, (d1, w'))
    \<and> saved w' = Some i \<and> reached ty (commanded False 0 1 do2) d1 i
    \<and> sent w' = sent w @ [x] \<and> delivered P S ty (si_sagaId i) do2 x"
proof -
  let ?M = "plain_manager R P S ty dt (localSaga L)"
  have start: "start (localSaga L) (d, v) = (Inr (local_outcome False (-1) 0 (Inr ())), (d1, v))" for v
    using assms by (simp add: local_saga_next)
  obtain i w1 where c: "sm_create ?M LockUndefined LockUndefined (d, w) =
        processActions ?M i (local_outcome False (-1) 0 (Inr ())) (d1, w1)"
    and i: "saved w1 = Some i" "si_sagaType i = ty" "si_destinationsAndResources i = []" "sent w1 = sent w"
    using creates_first [OF start outcome_facts(4), where w = w and dt = dt and S = S] by blast
  have reply: "handleReply S (localSaga L) (encodeExecutionState (at_position 0 False)) m (d1, v) = (Inr (commanded False 0 1 do2), (d1, v))"
    if "is_reply SUCCESS m" for m v
    using local_saga_reply [OF that, where i = 0 and c = False and S = S and L = L and s = "(d1, v)"] by (simp add: local_saga_next)
  obtain i2 w2 where t: "processActions ?M i (local_outcome False (-1) 0 (Inr ())) (d1, w1) =
        processActions ?M i2 (commanded False 0 1 do2) (d1, w2)"
    and i2: "saved w2 = Some i2" "si_sagaType i2 = si_sagaType i" "si_destinationsAndResources i2 = []" "sent w2 = sent w1"
    using local_turn [OF i(1) refl refl i(3) outcome_facts(1,4,2) encodeExecutionState_filled outcome_facts(3) reply, where dt = dt]
    by blast
  have ty: "si_sagaType i2 = ty" using i2(2) i(2) by simp
  show ?thesis
    using acts [OF i2(1) ty ty refl i2(3) outcome_facts(8) [of False 0 1] commanded_named(1), where S = S and dt = dt and steps = "localSaga L" and d = d1] c t i(4) i2(4)
    by (auto simp: list_all2_Cons1)
qed

text \<open>The reply to the one command that the saga is waiting for, on every branch.\<close>

lemma local_saga_completed:
  assumes "saved w = Some i" and i: "reached ty (commanded False k 1 cmd) d i" and m: "routed ty (si_sagaId i) m" "is_reply SUCCESS m"
    and "localStep3 L d = (Inr (), d3)"
  shows "\<exists>i' w'. sm_handleMessage (plain_manager R P S ty dt (localSaga L)) m w = Some (Inr (), w')
    \<and> saved w' = Some i' \<and> reached ty (makeEndStateSagaActions (at_position 2 False)) d3 i' \<and> sent w' = sent w"
proof -
  let ?M = "plain_manager R P S ty dt (localSaga L)"
  let ?a = "local_outcome False 1 2 (Inr ())"
  have h: "handleReply S (localSaga L) (si_stateName i) m (si_sagaData i, v) = (Inr ?a, (d3, v))" for v
    using i m(2) assms(5) local_saga_reply [of SUCCESS m 1 False S L "(d, v)"] by (simp add: reached_def local_saga_next)
  obtain i1 where f: "sm_handleMessage ?M m w = (case processActions ?M i1 ?a (d3, w) of
         None \<Rightarrow> None | Some (r, (_, w')) \<Rightarrow> Some (map_sum id (\<lambda>_. ()) r, w'))"
    and i1: "si_sagaType i1 = ty" "si_sagaId i1 = si_sagaId i" "si_destinationsAndResources i1 = []"
    using replies_first [OF assms(1) _ _ m(1) h, of dt] i by (auto simp: reached_def)
  have ty: "si_sagaType i1 = si_sagaType i" using i1(1) i by (simp add: reached_def)
  have reply: "handleReply S (localSaga L) (encodeExecutionState (at_position 2 False)) m (d3, v) =
      (Inr (makeEndStateSagaActions (at_position 2 False)), (d3, v))" if "is_reply SUCCESS m" for m v
    using local_saga_reply [OF that, where i = 2 and c = False and S = S and L = L and s = "(d3, v)"] by (simp add: local_saga_next)
  obtain i2 w2 where t: "processActions ?M i1 ?a (d3, w) = processActions ?M i2 (makeEndStateSagaActions (at_position 2 False)) (d3, w2)"
    and i2: "saved w2 = Some i2" "si_sagaType i2 = si_sagaType i1" "si_destinationsAndResources i2 = []" "sent w2 = sent w"
    using local_turn [OF assms(1) ty i1(2,3) outcome_facts(1,4,2) encodeExecutionState_filled outcome_facts(3) reply, where dt = dt]
    by blast
  have ty2: "si_sagaType i2 = ty" using i2(2) i1(1) by simp
  show ?thesis
    using acts [OF i2(1) ty2 ty2 refl i2(3) end_remote [of "at_position 2 False"] named_end, where S = S and dt = dt and steps = "localSaga L" and d = d3] f t i2(4)
    by auto
qed

lemma local_saga_undoes:
  assumes "saved w = Some i" and i: "reached ty (commanded False k 1 cmd) d i" and m: "routed ty (si_sagaId i) m" "is_reply SUCCESS m"
    and "localStep3 L d = (Inl e, d3)"
  shows "\<exists>i' w' x. sm_handleMessage (plain_manager R P S ty dt (localSaga L)) m w = Some (Inr (), w')
    \<and> saved w' = Some i' \<and> si_sagaId i' = si_sagaId i \<and> reached ty (commanded True 2 1 undo2) d3 i'
    \<and> sent w' = sent w @ [x] \<and> delivered P S ty (si_sagaId i) undo2 x"
proof -
  let ?M = "plain_manager R P S ty dt (localSaga L)"
  let ?a = "local_outcome False 1 2 (Inl e)"
  have h: "handleReply S (localSaga L) (si_stateName i) m (si_sagaData i, v) = (Inr ?a, (d3, v))" for v
    using i m(2) assms(5) local_saga_reply [of SUCCESS m 1 False S L "(d, v)"] by (simp add: reached_def local_saga_next)
  obtain i1 where f: "sm_handleMessage ?M m w = (case processActions ?M i1 ?a (d3, w) of
         None \<Rightarrow> None | Some (r, (_, w')) \<Rightarrow> Some (map_sum id (\<lambda>_. ()) r, w'))"
    and i1: "si_sagaType i1 = ty" "si_sagaId i1 = si_sagaId i" "si_destinationsAndResources i1 = []"
    using replies_first [OF assms(1) _ _ m(1) h, of dt] i by (auto simp: reached_def)
  have t: "processActions ?M i1 ?a (d3, w) = processActions ?M i1 (commanded True 2 1 undo2) (d3, w)"
    proof (rule local_failure [OF outcome_facts(5,2)])
    show "handleReply S (localSaga L) (encodeExecutionState (at_position 2 False)) m (d3, w) = (Inr (commanded True 2 1 undo2), (d3, w))"
      if "is_reply FAILURE m" for m
      using local_saga_reply [OF that, where i = 2 and c = False and S = S and L = L and s = "(d3, w)"] by (simp add: local_saga_next)
  qed
  have ty: "si_sagaType i = ty" using i by (simp add: reached_def)
  show ?thesis
    using acts [OF assms(1) i1(1) ty i1(2,3) outcome_facts(8) [of True 2 1] commanded_named(2), where S = S and dt = dt and steps = "localSaga L" and d = d3] f t i1(2)
    by (auto simp: list_all2_Cons1)
qed

lemma local_saga_compensated:
  assumes "saved w = Some i" and i: "reached ty (commanded c k 1 cmd) d i" and m: "routed ty (si_sagaId i) m"
    and "is_reply (if c then SUCCESS else FAILURE) m"
  shows "\<exists>i' w'. sm_handleMessage (plain_manager R P S ty dt (localSaga L)) m w = Some (Inr (), w')
    \<and> saved w' = Some i' \<and> reached ty (makeEndStateSagaActions (at_position 1 True)) (localStep1Compensation L d) i' \<and> sent w' = sent w"
proof -
  have h: "handleReply S (localSaga L) (si_stateName i) m (si_sagaData i, v) =
      (Inr (makeEndStateSagaActions (at_position 1 True)), (localStep1Compensation L d, v))" for v
    using i assms(4) local_saga_reply [of _ m 1 c S L "(d, v)"] by (cases c) (simp_all add: reached_def local_saga_next)
  show ?thesis
    using replies [OF assms(1) _ _ m h end_remote named_end, of dt] i by (auto simp: reached_def)
qed

end

section \<open>What becomes of the saga with local steps\<close>

context memory_environment
begin

lemma local_saga_started:
  assumes "localStep1 L d = (Inr (), d1)"
  shows "\<exists>i w1 x. sm_create (plain_manager mem_repository P S ty dt (localSaga L)) LockUndefined LockUndefined (d, w) = Some (Inr i, (d1, w1))
    \<and> mem_saved ty w1 = Some i \<and> si_sagaId i = None \<and> reached ty (commanded False 0 1 do2) d1 i
    \<and> mem_sent w1 = mem_sent w @ [x] \<and> delivered P S ty None do2 x"
  using memory.local_saga_created [OF assms, of S ty dt w] mem_saved_id by fastforce

lemma local_saga_fails:
  assumes one: "localStep1 L d = (Inr (), d1)" and no: "routed ty None no" "is_reply FAILURE no"
    and M: "M = plain_manager mem_repository P S ty dt (localSaga L)"
  shows "comes_to M P S ty d w [no] [do2] True (localStep1Compensation L d1)"
proof -
  obtain i w1 x where c: "sm_create M LockUndefined LockUndefined (d, w) = Some (Inr i, (d1, w1))"
    and i: "mem_saved ty w1 = Some i" "si_sagaId i = None" "reached ty (commanded False 0 1 do2) d1 i"
    and x: "mem_sent w1 = mem_sent w @ [x]" "delivered P S ty None do2 x"
    using local_saga_started [OF one, of S ty dt w] unfolding M by blast
  obtain i' w2 where h: "sm_handleMessage M no w1 = Some (Inr (), w2)" and i': "mem_saved ty w2 = Some i'"
    "reached ty (makeEndStateSagaActions (at_position 1 True)) (localStep1Compensation L d1) i'" "mem_sent w2 = mem_sent w1"
    using memory.local_saga_compensated [OF i(1,3), of no S dt L] no i(2) unfolding M by auto
  show ?thesis
    unfolding comes_to_def using c h i' x reached_end [OF i'(2)]
    by (intro exI [of _ i] exI [of _ d1] exI [of _ w1] exI [of _ i'] exI [of _ w2] exI [of _ "[x]"]) (simp add: at_position_def)
qed

lemma local_saga_succeeds:
  assumes one: "localStep1 L d = (Inr (), d1)" and three: "localStep3 L d1 = (Inr (), d3)"
    and yes: "routed ty None yes" "is_reply SUCCESS yes"
    and M: "M = plain_manager mem_repository P S ty dt (localSaga L)"
  shows "comes_to M P S ty d w [yes] [do2] False d3"
proof -
  obtain i w1 x where c: "sm_create M LockUndefined LockUndefined (d, w) = Some (Inr i, (d1, w1))"
    and i: "mem_saved ty w1 = Some i" "si_sagaId i = None" "reached ty (commanded False 0 1 do2) d1 i"
    and x: "mem_sent w1 = mem_sent w @ [x]" "delivered P S ty None do2 x"
    using local_saga_started [OF one, of S ty dt w] unfolding M by blast
  obtain i' w2 where h: "sm_handleMessage M yes w1 = Some (Inr (), w2)" and i': "mem_saved ty w2 = Some i'"
    "reached ty (makeEndStateSagaActions (at_position 2 False)) d3 i'" "mem_sent w2 = mem_sent w1"
    using memory.local_saga_completed [OF i(1,3) _ yes(2) three, of S dt] yes i(2) unfolding M by auto
  show ?thesis
    unfolding comes_to_def using c h i' x reached_end [OF i'(2)]
    by (intro exI [of _ i] exI [of _ d1] exI [of _ w1] exI [of _ i'] exI [of _ w2] exI [of _ "[x]"]) (simp add: at_position_def)
qed

lemma local_saga_fails_last:
  assumes one: "localStep1 L d = (Inr (), d1)" and three: "localStep3 L d1 = (Inl e, d3)"
    and yes: "routed ty None yes" "is_reply SUCCESS yes" "routed ty None yes'" "is_reply SUCCESS yes'"
    and M: "M = plain_manager mem_repository P S ty dt (localSaga L)"
  shows "comes_to M P S ty d w [yes, yes'] [do2, undo2] True (localStep1Compensation L d3)"
proof -
  obtain i w1 x where c: "sm_create M LockUndefined LockUndefined (d, w) = Some (Inr i, (d1, w1))"
    and i: "mem_saved ty w1 = Some i" "si_sagaId i = None" "reached ty (commanded False 0 1 do2) d1 i"
    and x: "mem_sent w1 = mem_sent w @ [x]" "delivered P S ty None do2 x"
    using local_saga_started [OF one, of S ty dt w] unfolding M by blast
  obtain i2 w2 y where h: "sm_handleMessage M yes w1 = Some (Inr (), w2)" and i2: "mem_saved ty w2 = Some i2"
    "si_sagaId i2 = None" "reached ty (commanded True 2 1 undo2) d3 i2" "mem_sent w2 = mem_sent w1 @ [y]" "delivered P S ty None undo2 y"
    using memory.local_saga_undoes [OF i(1,3) _ yes(2) three, of S dt] yes(1) i(2) unfolding M by auto
  obtain i' w3 where h': "sm_handleMessage M yes' w2 = Some (Inr (), w3)" and i': "mem_saved ty w3 = Some i'"
    "reached ty (makeEndStateSagaActions (at_position 1 True)) (localStep1Compensation L d3) i'" "mem_sent w3 = mem_sent w2"
    using memory.local_saga_compensated [OF i2(1,3), of yes' S dt L] yes(3,4) i2(2) unfolding M by auto
  show ?thesis
    unfolding comes_to_def using c h h' i2 i' x reached_end [OF i'(2)]
    by (intro exI [of _ i] exI [of _ d1] exI [of _ w1] exI [of _ i'] exI [of _ w3] exI [of _ "[x, y]"]) (simp add: at_position_def)
qed

lemma local_saga_rejected:
  assumes "localStep1 L d = (Inl e, d1)" and M: "M = plain_manager mem_repository P S ty dt (localSaga L)"
  shows "\<exists>i w1. sm_create M LockUndefined LockUndefined (d, w) = Some (Inl e, (d1, w1))
    \<and> mem_saved ty w1 = Some i \<and> si_stateName i = ''????'' \<and> mem_sent w1 = mem_sent w"
proof -
  have start: "start (localSaga L) (d, v) = (Inr (local_outcome False (-1) 0 (Inl e)), (d1, v))" for v
    using assms(1) by (simp add: local_saga_next)
  show ?thesis
    unfolding M by (rule memory.creates_throws [OF start outcome_facts(5)])
qed

end

text \<open>
  The saga with local steps, through the loop of the manager. When its first step throws, so does the creation:
  no message is sent, and the instance stays in the repository in the state it was saved with. Otherwise \<open>Do2\<close> is sent.
  When that fails the compensation of the first step has run and the saga ends compensating. When it
  succeeds the last step runs at once: the saga ends with its data, or, when it throws, \<open>Undo2\<close> is sent and the
  compensation of the first step runs after the reply. The data the saga ends with are those that exactly
  these steps leave, each run once.
\<close>

lemma local_saga_outcome:
  assumes "memory_environment P newId now" and "M = plain_manager mem_repository P S ''LocalSaga'' dt (localSaga L)"
    and "routed ''LocalSaga'' None yes" "is_reply SUCCESS yes" "routed ''LocalSaga'' None yes'" "is_reply SUCCESS yes'"
    and "routed ''LocalSaga'' None no" "is_reply FAILURE no"
  shows "case localStep1 L d of
      (Inl e, d1) \<Rightarrow> \<exists>i w1. sm_create M LockUndefined LockUndefined (d, w) = Some (Inl e, (d1, w1))
        \<and> mem_saved ''LocalSaga'' w1 = Some i \<and> si_stateName i = ''????'' \<and> mem_sent w1 = mem_sent w
    | (Inr _, d1) \<Rightarrow> comes_to M P S ''LocalSaga'' d w [no] [do2] True (localStep1Compensation L d1)
        \<and> (case localStep3 L d1 of
            (Inr _, d3) \<Rightarrow> comes_to M P S ''LocalSaga'' d w [yes] [do2] False d3
          | (Inl e, d3) \<Rightarrow> comes_to M P S ''LocalSaga'' d w [yes, yes'] [do2, undo2] True (localStep1Compensation L d3))"
  using memory_environment.local_saga_rejected [OF assms(1) _ assms(2)]
    memory_environment.local_saga_fails [OF assms(1) _ assms(7,8,2)]
    memory_environment.local_saga_succeeds [OF assms(1) _ _ assms(3,4,2)]
    memory_environment.local_saga_fails_last [OF assms(1) _ _ assms(3-6,2)]
  by (auto split: prod.splits sum.splits)

text \<open>A reply to the saga of a type, and steps that count: the last one throws.\<close>

definition reply_to_saga :: "string \<Rightarrow> outcome \<Rightarrow> message" where
  "reply_to_saga ty out = sample_message [(HDR_TYPE, ''Reply''), (REPLY_TYPE, ''Reply''), (REPLY_OUTCOME, outcome_text out),
     (REPLY_SAGA_TYPE, ty), (REPLY_SAGA_ID, ''null'')]"

lemma reply_to_saga_facts: "is_reply out (reply_to_saga ty out)" "ty \<noteq> '''' \<Longrightarrow> routed ty None (reply_to_saga ty out)"
  by (simp_all add: is_reply_def routed_def filled_def getHeader_def reply_to_saga_def sample_message_def new_message_def
      saga_header_defs command_header_defs message_header_defs null_text_def)

definition counting_steps :: "int local_saga_steps" where
  "counting_steps = \<lparr>localStep1 = (\<lambda>d. (Inr (), d + 10)), localStep1Compensation = (\<lambda>d. d - 1),
     localStep3 = (\<lambda>d. (Inl (ErrorException ''last''), d * 2))\<rparr>"

lemma local_saga_outcome_witness:
  "comes_to (plain_manager mem_repository (logging_producer []) sample_serializer ''LocalSaga'' (\<lambda>_. ''LocalSagaData'') (localSaga counting_steps))
    (logging_producer []) sample_serializer ''LocalSaga'' 1 ([], [])
    [reply_to_saga ''LocalSaga'' SUCCESS, reply_to_saga ''LocalSaga'' SUCCESS] [do2, undo2] True 21"
  using local_saga_outcome [OF logging.memory_environment_axioms [of "[]"] refl,
      where L = counting_steps and S = sample_serializer and dt = "\<lambda>_. ''LocalSagaData''" and d = 1 and w = "([], [])"
        and yes = "reply_to_saga ''LocalSaga'' SUCCESS" and yes' = "reply_to_saga ''LocalSaga'' SUCCESS"
        and no = "reply_to_saga ''LocalSaga'' FAILURE"]
  by (simp add: reply_to_saga_facts counting_steps_def)

section \<open>The conditional saga\<close>

type_synonym conditional_data = bool                       \<comment> \<open>\<open>invoke1\<close>\<close>

definition isInvoke1 :: "conditional_data \<Rightarrow> bool" where
  "isInvoke1 data = data"

definition conditionalSaga :: "(conditional_data \<times> 'w) saga_step list" where
  "conditionalSaga =
     ib_build (invokes (makes (Inr do2) None)
       (ib_step (compensates (makes (Inr undo1) (Some isInvoke1)) (invokes (makes do1 (Some isInvoke1)) first_step))))"

definition do1_command :: command_with_destination where
  "do1_command = new_CommandWithDestination ''participant1'' (e2e_command ''Do1Command'') None (Some DO1_COMMAND_EXTRA_HEADERS)"

lemma do1_command: "do1 = Inr do1_command"
  by (simp add: do1_def do1_command_def cb_build_def cb_withExtraHeaders_def cb_to_def cb_send_def)

definition conditional_plan :: "(conditional_data plain \<times> conditional_data plain) list" where
  "conditional_plan = [(Some (isInvoke1, \<lambda>_. do1_command), Some (isInvoke1, \<lambda>_. undo1)), (Some (\<lambda>_. True, \<lambda>_. do2), None)]"

lemma conditionalSaga_alike: "list_all2 alike conditionalSaga (map plain_step (data_plan conditional_plan))"
  by (auto simp: conditionalSaga_def conditional_plan_def data_plan_def on_data_def plain_step_def plain_invocation_def builder_defs
      invokes_def compensates_def makes_def do1_command withDestination_def new_ParticipantInvocation_def alike_def applies_def
      saga_step_defs andThen_def fun_eq_iff)

lemma conditional_plan_todo:
  "actions_todo conditional_plan d = (if d then [0, 1] else [1])"
  "undo conditional_plan d (Suc 0) = (if d then [0] else [])" "undo conditional_plan d 0 = []"
  by (simp_all add: actions_todo_def undo_def conditional_plan_def wanted_def side_def isInvoke1_def upt_rec)

lemma conditional_plan_commands:
  "command_of d False (conditional_plan ! 0) = do1_command" "command_of d False (conditional_plan ! Suc 0) = do2"
  "command_of d True (conditional_plan ! 0) = undo1"
  by (simp_all add: conditional_plan_def command_of_def side_def)

lemma conditional_plan_named: "classes_named conditional_plan d"
  by (auto simp: classes_named_def conditional_plan_def command_of_def side_def wanted_def do1_command_def undo1_def do2_def
      e2e_command_def new_CommandWithDestination_def nth_Cons split: nat.splits option.splits if_splits)

lemma conditional_manager:
  "plain_manager R P S ty dt conditionalSaga = plain_manager R P S ty dt (map plain_step (data_plan conditional_plan))"
  by (rule plain_manager_alike [OF conditionalSaga_alike])

text \<open>
  The conditional saga, as its tests describe it. When its data ask for the first step, \<open>Do1\<close>, with its extra headers, is
  sent and then \<open>Do2\<close>; otherwise \<open>Do2\<close> alone. When \<open>Do2\<close> fails, \<open>Undo1\<close> is sent if \<open>Do1\<close> was, and when \<open>Do1\<close> fails nothing
  more is. The saga ends, compensating exactly when one of them has failed.
\<close>

lemma conditional_saga_outcome:
  assumes env: "memory_environment P newId now" and M: "M = plain_manager mem_repository P S ty dt conditionalSaga"
    and yes: "routed ty None yes" "is_reply SUCCESS yes" and no: "routed ty None no" "is_reply FAILURE no"
  shows "if isInvoke1 d
    then comes_to M P S ty d w [yes, yes] [do1_command, do2] False d
      \<and> comes_to M P S ty d w [yes, no, yes] [do1_command, do2, undo1] True d
      \<and> comes_to M P S ty d w [no] [do1_command] True d
    else comes_to M P S ty d w [yes] [do2] False d \<and> comes_to M P S ty d w [no] [do2] True d"
proof -
  note completes = memory_environment.plan_completes [OF env conditional_plan_named]
  note rolls_back = memory_environment.plan_rolls_back [OF env conditional_plan_named, of _ _ _ no]
  note facts = conditional_plan_todo conditional_plan_commands M conditional_manager yes no
  show ?thesis
  proof (cases d)
    case True
    then have "comes_to M P S ty d w [yes, yes] [do1_command, do2] False d"
      using completes [of "[yes, yes]" d ty S dt w] by (simp add: facts)
    moreover have "comes_to M P S ty d w [yes, no, yes] [do1_command, do2, undo1] True d"
      using rolls_back [of "[yes]" d "[yes]" ty S dt w] True by (simp add: facts)
    moreover have "comes_to M P S ty d w [no] [do1_command] True d"
      using rolls_back [of "[]" d "[]" ty S dt w] True by (simp add: facts)
    ultimately show ?thesis using True by (simp add: isInvoke1_def)
  next
    case False
    then have "comes_to M P S ty d w [yes] [do2] False d"
      using completes [of "[yes]" d ty S dt w] by (simp add: facts)
    moreover have "comes_to M P S ty d w [no] [do2] True d"
      using rolls_back [of "[]" d "[]" ty S dt w] False by (simp add: facts)
    ultimately show ?thesis using False by (simp add: isInvoke1_def)
  qed
qed

lemma conditional_saga_outcome_witness:
  "comes_to (plain_manager mem_repository (logging_producer []) sample_serializer ''ConditionalSaga'' (\<lambda>_. ''ConditionalSagaData'') conditionalSaga)
    (logging_producer []) sample_serializer ''ConditionalSaga'' True ([], [])
    [reply_to_saga ''ConditionalSaga'' SUCCESS, reply_to_saga ''ConditionalSaga'' FAILURE, reply_to_saga ''ConditionalSaga'' SUCCESS]
    [do1_command, do2, undo1] True True"
  using conditional_saga_outcome [OF logging.memory_environment_axioms [of "[]"] refl,
      where S = sample_serializer and dt = "\<lambda>_. ''ConditionalSagaData''" and d = True and w = "([], [])" and ty = "''ConditionalSaga''"
        and yes = "reply_to_saga ''ConditionalSaga'' SUCCESS" and no = "reply_to_saga ''ConditionalSaga'' FAILURE"]
  by (simp add: reply_to_saga_facts isInvoke1_def)

section \<open>The saga with handlers for its replies\<close>

text \<open>
  \<open>WithReplyHandlers\<close>: its methods are empty in the source, and mocks in its test. They are parameters that
  work on what the data hold beside \<open>invoke1\<close>, which is read-only.
\<close>

record 'x with_reply_handlers =
  success1 :: "jsobj \<Rightarrow> 'x \<Rightarrow> 'x"
  failure1 :: "jsobj \<Rightarrow> 'x \<Rightarrow> 'x"
  compensating :: "jsobj \<Rightarrow> 'x \<Rightarrow> 'x"
  success2 :: "jsobj \<Rightarrow> 'x \<Rightarrow> 'x"
  failure2 :: "jsobj \<Rightarrow> 'x \<Rightarrow> 'x"

definition handles_reply :: "(jsobj \<Rightarrow> 'x \<Rightarrow> 'x) \<Rightarrow> jsobj \<Rightarrow> ((conditional_data \<times> 'x) \<times> 'w, unit) eff" where
  "handles_reply h reply = on_saga_data (\<lambda>d. (Inr (), (fst d, h reply (snd d))))"

definition withReplyHandlersSaga :: "'x with_reply_handlers \<Rightarrow> ((conditional_data \<times> 'x) \<times> 'w) saga_step list" where
  "withReplyHandlersSaga H =
     ib_build (onReply ''Success'' (handles_reply (success2 H)) (onReply ''Failure'' (handles_reply (failure2 H))
       (invokes (makes (Inr do2) None)
         (ib_step (onReply ''Success'' (handles_reply (compensating H))
           (compensates (makes (Inr undo1) (Some (isInvoke1 \<circ> fst)))
             (onReply ''Success'' (handles_reply (success1 H)) (onReply ''Failure'' (handles_reply (failure1 H))
               (invokes (makes do1 (Some (isInvoke1 \<circ> fst))) first_step)))))))))"

lemma withReplyHandlersSaga_steps:
  "withReplyHandlersSaga H =
    (let handler = (\<lambda>t h. (t, \<lparr>rh_type = t, rh_handler = handles_reply h\<rparr>));
         invocation = with_invocation (\<lambda>_. None) no_cell
     in [ParticipantInvocationStep
       \<lparr>actionReplyHandlers = [handler ''Failure'' (failure1 H), handler ''Success'' (success1 H)],
        compensationReplyHandlers = [handler ''Success'' (compensating H)],
        participantInvocation = Some (invocation (makes do1 (Some (isInvoke1 \<circ> fst)))),
        ps_compensation = Some (invocation (makes (Inr undo1) (Some (isInvoke1 \<circ> fst))))\<rparr>,
      ParticipantInvocationStep
       \<lparr>actionReplyHandlers = [handler ''Failure'' (failure2 H), handler ''Success'' (success2 H)],
        compensationReplyHandlers = [],
        participantInvocation = Some (invocation (makes (Inr do2) None)), ps_compensation = None\<rparr>])"
  by (simp add: withReplyHandlersSaga_def builder_defs invokes_def compensates_def Let_def)

lemmas reply_saga_defs = withReplyHandlersSaga_steps with_invocation_def makes_def withDestination_def do1_command isInvoke1_def
  new_ParticipantInvocation_def next_step_defs at_position_def new_SagaExecutionState_def commanded_def Let_def

lemma reply_saga_next:
  "start (withReplyHandlersSaga H) ((b, x), w) =
     (Inr (if b then commanded False (-1) 0 do1_command else commanded False (-1) 1 do2), ((b, x), w))"
  "executeNextStep (withReplyHandlersSaga H) (at_position 0 False) ((b, x), w) = (Inr (commanded False 0 1 do2), ((b, x), w))"
  "executeNextStep (withReplyHandlersSaga H) (at_position 1 False) ((b, x), w) =
     (Inr (makeEndStateSagaActions (at_position 1 False)), ((b, x), w))"
  "executeNextStep (withReplyHandlersSaga H) (at_position 1 True) ((b, x), w) =
     (Inr (if b then commanded True 1 0 undo1 else makeEndStateSagaActions (at_position 1 True)), ((b, x), w))"
  "executeNextStep (withReplyHandlersSaga H) (at_position 0 True) ((b, x), w) =
     (Inr (makeEndStateSagaActions (at_position 0 True)), ((b, x), w))"
  by (simp_all add: reply_saga_defs start_def)

text \<open>A reply that is a \<open>Success\<close> or a \<open>Failure\<close>, with the object its payload is.\<close>

definition typed_reply :: "serializer \<Rightarrow> outcome \<Rightarrow> jsobj \<Rightarrow> message \<Rightarrow> bool" where
  "typed_reply S out ob m \<longleftrightarrow> is_reply out m
     \<and> map_get (headers m) REPLY_TYPE = Some (if out = SUCCESS then ''Success'' else ''Failure'')
     \<and> parsePayload S (if out = SUCCESS then ''Success'' else ''Failure'') m = Inr ob"

definition reply_handler_of :: "'x with_reply_handlers \<Rightarrow> int \<Rightarrow> bool \<Rightarrow> outcome \<Rightarrow> jsobj \<Rightarrow> 'x \<Rightarrow> 'x" where
  "reply_handler_of H i c out =
     (if c then compensating H else if i = 0 then (if out = SUCCESS then success1 H else failure1 H)
      else (if out = SUCCESS then success2 H else failure2 H))"

lemma reply_saga_reply:
  assumes "typed_reply S out ob m" and "(i, c, out) \<in> {0, 1} \<times> {False} \<times> UNIV \<union> {(0, True, SUCCESS)}"
  shows "handleReply S (withReplyHandlersSaga H) (encodeExecutionState (at_position i c)) m ((b, x), w) =
    executeNextStep (withReplyHandlersSaga H) (at_position i (c \<or> out = FAILURE)) ((b, reply_handler_of H i c out ob x), w)"
proof -
  have "is_reply out m" and type: "map_get (headers m) REPLY_TYPE = Some (if out = SUCCESS then ''Success'' else ''Failure'')"
    using assms(1) by (simp_all add: typed_reply_def)
  then have "getRequiredHeader m REPLY_TYPE = Inr (if out = SUCCESS then ''Success'' else ''Failure'')"
    by (simp add: getRequiredHeader_Inr)
  then show ?thesis
    using assms is_reply_outcome [OF \<open>is_reply out m\<close>]
    by (cases out) (auto simp: handleReply_def andThen_Inr step_at_def at_position_def withReplyHandlersSaga_steps Let_def
        saga_step_defs startCompensating_def with_invocation_def makes_def new_ParticipantInvocation_def invokeReplyHandler_def
        typed_reply_def reply_handler_of_def handles_reply_def on_saga_data_def)
qed

lemma reply_saga_participants: "step \<in> set (withReplyHandlersSaga H) \<Longrightarrow> participant_data_only step"
  by (auto simp: withReplyHandlersSaga_steps Let_def participant_data_only_def invocation_data_only_def data_only_def with_invocation_def
      makes_def do1_command withDestination_def new_ParticipantInvocation_def andThen_def handles_reply_def on_saga_data_def
      split: if_splits)

lemma commanded_others: "named (commanded c i j do1_command)" "named (commanded c i j undo1)"
  by (simp_all add: named_def do1_command_def undo1_def new_CommandWithDestination_def e2e_command_def)

lemma reply_saga_runs:
  assumes "typed_reply S SUCCESS o1 r1" "typed_reply S SUCCESS o2 r2" "typed_reply S SUCCESS o3 r3" "typed_reply S FAILURE e no"
  shows "b \<Longrightarrow> run_saga S (withReplyHandlersSaga H) [r1, r2] ((b, x), w) =
      (Inr ([commanded False (-1) 0 do1_command, commanded False 0 1 do2] @ [makeEndStateSagaActions (at_position 1 False)]),
       ((b, success2 H o2 (success1 H o1 x)), w))"
    and "b \<Longrightarrow> run_saga S (withReplyHandlersSaga H) [r1, no, r3] ((b, x), w) =
      (Inr ([commanded False (-1) 0 do1_command, commanded False 0 1 do2, commanded True 1 0 undo1]
        @ [makeEndStateSagaActions (at_position 0 True)]), ((b, compensating H o3 (failure2 H e (success1 H o1 x))), w))"
    and "b \<Longrightarrow> run_saga S (withReplyHandlersSaga H) [no] ((b, x), w) =
      (Inr ([commanded False (-1) 0 do1_command] @ [makeEndStateSagaActions (at_position 0 True)]), ((b, failure1 H e x), w))"
    and "\<not> b \<Longrightarrow> run_saga S (withReplyHandlersSaga H) [r2] ((b, x), w) =
      (Inr ([commanded False (-1) 1 do2] @ [makeEndStateSagaActions (at_position 1 False)]), ((b, success2 H o2 x), w))"
    and "\<not> b \<Longrightarrow> run_saga S (withReplyHandlersSaga H) [no] ((b, x), w) =
      (Inr ([commanded False (-1) 1 do2] @ [makeEndStateSagaActions (at_position 1 True)]), ((b, failure2 H e x), w))"
  by (simp_all add: assms [THEN reply_saga_reply] reply_saga_next reply_handler_of_def andThen_Inr run_saga_def)

text \<open>
  The saga with handlers for its replies: every reply goes to the one handler that its side and its class name, with the
  object it holds, and before the saga moves. What the handlers leave in the data, in the order of the replies, is
  what the saga ends with; the messages are those of the conditional saga.
\<close>

lemma reply_handlers_called:
  assumes env: "memory_environment P newId now" and M: "M = plain_manager mem_repository P S ty dt (withReplyHandlersSaga H)"
    and replies: "typed_reply S SUCCESS o1 r1" "typed_reply S SUCCESS o2 r2" "typed_reply S SUCCESS o3 r3" "typed_reply S FAILURE e no"
    and routes: "\<forall>m \<in> {r1, r2, r3, no}. routed ty None m"
  shows "if b
    then comes_to M P S ty (b, x) w [r1, r2] [do1_command, do2] False (b, success2 H o2 (success1 H o1 x))
      \<and> comes_to M P S ty (b, x) w [r1, no, r3] [do1_command, do2, undo1] True (b, compensating H o3 (failure2 H e (success1 H o1 x)))
      \<and> comes_to M P S ty (b, x) w [no] [do1_command] True (b, failure1 H e x)
    else comes_to M P S ty (b, x) w [r2] [do2] False (b, success2 H o2 x)
      \<and> comes_to M P S ty (b, x) w [no] [do2] True (b, failure2 H e x)"
proof -
  note comes = memory_environment.memory_comes_to [where steps = "withReplyHandlersSaga H", OF env reply_saga_participants [where H = H],
      where w = w and dt = dt and ty = ty]
  note runs = reply_saga_runs [OF replies, where H = H and b = b and x = x]
  note facts = routes commanded_named commanded_others at_position_def M
  show ?thesis
  proof (cases b)
    case True
    show ?thesis
      using comes [OF _ runs(1) [OF True]] comes [OF _ runs(2) [OF True]] comes [OF _ runs(3) [OF True]] True
      by (simp add: facts)
  next
    case False
    show ?thesis
      using comes [OF _ runs(4) [OF False]] comes [OF _ runs(5) [OF False]] False by (simp add: facts)
  qed
qed

definition typed_sample :: "outcome \<Rightarrow> message" where
  "typed_sample out = sample_message [(HDR_TYPE, ''Reply''),
     (REPLY_TYPE, if out = SUCCESS then ''Success'' else ''Failure''), (REPLY_OUTCOME, outcome_text out),
     (REPLY_SAGA_TYPE, ''Saga''), (REPLY_SAGA_ID, ''null'')]"

lemma typed_sample_facts:
  "typed_reply sample_serializer out \<lparr>obj_class = if out = SUCCESS then ''Success'' else ''Failure'', obj_own = JObj []\<rparr> (typed_sample out)"
  "routed ''Saga'' None (typed_sample out)"
  by (simp_all add: typed_reply_def is_reply_def routed_def filled_def getHeader_def typed_sample_def sample_message_def new_message_def
      parsePayload_def sample_serializer_def saga_header_defs command_header_defs message_header_defs null_text_def)

definition noting_handlers :: "string list with_reply_handlers" where
  "noting_handlers = \<lparr>success1 = \<lambda>_ x. x @ [''success1''], failure1 = \<lambda>_ x. x @ [''failure1''],
     compensating = \<lambda>_ x. x @ [''compensating''], success2 = \<lambda>_ x. x @ [''success2''], failure2 = \<lambda>_ x. x @ [''failure2'']\<rparr>"

lemma reply_handlers_called_witness:
  "comes_to (plain_manager mem_repository (logging_producer []) sample_serializer ''Saga'' (\<lambda>_. ''ConditionalSagaData'')
      (withReplyHandlersSaga noting_handlers))
    (logging_producer []) sample_serializer ''Saga'' (True, []) ([], []) [typed_sample SUCCESS, typed_sample FAILURE, typed_sample SUCCESS]
    [do1_command, do2, undo1] True (True, [''success1'', ''failure2'', ''compensating''])"
  using reply_handlers_called [OF logging.memory_environment_axioms [of "[]"] refl
      typed_sample_facts(1) typed_sample_facts(1) typed_sample_facts(1) typed_sample_facts(1),
      where H = noting_handlers and dt = "\<lambda>_. ''ConditionalSagaData''" and b = True and x = "[]" and w = "([], [])" and ty = "''Saga''"]
  by (simp add: typed_sample_facts(2) noting_handlers_def)

end
