(* ===== verification/SagaAnswers.thy ===== *)
theory SagaAnswers
  imports SagaLiveness
begin

text \<open>
  The participants of a saga as they are built: a command of a saga is taken by a command dispatcher, its
  handler replies or throws, and the reply that is sent comes back to the manager of the saga as an answer
  it can use. This closes the circle of the manager and its participants.
\<close>

section \<open>A reply that the manager can use\<close>

lemma prepared_for_get:
  "prepared_for P ch m m' \<Longrightarrow> k \<notin> {HDR_ID, HDR_DESTINATION, HDR_DATE} \<Longrightarrow> map_get (headers m') k = map_get (headers m) k"
  by (auto simp: prepared_for_def simp del: update.simps)

lemma command_message_wf: "map_wf (headers (command_message S ch cmd r h res))"
  by (auto simp: command_message_def createMessage_def Let_def split: option.splits)

text \<open>
  A command that a saga sent and a participant received: it has a type, names where its reply goes, and its
  correlated headers name the saga and nothing that a reply says of itself.
\<close>

lemma delivered_command:
  assumes "delivered P S ty sid c x" and "obj_class (the_command c) \<noteq> ''''"
  shows "filled (snd x) HDR_TYPE" and "map_get (headers (snd x)) REPLY_TO = Some (ty @ ''-reply'')"
    and "map_get (headers (snd x)) SAGA_TYPE = Some ty" and "map_get (headers (snd x)) SAGA_ID = Some (null_text sid)"
    and "map_get (headers (snd x)) COMMAND_TYPE = Some (obj_class (the_command c))" and "map_wf (headers (snd x))"
proof -
  have p: "prepared_for P (channel c) (saga_message S ty sid (ty @ ''-reply'') c) (snd x)"
    using assms(1) by (simp add: delivered_def)
  note get = prepared_for_get [OF p]
  show "filled (snd x) HDR_TYPE"
    using filled_saga_message [OF assms(2)] get [of HDR_TYPE] by (simp add: filled_def getHeader_def message_header_defs)
  show "map_get (headers (snd x)) REPLY_TO = Some (ty @ ''-reply'')"
    using get [of REPLY_TO] saga_message_headers(3) by (simp add: command_header_defs message_header_defs)
  show "map_get (headers (snd x)) SAGA_TYPE = Some ty" "map_get (headers (snd x)) SAGA_ID = Some (null_text sid)"
    "map_get (headers (snd x)) COMMAND_TYPE = Some (obj_class (the_command c))"
    using get [of SAGA_TYPE] get [of SAGA_ID] get [of COMMAND_TYPE] saga_message_headers(1,2,4)
    by (simp_all add: saga_header_defs command_header_defs message_header_defs)
  show "map_wf (headers (snd x))"
    using p by (auto simp: prepared_for_def saga_message_def command_message_wf)
qed

lemma correlated_none:
  "k \<noteq> IN_REPLY_TO \<Longrightarrow> \<not> startsWith k COMMAND_REPLY_PREFIX \<Longrightarrow> map_get (correlated h) k = None"
  using correlated_keys [of h k] by (cases "map_get (correlated h) k") (auto simp: startsWith_append)

lemma withReply_not_locked: "withReply S p out = Inr r \<Longrightarrow> map_get (headers r) REPLY_LOCKED = None"
  by (auto simp: withReply_def withPayload_def saga_header_defs command_header_defs message_header_defs
      split: payload_arg.splits sum.splits)

lemma reply_keeps:
  assumes "withReply S p out = Inr r" and "prepared_for P ch (reply_message (correlated h) r) m'"
    and "k \<in> {HDR_TYPE, REPLY_TYPE, REPLY_OUTCOME, REPLY_LOCKED}"
  shows "map_get (headers m') k = map_get (headers r) k"
proof -
  have "k \<notin> {HDR_ID, HDR_DESTINATION, HDR_DATE}" "k \<noteq> IN_REPLY_TO" "\<not> startsWith k COMMAND_REPLY_PREFIX"
    using assms(3) by (auto simp: saga_header_defs command_header_defs message_header_defs)
  then show ?thesis
    using prepared_for_get [OF assms(2), of k] reply_message_headers [OF correlated_wf withReply_wf [OF assms(1)], of h]
      correlated_none [of k h] by simp
qed

text \<open>The reply to such a command, with the headers correlated, is routed to the saga and keeps its outcome.\<close>

lemma reply_fits:
  assumes "map_wf (headers m)" and "map_get (headers m) SAGA_TYPE = Some ty" and "map_get (headers m) SAGA_ID = Some (null_text sid)"
    and "ty \<noteq> ''''" and "sid \<noteq> Some ''''"
    and r: "withReply S p out = Inr r" and "constructor_name p \<noteq> ''''"
    and "prepared_for P ch (reply_message (correlated (headers m)) r) m'"
  shows "routed ty sid m'" and "is_reply out m'"
proof -
  note get = prepared_for_get [OF assms(8)]
  note reply = reply_message_headers [OF correlated_wf withReply_wf [OF r], of "headers m"]
  have "REPLY_SAGA_TYPE = COMMAND_REPLY_PREFIX @ ''saga_type''" "REPLY_SAGA_ID = COMMAND_REPLY_PREFIX @ ''saga_id''"
    by (simp_all add: saga_header_defs)
  then have "map_get (correlated (headers m)) REPLY_SAGA_TYPE = Some ty"
    "map_get (correlated (headers m)) REPLY_SAGA_ID = Some (null_text sid)"
    using correlated_get [OF assms(1)] assms(2,3) by (metis SAGA_TYPE_def, metis SAGA_ID_def)
  moreover have "REPLY_SAGA_TYPE \<notin> {HDR_ID, HDR_DESTINATION, HDR_DATE}" "REPLY_SAGA_ID \<notin> {HDR_ID, HDR_DESTINATION, HDR_DATE}"
    by (simp_all add: saga_header_defs command_header_defs message_header_defs)
  ultimately have saga: "map_get (headers m') REPLY_SAGA_TYPE = Some ty" "map_get (headers m') REPLY_SAGA_ID = Some (null_text sid)"
    using get reply by simp_all
  note own = reply_keeps [OF r assms(8)]
  show "routed ty sid m'"
    using saga own [of HDR_TYPE] own [of REPLY_LOCKED] assms(4,5,7) withReply_headers(1) [OF r] withReply_not_locked [OF r]
    by (auto simp: routed_def filled_def getHeader_def null_text_def split: option.splits)
  show "is_reply out m'"
    using own [of REPLY_TYPE] own [of REPLY_OUTCOME] assms(7) withReply_headers(2,3) [OF r]
    by (simp add: is_reply_def filled_def getHeader_def)
qed

section \<open>A participant behind its dispatcher\<close>

context accepting_producer
begin

lemma dispatcher_sends:
  assumes "messageProducer D = P" and "findTargetMethod (commandHandlers D) m = Inr (Some h)"
    and "filled m HDR_TYPE" and "map_get (headers m) REPLY_TO = Some ch" and "ch \<noteq> ''''"
    and "parsePayload (dispatcherSerializer D) (ch_command h) m = Inr cmd"
    and "invoke h \<lparr>cm_command = cmd, cm_correlation = correlated (headers m), cm_message = m\<rparr> (s, log) = (Inr [rep], (s', log))"
    and rep: "withReply (dispatcherSerializer D) p out = Inr rep" "constructor_name p \<noteq> ''''"
  shows "cd_handleMessage invoke D m (s, log) =
    (Inr (), (s', log @ [(ch, prepared P ch newId now (reply_message (correlated (headers m)) rep))]))"
proof -
  have typed: "map_get (headers rep) HDR_TYPE = Some (constructor_name p)"
    using withReply_headers(1) [OF rep(1)] .
  then obtain t where t: "toString rep = Inr t"
    using toString_total [of rep] rep(2) by (auto simp: filled_def getHeader_def)
  have "cd_replies invoke D h (correlated (headers m)) ch m (s, log) = (Inr (Some [rep]), (s', log))"
    using assms(6,7) t by (simp add: cd_replies_def andThen_def tryCatch_def)
  then have "cd_handleMessage invoke D m (s, log) = sendReplies D (correlated (headers m)) [rep] ch (s', log)"
    using assms(2) getRequiredHeader_Inr [of m REPLY_TO ch] assms(4,5)
    by (simp add: cd_handleMessage_def andThen_def correlateMessageHeaders_eq)
  moreover have "map_get (correlated (headers m)) HDR_TYPE = None"
    by (rule correlated_none) (simp_all add: command_header_defs message_header_defs)
  then have "filled (reply_message (correlated (headers m)) rep) HDR_TYPE"
    using reply_message_headers [OF correlated_wf withReply_wf [OF rep(1)], of "headers m"] typed rep(2)
    by (simp add: filled_def getHeader_def)
  then have "sendReplies D (correlated (headers m)) [rep] ch (s', log) =
      (Inr (), (s', log @ [(ch, prepared P ch newId now (reply_message (correlated (headers m)) rep))]))"
    using sends_one [of _ ch s' log] assms(1) by (simp add: sendReplies_eq)
  ultimately show ?thesis by simp
qed

lemma dispatcher_answers:
  assumes "messageProducer D = P" and "findTargetMethod (commandHandlers D) m = Inr (Some h)" and "\<not> ch_withLock h"
    and "filled m HDR_TYPE" and "map_get (headers m) REPLY_TO = Some ch" and "ch \<noteq> ''''"
    and "parsePayload (dispatcherSerializer D) (ch_command h) m = Inr cmd"
    and "ch_invoke h \<lparr>cm_command = cmd, cm_correlation = correlated (headers m), cm_message = m\<rparr> (s, log) = (r, (s', log))"
    and gives: "gives (dispatcherSerializer D) r p out" "withReply (dispatcherSerializer D) p out = Inr rep"
    and "constructor_name p \<noteq> ''''"
  shows "cd_handleMessage (cd_invoke (dispatcherSerializer D)) D m (s, log) =
    (Inr (), (s', log @ [(ch, prepared P ch newId now (reply_message (correlated (headers m)) rep))]))"
  by (rule dispatcher_sends [where invoke = "cd_invoke (dispatcherSerializer D)", OF assms(1,2,4-7) cd_invoke_gives [OF assms(8,3) gives] gives(2) assms(11)])

end

text \<open>The handler that a dispatcher has for a message, and that answers it with the outcome \<open>out\<close>.\<close>

definition participates :: "('s \<times> sent_log) dispatcher \<Rightarrow> 's \<times> sent_log \<Rightarrow> message \<Rightarrow> outcome \<Rightarrow> bool" where
  "participates D w m out \<longleftrightarrow> (\<exists>h cmd r s' p rep. findTargetMethod (commandHandlers D) m = Inr (Some h)
     \<and> \<not> ch_withLock h \<and> parsePayload (dispatcherSerializer D) (ch_command h) m = Inr cmd
     \<and> ch_invoke h \<lparr>cm_command = cmd, cm_correlation = correlated (headers m), cm_message = m\<rparr> w = (r, (s', snd w))
     \<and> gives (dispatcherSerializer D) r p out \<and> withReply (dispatcherSerializer D) p out = Inr rep
     \<and> constructor_name p \<noteq> '''')"

lemma participant_answers_at:
  assumes "accepting_producer (messageProducer D) newId now"
    and x: "delivered P S ty sid c x" "obj_class (the_command c) \<noteq> ''''" and sid: "ty \<noteq> ''''" "sid \<noteq> Some ''''"
    and "participates D (s, log) (snd x) out"
  shows "\<exists>m' s'. cd_handleMessage (cd_invoke (dispatcherSerializer D)) D (snd x) (s, log) =
      (Inr (), (s', log @ [(ty @ ''-reply'', m')])) \<and> routed ty sid m' \<and> is_reply out m'"
proof -
  obtain h cmd r s' p rep where h: "findTargetMethod (commandHandlers D) (snd x) = Inr (Some h)" "\<not> ch_withLock h"
    and cmd: "parsePayload (dispatcherSerializer D) (ch_command h) (snd x) = Inr cmd"
    and r: "ch_invoke h \<lparr>cm_command = cmd, cm_correlation = correlated (headers (snd x)), cm_message = snd x\<rparr> (s, log) = (r, (s', log))"
    and gives: "gives (dispatcherSerializer D) r p out" "withReply (dispatcherSerializer D) p out = Inr rep"
    and named: "constructor_name p \<noteq> ''''"
    using assms(6) unfolding participates_def by auto
  note command = delivered_command [OF x]
  have "ty @ ''-reply'' \<noteq> ''''" by simp
  note handled = accepting_producer.dispatcher_answers [OF assms(1) refl h command(1,2) this cmd r gives named]
  note fits = reply_fits [OF command(6,3,4) sid gives(2) named
      accepting_producer.prepared_facts(2) [OF assms(1)], of "ty @ ''-reply''"]
  show ?thesis using handled fits by blast
qed

text \<open>
  C9: The way of a command of a saga through a participant and back: when the dispatcher of the participant
  finds a handler for the message that the saga has sent, and the handler replies, or throws, then one message
  is sent, to the reply channel of the manager of the saga, it is routed to the instance the command was sent for,
  and it has the outcome that the handler gave: a failure for an error.
\<close>

theorem participant_answers:
  assumes "accepting_producer (messageProducer D) newId now"
    and "delivered P S ty sid c x" and "obj_class (the_command c) \<noteq> ''''" and "ty \<noteq> ''''" and "sid \<noteq> Some ''''"
    and "participates D (s, log) (snd x) out"
  shows "\<exists>m' s'. cd_handleMessage (cd_invoke (dispatcherSerializer D)) D (snd x) (s, log) =
      (Inr (), (s', log @ [(ty @ ''-reply'', m')])) \<and> routed ty sid m' \<and> is_reply out m'"
  using assms by (rule participant_answers_at)

section \<open>A saga whose participants are dispatchers\<close>

definition answer_of :: "('s \<times> sent_log) dispatcher \<Rightarrow> 's \<Rightarrow> message \<Rightarrow> message" where
  "answer_of D s m = (case cd_handleMessage (cd_invoke (dispatcherSerializer D)) D m (s, []) of
     (_, (_, sent)) \<Rightarrow> snd (last sent))"

text \<open>All the commands that the plan of a saga sends are taken, a compensation successfully.\<close>

definition all_participate ::
    "('s \<times> sent_log) dispatcher \<Rightarrow> 's \<Rightarrow> 'w producer \<Rightarrow> serializer \<Rightarrow> string \<Rightarrow> ('d plain \<times> 'd plain) list \<Rightarrow> 'd \<Rightarrow>
     (nat \<Rightarrow> outcome) \<Rightarrow> bool" where
  "all_participate D s P S ty plan d out \<longleftrightarrow> (\<forall>j < length plan. \<forall>c x. wanted d c (plan ! j) \<longrightarrow>
     delivered P S ty None (command_of d c (plan ! j)) x \<longrightarrow>
     participates D (s, []) (snd x) (if c then SUCCESS else out j))"

lemma dispatchers_answer:
  assumes "accepting_producer (messageProducer D) newId now" and "classes_named plan d" and "ty \<noteq> ''''"
    and "all_participate D s P S ty plan d out"
  shows "answers P S ty None plan d out (answer_of D s)"
  unfolding answers_def
proof (intro allI impI)
  fix j c x
  assume j: "j < length plan" "wanted d c (plan ! j)" and x: "delivered P S ty None (command_of d c (plan ! j)) x"
  then have "obj_class (the_command (command_of d c (plan ! j))) \<noteq> ''''"
    using assms(2) by (simp add: classes_named_def)
  moreover have "participates D (s, []) (snd x) (if c then SUCCESS else out j)"
    using assms(4) j x unfolding all_participate_def by blast
  ultimately obtain m' s' where "cd_handleMessage (cd_invoke (dispatcherSerializer D)) D (snd x) (s, []) =
      (Inr (), (s', [] @ [(ty @ ''-reply'', m')]))" "routed ty None m'" "is_reply (if c then SUCCESS else out j) m'"
    using participant_answers_at [OF assms(1) x _ assms(3)] by blast
  then show "routed ty None (answer_of D s (snd x)) \<and> is_reply (if c then SUCCESS else out j) (answer_of D s (snd x))"
    by (simp add: answer_of_def)
qed


section \<open>A saga that fails\<close>

text \<open>The participants of the sample plan: the last step is the one that fails.\<close>

definition sample_participants :: "(unit \<times> sent_log) dispatcher" where
  "sample_participants = dispatcher_create (logging_producer []) sample_serializer ''participants''
     (hb_build (hb_onMessage ''ApproveOrder'' (\<lambda>_. throw (ErrorException ''too late'')) False None
       (hb_onMessage ''ReserveCredit'' (\<lambda>_. ret (One ReplyNothing)) False None
       (hb_onMessage ''ReleaseCredit'' (\<lambda>_. ret (One (ReplyObject (ObjectArg (sample_object ''CreditReleased''))))) False None
       (hb_onMessage ''RejectOrder'' (\<lambda>_. ret (One ReplyNothing)) False None (hb_fromChannel ''participants''))))))"

lemma sample_accepts: "accepting_producer (messageProducer sample_participants) ''m1'' ''2021-01-01T00:00:00.000Z''"
  by unfold_locales (simp_all add: sample_participants_def dispatcher_create_def logging_producer_def)

lemma sample_participates:
  assumes "map_get (headers m) COMMAND_TYPE = Some t" and "t \<in> {''ApproveOrder'', ''ReserveCredit'', ''ReleaseCredit'', ''RejectOrder''}"
  shows "participates sample_participants ((), log) m (if t = ''ApproveOrder'' then FAILURE else SUCCESS)"
proof -
  have "filled m COMMAND_TYPE" and t: "getHeader m COMMAND_TYPE '''' = t"
    using assms by (auto simp: filled_def getHeader_def)
  have "ch_resource h = None" if "h \<in> set (commandHandlers sample_participants)" for h
    using that by (auto simp: sample_participants_def dispatcher_create_def hb_build_def hb_onMessage_def hb_fromChannel_def)
  from findTargetMethod_plain [OF \<open>filled m COMMAND_TYPE\<close> this] t
  have found: "findTargetMethod (commandHandlers sample_participants) m = Inr (find (\<lambda>h. ch_command h = t) (commandHandlers sample_participants))"
    by simp
  let ?out = "if t = ''ApproveOrder'' then FAILURE else SUCCESS"
  define p where "p = (if t = ''ApproveOrder'' then caught (ErrorException ''too late'')
       else if t = ''ReleaseCredit'' then ObjectArg (sample_object ''CreditReleased'') else Success)"
  obtain h where h: "find (\<lambda>h. ch_command h = t) (commandHandlers sample_participants) = Some h"
    and inv: "\<not> ch_withLock h" "\<forall>cm. gives sample_serializer (fst (ch_invoke h cm ((), log))) p ?out
      \<and> ch_invoke h cm ((), log) = (fst (ch_invoke h cm ((), log)), ((), log))"
    using assms(2)
    by (auto simp: sample_participants_def dispatcher_create_def hb_build_def hb_onMessage_def hb_fromChannel_def gives_def p_def)
  obtain rep where rep: "withReply sample_serializer p ?out = Inr rep"
    by (cases "withReply sample_serializer p ?out")
      (auto simp: p_def withReply_def withPayload_def caught_def Success_def split: if_splits)
  have "constructor_name p \<noteq> ''''"
    by (simp add: p_def caught_def Success_def sample_object_def)
  moreover have "dispatcherSerializer sample_participants = sample_serializer"
    by (simp add: sample_participants_def dispatcher_create_def)
  moreover have "parsePayload sample_serializer c m = Inr \<lparr>obj_class = c, obj_own = payload m\<rparr>" for c
    by (simp add: parsePayload_def sample_serializer_def)
  moreover define cmd where "cmd = \<lparr>obj_class = ch_command h, obj_own = payload m\<rparr>"
  moreover define cm where "cm = \<lparr>cm_command = cmd, cm_correlation = correlated (headers m), cm_message = m\<rparr>"
  ultimately show ?thesis
    unfolding participates_def using found h inv rep
    by (intro exI [of _ h] exI [of _ cmd] exI [of _ "fst (ch_invoke h cm ((), log))"] exI [of _ "()"] exI [of _ p] exI [of _ rep]) simp
qed

lemma sample_all_participate:
  "all_participate sample_participants () P S ty sample_plan () (\<lambda>j. if j = 3 then FAILURE else SUCCESS)"
  unfolding all_participate_def
proof (intro allI impI)
  fix j c x
  assume j: "j < length sample_plan" "wanted () c (sample_plan ! j)"
    and x: "delivered P S ty None (command_of () c (sample_plan ! j)) x"
  let ?t = "obj_class (the_command (command_of () c (sample_plan ! j)))"
  have "?t \<noteq> ''''"
    using sample_plan_named j by (simp add: classes_named_def)
  then have "map_get (headers (snd x)) COMMAND_TYPE = Some ?t"
    by (rule delivered_command(5) [OF x])
  moreover have "?t \<in> {''ApproveOrder'', ''ReserveCredit'', ''ReleaseCredit'', ''RejectOrder''}"
      "?t = ''ApproveOrder'' \<longleftrightarrow> j = 3 \<and> \<not> c"
    using j by (auto simp: sample_plan_def command_of_def side_def wanted_def sample_command_def sample_object_def
        new_CommandWithDestination_def nth_Cons split: nat.splits option.splits if_splits)
  ultimately show "participates sample_participants ((), []) (snd x) (if c then SUCCESS else if j = 3 then FAILURE else SUCCESS)"
    using sample_participates [of "snd x" ?t "[]"] by (auto split: if_splits)
qed


lemma participant_answers_witness:
  "\<exists>x m'. cd_handleMessage (cd_invoke sample_serializer) sample_participants x ((), []) =
      (Inr (), ((), [(''CreateOrderSaga-reply'', m')]))
    \<and> routed ''CreateOrderSaga'' None m' \<and> is_reply FAILURE m'"
proof -
  let ?P = "logging_producer [] :: (unit \<times> sent_log) producer"
  let ?c = "sample_command ''orders'' ''ApproveOrder''"
  let ?m = "saga_message sample_serializer ''CreateOrderSaga'' None (''CreateOrderSaga'' @ ''-reply'') ?c"
  let ?x = "(channel ?c, prepared ?P (channel ?c) ''m2'' ''2021-01-01T00:00:00.000Z'' ?m)"
  have x: "delivered ?P sample_serializer ''CreateOrderSaga'' None ?c ?x"
    by (auto simp: delivered_def prepared_for_def prepared_def setHeader_def)
  have cls: "obj_class (the_command ?c) = ''ApproveOrder''"
    by (simp add: sample_command_def sample_object_def new_CommandWithDestination_def)
  have named: "obj_class (the_command ?c) \<noteq> ''''"
    by (simp add: cls)
  have "participates sample_participants ((), []) (snd ?x) FAILURE"
    using sample_participates [OF delivered_command(5) [OF x named], of "[]"] cls by simp
  from participant_answers [OF sample_accepts x named _ _ this]
  obtain m' s' where "cd_handleMessage (cd_invoke sample_serializer) sample_participants (snd ?x) ((), []) =
      (Inr (), (s', [(''CreateOrderSaga-reply'', m')]))" "routed ''CreateOrderSaga'' None m'" "is_reply FAILURE m'"
    by (auto simp: sample_participants_def dispatcher_create_def)
  then show ?thesis by (metis (full_types) old.unit.exhaust)
qed

end
