(* ===== verification/OrdersApplication.thy ===== *)
theory OrdersApplication
  imports SagaExamples SagaAnswers Participant
begin

text \<open>
  The application of customers and orders as a whole (\<open>examples/sagas-customers-orders/\<close>): the service and the controllers of
  the orders (\<open>orders/order.service.ts\<close>, \<open>orders/orders.controller.ts\<close>), and an order that is posted, from the creation of
  its saga through the dispatcher of the customers to its approval or rejection.
\<close>

section \<open>The service of the orders\<close>

record placed_order =
  po_id :: int
  po_customerId :: int
  po_orderTotal :: money
  po_state :: created_order_state
  po_rejectionReason :: "rejection_reason option"

definition new_CreateOrderSagaData :: "int \<Rightarrow> money \<Rightarrow> create_order_data" where
  "new_CreateOrderSagaData customerId orderSum =
     \<lparr>co_id = None, co_customerId = customerId, co_orderTotal = orderSum, co_rejectionReason = None\<rparr>"

text \<open>\<open>findOne\<close> is that of the TypeORM repository of the orders, and the first argument is the map of the saga instance factory.\<close>

definition os_find :: "(int option \<Rightarrow> ('w, placed_order option) eff) \<Rightarrow> int option \<Rightarrow> ('w, placed_order option) eff" where
  "os_find findOne i = findOne i"

definition os_create ::
    "(string, (create_order_data, 'w) saga_manager) jsmap \<Rightarrow> (int option \<Rightarrow> ('w, placed_order option) eff) \<Rightarrow> int \<Rightarrow> money \<Rightarrow>
     ('w, placed_order option) peff" where
  "os_create managers findOne customerId orderSum w =
     (case factory_create managers ''CreateOrderSaga'' (new_CreateOrderSagaData customerId orderSum, w) of
        None \<Rightarrow> None
      | Some (Inl e, (d, w')) \<Rightarrow> Some (Inl e, w')
      | Some (Inr _, (d, w')) \<Rightarrow> Some (os_find findOne (co_id d) w'))"

record create_order_dto =
  dto_orderTotal :: money
  dto_customerId :: int

definition oc_create ::
    "(string, (create_order_data, 'w) saga_manager) jsmap \<Rightarrow> (int option \<Rightarrow> ('w, placed_order option) eff) \<Rightarrow> create_order_dto \<Rightarrow>
     ('w, placed_order option) peff" where
  "oc_create managers findOne dto = os_create managers findOne (dto_customerId dto) (dto_orderTotal dto)"

definition oc_find :: "(int option \<Rightarrow> ('w, placed_order option) eff) \<Rightarrow> int \<Rightarrow> ('w, placed_order) eff" where
  "oc_find findOne i = andThen (os_find findOne (Some i)) (\<lambda>order.
     case order of None \<Rightarrow> throw (NotFoundException (''No order found by ID '' @ show_int i)) | Some order \<Rightarrow> ret order)"

section \<open>The command handlers of the customers\<close>

text \<open>
  The properties that the handler takes out of its command. One without a total is a \<open>TypeError\<close>, when its amount is read; the other
  shapes that do not match are none that the application sends.
\<close>

definition reserve_credit_of :: "jsobj \<Rightarrow> reserve_credit_command option" where
  "reserve_credit_of ob =
     (case (own_property ''customerId'' ob, own_property ''orderId'' ob, own_property ''orderTotal'' ob) of
        (Some (JNum c), Some (JNum i), Some t) \<Rightarrow>
          (case json_property ''amount'' t of
             Some (JNum a) \<Rightarrow> Some \<lparr>rc_customerId = c, rc_orderId = i, rc_orderTotal = \<lparr>amount = a\<rparr>\<rparr>
           | _ \<Rightarrow> None)
      | _ \<Rightarrow> None)"

definition customer_reserve :: "'w customer_repository \<Rightarrow> command_msg \<Rightarrow> ('w, handler_result) eff" where
  "customer_reserve C cm = (case reserve_credit_of (cm_command cm) of
     None \<Rightarrow> throw TypeError | Some c \<Rightarrow> handler_reserveCredit C c)"

text \<open>What the initializer makes of the class \<open>CustomerCommandHandlers\<close>.\<close>

definition customer_handlers :: "'w customer_repository \<Rightarrow> 'w command_handler list" where
  "customer_handlers C =
     [\<lparr>ch_channel = ''customer'', ch_command = ''ReserveCreditCommand'', ch_invoke = customer_reserve C, ch_withLock = False,
       ch_optionsPreLock = None, ch_resource = None, ch_isSaga = True, ch_preLock = None\<rparr>]"

lemma reserve_credit_roundtrip: "reserve_credit_of (ReserveCreditCommand c) = Some c"
  by (cases c) (simp add: reserve_credit_of_def ReserveCreditCommand_def own_property_def money_json_def json_property_def)

section \<open>What else the world holds\<close>

text \<open>An effect that leaves what is observed of the world as it is.\<close>

definition keeps :: "('w \<Rightarrow> 'r) \<Rightarrow> ('w, 'a) eff \<Rightarrow> bool" where
  "keeps rest m \<longleftrightarrow> (\<forall>w. rest (snd (m w)) = rest w)"

named_theorems keeps_intros

lemma keeps_pure [keeps_intros]: "keeps rest (ret a)" "keeps rest (throw e)" "keeps rest (lift r)" "keeps rest (Pair r)"
  by (simp_all add: keeps_def ret_def throw_def lift_def)

lemma keeps_andThen [keeps_intros]: "keeps rest m \<Longrightarrow> (\<And>a. keeps rest (f a)) \<Longrightarrow> keeps rest (andThen m f)"
  by (auto simp: keeps_def andThen_def split: prod.splits sum.splits) (metis snd_conv)+

lemma keeps_tryCatch [keeps_intros]: "keeps rest m \<Longrightarrow> (\<And>e. keeps rest (h e)) \<Longrightarrow> keeps rest (tryCatch m h)"
  by (auto simp: keeps_def tryCatch_def split: prod.splits sum.splits) (metis snd_conv)+

lemma keeps_forEach [keeps_intros]: "(\<And>x. keeps rest (f x)) \<Longrightarrow> keeps rest (forEach f xs)"
  by (induction xs) (auto intro!: keeps_intros)

lemma keeps_mapEff [keeps_intros]: "(\<And>x. keeps rest (f x)) \<Longrightarrow> keeps rest (mapEff f xs)"
  by (induction xs) (auto intro!: keeps_intros)

text \<open>An environment whose repository of instances and producer leave the rest of the world alone.\<close>

locale framed_environment = saga_environment R ty saved sent P
  for R :: "('d, 'w) instance_repository" and ty saved sent P +
  fixes rest :: "'w \<Rightarrow> 'r"
  assumes save_rest: "keeps rest (saveInstance R i)"
    and update_rest: "keeps rest (updateInstance R i)"
    and send_rest: "keeps rest (sendBatch P ch ms isEvent)"
begin

lemma sendCommands_rest: "keeps rest (sendCommands S P ty sid cs ch)"
proof -
  have "keeps rest (sendCommandsFrom S P ty sid cs ch m)" for m
    by (induction cs arbitrary: m) (auto simp: cmd_send_saga intro!: keeps_intros send_rest split: option.split)
  then show ?thesis by (simp add: sendCommands_def)
qed

lemma performActions_rest:
  assumes "si_destinationsAndResources i = []"
  shows "rest (snd (snd (performActions (plain_manager R P S ty dt steps) i a (d, w)))) = rest w"
proof -
  obtain r w1 where s: "sendCommands S P ty (si_sagaId i) (sa_commands a) (ty @ ''-reply'') w = (r, w1)" by (rule prod.exhaust)
  have w1: "rest w1 = rest w" using sendCommands_rest [of S "si_sagaId i" "sa_commands a" "ty @ ''-reply''"] s by (simp add: keeps_def) (metis snd_conv)
  have update: "rest v' = rest v" if "updateInstance R j v = (q, v')" for j v q v'
    using update_rest [of j] that by (simp add: keeps_def) (metis snd_conv)
  show ?thesis
    using s w1 assms
    by (cases r) (auto simp: performActions_def onWorld_def andThen_def getData_def no_participants updateState_def Let_def ret_def
        split: option.splits prod.splits sum.splits dest!: update)
qed

lemma processActions_rest:
  assumes "remote_actions a" and "si_destinationsAndResources i = []"
    and "processActions (plain_manager R P S ty dt steps) i a (d, w) = Some (r, (d', w'))"
  shows "rest w' = rest w"
proof -
  have "processActions (plain_manager R P S ty dt steps) i a (d, w) = Some (performActions (plain_manager R P S ty dt steps) i a (d, w))"
    using assms(1) by (subst processActions.simps) (auto simp: remote_actions_def split: prod.splits sum.splits)
  then have "performActions (plain_manager R P S ty dt steps) i a (d, w) = (r, (d', w'))"
    using assms(3) by simp
  then show ?thesis
    using performActions_rest [OF assms(2), of S dt steps a d w] by simp
qed

end

section \<open>The orders beside the sagas\<close>

definition new_order :: "int \<Rightarrow> create_order_data \<Rightarrow> placed_order" where
  "new_order i d = \<lparr>po_id = i, po_customerId = co_customerId d, po_orderTotal = co_orderTotal d, po_state = PENDING,
     po_rejectionReason = co_rejectionReason d\<rparr>"

definition patched :: "order_patch \<Rightarrow> placed_order \<Rightarrow> placed_order" where
  "patched p order = order\<lparr>po_state := op_state p,
     po_rejectionReason := (case op_reason p of None \<Rightarrow> po_rejectionReason order | Some r \<Rightarrow> Some r)\<rparr>"

text \<open>
  The table of the orders: it gives a new row an identifier of its own, updates and finds rows by it, and does nothing to the
  sagas or the messages. An instance has no empty identifier.
\<close>

locale orders_environment = framed_environment R "''CreateOrderSaga''" saved sent P orders
  for R :: "(create_order_data, 'w) instance_repository" and saved sent P and orders :: "'w \<Rightarrow> int \<Rightarrow> placed_order option" +
  fixes T :: "'w order_repository" and findOne :: "int option \<Rightarrow> ('w, placed_order option) eff"
  assumes insert_row: "\<exists>i w'. insertOrder T d w = (Inr i, w') \<and> orders w i = None \<and> orders w' = (orders w)(i \<mapsto> new_order i d)
      \<and> saved w' = saved w \<and> sent w' = sent w"
    and update_row: "orders w i = Some order \<Longrightarrow> \<exists>w'. updateOrder T (Some i) p w = (Inr (), w')
      \<and> orders w' = (orders w)(i \<mapsto> patched p order) \<and> saved w' = saved w \<and> sent w' = sent w"
    and found_row: "findOne (Some i) w = (Inr (orders w i), w)"
    and identified: "saved w = Some inst \<Longrightarrow> si_sagaId inst \<noteq> Some ''''"

definition reserves :: "reserve_credit_command \<Rightarrow> command_with_destination" where
  "reserves c = new_CommandWithDestination ''customer'' (ReserveCreditCommand c) None None"

definition credit_actions :: "reserve_credit_command \<Rightarrow> saga_actions" where
  "credit_actions c = step_actions at_create at_reserve (RemoteStepOutcome [reserves c])"

lemma local_actions [simp]:
  "sa_local (step_actions st st' (LocalStepOutcome None))" "sa_localException (step_actions st st' (LocalStepOutcome None)) = None"
  by (simp_all add: step_actions_def actions_builder_defs)

lemma credit_actions_facts:
  "remote_actions (credit_actions c)" "named (credit_actions c)" "sa_commands (credit_actions c) = [reserves c]"
  by (simp_all add: credit_actions_def remote_actions_def named_def reserves_def step_actions_def actions_builder_defs
      new_CommandWithDestination_def ReserveCreditCommand_def encodeExecutionState_filled)

context orders_environment
begin

lemma order_placed:
  fixes d :: create_order_data
  assumes M: "M = plain_manager R P S ''CreateOrderSaga'' dt (createOrderSaga T)"
  shows "\<exists>oid i w1 x. let d1 = d\<lparr>co_id := Some oid\<rparr>;
        c = \<lparr>rc_customerId = co_customerId d, rc_orderId = oid, rc_orderTotal = co_orderTotal d\<rparr>
      in sm_create M LockUndefined LockUndefined (d, w) = Some (Inr i, (d1, w1))
        \<and> saved w1 = Some i \<and> reached ''CreateOrderSaga'' (credit_actions c) d1 i
        \<and> sent w1 = sent w @ [x] \<and> delivered P S ''CreateOrderSaga'' (si_sagaId i) (reserves c) x
        \<and> orders w oid = None \<and> orders w1 = (orders w)(oid \<mapsto> new_order oid d)"
proof -
  let ?steps = "createOrderSaga T"
  let ?a = "step_actions new_SagaExecutionState at_create (LocalStepOutcome None)"
  obtain i0 w0 where i0: "saved w0 = Some i0" "si_sagaType i0 = ''CreateOrderSaga''" "si_destinationsAndResources i0 = []" "sent w0 = sent w"
    and w0: "orders w0 = orders w"
    and go: "\<forall>a s. start ?steps (d, w0) = (Inr a, s) \<longrightarrow> sa_localException a = None \<longrightarrow>
        sm_create M LockUndefined LockUndefined (d, w) = processActions M i0 a s"
    using creates_from [of w dt d ?steps S] save_rest unfolding M keeps_def by metis
  obtain oid w1 where ins: "insertOrder T d w0 = (Inr oid, w1)" and oid: "orders w0 oid = None" "orders w1 = (orders w0)(oid \<mapsto> new_order oid d)"
    and w1: "saved w1 = saved w0" "sent w1 = sent w0"
    using insert_row by blast
  let ?d = "d\<lparr>co_id := Some oid\<rparr>"
  let ?c = "\<lparr>rc_customerId = co_customerId d, rc_orderId = oid, rc_orderTotal = co_orderTotal d\<rparr>"
  have created: "sm_create M LockUndefined LockUndefined (d, w) = processActions M i0 ?a (?d, w1)"
    using go started [OF ins] by simp
  have saved1: "saved w1 = Some i0" using w1 i0 by simp
  obtain i1 w2 where i1: "saved w2 = Some i1" "si_sagaType i1 = si_sagaType i0" "si_sagaId i1 = si_sagaId i0" "si_destinationsAndResources i1 = []"
      "sent w2 = sent w1" and p: "performActions M i0 ?a (?d, w1) = (Inr i1, (?d, w2))"
    and go2: "\<forall>a' s. (\<forall>m. is_reply SUCCESS m \<longrightarrow> handleReply S ?steps (encodeExecutionState at_create) m (?d, w2) = (Inr a', s)) \<longrightarrow>
        processActions M i0 ?a (?d, w1) = processActions M i1 a' s"
    using local_turn_from [OF saved1 refl refl i0(3), where a = ?a and u = "encodeExecutionState at_create" and S = S and dt = dt and steps = ?steps and d = ?d]
      encodeExecutionState_filled unfolding M by fastforce
  have w2: "orders w2 = orders w1"
    using performActions_rest [OF i0(3), of S dt ?steps ?a ?d w1] p unfolding M by simp
  have "handleReply S ?steps (encodeExecutionState at_create) m (?d, w2) = (Inr (credit_actions ?c), (?d, w2))" if "is_reply SUCCESS m" for m
    using local_reply [OF that, of at_create S T "(?d, w2)"] credit_asked [of ?d oid T w2] by (simp add: credit_actions_def reserves_def)
  then have asked: "processActions M i0 ?a (?d, w1) = processActions M i1 (credit_actions ?c) (?d, w2)"
    using go2 by blast
  have ty: "si_sagaType i1 = ''CreateOrderSaga''" using i1(2) i0(2) by simp
  obtain i w3 xs where end3: "processActions M i1 (credit_actions ?c) (?d, w2) = Some (Inr i, (?d, w3))" "saved w3 = Some i" "si_sagaId i = si_sagaId i1"
      "reached ''CreateOrderSaga'' (credit_actions ?c) ?d i" "sent w3 = sent w2 @ xs"
      "list_all2 (delivered P S ''CreateOrderSaga'' (si_sagaId i1)) (sa_commands (credit_actions ?c)) xs"
    using acts [OF i1(1) ty ty refl i1(4) credit_actions_facts(1,2), where S = S and dt = dt and steps = ?steps and d = ?d] unfolding M by blast
  have w3: "orders w3 = orders w2"
    using processActions_rest [OF credit_actions_facts(1) i1(4)] end3(1) unfolding M by blast
  obtain x where x: "xs = [x]" "delivered P S ''CreateOrderSaga'' (si_sagaId i) (reserves ?c) x"
    using end3(3,6) by (auto simp: credit_actions_facts list_all2_Cons1)
  show ?thesis
    unfolding Let_def
    using created asked end3 x oid w0 w1 w2 w3 i0(4) i1(5)
    by (intro exI [of _ oid] exI [of _ i] exI [of _ w3] exI [of _ x]) simp
qed

end

context orders_environment
begin

text \<open>The answer of the customers is handled: the order is approved, after one more turn of the loop, or rejected.\<close>

lemma order_approved:
  assumes M: "M = plain_manager R P S ''CreateOrderSaga'' dt (createOrderSaga T)"
    and w: "saved w = Some i" and i: "reached ''CreateOrderSaga'' (credit_actions c) d i" and m: "routed ''CreateOrderSaga'' (si_sagaId i) m"
    and h: "handleReply S (createOrderSaga T) (encodeExecutionState at_reserve) m (d, w) = executeNextStep (createOrderSaga T) at_reserve (d, w)"
    and order: "co_id d = Some oid" "orders w oid = Some order"
  shows "\<exists>i' w'. sm_handleMessage M m w = Some (Inr (), w') \<and> saved w' = Some i' \<and> si_endState i' \<and> \<not> si_compensating i'
    \<and> sent w' = sent w \<and> orders w' = (orders w)(oid \<mapsto> patched \<lparr>op_state = APPROVED, op_reason = None\<rparr> order)"
proof -
  let ?steps = "createOrderSaga T"
  let ?a = "step_actions at_reserve at_approve (LocalStepOutcome None)"
  have state: "si_stateName i = encodeExecutionState at_reserve" "si_sagaData i = d" "si_sagaType i = ''CreateOrderSaga''"
      "si_destinationsAndResources i = []"
    using i by (simp_all add: reached_def credit_actions_def)
  obtain w1 where upd: "updateOrder T (co_id d) \<lparr>op_state = APPROVED, op_reason = None\<rparr> w = (Inr (), w1)"
    and w1: "orders w1 = (orders w)(oid \<mapsto> patched \<lparr>op_state = APPROVED, op_reason = None\<rparr> order)" "saved w1 = saved w" "sent w1 = sent w"
    using update_row [OF order(2)] order(1) by metis
  obtain i1 where i1: "si_sagaType i1 = ''CreateOrderSaga''" "si_sagaId i1 = si_sagaId i" "si_destinationsAndResources i1 = []"
    and go: "\<forall>a s. handleReply S ?steps (si_stateName i) m (si_sagaData i, w) = (Inr a, s) \<longrightarrow>
        sm_handleMessage M m w = (case processActions M i1 a s of
           None \<Rightarrow> None | Some (r, (_, w')) \<Rightarrow> Some (map_sum id (\<lambda>_. ()) r, w'))"
    using replies_from [OF w state(3,4) m, of S ?steps dt] unfolding M by blast
  have first: "sm_handleMessage M m w = (case processActions M i1 ?a (d, w1) of
      None \<Rightarrow> None | Some (r, (_, w')) \<Rightarrow> Some (map_sum id (\<lambda>_. ()) r, w'))"
    using go h approved [OF upd] state by simp
  have saved1: "saved w1 = Some i" and ty1: "si_sagaType i1 = si_sagaType i" using w1(2) w i1(1) state(3) by simp_all
  obtain i2 w2 where i2: "saved w2 = Some i2" "si_sagaType i2 = si_sagaType i1" "si_destinationsAndResources i2 = []" "sent w2 = sent w1"
    and p: "performActions M i1 ?a (d, w1) = (Inr i2, (d, w2))"
    and go2: "\<forall>a' s. (\<forall>m. is_reply SUCCESS m \<longrightarrow> handleReply S ?steps (encodeExecutionState at_approve) m (d, w2) = (Inr a', s)) \<longrightarrow>
        processActions M i1 ?a (d, w1) = processActions M i2 a' s"
    using local_turn_from [OF saved1 ty1 i1(2,3), where a = ?a and u = "encodeExecutionState at_approve" and S = S and dt = dt and steps = ?steps and d = d]
      encodeExecutionState_filled unfolding M by fastforce
  have w2: "orders w2 = orders w1"
    using performActions_rest [OF i1(3), of S dt ?steps ?a d w1] p unfolding M by simp
  have "handleReply S ?steps (encodeExecutionState at_approve) m (d, w2) = (Inr (makeEndStateSagaActions at_approve), (d, w2))"
    if "is_reply SUCCESS m" for m
    using local_reply [OF that, of at_approve S T "(d, w2)"] finished by simp
  then have last_turn: "processActions M i1 ?a (d, w1) = processActions M i2 (makeEndStateSagaActions at_approve) (d, w2)"
    using go2 by blast
  have ty: "si_sagaType i2 = ''CreateOrderSaga''" using i2(2) i1(1) by simp
  obtain i3 w3 xs where end3: "processActions M i2 (makeEndStateSagaActions at_approve) (d, w2) = Some (Inr i3, (d, w3))" "saved w3 = Some i3"
      "reached ''CreateOrderSaga'' (makeEndStateSagaActions at_approve) d i3" "sent w3 = sent w2 @ xs"
      "list_all2 (delivered P S ''CreateOrderSaga'' (si_sagaId i2)) (sa_commands (makeEndStateSagaActions at_approve)) xs"
    using acts [OF i2(1) ty ty refl i2(3) end_remote [of at_approve] named_end, where S = S and dt = dt and steps = ?steps and d = d] unfolding M by blast
  have "orders w3 = orders w2"
    using processActions_rest [OF end_remote i2(3)] end3(1) unfolding M by blast
  then show ?thesis
    using first last_turn end3 reached_end [OF end3(3)] w1 w2 i2(4)
    by (intro exI [of _ i3] exI [of _ w3]) (simp add: at_approve_def)
qed

lemma order_rejected:
  assumes M: "M = plain_manager R P S ''CreateOrderSaga'' dt (createOrderSaga T)"
    and w: "saved w = Some i" and i: "reached ''CreateOrderSaga'' (credit_actions c) d i" and m: "routed ''CreateOrderSaga'' (si_sagaId i) m"
    and h: "handleReply S (createOrderSaga T) (encodeExecutionState at_reserve) m (d, w) =
      executeNextStep (createOrderSaga T) (startCompensating at_reserve) (d', w)"
    and order: "co_id d' = Some oid" "orders w oid = Some order"
  shows "\<exists>i' w'. sm_handleMessage M m w = Some (Inr (), w') \<and> saved w' = Some i' \<and> si_endState i' \<and> si_compensating i'
    \<and> sent w' = sent w \<and> orders w' = (orders w)(oid \<mapsto> patched \<lparr>op_state = REJECTED, op_reason = co_rejectionReason d'\<rparr> order)"
proof -
  let ?steps = "createOrderSaga T"
  let ?a = "makeEndStateSagaActions (startCompensating at_reserve)"
  have state: "si_stateName i = encodeExecutionState at_reserve" "si_sagaData i = d" "si_sagaType i = ''CreateOrderSaga''"
      "si_destinationsAndResources i = []"
    using i by (simp_all add: reached_def credit_actions_def)
  obtain w1 where upd: "updateOrder T (co_id d') \<lparr>op_state = REJECTED, op_reason = co_rejectionReason d'\<rparr> w = (Inr (), w1)"
    and w1: "orders w1 = (orders w)(oid \<mapsto> patched \<lparr>op_state = REJECTED, op_reason = co_rejectionReason d'\<rparr> order)" "saved w1 = saved w" "sent w1 = sent w"
    using update_row [OF order(2)] order(1) by metis
  obtain i1 where i1: "si_sagaType i1 = ''CreateOrderSaga''" "si_sagaId i1 = si_sagaId i" "si_destinationsAndResources i1 = []"
    and go: "\<forall>a s. handleReply S ?steps (si_stateName i) m (si_sagaData i, w) = (Inr a, s) \<longrightarrow>
        sm_handleMessage M m w = (case processActions M i1 a s of
           None \<Rightarrow> None | Some (r, (_, w')) \<Rightarrow> Some (map_sum id (\<lambda>_. ()) r, w'))"
    using replies_from [OF w state(3,4) m, of S ?steps dt] unfolding M by blast
  have first: "sm_handleMessage M m w = (case processActions M i1 ?a (d', w1) of
      None \<Rightarrow> None | Some (r, (_, w')) \<Rightarrow> Some (map_sum id (\<lambda>_. ()) r, w'))"
    using go h rejected [OF upd] state by simp
  have saved1: "saved w1 = Some i" using w1(2) w by simp
  obtain i3 w3 xs where end3: "processActions M i1 ?a (d', w1) = Some (Inr i3, (d', w3))" "saved w3 = Some i3"
      "reached ''CreateOrderSaga'' ?a d' i3" "sent w3 = sent w1 @ xs"
      "list_all2 (delivered P S ''CreateOrderSaga'' (si_sagaId i1)) (sa_commands ?a) xs"
    using acts [OF saved1 i1(1) state(3) i1(2,3) end_remote [of "startCompensating at_reserve"] named_end, where S = S and dt = dt and steps = ?steps and d = d']
    unfolding M by blast
  have "orders w3 = orders w1"
    using processActions_rest [OF end_remote i1(3)] end3(1) unfolding M by blast
  then show ?thesis
    using first end3 reached_end [OF end3(3)] w1
    by (intro exI [of _ i3] exI [of _ w3]) (simp add: startCompensating_def)
qed

end

section \<open>The customers behind their dispatcher\<close>

lemma saga_invoke_single:
  assumes "getSagaType (cm_message cm) = Inr ty" and "getSagaId (cm_message cm) = Inr sid" and "ch_preLock h = None"
    and "cd_invoke S h cm w = (Inr [rep], w')" and "lock rep = None"
  shows "saga_invoke S L h cm w = (Inr [rep], w')"
  using assms by (simp add: saga_invoke_def claimPreLock_def andThen_def getLock_def)

lemma delivered_saga_command:
  assumes "delivered P S ty sid c x" and "obj_class (the_command c) \<noteq> ''''" and "ty \<noteq> ''''" and "sid \<noteq> Some ''''"
  shows "getSagaType (snd x) = Inr ty" and "getSagaId (snd x) = Inr (null_text sid)"
    and "getCommandTarget (snd x) = Inr (obj_class (the_command c))"
    and "isUnlockMessage (snd x) = Inr (obj_class (the_command c) = ''SagaUnlockCommand'')"
    and "payload (snd x) = classToPlain S (obj_class (the_command c)) (obj_own (the_command c))"
proof -
  note command = delivered_command [OF assms(1,2)]
  show "getSagaType (snd x) = Inr ty" "getSagaId (snd x) = Inr (null_text sid)"
      "getCommandTarget (snd x) = Inr (obj_class (the_command c))"
    using command(3-5) assms(2-4)
    by (auto simp: getSagaType_def getSagaId_def getCommandTarget_def getRequiredHeader_Inr null_text_def split: option.splits)
  show "isUnlockMessage (snd x) = Inr (obj_class (the_command c) = ''SagaUnlockCommand'')"
    using command(5) assms(2) getRequiredHeader_Inr [of "snd x" COMMAND_TYPE "obj_class (the_command c)"]
    by (simp add: isUnlockMessage_def SagaUnlockCommand_def)
  show "payload (snd x) = classToPlain S (obj_class (the_command c)) (obj_own (the_command c))"
    using assms(1) by (auto simp: delivered_def prepared_for_def saga_message_def command_message_payload)
qed

text \<open>Objects come back from the serializer as they were.\<close>

definition restores :: "serializer \<Rightarrow> bool" where
  "restores S \<longleftrightarrow> (\<forall>ob. validatedPlainToClass S (obj_class ob) (classToPlain S (obj_class ob) (obj_own ob)) = Inr ob)"

text \<open>The table of the customers: it saves what it is given, beside the log of the messages.\<close>

definition keeps_customers :: "('s \<times> sent_log) customer_repository \<Rightarrow> bool" where
  "keeps_customers C \<longleftrightarrow> (\<forall>c s log. \<exists>s'. saveCustomer C c (s, log) = (Inr c, (s', log)))"

lemma customers_answer:
  assumes "accepting_producer P' newId now" and "restores S" and "keeps_customers C"
    and D: "D = dispatcher_create P' S ''customer'' (customer_handlers C)"
    and x: "delivered P S ty sid (reserves c) x" and ty: "ty \<noteq> ''''" and sid: "sid \<noteq> Some ''''"
    and find: "findCustomer C (rc_customerId c) (s, []) = (Inr found, (s1, []))"
  shows "\<exists>m' s' ob. saga_handleMessage L D (snd x) (s, []) = (Inr (), (s', [(ty @ ''-reply'', m')])) \<and> routed ty sid m'
    \<and> replies_with S m' ob (if credit_outcome found (rc_orderTotal c) = None then SUCCESS else FAILURE)
    \<and> reason_for (obj_class ob) None = credit_outcome found (rc_orderTotal c)"
proof -
  let ?m = "snd x" and ?out = "if credit_outcome found (rc_orderTotal c) = None then SUCCESS else FAILURE"
  define h where "h = hd (customer_handlers C)"
  have h: "commandHandlers D = [h]" "ch_resource h = None" "ch_preLock h = None" "\<not> ch_withLock h"
      "ch_command h = ''ReserveCreditCommand''" "ch_invoke h = customer_reserve C" "dispatcherSerializer D = S" "messageProducer D = P'"
    by (simp_all add: h_def customer_handlers_def D dispatcher_create_def)
  have cmd: "the_command (reserves c) = ReserveCreditCommand c" "obj_class (ReserveCreditCommand c) = ''ReserveCreditCommand''"
    by (simp_all add: reserves_def new_CommandWithDestination_def ReserveCreditCommand_def)
  have named: "obj_class (the_command (reserves c)) \<noteq> ''''" by (simp add: cmd)
  note command = delivered_command [OF x named] and saga = delivered_saga_command [OF x named ty sid]
  have "filled ?m COMMAND_TYPE" "getHeader ?m COMMAND_TYPE '''' = ''ReserveCreditCommand''"
    using command(5) by (simp_all add: filled_def getHeader_def cmd)
  then have target: "findTargetMethod (commandHandlers D) ?m = Inr (Some h)"
    using findTargetMethod_plain [of ?m "commandHandlers D"] h by simp
  have parsed: "parsePayload (dispatcherSerializer D) (ch_command h) ?m = Inr (ReserveCreditCommand c)"
    using assms(2) saga(5) h by (simp add: parsePayload_def restores_def) (metis cmd)
  let ?cm = "\<lparr>cm_command = ReserveCreditCommand c, cm_correlation = correlated (headers ?m), cm_message = ?m\<rparr>"
  have save: "\<exists>v'. saveCustomer C c' (s1, []) = (Inr c', v')" for c'
    using assms(3) unfolding keeps_customers_def by blast
  obtain r ob v2 where r: "handler_reserveCredit C c (s, []) = (r, v2)" "gives S r (ObjectArg ob) ?out"
    and v2: "v2 = (s1, []) \<or> (\<exists>c'. v2 = snd (saveCustomer C c' (s1, [])))"
    and ob: "reason_for (obj_class ob) None = credit_outcome found (rc_orderTotal c)" "obj_class ob \<noteq> ''''"
    using customer_invoked [OF find save] by metis
  obtain s' where s': "v2 = (s', [])"
    using v2 assms(3) unfolding keeps_customers_def by (metis snd_conv)
  obtain rep where rep: "withReply S (ObjectArg ob) ?out = Inr rep"
    using withReply_object by blast
  have "cd_invoke S h ?cm (s, []) = (Inr [rep], v2)"
    by (rule cd_invoke_gives [OF _ h(4) r(2) rep]) (use r(1) in \<open>simp add: h(6) customer_reserve_def reserve_credit_roundtrip\<close>)
  then have invoked: "saga_invoke S L h ?cm (s, []) = (Inr [rep], (s', []))"
    using saga_invoke_single [of ?cm, OF _ _ h(3)] saga(1,2) withReply_headers(4) [OF rep] s' by simp
  have "ty @ ''-reply'' \<noteq> ''''" by simp
  note sends = accepting_producer.dispatcher_sends [where invoke = "saga_invoke S L", OF assms(1) h(8) target command(1,2) this parsed invoked
      rep [folded h(7)], unfolded constructor_name.simps, OF ob(2)]
  let ?m' = "prepared P' (ty @ ''-reply'') newId now (reply_message (correlated (headers ?m)) rep)"
  have handled: "saga_handleMessage L D ?m (s, []) = (Inr (), (s', [(ty @ ''-reply'', ?m')]))"
    using saga sends h(7) by (simp add: saga_handleMessage_def andThen_def tryCatch_def cmd Let_def)
  note prep = accepting_producer.prepared_facts(2) [OF assms(1), of "ty @ ''-reply''" "reply_message (correlated (headers ?m)) rep"]
  have "routed ty sid ?m'"
    using reply_fits(1) [OF command(6,3,4) ty sid rep _ prep] ob(2) by simp
  moreover have payload: "payload ?m' = payload rep"
    using prep by (simp add: prepared_for_def reply_message_def)
  have "replies_with S ?m' ob ?out"
    by (rule replies_with_object [OF rep ob(2) _ payload]) (rule reply_keeps [OF rep prep], blast)
  ultimately show ?thesis
    using handled ob(1) by blast
qed

section \<open>An order from its post to its end\<close>

context orders_environment
begin

lemma posted_order:
  assumes M: "M = plain_manager R P S ''CreateOrderSaga'' dt (createOrderSaga T)" and managers: "map_get managers ''CreateOrderSaga'' = Some M"
    and customers: "accepting_producer P' newId now" "restores S" "keeps_customers C"
      "D = dispatcher_create P' S ''customer'' (customer_handlers C)"
      "findCustomer C (dto_customerId dto) (s, []) = (Inr found, (s1, []))"
    and out: "out = credit_outcome found (dto_orderTotal dto)"
  shows "\<exists>oid order w1 x m s2 w2 inst.
      oc_create managers findOne dto w = Some (Inr (Some order), w1)
    \<and> order = \<lparr>po_id = oid, po_customerId = dto_customerId dto, po_orderTotal = dto_orderTotal dto, po_state = PENDING, po_rejectionReason = None\<rparr>
    \<and> orders w oid = None \<and> orders w1 = (orders w)(oid \<mapsto> order) \<and> sent w1 = sent w @ [x]
    \<and> saga_handleMessage L D (snd x) (s, []) = (Inr (), (s2, [(''CreateOrderSaga-reply'', m)]))
    \<and> sm_handleMessage M m w1 = Some (Inr (), w2)
    \<and> orders w2 = (orders w)(oid \<mapsto> order\<lparr>po_state := (if out = None then APPROVED else REJECTED), po_rejectionReason := out\<rparr>)
    \<and> sent w2 = sent w1 \<and> saved w2 = Some inst \<and> si_endState inst \<and> si_compensating inst = (out \<noteq> None)"
proof -
  let ?d = "new_CreateOrderSagaData (dto_customerId dto) (dto_orderTotal dto)"
  obtain oid i w1 x where placed: "sm_create M LockUndefined LockUndefined (?d, w) = Some (Inr i, (?d\<lparr>co_id := Some oid\<rparr>, w1))"
    and i: "saved w1 = Some i" "reached ''CreateOrderSaga'' (credit_actions \<lparr>rc_customerId = dto_customerId dto, rc_orderId = oid,
        rc_orderTotal = dto_orderTotal dto\<rparr>) (?d\<lparr>co_id := Some oid\<rparr>) i"
    and x: "sent w1 = sent w @ [x]" "delivered P S ''CreateOrderSaga'' (si_sagaId i)
        (reserves \<lparr>rc_customerId = dto_customerId dto, rc_orderId = oid, rc_orderTotal = dto_orderTotal dto\<rparr>) x"
    and w1: "orders w oid = None" "orders w1 = (orders w)(oid \<mapsto> new_order oid ?d)"
    using order_placed [OF M, of ?d w] by (auto simp: Let_def new_CreateOrderSagaData_def)
  define d where "d = ?d\<lparr>co_id := Some oid\<rparr>"
  define order where "order = new_order oid ?d"
  have order: "order = \<lparr>po_id = oid, po_customerId = dto_customerId dto, po_orderTotal = dto_orderTotal dto, po_state = PENDING, po_rejectionReason = None\<rparr>"
    by (simp add: order_def new_order_def new_CreateOrderSagaData_def)
  have d: "co_id d = Some oid" "co_rejectionReason d = None" "d\<lparr>co_rejectionReason := None\<rparr> = d"
    by (simp_all add: d_def new_CreateOrderSagaData_def)
  have posted: "oc_create managers findOne dto w = Some (Inr (Some order), w1)"
    using placed managers found_row w1(2) by (simp add: oc_create_def os_create_def factory_create_def os_find_def order_def)
  have "''CreateOrderSaga'' \<noteq> ''''" by simp
  from customers_answer [OF customers(1-4) x(2) this identified [OF i(1)], of s found s1 L] customers(5)
  obtain m s2 ob where m: "saga_handleMessage L D (snd x) (s, []) = (Inr (), (s2, [(''CreateOrderSaga-reply'', m)]))"
      "routed ''CreateOrderSaga'' (si_sagaId i) m"
    and ob: "replies_with S m ob (if out = None then SUCCESS else FAILURE)" "reason_for (obj_class ob) None = out"
    using out by auto
  have h: "handleReply S (createOrderSaga T) (encodeExecutionState at_reserve) m (d, w1) =
      executeNextStep (createOrderSaga T) (if out = None then at_reserve else startCompensating at_reserve) (d\<lparr>co_rejectionReason := out\<rparr>, w1)"
    using credit_reply [OF ob(1), of T d w1] ob(2) d(2) customers(2) unfolding restores_def by (cases out) simp_all
  have row: "orders w1 oid = Some order" using w1(2) by (simp add: order_def)
  note i' = i(2) [folded d_def]
  have "\<exists>inst w2. sm_handleMessage M m w1 = Some (Inr (), w2) \<and> saved w2 = Some inst \<and> si_endState inst
      \<and> si_compensating inst = (out \<noteq> None) \<and> sent w2 = sent w1
      \<and> orders w2 = (orders w1)(oid \<mapsto> order\<lparr>po_state := (if out = None then APPROVED else REJECTED), po_rejectionReason := out\<rparr>)"
  proof (cases out)
    case None
    then show ?thesis
      using order_approved [OF M i(1) i' m(2) _ d(1) row] h d(3) order by (auto simp: patched_def)
  next
    case (Some reason)
    then show ?thesis
      using order_rejected [OF M i(1) i' m(2) _ _ row, of "d\<lparr>co_rejectionReason := out\<rparr>"] h d(1) by (auto simp: patched_def)
  qed
  then obtain inst w2 where decided: "sm_handleMessage M m w1 = Some (Inr (), w2)" "saved w2 = Some inst" "si_endState inst"
      "si_compensating inst = (out \<noteq> None)" "sent w2 = sent w1"
      "orders w2 = (orders w1)(oid \<mapsto> order\<lparr>po_state := (if out = None then APPROVED else REJECTED), po_rejectionReason := out\<rparr>)"
    by blast
  have row1: "orders w1 = (orders w)(oid \<mapsto> order)" using w1(2) by (simp add: order_def)
  show ?thesis
    by (intro exI [of _ oid] exI [of _ order] exI [of _ w1] exI [of _ x] exI [of _ m] exI [of _ s2] exI [of _ w2] exI [of _ inst] conjI)
      (use posted order w1(1) x(1) m(1) decided row1 in simp_all)
qed

end

text \<open>
  C1: An order that is posted is decided by the credit of its customer. The controller answers with the order, pending, under a
  new identifier; the one message that has been sent meanwhile, handled by the dispatcher of the customers, is answered by one message to
  the manager of the saga; and when the manager has handled that, the order is approved if the customer exists and has the credit,
  and otherwise rejected, with the reason. No other order is touched, no further message is sent, and the saga has ended.
\<close>

theorem posted_order_decided:
  assumes env: "orders_environment R saved sent P orders T findOne"
    and M: "M = plain_manager R P S ''CreateOrderSaga'' dt (createOrderSaga T)" and managers: "map_get managers ''CreateOrderSaga'' = Some M"
    and customers: "accepting_producer P' newId now" "restores S" "keeps_customers C"
      "D = dispatcher_create P' S ''customer'' (customer_handlers C)"
      "findCustomer C (dto_customerId dto) (s, []) = (Inr found, (s1, []))"
    and out: "out = credit_outcome found (dto_orderTotal dto)"
  shows "\<exists>oid order w1 x m s2 w2 inst.
      oc_create managers findOne dto w = Some (Inr (Some order), w1)
    \<and> order = \<lparr>po_id = oid, po_customerId = dto_customerId dto, po_orderTotal = dto_orderTotal dto, po_state = PENDING, po_rejectionReason = None\<rparr>
    \<and> orders w oid = None \<and> orders w1 = (orders w)(oid \<mapsto> order) \<and> sent w1 = sent w @ [x]
    \<and> saga_handleMessage L D (snd x) (s, []) = (Inr (), (s2, [(''CreateOrderSaga-reply'', m)]))
    \<and> sm_handleMessage M m w1 = Some (Inr (), w2)
    \<and> orders w2 = (orders w)(oid \<mapsto> order\<lparr>po_state := (if out = None then APPROVED else REJECTED), po_rejectionReason := out\<rparr>)
    \<and> sent w2 = sent w1 \<and> saved w2 = Some inst \<and> si_endState inst \<and> si_compensating inst = (out \<noteq> None)"
  by (rule orders_environment.posted_order [OF env M managers customers out])

section \<open>A shop in memory\<close>

text \<open>The instances of the sagas, the orders by their position, and the messages that have been sent.\<close>

type_synonym shop = "create_order_data instance_store \<times> (placed_order list \<times> sent_log)"

definition shop_saved :: "shop \<Rightarrow> create_order_data saga_instance option" where
  "shop_saved w = mem_saved ''CreateOrderSaga'' (fst w, snd (snd w))"

definition shop_sent :: "shop \<Rightarrow> sent_log" where
  "shop_sent w = snd (snd w)"

definition shop_orders :: "shop \<Rightarrow> int \<Rightarrow> placed_order option" where
  "shop_orders w i = (if 0 \<le> i \<and> nat i < length (fst (snd w)) then Some (fst (snd w) ! nat i) else None)"

definition shop_insert :: "create_order_data \<Rightarrow> (shop, int) eff" where
  "shop_insert d w = (let rows = fst (snd w); i = int (length rows) in (Inr i, (fst w, (rows @ [new_order i d], snd (snd w)))))"

definition shop_update :: "int option \<Rightarrow> order_patch \<Rightarrow> (shop, unit) eff" where
  "shop_update i p w = (Inr (), (case i of None \<Rightarrow> w | Some i \<Rightarrow> (case shop_orders w i of None \<Rightarrow> w
     | Some order \<Rightarrow> (fst w, ((fst (snd w))[nat i := patched p order], snd (snd w))))))"

definition shop_table :: "shop order_repository" where
  "shop_table = \<lparr>insertOrder = shop_insert, updateOrder = shop_update\<rparr>"

definition shop_find :: "int option \<Rightarrow> (shop, placed_order option) eff" where
  "shop_find i w = (Inr (shop_orders w (case i of None \<Rightarrow> 0 | Some i \<Rightarrow> i)), w)"

definition shop_producer :: "shop producer" where
  "shop_producer =
     \<lparr>channelMapping = [], generateMessageId = ret ''m1'',
      targetSend = (\<lambda>ch m _ w. (Inr (), (fst w, (fst (snd w), snd (snd w) @ [(ch, m)])))),
      targetSendBatch = (\<lambda>ch ms _ w. (Inr (), (fst w, (fst (snd w), snd (snd w) @ map (Pair ch) ms)))),
      interceptors = [], currentDate = ret ''2021-01-01T00:00:00.000Z''\<rparr>"

lemma shop_sends:
  assumes "filled m HDR_TYPE"
  shows "sendBatch shop_producer ch [m] False w =
    (Inr [prepared shop_producer ch ''m1'' ''2021-01-01T00:00:00.000Z'' m],
     (fst w, (fst (snd w), snd (snd w) @ [(ch, prepared shop_producer ch ''m1'' ''2021-01-01T00:00:00.000Z'' m)])))"
  by (subst sendBatch_simple [of _ "''m1''" "''2021-01-01T00:00:00.000Z''"]) (use assms in \<open>simp_all add: shop_producer_def\<close>)

lemma shop_prepared:
  "message_id (prepared shop_producer ch ''m1'' now m) = Inr ''m1''" "prepared_for shop_producer ch m (prepared shop_producer ch ''m1'' now m)"
  by (auto simp: message_id_def prepared_def prepared_for_def getRequiredHeader_Inr message_header_defs setHeader_def)

interpretation shop: orders_environment mem_repository shop_saved shop_sent shop_producer shop_orders shop_table shop_find
proof
  fix i :: "create_order_data saga_instance" and w :: shop
  assume "si_sagaType i = ''CreateOrderSaga''" and "si_sagaId i = None"
  then show "\<exists>sid w'. saveInstance mem_repository i w = (Inr (i\<lparr>si_sagaId := sid\<rparr>), w')
      \<and> shop_saved w' = Some (i\<lparr>si_sagaId := sid\<rparr>) \<and> shop_sent w' = shop_sent w"
    by (intro exI [of _ None]) (auto simp: mem_repository_def mem_save_def mem_saved_def shop_saved_def shop_sent_def)
next
  fix i j :: "create_order_data saga_instance" and w :: shop
  assume "shop_saved w = Some j" and "si_sagaType i = si_sagaType j" and "si_sagaId i = si_sagaId j"
  then show "\<exists>w'. updateInstance mem_repository i w = (Inr (), w') \<and> shop_saved w' = Some i \<and> shop_sent w' = shop_sent w"
    by (auto simp: mem_repository_def mem_update_def mem_save_def mem_saved_def shop_saved_def shop_sent_def andThen_def
        split: option.splits if_splits)
next
  fix i :: "create_order_data saga_instance" and w :: shop
  assume "shop_saved w = Some i"
  then show "\<exists>j. findInstance mem_repository (si_sagaType i) (null_text (si_sagaId i)) w = (Inr (Some j), w) \<and> resumes j i"
    by (intro exI [of _ i]) (auto simp: mem_repository_def mem_find_def mem_saved_def shop_saved_def mem_key_def null_text_def
        resumes_refl split: option.splits if_splits)
next
  fix m ch and w :: shop
  assume "filled m HDR_TYPE"
  then show "\<exists>m' mid w'. sendBatch shop_producer ch [m] False w = (Inr [m'], w') \<and> message_id m' = Inr mid
      \<and> prepared_for shop_producer ch m m' \<and> shop_saved w' = shop_saved w \<and> shop_sent w' = shop_sent w @ [(ch, m')]"
    using shop_sends [of m ch w] shop_prepared by (auto simp: shop_saved_def shop_sent_def mem_saved_def)
next
  show "keeps shop_orders (saveInstance mem_repository i)" "keeps shop_orders (updateInstance mem_repository i)" for i
    by (simp_all add: keeps_def mem_repository_def mem_save_def mem_update_def andThen_def shop_orders_def fun_eq_iff)
  show "keeps shop_orders (sendBatch shop_producer ch ms isEvent)" for ch ms isEvent
  proof -
    have "keeps shop_orders (targetSendBatch shop_producer ch xs isEvent)" for xs
      by (simp add: keeps_def shop_producer_def shop_orders_def fun_eq_iff)
    moreover have "keeps shop_orders (generateMessageId shop_producer)" "keeps shop_orders (currentDate shop_producer)"
      by (simp_all add: shop_producer_def keeps_intros)
    moreover have "interceptors shop_producer = []" by (simp add: shop_producer_def)
    ultimately show ?thesis
      unfolding sendBatch_def prepareMessageHeaders_def
      by (intro keeps_intros) (auto simp: runPostSend_def intro!: keeps_intros)
  qed
next
  fix d and w :: shop
  show "\<exists>i w'. insertOrder shop_table d w = (Inr i, w') \<and> shop_orders w i = None
      \<and> shop_orders w' = (shop_orders w)(i \<mapsto> new_order i d) \<and> shop_saved w' = shop_saved w \<and> shop_sent w' = shop_sent w"
    by (auto simp: shop_table_def shop_insert_def shop_orders_def shop_saved_def shop_sent_def mem_saved_def fun_eq_iff nth_append Let_def)
next
  fix i order p and w :: shop
  assume "shop_orders w i = Some order"
  then show "\<exists>w'. updateOrder shop_table (Some i) p w = (Inr (), w')
      \<and> shop_orders w' = (shop_orders w)(i \<mapsto> patched p order) \<and> shop_saved w' = shop_saved w \<and> shop_sent w' = shop_sent w"
    by (auto simp: shop_table_def shop_update_def shop_orders_def shop_saved_def shop_sent_def mem_saved_def fun_eq_iff nth_list_update
        split: if_splits)
qed (auto simp: shop_find_def shop_saved_def dest: mem_saved_id)

definition shop_manager :: "(create_order_data, shop) saga_manager" where
  "shop_manager = plain_manager mem_repository shop_producer sample_serializer ''CreateOrderSaga'' (\<lambda>_. ''CreateOrderSagaData'') (createOrderSaga shop_table)"

definition known_customers :: "(customer list \<times> sent_log) customer_repository" where
  "known_customers = \<lparr>findCustomer = (\<lambda>i w. (Inr (find (\<lambda>c. cu_id c = i) (fst w)), w)),
     saveCustomer = (\<lambda>c w. (Inr c, (c # fst w, snd w)))\<rparr>"

definition customer_seven :: customer where
  "customer_seven = \<lparr>cu_id = 7, cu_name = ''Ann'', cu_creditLimit = \<lparr>amount = 5\<rparr>, cu_creditReservations = []\<rparr>"

definition customers_dispatcher :: "(customer list \<times> sent_log) dispatcher" where
  "customers_dispatcher = dispatcher_create (logging_producer []) sample_serializer ''customer'' (customer_handlers known_customers)"

lemma posted_order_decided_witness:
  "\<exists>oid order w1 x m s2 w2.
      oc_create [(''CreateOrderSaga'', shop_manager)] shop_find \<lparr>dto_orderTotal = \<lparr>amount = 9\<rparr>, dto_customerId = 7\<rparr> ([], ([], [])) =
        Some (Inr (Some order), w1)
    \<and> shop_sent w1 = [x]
    \<and> saga_handleMessage base_lock_manager customers_dispatcher (snd x) ([customer_seven], []) =
        (Inr (), (s2, [(''CreateOrderSaga-reply'', m)]))
    \<and> sm_handleMessage shop_manager m w1 = Some (Inr (), w2)
    \<and> shop_orders w2 oid = Some \<lparr>po_id = oid, po_customerId = 7, po_orderTotal = \<lparr>amount = 9\<rparr>, po_state = REJECTED,
        po_rejectionReason = Some INSUFFICIENT_CREDIT\<rparr>"
proof -
  let ?dto = "\<lparr>dto_orderTotal = \<lparr>amount = 9\<rparr>, dto_customerId = 7\<rparr>"
  have accepts: "accepting_producer (logging_producer [] :: (customer list \<times> sent_log) producer) ''m1'' ''2021-01-01T00:00:00.000Z''"
    by unfold_locales (simp_all add: logging_producer_def)
  have restores: "restores sample_serializer"
    by (simp add: restores_def sample_serializer_def)
  have keeps: "keeps_customers known_customers"
    by (simp add: keeps_customers_def known_customers_def)
  have find: "findCustomer known_customers (dto_customerId ?dto) ([customer_seven], []) = (Inr (Some customer_seven), ([customer_seven], []))"
    by (simp add: known_customers_def customer_seven_def)
  have denied: "credit_outcome (Some customer_seven) (dto_orderTotal ?dto) = Some INSUFFICIENT_CREDIT"
    by (simp add: credit_outcome_def customer_seven_def availableCredit_eq isGreaterThanOrEqual_def reserved_def)
  have managers: "map_get [(''CreateOrderSaga'', shop_manager)] ''CreateOrderSaga'' = Some shop_manager" by simp
  note decided = posted_order_decided [OF shop.orders_environment_axioms shop_manager_def managers accepts restores keeps customers_dispatcher_def
      find denied [symmetric], of "([], ([], []))" base_lock_manager]
  then show ?thesis by (auto simp: shop_sent_def)
qed

end
