(* ===== verification/KafkaSchema.thy ===== *)
theory KafkaSchema
  imports Kafka
begin

text \<open>
  What a message from Kafka says of itself: the getters of \<open>KafkaMessage\<close> (\<open>messaging/broker/kafka/kafka-message.ts\<close>),
  in particular the schema it was encoded with, and the records of the classes that are decorated
  (\<open>avro-schema.ts\<close>, \<open>avro-schema-registry.ts\<close>).
\<close>

section \<open>The getters of a message\<close>

text \<open>Unary plus on the texts the code makes, \<open>None\<close> for \<open>NaN\<close>.\<close>

definition unary_plus :: "string \<Rightarrow> int option" where
  "unary_plus s = (case parseBigInt s of Inl _ \<Rightarrow> None | Inr i \<Rightarrow> Some i)"

definition kafka_partition :: "message \<Rightarrow> exn + int option" where
  "kafka_partition m = map_sum id unary_plus (getRequiredHeader m KAFKA_PARTITION)"

definition schemaType :: "message \<Rightarrow> string option" where
  "schemaType m = None"

text \<open>Without the header the identifier is undefined.\<close>

definition schemaId :: "message \<Rightarrow> exn + int option option" where
  "schemaId m = (if hasHeader m SCHEMA_ID then map_sum id (\<lambda>t. Some (unary_plus t)) (getRequiredHeader m SCHEMA_ID) else Inr None)"

record message_schema =
  ms_schema :: json
  ms_subject :: string
  ms_namespace :: string
  ms_version :: "int option"
  ms_id :: "int option option"

text \<open>The array of the registered classes is read, and keeps the schema that is made.\<close>

definition kafka_schema :: "message \<Rightarrow> avro_entry list \<Rightarrow> (exn + message_schema) \<times> avro_entry list" where
  "kafka_schema m =
     andThen (lift (getRequiredHeader m SCHEMA_NAMESPACE)) (\<lambda>namespace.
     andThen (lift (schemaId m)) (\<lambda>id.
     andThen (lift (getRequiredHeader m SCHEMA_VERSION)) (\<lambda>version.
     andThen (lift (message_type m)) (\<lambda>type.
     andThen (lazyLoadAvroSchema type namespace) (\<lambda>s.
       ret \<lparr>ms_schema = s, ms_subject = getHeader m SCHEMA_SUBJECT '''', ms_namespace = namespace,
            ms_version = unary_plus version, ms_id = id\<rparr>)))))"

section \<open>The metadata of decorated classes\<close>

definition isAvroSchema :: "class_schema \<Rightarrow> bool" where
  "isAvroSchema c = (case c of ClassSchema _ meta _ \<Rightarrow> meta \<noteq> None)"

definition getAvroSchemaMetadata :: "class_schema \<Rightarrow> string option" where
  "getAvroSchemaMetadata c = (case c of ClassSchema _ meta _ \<Rightarrow> meta)"

record avro_metadata =
  am_namespace :: string
  am_version :: nat
  am_compatibility :: "string option"
  am_schema :: "json option"

text \<open>The records of the providers with metadata, which the discovery of the framework finds: nothing calls it.\<close>

definition createAvroSchemaRecords :: "(class_schema \<times> avro_metadata) list \<Rightarrow> (string \<times> avro_metadata) list" where
  "createAvroSchemaRecords providers =
     map (\<lambda>(c, meta). (class_name c, meta\<lparr>am_schema := Some (avro_class c (Some (am_namespace meta)))\<rparr>)) providers"

section \<open>What is read is what was written\<close>

lemma unary_plus_show_nat [simp]: "unary_plus (show_nat n) = Some (int n)"
  using parseBigInt_show_int [of "int n"] by (simp add: unary_plus_def show_int_def del: parseBigInt_show_int)

lemma avro_encode_Inr:
  assumes "avro_encode R records m w = (Inr (v, m2), w')"
  obtains type r registryId w1 where "message_type m = Inr type" and "map_get records type = Some r"
    and "registerSchema R (ar_schema r) (ar_namespace r @ ''.'' @ type) w = (Inr registryId, w1)"
    and "m2 = setHeader SCHEMA_ID (show_nat registryId) (setHeaders (map_from ([(SCHEMA_NAMESPACE, ar_namespace r),
        (SCHEMA_VERSION, show_nat (ar_version r)), (SCHEMA_SUBJECT, ar_namespace r @ ''.'' @ type)] @ headers m)) m)"
  using assms by (auto simp: avro_encode_def andThen_eq_Inr Let_def split: option.splits)

lemma avro_records_get:
  assumes "distinct (map (class_name \<circ> ae_target) internal)" and "e \<in> set internal"
  shows "map_get (avro_records internal) (class_name (ae_target e)) =
    Some \<lparr>ar_version = ae_version e, ar_namespace = ae_namespace e, ar_schema = avro_class (ae_target e) (Some (ae_namespace e))\<rparr>"
proof -
  let ?r = "\<lambda>e. \<lparr>ar_version = ae_version e, ar_namespace = ae_namespace e, ar_schema = avro_class (ae_target e) (Some (ae_namespace e))\<rparr>"
  have "distinct (map fst (rev (map (\<lambda>e. (class_name (ae_target e), ?r e)) internal)))"
    using assms(1) by (simp add: rev_map [symmetric] comp_def)
  then show ?thesis
    using assms(2) by (simp add: avro_records_def)
qed

lemma lazyLoad_fresh:
  assumes "distinct (map (class_name \<circ> ae_target) internal)" and "e \<in> set internal" and "ae_schema e = None"
  shows "fst (lazyLoadAvroSchema (class_name (ae_target e)) ns internal) = Inr (avro_class (ae_target e) (Some ns))"
  using assms by (induction internal) (auto simp: Let_def split: prod.splits option.splits)

text \<open>
  C36: A message that has been encoded says what it was encoded with: the schema that its getter gives is the
  one the registry was given for the class of the message, with its namespace, version and subject and the
  identifier that the registry gave. The message had no such headers of its own, the names of the registered classes
  are distinct, and the schema of the class has not been loaded before.
\<close>

theorem encoded_schema_found:
  assumes "avro_encode R (avro_records internal) m w = (Inr (v, m2), w')" and "map_wf (headers m)"
    and "\<forall>k \<in> {SCHEMA_NAMESPACE, SCHEMA_VERSION, SCHEMA_SUBJECT}. map_get (headers m) k = None"
    and "distinct (map (class_name \<circ> ae_target) internal)" and "e \<in> set internal"
    and "map_get (headers m) HDR_TYPE = Some (class_name (ae_target e))" and "ae_namespace e \<noteq> ''''" and "ae_schema e = None"
  shows "\<exists>registryId w1. registerSchema R (avro_class (ae_target e) (Some (ae_namespace e)))
        (ae_namespace e @ ''.'' @ class_name (ae_target e)) w = (Inr registryId, w1)
    \<and> fst (kafka_schema m2 internal) = Inr \<lparr>ms_schema = avro_class (ae_target e) (Some (ae_namespace e)),
        ms_subject = ae_namespace e @ ''.'' @ class_name (ae_target e), ms_namespace = ae_namespace e,
        ms_version = Some (int (ae_version e)), ms_id = Some (Some (int registryId))\<rparr>"
proof -
  let ?c = "class_name (ae_target e)" and ?n = "ae_namespace e"
  obtain type r i w1 where type: "message_type m = Inr type" and r: "map_get (avro_records internal) type = Some r"
    and reg: "registerSchema R (ar_schema r) (ar_namespace r @ ''.'' @ type) w = (Inr i, w1)"
    and m2: "m2 = setHeader SCHEMA_ID (show_nat i) (setHeaders (map_from ([(SCHEMA_NAMESPACE, ar_namespace r),
        (SCHEMA_VERSION, show_nat (ar_version r)), (SCHEMA_SUBJECT, ar_namespace r @ ''.'' @ type)] @ headers m)) m)"
    using avro_encode_Inr [OF assms(1)] .
  have t: "type = ?c" "?c \<noteq> ''''"
    using type assms(6) by (auto simp: message_type_def getRequiredHeader_Inr)
  have rec: "r = \<lparr>ar_version = ae_version e, ar_namespace = ?n, ar_schema = avro_class (ae_target e) (Some ?n)\<rparr>"
    using r avro_records_get [OF assms(4,5)] t(1) by simp
  note names = SCHEMA_ID_def SCHEMA_NAMESPACE_def SCHEMA_VERSION_def SCHEMA_SUBJECT_def HDR_TYPE_def
  have own: "map_get (headers m2) SCHEMA_ID = Some (show_nat i)" "map_get (headers m2) SCHEMA_NAMESPACE = Some ?n"
    "map_get (headers m2) SCHEMA_VERSION = Some (show_nat (ae_version e))"
    "map_get (headers m2) SCHEMA_SUBJECT = Some (?n @ ''.'' @ ?c)" "map_get (headers m2) HDR_TYPE = Some ?c"
    using assms(2,3,6) t(1)
    by (simp_all add: m2 rec setHeader_def setHeaders_def map_add_def map_of_rev) (simp_all add: names)
  have "schemaId m2 = Inr (Some (Some (int i)))"
    using own(1) getRequiredHeader_Inr [of m2 SCHEMA_ID "show_nat i"]
    by (simp add: schemaId_def hasHeader_def map_has_def)
  moreover have "getRequiredHeader m2 SCHEMA_NAMESPACE = Inr ?n" "getRequiredHeader m2 SCHEMA_VERSION = Inr (show_nat (ae_version e))"
    "message_type m2 = Inr ?c"
    using own assms(7) t(2) by (simp_all add: getRequiredHeader_Inr message_type_def)
  moreover obtain es where "lazyLoadAvroSchema ?c ?n internal = (Inr (avro_class (ae_target e) (Some ?n)), es)"
    using lazyLoad_fresh [OF assms(4,5,8)] by (metis prod.collapse)
  ultimately have "fst (kafka_schema m2 internal) = Inr \<lparr>ms_schema = avro_class (ae_target e) (Some ?n),
        ms_subject = ?n @ ''.'' @ ?c, ms_namespace = ?n, ms_version = Some (int (ae_version e)), ms_id = Some (Some (int i))\<rparr>"
    using own(4) by (simp add: kafka_schema_def andThen_Inr getHeader_def)
  then show ?thesis
    using reg rec t(1) by auto
qed

definition ticket_class :: class_schema where
  "ticket_class = ClassSchema ''TicketCreated'' (Some ''kitchen'') [(''id'', PropertySchema (PPrimitive ''number'') False False)]"

definition numbering_registry :: "nat schema_registry" where
  "numbering_registry = \<lparr>registerSchema = (\<lambda>_ _ n. (Inr n, Suc n)), encodeWith = (\<lambda>_ j. ret (stringify j)), decodeValue = (\<lambda>_. ret None)\<rparr>"

lemma encoded_schema_found_witness:
  "\<exists>v m2 w'. avro_encode numbering_registry (avro_records (AvroSchema ''kitchen'' None 2 ticket_class []))
      (sample_message [(HDR_TYPE, ''TicketCreated'')]) 7 = (Inr (v, m2), w')
    \<and> fst (kafka_schema m2 (AvroSchema ''kitchen'' None 2 ticket_class [])) =
        Inr \<lparr>ms_schema = avro_class ticket_class (Some ''kitchen''), ms_subject = ''kitchen.TicketCreated'', ms_namespace = ''kitchen'',
          ms_version = Some 2, ms_id = Some (Some 7)\<rparr>"
proof -
  let ?I = "AvroSchema ''kitchen'' None 2 ticket_class []" and ?m = "sample_message [(HDR_TYPE, ''TicketCreated'')]"
  have name: "class_name ticket_class = ''TicketCreated''" by (simp add: ticket_class_def class_name_def)
  have "message_type ?m = Inr ''TicketCreated''"
    by (simp add: message_type_def getRequiredHeader_Inr sample_message_def new_message_def)
  moreover have "map_get (avro_records ?I) ''TicketCreated'' =
      Some \<lparr>ar_version = 2, ar_namespace = ''kitchen'', ar_schema = avro_class ticket_class (Some ''kitchen'')\<rparr>"
    by (simp add: avro_records_def AvroSchema_def name)
  ultimately obtain v m2 w' where enc: "avro_encode numbering_registry (avro_records ?I) ?m 7 = (Inr (v, m2), w')"
    by (simp add: avro_encode_def andThen_def numbering_registry_def Let_def)
  show ?thesis
    using encoded_schema_found [OF enc, of "hd ?I"] enc
    by (auto simp: AvroSchema_def name sample_message_def new_message_def map_wf_def numbering_registry_def
        SCHEMA_NAMESPACE_def SCHEMA_VERSION_def SCHEMA_SUBJECT_def HDR_TYPE_def)
qed

end
