(* ===== verification/FtgoSagas.thy ===== *)
theory FtgoSagas
  imports FtgoOrder CustomersOrders
begin

text \<open>
  The three sagas of the ftgo application (\<open>examples/ftgo-app/services/order/sagas/\<close>): creating, cancelling and
  revising an order, with the endpoints of the participants (\<open>order/proxies/\<close>) and the commands
  (\<open>order/api/commands.ts\<close>, \<open>kitchen/api/commands.ts\<close> and the others). They are built with the builders of
  theory SagaDsl.
\<close>

section \<open>Commands and endpoints\<close>

definition plain_command :: "string \<Rightarrow> (string \<times> json) list \<Rightarrow> jsobj" where
  "plain_command name args = \<lparr>obj_class = name, obj_own = JObj args\<rparr>"

definition endpoint :: "string \<Rightarrow> string \<Rightarrow> string list \<Rightarrow> command_endpoint" where
  "endpoint ch cmd replies = \<lparr>ep_channel = ch, ep_command = cmd, ep_replies = replies\<rparr>"

definition kitchen_create :: command_endpoint where
  "kitchen_create = endpoint ''kitchen'' ''CreateTicketCommand'' [''CreateTicketReply'']"

definition kitchen_confirmCreate :: command_endpoint where
  "kitchen_confirmCreate = endpoint ''kitchen'' ''ConfirmCreateTicketCommand'' [''Success'']"

definition kitchen_cancel :: command_endpoint where
  "kitchen_cancel = endpoint ''kitchen'' ''CancelCreateTicketCommand'' [''Success'']"

definition kitchen_confirmTicketCancel :: command_endpoint where
  "kitchen_confirmTicketCancel = endpoint ''kitchen'' ''ConfirmCancelTicketCommand'' [''Success'']"

definition kitchen_undoBeginCancelTicket :: command_endpoint where
  "kitchen_undoBeginCancelTicket = endpoint ''kitchen'' ''UndoBeginCancelTicketCommand'' [''Success'']"

definition kitchen_beginCancelTicket :: command_endpoint where
  "kitchen_beginCancelTicket = endpoint ''kitchen'' ''BeginCancelTicketCommand'' [''Success'']"

definition order_beginCancel :: command_endpoint where
  "order_beginCancel = endpoint ''order'' ''BeginCancelOrderCommand'' [''Success'']"

definition order_undoBeginCancel :: command_endpoint where
  "order_undoBeginCancel = endpoint ''order'' ''UndoBeginCancelOrderCommand'' [''Success'']"

definition order_approve :: command_endpoint where
  "order_approve = endpoint ''order'' ''ApproveOrderCommand'' [''Success'']"

definition order_reject :: command_endpoint where
  "order_reject = endpoint ''order'' ''RejectOrderCommand'' [''Success'']"

definition customer_validateOrder :: command_endpoint where
  "customer_validateOrder = endpoint ''customer'' ''ValidateOrderByCustomerCommand'' [''Success'']"

definition accounting_authorize :: command_endpoint where
  "accounting_authorize = endpoint ''accounting'' ''AuthorizeCommand'' [''Success'']"

section \<open>Creating an order\<close>

text \<open>The identifier of the ticket is what the reply of the kitchen holds; before that it is undefined.\<close>

record create_data =
  fc_orderId :: int
  fc_customerId :: int
  fc_restaurantId :: int
  fc_total :: money
  fc_lineItems :: json
  fc_ticketId :: "json option"

definition ticket_field :: "json option \<Rightarrow> (string \<times> json) list" where
  "ticket_field t = (case t of None \<Rightarrow> [] | Some j \<Rightarrow> [(''ticketId'', j)])"

definition createTicket :: "create_data \<Rightarrow> jsobj" where
  "createTicket d = plain_command ''CreateTicketCommand''
     [(''restaurantId'', JNum (fc_restaurantId d)), (''orderId'', JNum (fc_orderId d)),
      (''ticketDetails'', JObj [(''lineItems'', fc_lineItems d)])]"

definition cancelCreateTicket :: "create_data \<Rightarrow> jsobj" where
  "cancelCreateTicket d = plain_command ''CancelCreateTicketCommand'' (ticket_field (fc_ticketId d))"

definition confirmCreateTicket :: "create_data \<Rightarrow> jsobj" where
  "confirmCreateTicket d = plain_command ''ConfirmCreateTicketCommand'' (ticket_field (fc_ticketId d))"

definition approve_command :: "create_data \<Rightarrow> jsobj" where
  "approve_command d = plain_command ''ApproveOrderCommand'' [(''orderId'', JNum (fc_orderId d))]"

definition reject_command :: "create_data \<Rightarrow> jsobj" where
  "reject_command d = plain_command ''RejectOrderCommand'' [(''orderId'', JNum (fc_orderId d))]"

definition validate_command :: "create_data \<Rightarrow> jsobj" where
  "validate_command d = plain_command ''ValidateOrderByCustomerCommand''
     [(''customerId'', JNum (fc_customerId d)), (''orderId'', JNum (fc_orderId d)), (''orderTotal'', money_json (fc_total d))]"

definition authorize_command :: "create_data \<Rightarrow> jsobj" where
  "authorize_command d = plain_command ''AuthorizeCommand''
     [(''customerId'', JNum (fc_customerId d)), (''orderId'', JNum (fc_orderId d)), (''orderTotal'', money_json (fc_total d))]"

definition handleCreateTicketReply :: "jsobj \<Rightarrow> (create_data \<times> 'w, unit) eff" where
  "handleCreateTicketReply reply s = (Inr (), ((fst s)\<lparr>fc_ticketId := own_property ''ticketId'' reply\<rparr>, snd s))"

definition provides :: "command_endpoint \<Rightarrow> ('d \<Rightarrow> jsobj) \<Rightarrow> ('d \<times> 'w) with_args" where
  "provides ep provider = EndpointArgs ep (\<lambda>s. (Inr (provider (fst s)), s)) None"

definition ftgoCreateOrderSaga :: "(create_data \<times> 'w) saga_step list" where
  "ftgoCreateOrderSaga =
     (let s1 = ib_step (step_withCompensation (\<lambda>_. None) no_cell (provides order_reject reject_command) first_step);
          s2 = ib_step (invokeParticipant (\<lambda>_. None) no_cell (provides customer_validateOrder validate_command) s1);
          s3 = ib_step (withCompensation (\<lambda>_. None) no_cell (provides kitchen_cancel cancelCreateTicket)
                 (onReply ''CreateTicketReply'' handleCreateTicketReply
                   (invokeParticipant (\<lambda>_. None) no_cell (provides kitchen_create createTicket) s2)));
          s4 = ib_step (invokeParticipant (\<lambda>_. None) no_cell (provides accounting_authorize authorize_command) s3);
          s5 = ib_step (invokeParticipant (\<lambda>_. None) no_cell (provides kitchen_confirmCreate confirmCreateTicket) s4)
      in ib_build (invokeParticipant (\<lambda>_. None) no_cell (provides order_approve approve_command) s5))"

section \<open>Cancelling an order\<close>

text \<open>
  The providers of the other two sagas are methods decorated with \<open>@CommandDestination\<close>: the decorator keeps the
  channel for the prototype and the name of the method. Each builder has a variable for the
  destination of its commands, a cell of the state that is empty at first, since the bound method it
  asks has no metadata.
\<close>

type_synonym cells = "(nat, string) jsmap"

definition nth_cell :: "nat \<Rightarrow> ('d \<times> cells) destination_cell" where
  "nth_cell n = \<lparr>cell_get = (\<lambda>s. map_get (snd s) n),
     cell_set = (\<lambda>v s. (fst s, case v of None \<Rightarrow> snd s | Some ch \<Rightarrow> map_set n ch (snd s)))\<rparr>"

definition bare :: "('d \<Rightarrow> jsobj) \<Rightarrow> ('d \<times> cells) with_args" where
  "bare provider = ProviderArgs (\<lambda>s. (Inr (BareCommand (provider (fst s))), s)) None"

record cancel_data =
  fx_orderId :: int
  fx_customerId :: int
  fx_restaurantId :: int
  fx_total :: money

definition beginCancel :: "cancel_data \<Rightarrow> jsobj" where
  "beginCancel d = plain_command ''BeginCancelOrderCommand'' [(''orderId'', JNum (fx_orderId d))]"

definition undoBeginCancel :: "cancel_data \<Rightarrow> jsobj" where
  "undoBeginCancel d = plain_command ''UndoBeginCancelOrderCommand'' [(''orderId'', JNum (fx_orderId d))]"

definition beginCancelTicket :: "cancel_data \<Rightarrow> jsobj" where
  "beginCancelTicket d = plain_command ''BeginCancelTicketCommand''
     [(''restaurantId'', JNum (fx_restaurantId d)), (''orderId'', JNum (fx_orderId d))]"

definition undoBeginCancelTicket :: "cancel_data \<Rightarrow> jsobj" where
  "undoBeginCancelTicket d = plain_command ''UndoBeginCancelTicketCommand''
     [(''restaurantId'', JNum (fx_restaurantId d)), (''orderId'', JNum (fx_orderId d))]"

definition reverseAuthorization :: "cancel_data \<Rightarrow> jsobj" where
  "reverseAuthorization d = plain_command ''ReverseAuthorizationCommand''
     [(''customerId'', JNum (fx_customerId d)), (''orderId'', JNum (fx_orderId d)), (''orderTotal'', money_json (fx_total d))]"

definition confirmTicketCancel :: "cancel_data \<Rightarrow> jsobj" where
  "confirmTicketCancel d = plain_command ''ConfirmCancelTicketCommand''
     [(''restaurantId'', JNum (fx_restaurantId d)), (''orderId'', JNum (fx_orderId d))]"

definition confirmOrderCancel :: "cancel_data \<Rightarrow> jsobj" where
  "confirmOrderCancel d = plain_command ''ConfirmCancelOrderCommand'' [(''orderId'', JNum (fx_orderId d))]"

definition cancelOrderSaga :: "(string \<Rightarrow> string option) \<Rightarrow> (cancel_data \<times> cells) saga_step list" where
  "cancelOrderSaga destinationOf =
     (let s1 = ib_step (withCompensation destinationOf (nth_cell 1) (bare undoBeginCancel)
                 (invokeParticipant destinationOf (nth_cell 0) (bare beginCancel) first_step));
          s2 = ib_step (withCompensation destinationOf (nth_cell 3) (bare undoBeginCancelTicket)
                 (invokeParticipant destinationOf (nth_cell 2) (bare beginCancelTicket) s1));
          s3 = ib_step (invokeParticipant destinationOf (nth_cell 4) (bare reverseAuthorization) s2);
          s4 = ib_step (invokeParticipant destinationOf (nth_cell 5) (bare confirmTicketCancel) s3)
      in ib_build (invokeParticipant destinationOf (nth_cell 6) (bare confirmOrderCancel) s4))"

section \<open>Revising an order\<close>

text \<open>The service that starts the saga gives no restaurant: it stays undefined.\<close>

record revise_data =
  fv_orderId :: int
  fv_customerId :: int
  fv_restaurantId :: "int option"
  fv_orderRevision :: order_revision
  fv_revisedOrderTotal :: "json option"

definition line_item_json :: "line_item \<Rightarrow> json" where
  "line_item_json li = JObj [(''id'', JNum (item_id li)), (''menuItemId'', JNum (item_menuItemId li)),
     (''name'', JStr (item_name li)), (''quantity'', JNum (item_quantity li))]"

definition restaurant_field :: "int option \<Rightarrow> (string \<times> json) list" where
  "restaurant_field r = (case r of None \<Rightarrow> [] | Some i \<Rightarrow> [(''restaurantId'', JNum i)])"

definition beginReviseOrder :: "revise_data \<Rightarrow> jsobj" where
  "beginReviseOrder d = plain_command ''BeginReviseOrderCommand'' [(''orderId'', JNum (fv_orderId d))]"

definition undoBeginReviseOrder :: "revise_data \<Rightarrow> jsobj" where
  "undoBeginReviseOrder d = plain_command ''UndoBeginReviseOrderCommand'' [(''orderId'', JNum (fv_orderId d))]"

definition beginReviseTicket :: "revise_data \<Rightarrow> jsobj" where
  "beginReviseTicket d = plain_command ''BeginReviseTicketCommand''
     (restaurant_field (fv_restaurantId d) @ [(''orderId'', JNum (fv_orderId d)),
      (''revisedOrderLineItems'', JArr (map line_item_json (revisedOrderLineItems (fv_orderRevision d))))])"

definition undoBeginReviseTicket :: "revise_data \<Rightarrow> jsobj" where
  "undoBeginReviseTicket d = plain_command ''UndoBeginReviseTicketCommand''
     (restaurant_field (fv_restaurantId d) @ [(''orderId'', JNum (fv_orderId d))])"

definition reviseAuthorization :: "revise_data \<Rightarrow> jsobj" where
  "reviseAuthorization d = plain_command ''ReverseAuthorizationCommand''
     ([(''customerId'', JNum (fv_customerId d)), (''orderId'', JNum (fv_orderId d))]
      @ (case fv_revisedOrderTotal d of None \<Rightarrow> [] | Some j \<Rightarrow> [(''orderTotal'', j)]))"

definition confirmTicketRevision :: "revise_data \<Rightarrow> jsobj" where
  "confirmTicketRevision d = plain_command ''ConfirmReviseTicketCommand''
     (restaurant_field (fv_restaurantId d) @ [(''orderId'', JNum (fv_orderId d)),
      (''revisedOrderLineItems'', JArr (map line_item_json (revisedOrderLineItems (fv_orderRevision d))))])"

definition confirmOrderRevision :: "revise_data \<Rightarrow> jsobj" where
  "confirmOrderRevision d = plain_command ''ConfirmReviseOrderCommand'' [(''orderId'', JNum (fv_orderId d))]"

definition handleBeginReviseOrderReply :: "jsobj \<Rightarrow> (revise_data \<times> 'w, unit) eff" where
  "handleBeginReviseOrderReply reply s =
     (Inr (), ((fst s)\<lparr>fv_revisedOrderTotal := own_property ''revisedOrderTotal'' reply\<rparr>, snd s))"

definition reviseOrderSaga :: "(string \<Rightarrow> string option) \<Rightarrow> (revise_data \<times> cells) saga_step list" where
  "reviseOrderSaga destinationOf =
     (let s1 = ib_step (withCompensation destinationOf (nth_cell 1) (bare undoBeginReviseOrder)
                 (onReply ''BeginReviseOrderReply'' handleBeginReviseOrderReply
                   (invokeParticipant destinationOf (nth_cell 0) (bare beginReviseOrder) first_step)));
          s2 = ib_step (withCompensation destinationOf (nth_cell 3) (bare undoBeginReviseTicket)
                 (invokeParticipant destinationOf (nth_cell 2) (bare beginReviseTicket) s1));
          s3 = ib_step (invokeParticipant destinationOf (nth_cell 4) (bare reviseAuthorization) s2);
          s4 = ib_step (invokeParticipant destinationOf (nth_cell 5) (bare confirmTicketRevision) s3)
      in ib_build (invokeParticipant destinationOf (nth_cell 6) (bare confirmOrderRevision) s4))"

section \<open>Sagas that cannot start\<close>

text \<open>A saga whose first step sends a bare command of a class without a destination, from an empty cell.\<close>

lemma start_without_destination:
  assumes "steps = ParticipantInvocationStep ps # rest"
    and "participantInvocation ps = Some (new_ParticipantInvocation
           (withDestination destinationOf (nth_cell n) (\<lambda>s. (Inr (BareCommand (provider (fst s))), s))) None)"
    and "destinationOf (obj_class (provider d)) = None"
  shows "start steps (d, []) = (Inl (ErrorException ''Missing @CommandDestination() for [object Object]''), (d, []))"
  using assms
  by (simp add: start_def new_SagaExecutionState_def next_step_defs withDestination_def nth_cell_def
      new_ParticipantInvocation_def)



section \<open>The saga that creates an order\<close>

lemma ftgoCreateOrderSaga_steps:
  "ftgoCreateOrderSaga =
    (let step = (\<lambda>handlers a c. ParticipantInvocationStep \<lparr>actionReplyHandlers = handlers, compensationReplyHandlers = [],
          participantInvocation = a, ps_compensation = c\<rparr>);
         invokes = (\<lambda>ep p. Some (new_ParticipantEndpointInvocation ep (\<lambda>s. (Inr (p (fst s)), s)) None))
     in [step [] None (invokes order_reject reject_command),
         step [] (invokes customer_validateOrder validate_command) None,
         step [(''CreateTicketReply'', \<lparr>rh_type = ''CreateTicketReply'', rh_handler = handleCreateTicketReply\<rparr>)]
           (invokes kitchen_create createTicket) (invokes kitchen_cancel cancelCreateTicket),
         step [] (invokes accounting_authorize authorize_command) None,
         step [] (invokes kitchen_confirmCreate confirmCreateTicket) None,
         step [] (invokes order_approve approve_command) None])"
  by (simp add: ftgoCreateOrderSaga_def builder_defs provides_def Let_def)

definition asks :: "bool \<Rightarrow> int \<Rightarrow> int \<Rightarrow> command_endpoint \<Rightarrow> jsobj \<Rightarrow> saga_actions" where
  "asks c i j ep cmd = step_actions (at_position i c) (at_position j c)
     (RemoteStepOutcome [new_CommandWithDestination (ep_channel ep) cmd None None])"

lemma asks_simps [simp]:
  "sa_updatedState (asks c i j ep cmd) = Some (encodeExecutionState (at_position j c))"
  "sa_commands (asks c i j ep cmd) = [new_CommandWithDestination (ep_channel ep) cmd None None]"
  by (simp_all add: asks_def)

lemmas create_next_defs = ftgoCreateOrderSaga_steps next_step_defs new_ParticipantEndpointInvocation_def
  asks_def at_position_def new_SagaExecutionState_def

text \<open>The next step from every position, forwards and backwards.\<close>

lemma create_forward:
  "start ftgoCreateOrderSaga (d, w) = (Inr (asks False (-1) 1 customer_validateOrder (validate_command d)), (d, w))"
  "executeNextStep ftgoCreateOrderSaga (at_position 1 False) (d, w) =
     (Inr (asks False 1 2 kitchen_create (createTicket d)), (d, w))"
  "executeNextStep ftgoCreateOrderSaga (at_position 2 False) (d, w) =
     (Inr (asks False 2 3 accounting_authorize (authorize_command d)), (d, w))"
  "executeNextStep ftgoCreateOrderSaga (at_position 3 False) (d, w) =
     (Inr (asks False 3 4 kitchen_confirmCreate (confirmCreateTicket d)), (d, w))"
  "executeNextStep ftgoCreateOrderSaga (at_position 4 False) (d, w) =
     (Inr (asks False 4 5 order_approve (approve_command d)), (d, w))"
  "executeNextStep ftgoCreateOrderSaga (at_position 5 False) (d, w) =
     (Inr (makeEndStateSagaActions (at_position 5 False)), (d, w))"
  by (simp_all add: create_next_defs Let_def start_def)

lemma create_backward:
  "executeNextStep ftgoCreateOrderSaga (at_position 3 True) (d, w) =
     (Inr (asks True 3 2 kitchen_cancel (cancelCreateTicket d)), (d, w))"
  "executeNextStep ftgoCreateOrderSaga (at_position 2 True) (d, w) =
     (Inr (asks True 2 0 order_reject (reject_command d)), (d, w))"
  "executeNextStep ftgoCreateOrderSaga (at_position 0 True) (d, w) =
     (Inr (makeEndStateSagaActions (at_position 0 True)), (d, w))"
  by (simp_all add: create_next_defs Let_def)

lemma plain_reply:
  assumes "is_reply out m" and "(i, c) \<in> {(1, False), (3, False), (4, False), (5, False), (2, True), (0, True)}"
  shows "handleReply S ftgoCreateOrderSaga (encodeExecutionState (at_position i c)) m s =
    (if out = SUCCESS then executeNextStep ftgoCreateOrderSaga (at_position i c) s
     else if c then (Inl (UnsupportedOperationException ''Failure when compensating''), s)
     else executeNextStep ftgoCreateOrderSaga (at_position i True) s)"
proof -
  have "getRequiredHeader m REPLY_TYPE = Inr (getHeader m REPLY_TYPE '''')"
    using assms(1) by (simp add: is_reply_def getRequiredHeader_filled)
  then show ?thesis
    using assms(2) is_reply_outcome [OF assms(1)]
    by (cases out) (auto simp: handleReply_def andThen_Inr andThen_Inl step_at_def at_position_def ftgoCreateOrderSaga_steps
        saga_step_defs startCompensating_def Let_def)
qed

lemma ticket_reply:
  assumes "replies_with S m ob SUCCESS" and "obj_class ob = ''CreateTicketReply''"
    and "validatedPlainToClass S (obj_class ob) (classToPlain S (obj_class ob) (obj_own ob)) = Inr ob"
  shows "handleReply S ftgoCreateOrderSaga (encodeExecutionState (at_position 2 False)) m (d, w) =
    executeNextStep ftgoCreateOrderSaga (at_position 2 False) (d\<lparr>fc_ticketId := own_property ''ticketId'' ob\<rparr>, w)"
proof -
  have "parsePayload S ''CreateTicketReply'' m = Inr ob"
    using assms by (simp add: parsePayload_def replies_with_def)
  then show ?thesis
    using assms(1,2) by (auto simp: handleReply_def andThen_Inr step_at_def at_position_def ftgoCreateOrderSaga_steps
        saga_step_defs replies_with_def invokeReplyHandler_def handleCreateTicketReply_def Let_def)
qed

text \<open>How the saga ends once the payment has been asked for.\<close>

lemma payment_granted:
  assumes "is_reply SUCCESS m3" "is_reply SUCCESS m4" "is_reply SUCCESS m5"
  shows "drive S ftgoCreateOrderSaga (encodeExecutionState (at_position 3 False)) [m3, m4, m5] (d, w) =
    (Inr [asks False 3 4 kitchen_confirmCreate (confirmCreateTicket d), asks False 4 5 order_approve (approve_command d),
      makeEndStateSagaActions (at_position 5 False)], (d, w))"
  by (simp add: plain_reply [OF assms(1)] plain_reply [OF assms(2)] plain_reply [OF assms(3)] create_forward andThen_Inr)

lemma payment_refused:
  assumes "is_reply FAILURE f" "is_reply SUCCESS m4" "is_reply SUCCESS m5"
  shows "drive S ftgoCreateOrderSaga (encodeExecutionState (at_position 3 False)) [f, m4, m5] (d, w) =
    (Inr [asks True 3 2 kitchen_cancel (cancelCreateTicket d), asks True 2 0 order_reject (reject_command d),
      makeEndStateSagaActions (at_position 0 True)], (d, w))"
  by (simp add: plain_reply [OF assms(1)] plain_reply [OF assms(2)] plain_reply [OF assms(3)] create_backward andThen_Inr)

text \<open>
  C23: The saga that creates an order of the ftgo application. When every participant succeeds it asks, in
  this order, the customer to be validated, the ticket to be created, the payment to be authorized, the ticket to
  be confirmed and the order to be approved, and it ends. When the authorization is refused it has the
  ticket cancelled and the order rejected, and ends compensating. Ticket and order are the same
  throughout: the identifier of the ticket is the one the kitchen has replied with.
\<close>

theorem order_created_or_undone:
  assumes ok: "\<And>m. m \<in> {m1, m3, m4, m5} \<Longrightarrow> is_reply SUCCESS m" and no: "is_reply FAILURE f"
    and ticket: "replies_with S t ob SUCCESS" "obj_class ob = ''CreateTicketReply''"
      "validatedPlainToClass S (obj_class ob) (classToPlain S (obj_class ob) (obj_own ob)) = Inr ob"
    and d': "d' = d\<lparr>fc_ticketId := own_property ''ticketId'' ob\<rparr>"
  shows "(\<exists>as. run_saga S ftgoCreateOrderSaga [m1, t, m3, m4, m5] (d, w) = (Inr as, (d', w))
      \<and> map (\<lambda>c. (channel c, the_command c)) (concat (map sa_commands as)) =
          [(''customer'', validate_command d'), (''kitchen'', createTicket d'), (''accounting'', authorize_command d'),
           (''kitchen'', confirmCreateTicket d'), (''order'', approve_command d')]
      \<and> sa_endState (last as) \<and> \<not> sa_compensating (last as))
    \<and> (\<exists>as. run_saga S ftgoCreateOrderSaga [m1, t, f, m4, m5] (d, w) = (Inr as, (d', w))
      \<and> map (\<lambda>c. (channel c, the_command c)) (concat (map sa_commands as)) =
          [(''customer'', validate_command d'), (''kitchen'', createTicket d'), (''accounting'', authorize_command d'),
           (''kitchen'', cancelCreateTicket d'), (''order'', reject_command d')]
      \<and> sa_endState (last as) \<and> sa_compensating (last as))"
proof -
  note replies = plain_reply [OF ok] plain_reply [OF no] and next_step = create_forward create_backward
  have same: "validate_command d' = validate_command d" "createTicket d' = createTicket d"
    by (simp_all add: d' validate_command_def createTicket_def)
  have begun: "handleReply S ftgoCreateOrderSaga (encodeExecutionState (at_position 1 False)) m1 (d, w) =
      (Inr (asks False 1 2 kitchen_create (createTicket d)), (d, w))"
    by (simp add: replies next_step)
  have made: "handleReply S ftgoCreateOrderSaga (encodeExecutionState (at_position 2 False)) t (d, w) =
      (Inr (asks False 2 3 accounting_authorize (authorize_command d')), (d', w))"
    by (simp add: ticket_reply [OF ticket] next_step d')
  note run = run_saga_Cons [OF create_forward(1) _ drive_Cons [OF begun _ drive_Cons [OF made]]]
  have success: "run_saga S ftgoCreateOrderSaga [m1, t, m3, m4, m5] (d, w) =
      (Inr [asks False (-1) 1 customer_validateOrder (validate_command d), asks False 1 2 kitchen_create (createTicket d),
        asks False 2 3 accounting_authorize (authorize_command d'), asks False 3 4 kitchen_confirmCreate (confirmCreateTicket d'),
        asks False 4 5 order_approve (approve_command d'), makeEndStateSagaActions (at_position 5 False)], (d', w))"
    by (rule run [OF _ _ _ payment_granted]) (simp_all add: ok)
  have undone: "run_saga S ftgoCreateOrderSaga [m1, t, f, m4, m5] (d, w) =
      (Inr [asks False (-1) 1 customer_validateOrder (validate_command d), asks False 1 2 kitchen_create (createTicket d),
        asks False 2 3 accounting_authorize (authorize_command d'), asks True 3 2 kitchen_cancel (cancelCreateTicket d'),
        asks True 2 0 order_reject (reject_command d'), makeEndStateSagaActions (at_position 0 True)], (d', w))"
    by (rule run [OF _ _ _ payment_refused [OF no]]) (simp_all add: ok)
  note endpoints = customer_validateOrder_def kitchen_create_def accounting_authorize_def kitchen_confirmCreate_def
    order_approve_def kitchen_cancel_def order_reject_def endpoint_def
  show ?thesis
    unfolding success undone
    by (simp add: same endpoints new_CommandWithDestination_def) (simp add: at_position_def)
qed

text \<open>An order of customer 7 whose ticket gets the identifier 5.\<close>

definition sample_ftgo_order :: create_data where
  "sample_ftgo_order = \<lparr>fc_orderId = 1, fc_customerId = 7, fc_restaurantId = 2, fc_total = \<lparr>amount = 30\<rparr>,
     fc_lineItems = JArr [], fc_ticketId = None\<rparr>"

definition sample_ticket_reply :: jsobj where
  "sample_ticket_reply = \<lparr>obj_class = ''CreateTicketReply'', obj_own = JObj [(''ticketId'', JNum 5)]\<rparr>"

lemma order_created_or_undone_witness:
  "\<exists>t as. run_saga sample_serializer ftgoCreateOrderSaga
      [sample_reply SUCCESS, t, sample_reply FAILURE, sample_reply SUCCESS, sample_reply SUCCESS] (sample_ftgo_order, ()) =
      (Inr as, (sample_ftgo_order\<lparr>fc_ticketId := Some (JNum 5)\<rparr>, ()))
    \<and> map channel (concat (map sa_commands as)) = [''customer'', ''kitchen'', ''accounting'', ''kitchen'', ''order'']"
proof -
  let ?t = "new_message (obj_own sample_ticket_reply) [(REPLY_TYPE, ''CreateTicketReply''), (REPLY_OUTCOME, outcome_text SUCCESS)]"
  have "replies_with sample_serializer ?t sample_ticket_reply SUCCESS"
    by (simp add: replies_with_def sample_ticket_reply_def sample_serializer_def new_message_def getRequiredHeader_Inr
        getHeader_def filled_def REPLY_TYPE_def REPLY_OUTCOME_def)
  from order_created_or_undone [OF _ is_reply_sample this, of "sample_reply SUCCESS" "sample_reply SUCCESS" "sample_reply SUCCESS"
      "sample_reply SUCCESS" "sample_ftgo_order\<lparr>fc_ticketId := Some (JNum 5)\<rparr>" sample_ftgo_order "()"]
  obtain as where "run_saga sample_serializer ftgoCreateOrderSaga
      [sample_reply SUCCESS, ?t, sample_reply FAILURE, sample_reply SUCCESS, sample_reply SUCCESS] (sample_ftgo_order, ()) =
      (Inr as, (sample_ftgo_order\<lparr>fc_ticketId := Some (JNum 5)\<rparr>, ()))"
    and pairs: "map (\<lambda>c. (channel c, the_command c)) (concat (map sa_commands as)) =
      [(''customer'', validate_command (sample_ftgo_order\<lparr>fc_ticketId := Some (JNum 5)\<rparr>)),
       (''kitchen'', createTicket (sample_ftgo_order\<lparr>fc_ticketId := Some (JNum 5)\<rparr>)),
       (''accounting'', authorize_command (sample_ftgo_order\<lparr>fc_ticketId := Some (JNum 5)\<rparr>)),
       (''kitchen'', cancelCreateTicket (sample_ftgo_order\<lparr>fc_ticketId := Some (JNum 5)\<rparr>)),
       (''order'', reject_command (sample_ftgo_order\<lparr>fc_ticketId := Some (JNum 5)\<rparr>))]"
    by (auto simp: is_reply_sample sample_ticket_reply_def sample_serializer_def own_property_def)
  moreover have "map channel (concat (map sa_commands as)) = [''customer'', ''kitchen'', ''accounting'', ''kitchen'', ''order'']"
    using arg_cong [OF pairs, of "map fst"] by (simp add: comp_def)
  ultimately show ?thesis by (intro exI [where x = ?t] exI [where x = as] conjI)
qed

end
