(* ===== verification/FtgoServices.thy ===== *)
theory FtgoServices
  imports FtgoSagas Participant
begin

text \<open>
  The other services of the ftgo application (\<open>examples/ftgo-app/services/\<close>): the customers, who validate the orders, the
  deliveries, and the restaurants. The handler of the customers is followed
  through the dispatcher of a saga's participants.
\<close>

section \<open>Customers\<close>

record ftgo_customer =
  fcu_id :: int
  fcu_identity :: json
  fcu_balance :: money

text \<open>\<open>throw ''\<close>: an empty text.\<close>

definition customer_validate :: "ftgo_customer \<Rightarrow> money \<Rightarrow> exn + unit" where
  "customer_validate c orderPrice = (if \<not> isGreaterThanOrEqual (fcu_balance c) orderPrice then Inl (ThrownText '''') else Inr ())"

record 'w customer_service =
  findOneCustomer :: "int \<Rightarrow> ('w, ftgo_customer option) eff"
  saveIdentity :: "json \<Rightarrow> ('w, ftgo_customer) eff"
  publishCustomer :: "ftgo_customer \<Rightarrow> jsobj list \<Rightarrow> ('w, unit) eff"

definition fcs_findOrFail :: "'w customer_service \<Rightarrow> int \<Rightarrow> ('w, ftgo_customer) eff" where
  "fcs_findOrFail C i = andThen (findOneCustomer C i) (\<lambda>found.
     case found of None \<Rightarrow> throw (CustomerNotFoundException i) | Some c \<Rightarrow> ret c)"

definition fcs_validateOrder :: "'w customer_service \<Rightarrow> int \<Rightarrow> money \<Rightarrow> ('w, unit) eff" where
  "fcs_validateOrder C customerId orderPrice = andThen (fcs_findOrFail C customerId) (\<lambda>c. lift (customer_validate c orderPrice))"

definition fcs_create :: "'w customer_service \<Rightarrow> json \<Rightarrow> ('w, ftgo_customer) eff" where
  "fcs_create C identity = andThen (saveIdentity C identity) (\<lambda>c. andThen (publishCustomer C c [\<lparr>obj_class = ''CustomerCreated'', obj_own = JObj []\<rparr>]) (\<lambda>_. ret c))"

record validate_request =
  vr_customerId :: int
  vr_orderId :: int
  vr_orderTotal :: money

definition validateOrderByConsumer :: "'w customer_service \<Rightarrow> validate_request \<Rightarrow> ('w, handler_result) eff" where
  "validateOrderByConsumer C v =
     andThen (fcs_validateOrder C (vr_customerId v) (vr_orderTotal v)) (\<lambda>_. ret (One ReplyNothing))"

section \<open>Deliveries\<close>

datatype delivery_state = DELIVERY_CANCELLED | SCHEDULED | PENDING_DELIVERY

text \<open>Dates are numbers of milliseconds, and addresses are JSON.\<close>

record delivery =
  dl_id :: int
  dl_restaurantId :: int
  dl_assignedCourier :: "int option"
  dl_pickUpTime :: int
  dl_deliveryTime :: int
  dl_readyBy :: int
  dl_pickupAddress :: json
  dl_state :: delivery_state

definition delivery_schedule :: "int \<Rightarrow> int \<Rightarrow> delivery \<Rightarrow> delivery" where
  "delivery_schedule readyBy courier d = d\<lparr>dl_readyBy := readyBy, dl_assignedCourier := Some courier, dl_state := SCHEDULED\<rparr>"

definition delivery_cancel :: "delivery \<Rightarrow> delivery" where
  "delivery_cancel d = d\<lparr>dl_state := DELIVERY_CANCELLED, dl_assignedCourier := None\<rparr>"

datatype delivery_call = Schedule int int | Cancel

fun call_delivery :: "delivery_call \<Rightarrow> delivery \<Rightarrow> delivery" where
  "call_delivery (Schedule readyBy courier) d = delivery_schedule readyBy courier d"
| "call_delivery Cancel d = delivery_cancel d"

text \<open>
  A delivery has a courier exactly while it is scheduled. Nothing is asked of the state before: a cancelled delivery
  can be scheduled again.
\<close>

lemma courier_iff_scheduled:
  assumes "dl_assignedCourier d \<noteq> None \<longleftrightarrow> dl_state d = SCHEDULED"
  shows "dl_assignedCourier (fold call_delivery cs d) \<noteq> None \<longleftrightarrow> dl_state (fold call_delivery cs d) = SCHEDULED"
  using assms
proof (induction cs arbitrary: d)
  case (Cons c cs)
  then show ?case by (cases c) (auto simp: delivery_schedule_def delivery_cancel_def)
qed simp

section \<open>Restaurants\<close>

record create_restaurant =
  cr_name :: string
  cr_address :: json
  cr_menu :: json

record ('r, 'w) restaurant_service =
  saveRestaurant :: "create_restaurant \<Rightarrow> ('w, 'r) eff"
  publishRestaurant :: "'r \<Rightarrow> jsobj list \<Rightarrow> ('w, unit) eff"

definition restaurant_create :: "('r, 'w) restaurant_service \<Rightarrow> create_restaurant \<Rightarrow> ('w, 'r) eff" where
  "restaurant_create R request =
     andThen (saveRestaurant R request) (\<lambda>restaurant.
     andThen (publishRestaurant R restaurant [\<lparr>obj_class = ''RestaurantCreated'', obj_own = JObj
         [(''name'', JStr (cr_name request)), (''address'', cr_address request), (''menu'', cr_menu request)]\<rparr>]) (\<lambda>_.
       ret restaurant))"

section \<open>An order that is refused\<close>

lemma withFailure_empty_text: "withFailure S (Some (caught (ThrownText ''''))) = Inl SyntaxError"
proof -
  have "case jsonParse '''' of Inl e \<Rightarrow> e = SyntaxError | Inr _ \<Rightarrow> False" by code_simp
  then show ?thesis
    by (auto simp: withFailure_def withReply_def caught_def withPayload_def split: sum.splits)
qed

lemma saga_invoke_throws:
  assumes "getSagaType (cm_message cm) = Inr ty" and "getSagaId (cm_message cm) = Inr sid" and "ch_preLock h = None"
    and "ch_invoke h cm w = (Inl err, w1)" and "failureOf S h (cm_command cm) err = Inl e"
  shows "saga_invoke S L h cm w = (Inl e, w1)"
  using assms by (simp add: saga_invoke_def claimPreLock_def cd_invoke_def andThen_def tryCatch_def)

lemma thrown_reply:
  assumes "findTargetMethod (commandHandlers D) m = Inr (Some h)" and "filled m REPLY_TO" and "filled m HDR_TYPE"
    and "parsePayload (dispatcherSerializer D) (ch_command h) m = Inr cmd" and "\<not> thrown_text e"
    and "invoke h \<lparr>cm_command = cmd, cm_correlation = correlated (headers m), cm_message = m\<rparr> w = (Inl e, w1)"
  shows "cd_handleMessage invoke D m w =
    andThen (sendBatch (messageProducer D) (getHeader m REPLY_TO '''') [failure_reply (dispatcherSerializer D) m e] False) (\<lambda>_. ret ()) w1"
proof -
  obtain s where s: "toString m = Inr s" using assms(3) toString_total by blast
  have "cd_replies invoke D h (correlated (headers m)) (getHeader m REPLY_TO '''') m w =
      andThen (handleException D m (getHeader m REPLY_TO '''') e) (\<lambda>_. ret None) w1"
    using assms(4,6) by (simp add: cd_replies_def s andThen_def tryCatch_def)
  then show ?thesis
    using assms(1,2,5)
    by (auto simp: cd_handleMessage_def correlateMessageHeaders_eq getRequiredHeader_filled handleException_eq andThen_def
        split: prod.splits sum.splits)
qed


definition sample_customers :: "broker_log customer_service" where
  "sample_customers =
     \<lparr>findOneCustomer = (\<lambda>i. ret (if i = 7 then Some \<lparr>fcu_id = 7, fcu_identity = JNull, fcu_balance = \<lparr>amount = 5\<rparr>\<rparr> else None)),
      saveIdentity = (\<lambda>identity. ret \<lparr>fcu_id = 8, fcu_identity = identity, fcu_balance = \<lparr>amount = 0\<rparr>\<rparr>),
      publishCustomer = (\<lambda>_ _. ret ())\<rparr>"

definition sample_validation :: validate_request where
  "sample_validation = \<lparr>vr_customerId = 7, vr_orderId = 1, vr_orderTotal = \<lparr>amount = 9\<rparr>\<rparr>"

definition customer_dispatcher :: "broker_log dispatcher" where
  "customer_dispatcher = dispatcher_create sample_producer sample_serializer ''customer''
     (hb_build (hb_onMessage ''ValidateOrderByCustomerCommand'' (\<lambda>_. validateOrderByConsumer sample_customers sample_validation)
       False None (hb_fromChannel ''customer'')))"

definition validation_message :: message where
  "validation_message = sample_message [(SAGA_TYPE, ''CreateOrderSaga''), (SAGA_ID, ''s1''), (REPLY_TO, ''CreateOrderSaga-reply''),
     (HDR_TYPE, ''ValidateOrderByCustomerCommand''), (COMMAND_TYPE, ''ValidateOrderByCustomerCommand'')]"


end
