(* ===== verification/Mocks.thy ===== *)
theory Mocks
  imports Prelude
begin

text \<open>
  The mocks of the tests (\<open>packages/testing/common/utils.ts\<close>): an object with a spy for every method of a class
  and of the classes it extends. The spies are made by jest and are told apart here by their numbers.
\<close>

section \<open>Objects with accessors\<close>

text \<open>
  What reading a property gives: \<open>ItselfFn\<close> is the function that returns the mock and \<open>InheritedFn\<close> one that every
  object inherits.
\<close>

datatype 'v mock_value = UndefinedValue | Given 'v | SpyFn nat | ItselfFn | InheritedFn

text \<open>An accessor made by \<open>Object.defineProperty\<close> reads and writes the property with an underscore before the name.\<close>

datatype 'v slot = DataSlot "'v mock_value" | AccessorSlot

type_synonym 'v mock = "(string, 'v slot) jsmap"

text \<open>The functions of \<open>Object.prototype\<close>, without \<open>__proto__\<close>, which no class declares.\<close>

definition object_prototype :: "string list" where
  "object_prototype = [''constructor'', ''__defineGetter__'', ''__defineSetter__'', ''hasOwnProperty'', ''__lookupGetter__'',
     ''__lookupSetter__'', ''isPrototypeOf'', ''propertyIsEnumerable'', ''toString'', ''valueOf'', ''toLocaleString'']"

lemma length_delete_less: "map_get m k = Some v \<Longrightarrow> length (map_delete k m) < length m"
  by (induction m) (auto simp: less_Suc_eq_le length_delete_le split: if_splits)

function cell :: "'v mock \<Rightarrow> string \<Rightarrow> string" where
  "cell mock key = (if map_get mock key = Some AccessorSlot then cell (map_delete key mock) (''_'' @ key) else key)"
  by auto

termination
  by (relation "measure (length \<circ> fst)") (auto intro: length_delete_less)

declare cell.simps [simp del]

definition read_property :: "'v mock \<Rightarrow> string \<Rightarrow> 'v mock_value" where
  "read_property mock key = (let k = cell mock key in
     case map_get mock k of
       Some (DataSlot v) \<Rightarrow> v
     | _ \<Rightarrow> if k \<in> set object_prototype then InheritedFn else UndefinedValue)"

definition write_property :: "string \<Rightarrow> 'v mock_value \<Rightarrow> 'v mock \<Rightarrow> 'v mock" where
  "write_property key v mock = map_set (cell mock key) (DataSlot v) mock"

section \<open>Mocks of a class\<close>

datatype descriptor = MethodDescriptor | GetterDescriptor | OtherDescriptor

type_synonym proto = "(string \<times> descriptor) list"

fun install_property :: "string \<times> descriptor \<Rightarrow> nat \<times> 'v mock \<Rightarrow> nat \<times> 'v mock" where
  "install_property (key, d) (spies, mock) =
     (if d = MethodDescriptor \<and> key \<noteq> ''constructor'' \<and> read_property mock key = UndefinedValue
      then (Suc spies, write_property key (SpyFn spies) mock)
      else if d = GetterDescriptor \<and> map_get mock key = None
      then (spies, map_set key AccessorSlot mock)
      else (spies, mock))"

text \<open>
  The prototypes of a class from its own to the last one before \<open>Object.prototype\<close>. The function \<open>castToWritable\<close> is set
  on the way back from each of them.
\<close>

fun installProtoMethods :: "proto list \<Rightarrow> nat \<times> 'v mock \<Rightarrow> nat \<times> 'v mock" where
  "installProtoMethods [] m = m"
| "installProtoMethods (p # ps) m =
     (case installProtoMethods ps (fold install_property p m) of
        (spies, mock) \<Rightarrow> (spies, write_property ''castToWritable'' ItselfFn mock))"

definition createSpyObject :: "proto list \<Rightarrow> (string, 'v mock_value) jsmap \<Rightarrow> 'v mock" where
  "createSpyObject protos template = snd (installProtoMethods protos (0, map (\<lambda>(k, v). (k, DataSlot v)) template))"

record 'v mock_provider =
  mp_provide :: string
  mp_useFactory :: "unit \<Rightarrow> 'v mock"

definition mockProvider :: "string \<Rightarrow> proto list \<Rightarrow> (string, 'v mock_value) jsmap \<Rightarrow> 'v mock_provider" where
  "mockProvider type protos properties = \<lparr>mp_provide = type, mp_useFactory = (\<lambda>_. createSpyObject protos properties)\<rparr>"

section \<open>Which methods are spied\<close>

definition no_accessor :: "'v mock \<Rightarrow> bool" where
  "no_accessor mock \<longleftrightarrow> (\<forall>k. map_get mock k \<noteq> Some AccessorSlot)"

lemma cell_plain [simp]: "no_accessor mock \<Longrightarrow> cell mock key = key"
  by (subst cell.simps) (simp add: no_accessor_def)

lemma read_plain:
  "no_accessor mock \<Longrightarrow> read_property mock key = (case map_get mock key of Some (DataSlot v) \<Rightarrow> v
     | _ \<Rightarrow> if key \<in> set object_prototype then InheritedFn else UndefinedValue)"
  by (simp add: read_property_def)

lemma no_accessor_write [simp]: "no_accessor mock \<Longrightarrow> no_accessor (write_property key v mock)"
  by (simp add: no_accessor_def write_property_def)

lemma read_write:
  "no_accessor mock \<Longrightarrow> read_property (write_property key v mock) k = (if k = key then v else read_property mock k)"
  using no_accessor_write [of mock key v] by (simp add: read_plain) (simp add: write_property_def)

definition is_spy :: "'v mock_value \<Rightarrow> bool" where
  "is_spy v \<longleftrightarrow> (\<exists>n. v = SpyFn n)"

definition without_getters :: "proto \<Rightarrow> bool" where
  "without_getters p \<longleftrightarrow> (\<forall>x\<in>set p. snd x \<noteq> GetterDescriptor)"

definition spied_in :: "proto \<Rightarrow> string \<Rightarrow> bool" where
  "spied_in p key \<longleftrightarrow> (key, MethodDescriptor) \<in> set p \<and> key \<noteq> ''constructor''"

text \<open>A prototype turns what is undefined and named by one of its methods into a spy, and leaves the rest as it is.\<close>

lemma prototype_installed:
  assumes "no_accessor (snd m)" and "without_getters p"
  shows "no_accessor (snd (fold install_property p m))
    \<and> (let before = read_property (snd m) key; after = read_property (snd (fold install_property p m)) key in
        if before = UndefinedValue \<and> spied_in p key then is_spy after else after = before)"
  using assms
proof (induction p arbitrary: m)
  case Nil
  then show ?case by (simp add: spied_in_def)
next
  case (Cons x p)
  obtain k d where x: "x = (k, d)" by (cases x)
  obtain n mock where m: "m = (n, mock)" by (cases m)
  have next_one: "no_accessor (snd (install_property x m))"
    using Cons.prems by (simp add: x m without_getters_def)
  have "without_getters p" using Cons.prems(2) by (simp add: without_getters_def)
  from Cons.IH [OF next_one this] show ?case
    using Cons.prems
    by (auto simp: x m spied_in_def without_getters_def read_write is_spy_def Let_def split: if_splits)
qed

lemma prototypes_installed:
  assumes "no_accessor (snd m)" and "\<forall>p\<in>set protos. without_getters p"
  shows "no_accessor (snd (installProtoMethods protos m))
    \<and> (let before = read_property (snd m) key; after = read_property (snd (installProtoMethods protos m)) key in
        if protos \<noteq> [] \<and> key = ''castToWritable'' then after = ItselfFn
        else if before = UndefinedValue \<and> (\<exists>p\<in>set protos. spied_in p key) then is_spy after else after = before)"
  using assms
proof (induction protos arbitrary: m)
  case (Cons p ps)
  have p: "no_accessor (snd m)" "without_getters p" using Cons.prems by auto
  note one = prototype_installed [OF p]
  have ps: "\<forall>p\<in>set ps. without_getters p" using Cons.prems by simp
  note rest = Cons.IH [OF conjunct1 [OF one] ps]
  have rest': "no_accessor (snd (installProtoMethods ps (fold install_property p m)))" using rest by blast
  show ?case
    using rest rest' one [of key]
    by (auto simp: read_write is_spy_def Let_def split: prod.splits if_splits)
qed simp

text \<open>
  In a mock of a class without getters exactly those methods of the class and of those it extends are spies that the
  template does not give, except the constructor, \<open>castToWritable\<close> and the methods that have the name of one of
  \<open>Object.prototype\<close>, such as \<open>toString\<close>: these are left as every object has them.
\<close>

lemma spied_iff:
  assumes "\<forall>p\<in>set protos. without_getters p" and "\<forall>x\<in>set template. \<not> is_spy (snd x)"
  shows "is_spy (read_property (createSpyObject protos template) key) \<longleftrightarrow>
    key \<noteq> ''castToWritable'' \<and> (\<exists>p\<in>set protos. spied_in p key)
    \<and> (case map_get template key of None \<Rightarrow> key \<notin> set object_prototype | Some v \<Rightarrow> v = UndefinedValue)"
proof -
  define m where "m = (0 :: nat, map (\<lambda>(k, v). (k, DataSlot v)) template)"
  have get: "map_get (snd m) k = map_option DataSlot (map_get template k)" for k
    by (simp add: m_def map_of_map)
  have plain: "no_accessor (snd m)" by (simp add: no_accessor_def get)
  have before: "read_property (snd m) key = (case map_get template key of Some v \<Rightarrow> v
      | None \<Rightarrow> if key \<in> set object_prototype then InheritedFn else UndefinedValue)"
    by (simp add: read_plain [OF plain] get split: option.splits)
  have "\<not> is_spy (read_property (snd m) key)"
    using assms(2) by (auto simp: before is_spy_def split: option.splits dest!: map_of_SomeD)
  then show ?thesis
    using prototypes_installed [OF plain assms(1), of key]
    by (auto simp: createSpyObject_def m_def [symmetric] before is_spy_def Let_def split: option.splits if_splits)
qed

text \<open>A class with three methods that extends one with two.\<close>

definition spied_class :: "proto list" where
  "spied_class =
     [[(''constructor'', MethodDescriptor), (''send'', MethodDescriptor), (''toString'', MethodDescriptor), (''flush'', MethodDescriptor)],
      [(''constructor'', MethodDescriptor), (''close'', MethodDescriptor), (''send'', MethodDescriptor)]]"

lemma spied_iff_witness:
  "is_spy (read_property (createSpyObject spied_class [(''flush'', Given True)]) ''send'')
   \<and> is_spy (read_property (createSpyObject spied_class [(''flush'', Given True)]) ''close'')
   \<and> \<not> is_spy (read_property (createSpyObject spied_class [(''flush'', Given True)]) ''flush'')
   \<and> \<not> is_spy (read_property (createSpyObject spied_class [(''flush'', Given True)]) ''toString'')"
proof -
  have "\<forall>p\<in>set spied_class. without_getters p" "\<forall>x\<in>set [(''flush'', Given True)]. \<not> is_spy (snd x)"
    by (simp_all add: spied_class_def without_getters_def is_spy_def)
  note spied = spied_iff [OF this]
  show ?thesis
    unfolding spied by (simp add: spied_class_def spied_in_def object_prototype_def)
qed

text \<open>A getter that the mock has none of its own for becomes an accessor, which is read where it was written.\<close>

lemma getter_mocked:
  assumes "no_accessor mock" and "map_get mock key = None"
  shows "read_property (write_property key v (snd (install_property (key, GetterDescriptor) (n, mock)))) key = v"
proof -
  let ?mock = "map_set key AccessorSlot mock"
  have delete: "map_get (map_delete key ?mock) k = (if k = key then None else map_get mock k)" for k
    by (simp add: delete_conv)
  have "no_accessor (map_delete key ?mock)"
    using assms(1) by (simp add: no_accessor_def delete)
  then have cell: "cell ?mock key = ''_'' @ key"
    by (subst cell.simps) simp
  have set: "map_get (map_delete key (map_set (''_'' @ key) (DataSlot v) ?mock)) k =
      (if k = ''_'' @ key then Some (DataSlot v) else if k = key then None else map_get mock k)" for k
    by (simp add: delete_conv)
  have "no_accessor (map_delete key (map_set (''_'' @ key) (DataSlot v) ?mock))"
    using assms(1) unfolding no_accessor_def set by simp
  then have "cell (map_set (''_'' @ key) (DataSlot v) ?mock) key = ''_'' @ key"
    by (subst cell.simps) simp
  then show ?thesis
    using assms(2) by (simp add: write_property_def cell read_property_def)
qed

end
