(* ===== verification/CustomersInterleaved.thy ===== *)
theory CustomersInterleaved
  imports CustomersOrders "HOL-Library.Multiset"
begin

text \<open>
  Several calls of \<open>reserveCredit\<close> of \<open>examples/sagas-customers-orders/customers/customer.service.ts\<close> that
  run at the same time, as they do when the service of the customers has several instances, each with partitions of
  its own. A call waits twice: for the row that it finds, and for the row that it saves. Between the two
  another call may run. The calls are a list, and a step takes one of them from one wait to the next.
\<close>

section \<open>A call and its waits\<close>

text \<open>What \<open>reserveCredit\<close> does with the row that was found.\<close>

definition reserve_found :: "'w customer_repository \<Rightarrow> int \<Rightarrow> int \<Rightarrow> money \<Rightarrow> customer option \<Rightarrow> ('w, customer) eff" where
  "reserve_found R customerId orderId orderSum found = (case found of
       None \<Rightarrow> throw (ThrownObject (CustomerNotFound customerId))
     | Some c \<Rightarrow> (case customer_reserveCredit orderId orderSum c of
           (Inl e, _) \<Rightarrow> throw e
         | (Inr _, c') \<Rightarrow> saveCustomer R c'))"

lemma cs_reserveCredit_waits:
  "cs_reserveCredit R customerId orderId orderSum =
     andThen (findCustomer R customerId) (reserve_found R customerId orderId orderSum)"
  unfolding cs_reserveCredit_def reserve_found_def by simp

datatype call =
    Called reserve_credit_command
  | Found reserve_credit_command "customer option"
  | Answered reserve_credit_command "exn + customer"

inductive call_step :: "'w customer_repository \<Rightarrow> 'w \<times> call list \<Rightarrow> 'w \<times> call list \<Rightarrow> bool"
  for R :: "'w customer_repository" where
  finds: "i < length ps \<Longrightarrow> ps ! i = Called c \<Longrightarrow> findCustomer R (rc_customerId c) w = (Inr found, w') \<Longrightarrow>
    call_step R (w, ps) (w', ps[i := Found c found])"
| finds_not: "i < length ps \<Longrightarrow> ps ! i = Called c \<Longrightarrow> findCustomer R (rc_customerId c) w = (Inl e, w') \<Longrightarrow>
    call_step R (w, ps) (w', ps[i := Answered c (Inl e)])"
| saves: "i < length ps \<Longrightarrow> ps ! i = Found c found \<Longrightarrow>
    reserve_found R (rc_customerId c) (rc_orderId c) (rc_orderTotal c) found w = (r, w') \<Longrightarrow>
    call_step R (w, ps) (w', ps[i := Answered c r])"


text \<open>A call that is alone gives what the method gives.\<close>

lemma call_alone:
  "(call_step R)\<^sup>*\<^sup>* (w, [Called c])
     (let (r, w') = cs_reserveCredit R (rc_customerId c) (rc_orderId c) (rc_orderTotal c) w in (w', [Answered c r]))"
proof (cases "findCustomer R (rc_customerId c) w")
  case (Pair f w1)
  show ?thesis
  proof (cases f)
    case (Inl e)
    then have "call_step R (w, [Called c]) (w1, [Called c][0 := Answered c (Inl e)])"
      using Pair by (intro finds_not) simp_all
    then show ?thesis using Pair Inl by (simp add: cs_reserveCredit_waits andThen_Inl)
  next
    case (Inr found)
    obtain r w2 where r: "reserve_found R (rc_customerId c) (rc_orderId c) (rc_orderTotal c) found w1 = (r, w2)"
      by fastforce
    have "call_step R (w, [Called c]) (w1, [Called c][0 := Found c found])"
      using Pair Inr by (intro finds) simp_all
    moreover have "call_step R (w1, [Found c found]) (w2, [Found c found][0 := Answered c r])"
      using r by (intro saves) simp_all
    ultimately show ?thesis
      using Pair Inr r by (simp add: cs_reserveCredit_waits andThen_Inr)
  qed
qed

section \<open>The table of the customers\<close>

text \<open>
  What is relied on of the table: the row of a customer is what was saved last, with the reservations that are in its
  array (\<open>save\<close> detaches those that the array does not have).
\<close>

definition keeps_rows :: "'w customer_repository \<Rightarrow> ('w \<Rightarrow> int \<rightharpoonup> customer) \<Rightarrow> bool" where
  "keeps_rows R row \<longleftrightarrow>
     (\<forall>i w. \<exists>w'. findCustomer R i w = (Inr (row w i), w') \<and> row w' = row w)
   \<and> (\<forall>c w. \<exists>w'. saveCustomer R c w = (Inr c, w') \<and> row w' = (row w)(cu_id c \<mapsto> c))"

definition reservation_of :: "reserve_credit_command \<Rightarrow> credit_reservation" where
  "reservation_of c = \<lparr>cr_orderId = rc_orderId c, cr_amount = rc_orderTotal c\<rparr>"

definition affords :: "customer \<Rightarrow> reserve_credit_command \<Rightarrow> bool" where
  "affords cu c \<longleftrightarrow> reserved cu + amount (rc_orderTotal c) \<le> amount (cu_creditLimit cu)"

definition with_reservation :: "customer \<Rightarrow> reserve_credit_command \<Rightarrow> customer" where
  "with_reservation cu c = cu\<lparr>cu_creditReservations := cu_creditReservations cu @ [reservation_of c]\<rparr>"

lemma reserve_found_row:
  "reserve_found R (rc_customerId c) (rc_orderId c) (rc_orderTotal c) found w = (case found of
       None \<Rightarrow> (Inl (ThrownObject (CustomerNotFound (rc_customerId c))), w)
     | Some cu \<Rightarrow> if affords cu c then saveCustomer R (with_reservation cu c) w
         else (Inl (ThrownObject CustomerCreditLimitExceeded), w))"
  by (auto simp: reserve_found_def customer_reserveCredit_def isGreaterThanOrEqual_def
      availableCredit_eq affords_def with_reservation_def reservation_of_def split: option.splits)

lemma cu_id_with [simp]: "cu_id (with_reservation cu c) = cu_id cu"
  by (simp add: with_reservation_def)

text \<open>The steps by what they do to the rows.\<close>

lemma row_step_cases [consumes 2, case_names found granted refused]:
  assumes "call_step R (w, ps) (w', ps')" and "keeps_rows R row"
  obtains i c where "i < length ps" "ps ! i = Called c" "row w' = row w" "ps' = ps[i := Found c (row w (rc_customerId c))]"
  | i c cu where "i < length ps" "ps ! i = Found c (Some cu)" "affords cu c"
      "row w' = (row w)(cu_id cu \<mapsto> with_reservation cu c)" "ps' = ps[i := Answered c (Inr (with_reservation cu c))]"
  | i c found e where "i < length ps" "ps ! i = Found c found" "row w' = row w" "ps' = ps[i := Answered c (Inl e)]"
  using assms(1)
proof (cases rule: call_step.cases)
  case (finds i c found)
  then show ?thesis using that(1) assms(2) unfolding keeps_rows_def by (metis Pair_inject sum.inject(2))
next
  case (finds_not i c e)
  then show ?thesis using assms(2) unfolding keeps_rows_def by (metis Pair_inject sum.distinct(1))
next
  case (saves i c found r)
  show ?thesis
  proof (cases "\<exists>cu. found = Some cu \<and> affords cu c")
    case True
    then obtain cu where cu: "found = Some cu" "affords cu c" by blast
    have "saveCustomer R (with_reservation cu c) w = (r, w')"
      using saves cu by (simp add: reserve_found_row)
    moreover obtain w1 where "saveCustomer R (with_reservation cu c) w = (Inr (with_reservation cu c), w1)"
        "row w1 = (row w)(cu_id cu \<mapsto> with_reservation cu c)"
      using assms(2) unfolding keeps_rows_def by (metis cu_id_with)
    ultimately show ?thesis using saves cu that(2) by auto
  next
    case False
    then show ?thesis using saves that(3) by (cases found) (auto simp: reserve_found_row split: if_splits)
  qed
qed

lemma reserved_with: "reserved (with_reservation cu c) = reserved cu + amount (rc_orderTotal c)"
  by (simp add: reserved_def with_reservation_def reservation_of_def)

lemma with_reservation_simps [simp]:
  "cu_creditLimit (with_reservation cu c) = cu_creditLimit cu"
  "cu_creditReservations (with_reservation cu c) = cu_creditReservations cu @ [reservation_of c]"
  by (simp_all add: with_reservation_def)

section \<open>Rows within their limit\<close>

definition row_ok :: "int \<Rightarrow> customer \<Rightarrow> bool" where
  "row_ok i cu \<longleftrightarrow> cu_id cu = i \<and> reserved cu \<le> amount (cu_creditLimit cu)"

fun call_ok :: "call \<Rightarrow> bool" where
  "call_ok (Found c (Some cu)) = row_ok (rc_customerId c) cu"
| "call_ok _ = True"

definition rows_ok :: "(int \<rightharpoonup> customer) \<Rightarrow> bool" where
  "rows_ok t \<longleftrightarrow> (\<forall>i cu. t i = Some cu \<longrightarrow> row_ok i cu)"

lemma in_set_update: "x \<in> set (xs[i := y]) \<Longrightarrow> x = y \<or> x \<in> set xs"
  using set_update_subset_insert [of xs i y] by auto

lemma call_ok_Found: "rows_ok t \<Longrightarrow> call_ok (Found c (t (rc_customerId c)))"
  by (cases "t (rc_customerId c)") (auto simp: rows_ok_def)

lemma rows_ok_granted: "rows_ok t \<Longrightarrow> affords cu c \<Longrightarrow> rows_ok (t(cu_id cu \<mapsto> with_reservation cu c))"
  by (simp add: rows_ok_def row_ok_def reserved_with affords_def)

lemma step_ok:
  assumes "call_step R (w, ps) (w', ps')" and "keeps_rows R row" and "rows_ok (row w)" and "list_all call_ok ps"
  shows "rows_ok (row w') \<and> list_all call_ok ps'"
  using assms
  by (cases rule: row_step_cases)
    (auto simp: rows_ok_granted call_ok_Found list_all_iff dest!: in_set_update)

lemma steps_ok:
  assumes "(call_step R)\<^sup>*\<^sup>* (w, ps) (w', ps')" and "keeps_rows R row" and "rows_ok (row w)" and "list_all call_ok ps"
  shows "rows_ok (row w') \<and> list_all call_ok ps'"
  using assms by (induction rule: rtranclp_induct2) (auto dest: step_ok)

section \<open>One call at a time\<close>

definition waits :: "call \<Rightarrow> bool" where
  "waits p \<longleftrightarrow> (\<exists>c found. p = Found c found)"

definition one_waits :: "call list \<Rightarrow> bool" where
  "one_waits ps \<longleftrightarrow> (\<forall>i j. i < length ps \<longrightarrow> j < length ps \<longrightarrow> waits (ps ! i) \<longrightarrow> waits (ps ! j) \<longrightarrow> i = j)"

text \<open>The steps that do not let a second call find its row while another has yet to save.\<close>

definition lone_step :: "'w customer_repository \<Rightarrow> 'w \<times> call list \<Rightarrow> 'w \<times> call list \<Rightarrow> bool" where
  "lone_step R s s' \<longleftrightarrow> call_step R s s' \<and> one_waits (snd s')"

fun granted_for :: "int \<Rightarrow> call \<Rightarrow> credit_reservation multiset" where
  "granted_for i (Answered c (Inr cu)) = (if rc_customerId c = i then {#reservation_of c#} else {#})"
| "granted_for i _ = {#}"

definition all_granted :: "int \<Rightarrow> call list \<Rightarrow> credit_reservation multiset" where
  "all_granted i ps = sum_list (map (granted_for i) ps)"

lemma all_granted_update:
  "k < length ps \<Longrightarrow> granted_for i (ps ! k) = {#} \<Longrightarrow>
   all_granted i (ps[k := p]) = all_granted i ps + granted_for i p"
  by (subst (2) id_take_nth_drop [of k ps])
    (simp_all add: all_granted_def upd_conv_take_nth_drop ac_simps del: append_take_drop_id)

text \<open>What a call has found is what is in the table, and the table has what was granted.\<close>

definition fresh :: "(int \<rightharpoonup> customer) \<Rightarrow> call list \<Rightarrow> bool" where
  "fresh t ps \<longleftrightarrow> (\<forall>c found. Found c found \<in> set ps \<longrightarrow> found = t (rc_customerId c))"

definition holds_granted :: "(int \<rightharpoonup> customer) \<Rightarrow> (int \<rightharpoonup> customer) \<Rightarrow> call list \<Rightarrow> bool" where
  "holds_granted t0 t ps \<longleftrightarrow> (\<forall>i cu0. t0 i = Some cu0 \<longrightarrow> (\<exists>cu. t i = Some cu
     \<and> cu_creditLimit cu = cu_creditLimit cu0
     \<and> mset (cu_creditReservations cu) = mset (cu_creditReservations cu0) + all_granted i ps))"

lemma fresh_answered:
  assumes "one_waits ps" and "k < length ps" and "ps ! k = Found c found"
  shows "fresh t (ps[k := Answered c r])"
proof -
  have "\<not> waits (ps[k := Answered c r] ! j)" if "j < length ps" for j
    using assms that by (cases "j = k") (auto simp: one_waits_def waits_def)
  then show ?thesis
    unfolding fresh_def in_set_conv_nth waits_def by (metis length_list_update)
qed

lemma lone_step_granted:
  assumes "lone_step R (w, ps) (w', ps')" and "keeps_rows R row" and "one_waits ps" and "list_all call_ok ps"
    and "fresh (row w) ps" "holds_granted t0 (row w) ps"
  shows "fresh (row w') ps' \<and> holds_granted t0 (row w') ps'"
proof -
  from assms(1) have "call_step R (w, ps) (w', ps')" by (simp add: lone_step_def)
  then show ?thesis
    using assms(2)
  proof (cases rule: row_step_cases)
    case (found k c)
    then show ?thesis
      using assms(5,6) by (auto simp: fresh_def holds_granted_def all_granted_update dest!: in_set_update)
  next
    case (granted k c cu)
    have row: "row w (rc_customerId c) = Some cu" "cu_id cu = rc_customerId c"
      using granted assms(4,5) nth_mem [OF granted(1)] by (auto simp: fresh_def list_all_iff row_ok_def)
    have "all_granted i ps' = all_granted i ps + (if i = cu_id cu then {#reservation_of c#} else {#})" for i
      using granted row by (auto simp: all_granted_update)
    then have "holds_granted t0 (row w') ps'"
      using assms(6) granted row by (fastforce simp: holds_granted_def)
    then show ?thesis using fresh_answered [OF assms(3) granted(1,2)] granted by simp
  next
    case (refused k c found e)
    then show ?thesis
      using assms(6) fresh_answered [OF assms(3) refused(1,2)]
      by (auto simp: holds_granted_def all_granted_update)
  qed
qed

lemma lone_steps_granted:
  assumes "(lone_step R)\<^sup>*\<^sup>* (w0, map Called cs) (w, ps)" and "keeps_rows R row" and "rows_ok (row w0)"
  shows "rows_ok (row w) \<and> list_all call_ok ps \<and> one_waits ps \<and> fresh (row w) ps \<and> holds_granted (row w0) (row w) ps"
  using assms
proof (induction rule: rtranclp_induct2)
  case refl
  have "all_granted i (map Called cs) = {#}" for i by (induction cs) (simp_all add: all_granted_def)
  then show ?case
    using refl by (auto simp: list_all_iff one_waits_def waits_def fresh_def holds_granted_def)
next
  case (step w ps w' ps')
  then show ?case
    using lone_step_granted [of R w ps w' ps' row "row w0"] step_ok [of R w ps w' ps' row] by (auto simp: lone_step_def)
qed

section \<open>Two calls at the same time\<close>

lemma find_step:
  assumes "keeps_rows R row" and "k < length ps" "ps ! k = Called c"
  obtains w' where "call_step R (w, ps) (w', ps[k := Found c (row w (rc_customerId c))])" "row w' = row w"
  using assms finds [of k ps c R w] unfolding keeps_rows_def by metis

lemma save_step:
  assumes "keeps_rows R row" and "k < length ps" "ps ! k = Found c (Some cu)" and "affords cu c"
  obtains w' where "call_step R (w, ps) (w', ps[k := Answered c (Inr (with_reservation cu c))])"
    "row w' = (row w)(cu_id cu \<mapsto> with_reservation cu c)"
proof -
  obtain w' where "saveCustomer R (with_reservation cu c) w = (Inr (with_reservation cu c), w')"
      "row w' = (row w)(cu_id cu \<mapsto> with_reservation cu c)"
    using assms(1) unfolding keeps_rows_def by (metis cu_id_with)
  then show ?thesis
    using assms saves [of k ps c "Some cu" R w] by (intro that [of w']) (simp_all add: reserve_found_row)
qed

text \<open>Both calls find the row, and then both save.\<close>

lemma both_granted:
  assumes "keeps_rows R row" and "row w i = Some cu" "cu_id cu = i" and "rc_customerId c1 = i" "rc_customerId c2 = i"
    and "affords cu c1" "affords cu c2"
  shows "\<exists>w'. (call_step R)\<^sup>*\<^sup>* (w, [Called c1, Called c2])
      (w', [Answered c1 (Inr (with_reservation cu c1)), Answered c2 (Inr (with_reservation cu c2))])
    \<and> row w' = (row w)(i \<mapsto> with_reservation cu c2)"
proof -
  let ?f = "Some cu" and ?a1 = "Answered c1 (Inr (with_reservation cu c1))"
  obtain w1 where "call_step R (w, [Called c1, Called c2]) (w1, [Found c1 ?f, Called c2])" "row w1 = row w"
    using find_step [OF assms(1), of 0 "[Called c1, Called c2]" c1 w] assms by auto
  moreover obtain w2 where "call_step R (w1, [Found c1 ?f, Called c2]) (w2, [Found c1 ?f, Found c2 ?f])" "row w2 = row w1"
    using find_step [OF assms(1), of 1 "[Found c1 ?f, Called c2]" c2 w1] assms calculation(2) by auto
  moreover obtain w3 where "call_step R (w2, [Found c1 ?f, Found c2 ?f]) (w3, [?a1, Found c2 ?f])"
      "row w3 = (row w2)(i \<mapsto> with_reservation cu c1)"
    using save_step [OF assms(1), of 0 "[Found c1 ?f, Found c2 ?f]" c1 cu w2] assms by auto
  moreover obtain w4 where "call_step R (w3, [?a1, Found c2 ?f]) (w4, [?a1, Answered c2 (Inr (with_reservation cu c2))])"
      "row w4 = (row w3)(i \<mapsto> with_reservation cu c2)"
    using save_step [OF assms(1), of 1 "[?a1, Found c2 ?f]" c2 cu w3] assms by auto
  ultimately show ?thesis
    by (intro exI [of _ w4] conjI converse_rtranclp_into_rtranclp [OF _ converse_rtranclp_into_rtranclp
        [OF _ converse_rtranclp_into_rtranclp [OF _ r_into_rtranclp]]]) simp_all
qed


section \<open>A concrete table\<close>

definition customers_table :: "(int \<rightharpoonup> customer) customer_repository" where
  "customers_table = \<lparr>findCustomer = (\<lambda>i t. (Inr (t i), t)), saveCustomer = (\<lambda>c t. (Inr c, t(cu_id c \<mapsto> c)))\<rparr>"

lemma customers_table_keeps_rows: "keeps_rows customers_table (\<lambda>t. t)"
  by (simp add: keeps_rows_def customers_table_def)


end
