(* ===== verification/Wiring.thy ===== *)
theory Wiring
  imports Prelude
begin

text \<open>
  The modules of an application as NestJS is given them: a tree of modules that import each other, the providers of each
  with the tokens they are asked for by, and what the constructors of the classes ask for. What NestJS does with
  them is not modelled; here is what its documentation says a provider can be given: what its own module provides, what the modules
  that its module imports export, what the global modules of the application export, and what NestJS itself provides.
\<close>

section \<open>Modules\<close>

text \<open>What a constructor can ask for; repositories and connections are those of TypeORM.\<close>

datatype token =
    ClassToken string
  | NamedToken string
  | RepositoryToken string string
  | ConnectionToken string

text \<open>
  A provider is a class or a token with how its value is made. \<open>ByNothing\<close> is an object with a token only.
\<close>

datatype how =
    ByClass string
  | ByExisting token
  | ByFactory "token list"
  | ByValue
  | ByNothing

datatype provider = Itself string | Provide token how

text \<open>A module exports a token, or everything that a module it imports exports.\<close>

datatype export = ExportToken token | ExportModule string

datatype nest_module = Module
  (mod_name: string) (is_global: bool) (mod_imports: "nest_module list") (mod_providers: "provider list")
  (mod_controllers: "string list") (mod_exports: "export list")

text \<open>A dependency is a token, and whether it may be left out (\<open>@Optional\<close>).\<close>

type_synonym dependency = "token \<times> bool"

abbreviation needs :: "token \<Rightarrow> dependency" where
  "needs t \<equiv> (t, False)"

abbreviation may_need :: "token \<Rightarrow> dependency" where
  "may_need t \<equiv> (t, True)"

primrec provided_token :: "provider \<Rightarrow> token" where
  "provided_token (Itself c) = ClassToken c"
| "provided_token (Provide t h) = t"

primrec is_made :: "provider \<Rightarrow> bool" where
  "is_made (Itself c) = True"
| "is_made (Provide t h) = (h \<noteq> ByNothing)"

definition provides :: "nest_module \<Rightarrow> token list" where
  "provides m = map provided_token (filter is_made (mod_providers m))"

fun all_modules :: "nest_module \<Rightarrow> nest_module list" where
  "all_modules (Module n g is ps cs es) = Module n g is ps cs es # concat (map all_modules is)"

fun exported :: "nest_module \<Rightarrow> token list" where
  "exported (Module n g is ps cs es) = concat (map (\<lambda>e. case e of
       ExportToken t \<Rightarrow> if t \<in> set (map provided_token (filter is_made ps)) then [t] else []
     | ExportModule n' \<Rightarrow> concat (map (\<lambda>i. if mod_name i = n' then exported i else []) is)) es)"

section \<open>What a provider can be given\<close>

text \<open>What NestJS provides by itself.\<close>

definition core_tokens :: "token list" where
  "core_tokens = [ClassToken ''ModuleRef'', ClassToken ''ModulesContainer'']"

definition global_tokens :: "nest_module \<Rightarrow> token list" where
  "global_tokens app = concat (map exported (filter is_global (all_modules app)))"

definition own_tokens :: "nest_module \<Rightarrow> token list" where
  "own_tokens m = provides m @ concat (map exported (mod_imports m)) @ core_tokens"

text \<open>What a class asks for, and a provider; \<open>params\<close> gives the parameters of the constructors.\<close>

primrec asks_how :: "(string \<Rightarrow> dependency list) \<Rightarrow> how \<Rightarrow> dependency list" where
  "asks_how params (ByClass c) = params c"
| "asks_how params (ByExisting t) = [needs t]"
| "asks_how params (ByFactory ts) = map needs ts"
| "asks_how params ByValue = []"
| "asks_how params ByNothing = []"

definition required :: "dependency list \<Rightarrow> token list" where
  "required ds = map fst (filter (\<lambda>(t, optional). \<not> optional) ds)"

primrec asks :: "(string \<Rightarrow> dependency list) \<Rightarrow> provider \<Rightarrow> (token \<times> token) list" where
  "asks params (Itself c) = map (Pair (ClassToken c)) (required (params c))"
| "asks params (Provide t h) = map (Pair t) (required (asks_how params h))"

text \<open>What the providers and the controllers of a module ask for, each with who asks.\<close>

definition asked :: "(string \<Rightarrow> dependency list) \<Rightarrow> nest_module \<Rightarrow> (token \<times> token) list" where
  "asked params m = concat (map (asks params) (mod_providers m))
     @ concat (map (\<lambda>c. asks params (Itself c)) (mod_controllers m))"

text \<open>Who in a module is not given what it asks for, and the same for a whole application.\<close>

definition without :: "token list \<Rightarrow> (token \<times> token) list \<Rightarrow> (token \<times> token) list" where
  "without given ps = filter (\<lambda>(p, t). t \<notin> set given) ps"

definition unsupplied_with :: "(string \<Rightarrow> dependency list) \<Rightarrow> token list \<Rightarrow> nest_module \<Rightarrow> (string \<times> token \<times> token) list" where
  "unsupplied_with params globals m = map (Pair (mod_name m)) (without globals (without (own_tokens m) (asked params m)))"

definition unsupplied_in :: "(string \<Rightarrow> dependency list) \<Rightarrow> nest_module \<Rightarrow> nest_module \<Rightarrow> (string \<times> token \<times> token) list" where
  "unsupplied_in params app m = unsupplied_with params (global_tokens app) m"

definition unsupplied :: "(string \<Rightarrow> dependency list) \<Rightarrow> nest_module \<Rightarrow> (string \<times> token \<times> token) list" where
  "unsupplied params app = concat (map (unsupplied_with params (global_tokens app)) (all_modules app))"

text \<open>The exports of a module that it neither makes nor imports.\<close>

definition unknown_exports_of :: "nest_module \<Rightarrow> (string \<times> export) list" where
  "unknown_exports_of m = [(mod_name m, e). e \<leftarrow> mod_exports m, case e of
       ExportToken t \<Rightarrow> t \<notin> set (provides m)
     | ExportModule n \<Rightarrow> n \<notin> set (map mod_name (mod_imports m))]"

definition unknown_exports :: "nest_module \<Rightarrow> (string \<times> export) list" where
  "unknown_exports app = concat (map unknown_exports_of (all_modules app))"

section \<open>A part of an application\<close>

lemma module_in_itself: "m \<in> set (all_modules m)"
  by (cases m) simp

lemma modules_of_part: "m \<in> set (all_modules app) \<Longrightarrow> set (all_modules m) \<subseteq> set (all_modules app)"
  by (induction app rule: all_modules.induct) auto

lemma global_tokens_mono:
  "part \<in> set (all_modules app) \<Longrightarrow> set (global_tokens part) \<subseteq> set (global_tokens app)"
  using modules_of_part by (fastforce simp: global_tokens_def)

text \<open>What a part of an application gives its modules they have in every application that the part is in.\<close>

lemma supplied_in_application:
  assumes "part \<in> set (all_modules app)" and "unsupplied params part = []" and "m \<in> set (all_modules part)"
  shows "unsupplied_in params app m = []"
proof -
  have "unsupplied_in params part m = []"
    using assms(2,3) by (simp add: unsupplied_def unsupplied_in_def)
  then show ?thesis
    using global_tokens_mono [OF assms(1)] by (auto simp: unsupplied_in_def unsupplied_with_def without_def filter_empty_conv)
qed

lemma own_exports:
  "m \<in> set (all_modules app) \<Longrightarrow> x \<in> set (unknown_exports m) \<Longrightarrow> x \<in> set (unknown_exports app)"
  using modules_of_part [of m app] by (auto simp: unknown_exports_def)

text \<open>What the modules of an application do not give each other its global modules have to export.\<close>

lemma globals_needed:
  assumes "unsupplied params app = []" and "m \<in> set (all_modules app)"
  shows "snd ` set (without (own_tokens m) (asked params m)) \<subseteq> set (global_tokens app)"
  using assms by (fastforce simp: unsupplied_def unsupplied_with_def without_def filter_empty_conv)

lemma asked_mono:
  assumes "\<And>c. set (params c) \<subseteq> set (params' c)"
  shows "set (asked params m) \<subseteq> set (asked params' m)"
proof -
  have req: "set (required (params c)) \<subseteq> set (required (params' c))" for c
    using assms [of c] by (auto simp: required_def)
  have "set (asks params p) \<subseteq> set (asks params' p)" for p
  proof (cases p)
    case (Provide t h)
    then show ?thesis using req by (cases h) auto
  qed (use req in auto)
  then show ?thesis by (fastforce simp: asked_def simp del: asks.simps)
qed

section \<open>Classes of an application and of other packages\<close>

text \<open>The parameters of a constructor: those of a table, or what is said of the other classes.\<close>

definition injects :: "(string \<times> dependency list) list \<Rightarrow> (string \<Rightarrow> dependency list) \<Rightarrow> string \<Rightarrow> dependency list" where
  "injects table other c = (case map_of table c of Some ds \<Rightarrow> ds | None \<Rightarrow> other c)"

primrec class_of :: "provider \<Rightarrow> string list" where
  "class_of (Itself c) = [c]"
| "class_of (Provide t h) = (case h of ByClass c \<Rightarrow> [c] | _ \<Rightarrow> [])"

definition classes :: "nest_module \<Rightarrow> string list" where
  "classes app = concat (map (\<lambda>m. concat (map class_of (mod_providers m)) @ mod_controllers m) (all_modules app))"

text \<open>The classes \<open>cs\<close> ask only for what NestJS provides.\<close>

definition asks_core :: "string list \<Rightarrow> (string \<Rightarrow> dependency list) \<Rightarrow> bool" where
  "asks_core cs params \<longleftrightarrow> (\<forall>c \<in> set cs. \<forall>(t, optional) \<in> set (params c). t \<in> set core_tokens)"

definition covers :: "(string \<times> dependency list) list \<Rightarrow> string list \<Rightarrow> string list \<Rightarrow> bool" where
  "covers table others cs = list_all (\<lambda>c. c \<in> set (map fst table) \<or> c \<in> set others) cs"

lemma required_injects:
  assumes "asks_core others E" and "covers table others [c]" and "t \<notin> set core_tokens"
  shows "t \<in> set (required (injects table E c)) \<longleftrightarrow> t \<in> set (required (injects table (\<lambda>_. []) c))"
proof (cases "map_of table c")
  case None
  then have "c \<in> set others" using assms(2) by (auto simp: covers_def map_of_eq_None_iff)
  then show ?thesis using None assms(1,3) by (fastforce simp: injects_def asks_core_def required_def)
qed (simp add: injects_def)

lemma asks_injects:
  assumes "asks_core others E" and "covers table others (class_of p)" and "t \<notin> set core_tokens"
  shows "(q, t) \<in> set (asks (injects table E) p) \<longleftrightarrow> (q, t) \<in> set (asks (injects table (\<lambda>_. [])) p)"
proof (cases p)
  case (Itself c)
  then show ?thesis using required_injects [OF assms(1) _ assms(3), of table c] assms(2) by auto
next
  case (Provide t' h)
  then show ?thesis using required_injects [OF assms(1) _ assms(3), of table] assms(2) by (cases h) auto
qed

lemma other_classes_supplied:
  assumes "asks_core others E" and "covers table others (classes app)"
  shows "unsupplied (injects table E) app = [] \<longleftrightarrow> unsupplied (injects table (\<lambda>_. [])) app = []"
proof -
  have "(q, t) \<in> set (asked (injects table E) m) \<longleftrightarrow> (q, t) \<in> set (asked (injects table (\<lambda>_. [])) m)"
    if "m \<in> set (all_modules app)" "t \<notin> set (own_tokens m)" for q t m
  proof -
    have "covers table others (class_of p)" if "p \<in> set (mod_providers m)" for p
      using assms(2) \<open>m \<in> set (all_modules app)\<close> that by (fastforce simp: covers_def classes_def list_all_iff)
    moreover have "covers table others (class_of (Itself c))" if "c \<in> set (mod_controllers m)" for c
      using assms(2) \<open>m \<in> set (all_modules app)\<close> that by (fastforce simp: covers_def classes_def list_all_iff)
    ultimately show ?thesis
      using asks_injects [OF assms(1)] that(2) by (simp add: asked_def own_tokens_def del: asks.simps class_of.simps)
  qed
  then have "set (without gs (without (own_tokens m) (asked (injects table E) m))) =
      set (without gs (without (own_tokens m) (asked (injects table (\<lambda>_. [])) m)))" if "m \<in> set (all_modules app)" for gs m
    using that by (fastforce simp: without_def)
  then have "set (unsupplied (injects table E) app) = set (unsupplied (injects table (\<lambda>_. [])) app)"
    by (simp add: unsupplied_def unsupplied_with_def)
  then show ?thesis by (metis set_empty)
qed

end
