(* ===== verification/FrameworkModules.thy ===== *)
theory FrameworkModules
  imports Wiring AggregateRepository
begin

text \<open>
  The modules of the framework (\<open>*.module.ts\<close> under \<open>packages/\<close>) and what the constructors of their providers ask for,
  in the terms of theory Wiring. A module that is registered with options is a function of them; the values
  that are only handed through (the configuration of Kafka, the schema registry) are not part of it. The modules of TypeORM and of the discovery
  are parameters (\<open>libraries\<close>).
\<close>

section \<open>Modules of other packages\<close>

record libraries =
  forFeature :: "string list \<Rightarrow> string \<Rightarrow> nest_module"
  forRoot_typeorm :: "string \<Rightarrow> nest_module"
  DiscoveryModule :: nest_module

text \<open>
  What their documentation says: \<open>forFeature\<close> provides and exports a repository for each entity, which needs the
  connection; \<open>forRoot\<close> makes a connection available everywhere; the module of the discovery exports its service.
\<close>

definition documented :: "libraries \<Rightarrow> bool" where
  "documented L \<longleftrightarrow>
     (\<forall>es conn. forFeature L es conn = Module ''TypeOrmModule'' False []
        (map (\<lambda>e. Provide (RepositoryToken e conn) (ByFactory [ConnectionToken conn])) es) []
        (map (\<lambda>e. ExportToken (RepositoryToken e conn)) es))
   \<and> (\<forall>conn. forRoot_typeorm L conn = Module ''TypeOrmModule'' False
        [Module ''TypeOrmCoreModule'' True [] [Provide (ConnectionToken conn) (ByFactory [])] []
          [ExportToken (ConnectionToken conn)]] [] [] [])
   \<and> DiscoveryModule L = Module ''DiscoveryModule'' False [] [Itself ''DiscoveryService''] []
        [ExportToken (ClassToken ''DiscoveryService'')]"

definition NEST_CONVOY_CONNECTION :: string where
  "NEST_CONVOY_CONNECTION = ''NestConvoyConnection''"

text \<open>The connection that has no name.\<close>

definition default_connection :: string where
  "default_connection = ''default''"

section \<open>What the constructors ask for\<close>

abbreviation needs_class :: "string \<Rightarrow> dependency" where
  "needs_class c \<equiv> needs (ClassToken c)"

definition ConvoyMessageConsumer_params :: "dependency list" where
  "ConvoyMessageConsumer_params = map needs_class [''DuplicateMessageDetector'', ''ConvoyChannelMapping'', ''MessageConsumer'']"

definition ConvoyMessageProducer_params :: "dependency list" where
  "ConvoyMessageProducer_params = map needs_class [''ConvoyChannelMapping'', ''MessageProducer'', ''DiscoveryService'']"

definition DatabaseDuplicateMessageDetector_params :: "dependency list" where
  "DatabaseDuplicateMessageDetector_params = [needs (RepositoryToken ''ReceivedMessagesEntity'' NEST_CONVOY_CONNECTION)]"

definition DatabaseMessageProducer_params :: "dependency list" where
  "DatabaseMessageProducer_params = [needs (RepositoryToken ''MessageEntity'' NEST_CONVOY_CONNECTION)]"

definition InMemoryMessageProducer_params :: "dependency list" where
  "InMemoryMessageProducer_params = [needs_class ''InMemoryMessageConsumer'']"

definition Kafka_params :: "dependency list" where
  "Kafka_params = [needs (NamedToken ''KAFKA_CONFIG'')]"

definition KafkaMessageBuilder_params :: "dependency list" where
  "KafkaMessageBuilder_params = [needs_class ''AvroSchemaRegistry'', may_need (NamedToken ''KAFKA_SCHEMA_REGISTRY'')]"

definition KafkaMessageProducer_params :: "dependency list" where
  "KafkaMessageProducer_params = map needs_class [''Kafka'', ''KafkaMessageBuilder'']"

definition KafkaMessageConsumer_params :: "dependency list" where
  "KafkaMessageConsumer_params = map needs_class [''Kafka'', ''KafkaMessageBuilder'']"

definition AvroSchemaRegistry_params :: "dependency list" where
  "AvroSchemaRegistry_params = [needs_class ''DiscoveryService'', may_need (NamedToken ''KAFKA_SCHEMA_REGISTRY'')]"

definition CommandDispatcherFactory_params :: "dependency list" where
  "CommandDispatcherFactory_params = map needs_class [''ConvoyMessageConsumer'', ''ConvoyMessageProducer'']"

definition ConvoyCommandProducer_params :: "dependency list" where
  "ConvoyCommandProducer_params = [needs_class ''ConvoyMessageProducer'']"

definition DomainEventPublisher_params :: "dependency list" where
  "DomainEventPublisher_params = [needs_class ''ConvoyMessageProducer'']"

definition DomainEventDispatcherFactory_params :: "dependency list" where
  "DomainEventDispatcherFactory_params = [needs_class ''ConvoyMessageConsumer'']"

definition SagaCommandProducer_params :: "dependency list" where
  "SagaCommandProducer_params = [needs_class ''ConvoyCommandProducer'']"

definition SagaInstanceFactory_params :: "dependency list" where
  "SagaInstanceFactory_params = map needs_class [''SagaManagerFactory'', ''ModuleRef'', ''ExplorerService'']"

definition SagaManagerFactory_params :: "dependency list" where
  "SagaManagerFactory_params = map needs_class [''SagaInstanceRepository'', ''ConvoyCommandProducer'',
     ''ConvoyMessageConsumer'', ''SagaLockManager'', ''SagaCommandProducer'']"

definition SagaDatabaseInstanceRepository_params :: "dependency list" where
  "SagaDatabaseInstanceRepository_params = [needs (RepositoryToken ''SagaInstanceEntity'' NEST_CONVOY_CONNECTION),
     needs (RepositoryToken ''SagaInstanceParticipantsEntity'' NEST_CONVOY_CONNECTION)]"

definition SagaDatabaseLockManager_params :: "dependency list" where
  "SagaDatabaseLockManager_params = [needs (RepositoryToken ''SagaLockEntity'' NEST_CONVOY_CONNECTION),
     needs (RepositoryToken ''SagaStashEntity'' NEST_CONVOY_CONNECTION)]"

definition SagaCommandDispatcherFactory_params :: "dependency list" where
  "SagaCommandDispatcherFactory_params = map needs_class [''ConvoyMessageConsumer'', ''ConvoyMessageProducer'', ''SagaLockManager'']"

definition InitializerService_params :: "dependency list" where
  "InitializerService_params = map needs_class [''DomainEventDispatcherFactory'', ''CommandDispatcherFactory'',
     ''ExplorerService'', ''ModuleRef''] @ [may_need (ClassToken ''SagaCommandDispatcherFactory'')]"

definition Aggregates_params :: "dependency list" where
  "Aggregates_params = [needs (NamedToken ''MISSING_APPLY_EVENT_METHOD_STRATEGY'')]"

definition AggregateStoreCrud_params :: "dependency list" where
  "AggregateStoreCrud_params = map needs_class [''Aggregates'', ''AggregateCrudMapping'', ''SnapshotManager'']
     @ map (\<lambda>n. needs (NamedToken n)) [''AGGREGATE_CRUD'', ''MISSING_APPLY_EVENT_METHOD_STRATEGY'', ''EVENT_SCHEMA_MANAGER'']"

definition AggregateCrudMapping_params :: "dependency list" where
  "AggregateCrudMapping_params = [needs_class ''SnapshotManager'']"

text \<open>The class inherits the constructor of \<open>DatabaseAggregateCrud\<close>.\<close>

definition AggregateEventsCrud_params :: "dependency list" where
  "AggregateEventsCrud_params = [needs_class ''AggregateCrudAccess'']"

definition AggregateCrudAccess_params :: "dependency list" where
  "AggregateCrudAccess_params = map (\<lambda>e. needs (RepositoryToken e default_connection)) [''EntitiesEntity'', ''EventsEntity'', ''EventsEntity'']
     @ [needs (ConnectionToken NEST_CONVOY_CONNECTION)]"

definition SnapshotManager_params :: "dependency list" where
  "SnapshotManager_params = map needs_class [''ModuleRef'', ''ExplorerService'', ''ModulesContainer'']
     @ [needs (NamedToken ''MISSING_APPLY_EVENT_METHOD_STRATEGY'')]"

definition ConfigurableEventSchema_params :: "dependency list" where
  "ConfigurableEventSchema_params = [needs_class ''DefaultEventSchemaManager'']"

definition EventDispatcherInitializer_params :: "dependency list" where
  "EventDispatcherInitializer_params = map needs_class [''DiscoveryService'', ''ModuleRef'']
     @ map (\<lambda>n. needs (NamedToken n)) [''EVENT_SCHEMA_MANAGER'', ''AGGREGATE_EVENTS'']"

definition KafkaAggregateSubscriptions_params :: "dependency list" where
  "KafkaAggregateSubscriptions_params = [needs_class ''KafkaMessageConsumer'']"

text \<open>The classes without a constructor ask for nothing.\<close>

definition constructors :: "(string \<times> dependency list) list" where
  "constructors =
    [(''ConvoyMessageConsumer'', ConvoyMessageConsumer_params),
     (''ConvoyMessageProducer'', ConvoyMessageProducer_params),
     (''DatabaseDuplicateMessageDetector'', DatabaseDuplicateMessageDetector_params),
     (''DatabaseMessageProducer'', DatabaseMessageProducer_params),
     (''InMemoryMessageProducer'', InMemoryMessageProducer_params),
     (''Kafka'', Kafka_params),
     (''KafkaMessageBuilder'', KafkaMessageBuilder_params),
     (''KafkaMessageProducer'', KafkaMessageProducer_params),
     (''KafkaMessageConsumer'', KafkaMessageConsumer_params),
     (''AvroSchemaRegistry'', AvroSchemaRegistry_params),
     (''CommandDispatcherFactory'', CommandDispatcherFactory_params),
     (''ConvoyCommandProducer'', ConvoyCommandProducer_params),
     (''DomainEventPublisher'', DomainEventPublisher_params),
     (''DomainEventDispatcherFactory'', DomainEventDispatcherFactory_params),
     (''SagaCommandProducer'', SagaCommandProducer_params),
     (''SagaInstanceFactory'', SagaInstanceFactory_params),
     (''SagaManagerFactory'', SagaManagerFactory_params),
     (''SagaDatabaseInstanceRepository'', SagaDatabaseInstanceRepository_params),
     (''SagaDatabaseLockManager'', SagaDatabaseLockManager_params),
     (''SagaCommandDispatcherFactory'', SagaCommandDispatcherFactory_params),
     (''InitializerService'', InitializerService_params),
     (''Aggregates'', Aggregates_params),
     (''AggregateStoreCrud'', AggregateStoreCrud_params),
     (''AggregateCrudMapping'', AggregateCrudMapping_params),
     (''AggregateEventsCrud'', AggregateEventsCrud_params),
     (''AggregateCrudAccess'', AggregateCrudAccess_params),
     (''SnapshotManager'', SnapshotManager_params),
     (''ConfigurableEventSchema'', ConfigurableEventSchema_params),
     (''EventDispatcherInitializer'', EventDispatcherInitializer_params),
     (''KafkaAggregateSubscriptions'', KafkaAggregateSubscriptions_params)]
    @ map (\<lambda>c. (c, [])) [''ConvoyChannelMapping'', ''InMemoryMessageConsumer'', ''DomainEventNameMapping'',
        ''DefaultEventSchemaManager'', ''DefaultAggregateRepositoryInterceptor'', ''DefaultMissingApplyEventMethodStrategy'']"

section \<open>Messages\<close>

definition ConvoyMessagingCommonModule :: "libraries \<Rightarrow> nest_module" where
  "ConvoyMessagingCommonModule L = Module ''ConvoyMessagingCommonModule'' False
     [forFeature L [''MessageEntity'', ''ReceivedMessagesEntity''] NEST_CONVOY_CONNECTION]
     [Itself ''ConvoyChannelMapping''] []
     [ExportToken (ClassToken ''ConvoyChannelMapping''), ExportModule ''TypeOrmModule'']"

text \<open>
  The default of the detector is a class where an object is expected: its properties are spread into the provider, and
  a class has none that says how a value is made.
\<close>

definition ConvoyMessagingConsumerModule_register :: "libraries \<Rightarrow> how \<Rightarrow> how option \<Rightarrow> nest_module" where
  "ConvoyMessagingConsumerModule_register L messageConsumer duplicateMessageDetector =
     Module ''ConvoyMessagingConsumerModule'' True [ConvoyMessagingCommonModule L]
       [Itself ''ConvoyMessageConsumer'',
        Provide (ClassToken ''DuplicateMessageDetector'') (case duplicateMessageDetector of Some h \<Rightarrow> h | None \<Rightarrow> ByNothing),
        Provide (ClassToken ''MessageConsumer'') messageConsumer] []
       (map (\<lambda>c. ExportToken (ClassToken c)) [''DuplicateMessageDetector'', ''ConvoyMessageConsumer'', ''MessageConsumer''])"

definition ConvoyMessagingProducerModule_register :: "libraries \<Rightarrow> how \<Rightarrow> nest_module" where
  "ConvoyMessagingProducerModule_register L provider =
     Module ''ConvoyMessagingProducerModule'' True [ConvoyMessagingCommonModule L, DiscoveryModule L]
       [Itself ''ConvoyMessageProducer'', Provide (ClassToken ''MessageProducer'') provider] []
       (map (\<lambda>c. ExportToken (ClassToken c)) [''ConvoyMessageProducer'', ''MessageProducer''])"

definition ConvoyCdcModule :: "libraries \<Rightarrow> nest_module" where
  "ConvoyCdcModule L = Module ''ConvoyCdcModule'' False
     [forFeature L [''CdcMonitoringEntity'', ''OffsetStoreEntity''] NEST_CONVOY_CONNECTION] [] []
     [ExportModule ''TypeOrmModule'']"

section \<open>Commands, events and sagas\<close>

definition ConvoyCommandsConsumerModule :: nest_module where
  "ConvoyCommandsConsumerModule = Module ''ConvoyCommandsConsumerModule'' False [] [Itself ''CommandDispatcherFactory''] []
     [ExportToken (ClassToken ''CommandDispatcherFactory'')]"

definition ConvoyCommandsProducerModule :: nest_module where
  "ConvoyCommandsProducerModule = Module ''ConvoyCommandsProducerModule'' False [] [Itself ''ConvoyCommandProducer''] []
     [ExportToken (ClassToken ''ConvoyCommandProducer'')]"

definition ConvoyCommandsModule :: nest_module where
  "ConvoyCommandsModule = Module ''ConvoyCommandsModule'' False [ConvoyCommandsConsumerModule, ConvoyCommandsProducerModule] [] []
     (map ExportModule [''ConvoyCommandsConsumerModule'', ''ConvoyCommandsProducerModule''])"

definition ConvoyEventsCommonModule :: nest_module where
  "ConvoyEventsCommonModule = Module ''ConvoyEventsCommonModule'' False [] [Itself ''DomainEventNameMapping''] []
     [ExportToken (ClassToken ''DomainEventNameMapping'')]"

definition ConvoyEventsPublisherModule :: nest_module where
  "ConvoyEventsPublisherModule = Module ''ConvoyEventsPublisherModule'' False [ConvoyEventsCommonModule]
     [Itself ''DomainEventPublisher''] [] [ExportToken (ClassToken ''DomainEventPublisher'')]"

definition ConvoyEventsSubscriberModule :: nest_module where
  "ConvoyEventsSubscriberModule = Module ''ConvoyEventsSubscriberModule'' False [ConvoyEventsCommonModule]
     [Itself ''DomainEventDispatcherFactory''] [] [ExportToken (ClassToken ''DomainEventDispatcherFactory'')]"

definition ConvoyEventsModule :: nest_module where
  "ConvoyEventsModule = Module ''ConvoyEventsModule'' False [ConvoyEventsPublisherModule, ConvoyEventsSubscriberModule] [] []
     (map ExportModule [''ConvoyEventsPublisherModule'', ''ConvoyEventsSubscriberModule''])"

definition SagaCommonModule :: "libraries \<Rightarrow> nest_module" where
  "SagaCommonModule L = Module ''SagaCommonModule'' False
     [forFeature L [''SagaLockEntity'', ''SagaStashEntity''] NEST_CONVOY_CONNECTION]
     [Provide (ClassToken ''SagaLockManager'') (ByClass ''SagaDatabaseLockManager'')] []
     [ExportModule ''TypeOrmModule'', ExportToken (ClassToken ''SagaLockManager'')]"

definition SagaOrchestrationModule :: "libraries \<Rightarrow> nest_module" where
  "SagaOrchestrationModule L = Module ''SagaOrchestrationModule'' False
     [SagaCommonModule L, forFeature L [''SagaInstanceEntity'', ''SagaInstanceParticipantsEntity''] NEST_CONVOY_CONNECTION,
      ConvoyCommandsProducerModule]
     (map Itself [''ExplorerService'', ''SagaInstanceFactory'', ''SagaManagerFactory'', ''SagaCommandProducer'']
       @ [Provide (ClassToken ''SagaInstanceRepository'') (ByClass ''SagaDatabaseInstanceRepository'')]) []
     (ExportModule ''TypeOrmModule'' # map (\<lambda>c. ExportToken (ClassToken c))
       [''SagaInstanceFactory'', ''SagaInstanceRepository'', ''SagaManagerFactory'', ''SagaCommandProducer''])"

definition SagaParticipantModule :: "libraries \<Rightarrow> nest_module" where
  "SagaParticipantModule L = Module ''SagaParticipantModule'' False [SagaCommonModule L]
     [Itself ''SagaCommandDispatcherFactory''] [] [ExportToken (ClassToken ''SagaCommandDispatcherFactory'')]"

definition ConvoySagasModule :: "libraries \<Rightarrow> nest_module" where
  "ConvoySagasModule L = Module ''ConvoySagasModule'' False
     [SagaOrchestrationModule L, SagaParticipantModule L, SagaCommonModule L] [] []
     (map ExportModule [''SagaOrchestrationModule'', ''SagaParticipantModule'', ''SagaCommonModule''])"

section \<open>The core and the brokers\<close>

definition ConvoyCommonModule :: "libraries \<Rightarrow> nest_module" where
  "ConvoyCommonModule L = Module ''ConvoyCommonModule'' False [ConvoyEventsModule, ConvoyCommandsModule, ConvoySagasModule L] [] []
     (map ExportModule [''ConvoyEventsModule'', ''ConvoyCommandsModule'', ''ConvoySagasModule''])"

text \<open>Whether options for the connection are given; its name is always the framework's.\<close>

definition ConvoyCoreModule_forRoot :: "libraries \<Rightarrow> bool \<Rightarrow> nest_module" where
  "ConvoyCoreModule_forRoot L typeOrmOptions = Module ''ConvoyCoreModule'' False
     (ConvoyCommonModule L # (if typeOrmOptions then [forRoot_typeorm L NEST_CONVOY_CONNECTION] else []))
     (map Itself [''ExplorerService'', ''InitializerService'']) [] []"

definition ConvoyInMemoryMessagingModule_forRoot :: "libraries \<Rightarrow> nest_module" where
  "ConvoyInMemoryMessagingModule_forRoot L = Module ''ConvoyInMemoryMessagingModule'' True
     [ConvoyCoreModule_forRoot L False,
      ConvoyMessagingConsumerModule_register L (ByExisting (ClassToken ''InMemoryMessageConsumer'')) None,
      ConvoyMessagingProducerModule_register L (ByExisting (ClassToken ''InMemoryMessageProducer''))]
     (map Itself [''InMemoryMessageConsumer'', ''InMemoryMessageProducer'']) []
     (map ExportModule [''ConvoyMessagingConsumerModule'', ''ConvoyMessagingProducerModule'']
       @ map (\<lambda>c. ExportToken (ClassToken c)) [''InMemoryMessageConsumer'', ''InMemoryMessageProducer''])"

definition ConvoyKafkaBrokerModule_register :: "libraries \<Rightarrow> how option \<Rightarrow> nest_module" where
  "ConvoyKafkaBrokerModule_register L messageProducerProvider = Module ''ConvoyKafkaBrokerModule'' True
     [ConvoyCoreModule_forRoot L True,
      ConvoyMessagingConsumerModule_register L (ByExisting (ClassToken ''KafkaMessageConsumer''))
        (Some (ByClass ''DatabaseDuplicateMessageDetector'')),
      ConvoyMessagingProducerModule_register L (case messageProducerProvider of Some h \<Rightarrow> h
        | None \<Rightarrow> ByExisting (ClassToken ''KafkaMessageProducer'')),
      DiscoveryModule L]
     ([Provide (NamedToken ''KAFKA_CONFIG'') ByValue, Provide (NamedToken ''KAFKA_SCHEMA_REGISTRY'') ByValue]
       @ map Itself [''Kafka'', ''KafkaMessageBuilder'', ''KafkaMessageProducer'', ''AvroSchemaRegistry'', ''KafkaMessageConsumer'']) []
     (map ExportModule [''ConvoyMessagingConsumerModule'', ''ConvoyMessagingProducerModule'']
       @ map (\<lambda>c. ExportToken (ClassToken c)) [''KafkaMessageConsumer'', ''KafkaMessageProducer''])"

definition ConvoyKafkaCdcBrokerModule_register :: "libraries \<Rightarrow> nest_module" where
  "ConvoyKafkaCdcBrokerModule_register L = Module ''ConvoyKafkaCdcBrokerModule'' True
     [ConvoyKafkaBrokerModule_register L (Some (ByClass ''DatabaseMessageProducer'')), ConvoyCdcModule L] [] [] []"

section \<open>Aggregates\<close>

definition AggregateSnapshotModule :: nest_module where
  "AggregateSnapshotModule = Module ''AggregateSnapshotModule'' False [] [Itself ''SnapshotManager''] []
     [ExportToken (ClassToken ''SnapshotManager'')]"

definition AggregateSchemaModule :: nest_module where
  "AggregateSchemaModule = Module ''AggregateSchemaModule'' False []
     [Itself ''ConfigurableEventSchema'', Provide (NamedToken ''EVENT_SCHEMA_MANAGER'') (ByClass ''DefaultEventSchemaManager'')] []
     [ExportToken (NamedToken ''EVENT_SCHEMA_MANAGER''), ExportToken (ClassToken ''ConfigurableEventSchema'')]"

definition AggregateCrudModule :: "libraries \<Rightarrow> nest_module" where
  "AggregateCrudModule L = Module ''AggregateCrudModule'' False
     [AggregateSnapshotModule, forFeature L [''EntitiesEntity'', ''EventsEntity'', ''SnapshotsEntity''] default_connection]
     [Itself ''AggregateCrudMapping'', Provide (NamedToken ''AGGREGATE_CRUD'') (ByClass ''AggregateEventsCrud''),
      Itself ''AggregateStoreCrud'', Itself ''AggregateCrudAccess''] []
     [ExportToken (NamedToken ''AGGREGATE_CRUD''), ExportToken (ClassToken ''AggregateStoreCrud''),
      ExportToken (ClassToken ''AggregateCrudAccess'')]"

record aggregates_module_options =
  aggregateRepositoryInterceptor :: "string option"
  missingApplyEventMethodStrategy_option :: "string option"

definition repository_name :: "string \<Rightarrow> token" where
  "repository_name aggregate = NamedToken (projr (getAggregateRepositoryToken (Some aggregate)))"

definition EventsAggregatesModule_forFeature :: "libraries \<Rightarrow> string list \<Rightarrow> aggregates_module_options \<Rightarrow> nest_module" where
  "EventsAggregatesModule_forFeature L aggregates options = Module ''EventsAggregatesModule'' False
     [AggregateSnapshotModule, AggregateCrudModule L]
     (map (\<lambda>a. Provide (repository_name a) (ByFactory [ClassToken ''Aggregates'', ClassToken ''AggregateStoreCrud'',
         NamedToken ''AGGREGATE_REPOSITORY_INTERCEPTOR''])) aggregates
       @ [Provide (NamedToken ''AGGREGATE_REPOSITORY_INTERCEPTOR'') (ByClass (case aggregateRepositoryInterceptor options of
            Some c \<Rightarrow> c | None \<Rightarrow> ''DefaultAggregateRepositoryInterceptor'')),
          Provide (NamedToken ''MISSING_APPLY_EVENT_METHOD_STRATEGY'') (ByClass (case missingApplyEventMethodStrategy_option options of
            Some c \<Rightarrow> c | None \<Rightarrow> ''DefaultMissingApplyEventMethodStrategy''))]) []
     ([ExportToken (NamedToken ''AGGREGATE_REPOSITORY_INTERCEPTOR''), ExportToken (NamedToken ''MISSING_APPLY_EVENT_METHOD_STRATEGY'')]
       @ map (\<lambda>a. ExportToken (repository_name a)) aggregates)"

definition EventsWorkflowModule :: "libraries \<Rightarrow> nest_module" where
  "EventsWorkflowModule L = Module ''EventsWorkflowModule'' True
     [DiscoveryModule L, AggregateCrudModule L, AggregateSchemaModule] [Itself ''EventDispatcherInitializer''] [] []"

definition EventsWorkflowKafkaModule :: nest_module where
  "EventsWorkflowKafkaModule = Module ''EventsWorkflowKafkaModule'' True []
     [Provide (NamedToken ''AGGREGATE_EVENTS'') (ByClass ''KafkaAggregateSubscriptions'')] []
     [ExportToken (NamedToken ''AGGREGATE_EVENTS'')]"

end
