(* ===== verification/ApplicationModules.thy ===== *)
theory ApplicationModules
  imports FrameworkModules
begin

text \<open>
  The modules of the applications under \<open>examples/\<close> and of the support for tests (\<open>packages/testing\<close>), and what the
  modules of theory FrameworkModules come to when they are put together: which constructors are given everything they
  ask for, and which are not.
\<close>

section \<open>Customers and orders\<close>

definition CustomersModule :: "libraries \<Rightarrow> nest_module" where
  "CustomersModule L = Module ''CustomersModule'' False
     [ConvoyCommonModule L, forRoot_typeorm L default_connection,
      forFeature L [''CreditReservation'', ''Customer''] default_connection,
      ConvoyKafkaCdcBrokerModule_register L, ConvoySagasModule L]
     [Itself ''CustomerService'', Itself ''CustomerCommandHandlers''] [''CustomersController''] []"

definition CustomerService_params :: "dependency list" where
  "CustomerService_params = [needs (RepositoryToken ''Customer'' default_connection)]"

definition CustomerCommandHandlers_params :: "dependency list" where
  "CustomerCommandHandlers_params = [needs_class ''CustomerService'']"

definition CustomersController_params :: "dependency list" where
  "CustomersController_params = [needs_class ''CustomerService'']"

definition OrdersModule :: "libraries \<Rightarrow> nest_module" where
  "OrdersModule L = Module ''OrdersModule'' False
     [ConvoyCommonModule L, forRoot_typeorm L default_connection, forFeature L [''Order''] default_connection,
      ConvoyKafkaCdcBrokerModule_register L, ConvoySagasModule L]
     [Itself ''CreateOrderSaga'', Itself ''OrderService'', Itself ''CustomerServiceProxy''] [''OrdersController''] []"

definition CreateOrderSaga_params :: "dependency list" where
  "CreateOrderSaga_params = [needs_class ''CustomerServiceProxy'', needs (RepositoryToken ''Order'' default_connection)]"

definition OrderService_params :: "dependency list" where
  "OrderService_params = [needs_class ''SagaInstanceFactory'', needs (RepositoryToken ''Order'' default_connection)]"

definition OrdersController_params :: "dependency list" where
  "OrdersController_params = [needs_class ''OrderService'']"

definition customers_orders_constructors :: "(string \<times> dependency list) list" where
  "customers_orders_constructors =
    [(''CustomerService'', CustomerService_params), (''CustomerCommandHandlers'', CustomerCommandHandlers_params),
     (''CustomersController'', CustomersController_params), (''CreateOrderSaga'', CreateOrderSaga_params),
     (''OrderService'', OrderService_params), (''OrdersController'', OrdersController_params), (''CustomerServiceProxy'', [])]"

section \<open>The ftgo application\<close>

definition KitchenModule :: nest_module where
  "KitchenModule = Module ''KitchenModule'' False []
     (map Itself [''KitchenService'', ''TicketService'', ''TicketDomainEventPublisher'']) [] []"

definition RestaurantEntitiesModule :: "libraries \<Rightarrow> nest_module" where
  "RestaurantEntitiesModule L = Module ''RestaurantEntitiesModule'' False
     [forFeature L [''Restaurant'', ''MenuItem''] default_connection] [] [] [ExportModule ''TypeOrmModule'']"

definition RestaurantServicesModule :: "libraries \<Rightarrow> nest_module" where
  "RestaurantServicesModule L = Module ''RestaurantServicesModule'' False [ConvoyCommonModule L, RestaurantEntitiesModule L]
     [Itself ''RestaurantService'', Itself ''RestaurantDomainEventPublisher''] [] []"

definition OrderProxiesModule :: nest_module where
  "OrderProxiesModule = (let proxies = [''KitchenServiceProxy'', ''OrderServiceProxy'', ''AccountingServiceProxy'', ''CustomerServiceProxy'']
     in Module ''OrderProxiesModule'' False [] (map Itself proxies) [] (map (ExportToken \<circ> ClassToken) proxies))"

definition OrderSagasModule :: nest_module where
  "OrderSagasModule = Module ''OrderSagasModule'' False [OrderProxiesModule]
     [Itself ''CreateOrderSaga'', Itself ''CancelOrderSaga''] [] []"

definition KitchenService_params :: "dependency list" where
  "KitchenService_params = [needs (RepositoryToken ''Restaurant'' default_connection)]"

definition TicketService_params :: "dependency list" where
  "TicketService_params = [needs_class ''TicketDomainEventPublisher'', needs (RepositoryToken ''Ticket'' default_connection)]"

definition RestaurantService_params :: "dependency list" where
  "RestaurantService_params = [needs_class ''RestaurantDomainEventPublisher'', needs (RepositoryToken ''Restaurant'' default_connection)]"

text \<open>The class that \<open>AggregateDomainEventPublisher\<close> makes, which the publishers extend.\<close>

definition AggregateDomainEventPublisher_params :: "dependency list" where
  "AggregateDomainEventPublisher_params = [needs_class ''DomainEventPublisher'']"

definition ftgo_CreateOrderSaga_params :: "dependency list" where
  "ftgo_CreateOrderSaga_params = map needs_class
     [''KitchenServiceProxy'', ''AccountingServiceProxy'', ''OrderServiceProxy'', ''CustomerServiceProxy'']"

definition ftgo_constructors :: "(string \<times> dependency list) list" where
  "ftgo_constructors =
    [(''KitchenService'', KitchenService_params), (''TicketService'', TicketService_params),
     (''TicketDomainEventPublisher'', AggregateDomainEventPublisher_params), (''RestaurantService'', RestaurantService_params),
     (''RestaurantDomainEventPublisher'', AggregateDomainEventPublisher_params), (''CreateOrderSaga'', ftgo_CreateOrderSaga_params)]
    @ map (\<lambda>c. (c, [])) [''CancelOrderSaga'', ''KitchenServiceProxy'', ''OrderServiceProxy'', ''AccountingServiceProxy'', ''CustomerServiceProxy'']"

section \<open>The support for tests\<close>

text \<open>\<open>mockProvider\<close> makes a provider with a factory that takes nothing.\<close>

definition ConvoySagaTestingModule :: nest_module where
  "ConvoySagaTestingModule = Module ''ConvoySagaTestingModule'' False []
     [Itself ''TestMessageProducer'', Provide (ClassToken ''ConvoyMessageProducer'') (ByExisting (ClassToken ''TestMessageProducer'')),
      Itself ''ConvoyCommandProducer'', Itself ''SagaCommandProducer'', Itself ''SagaTestInstanceRepository'',
      Provide (ClassToken ''SagaInstanceRepository'') (ByExisting (ClassToken ''SagaTestInstanceRepository'')),
      Itself ''SagaUnitTestSupport'', Provide (ClassToken ''ConvoyMessageConsumer'') (ByFactory [])] []
     [ExportToken (ClassToken ''SagaUnitTestSupport'')]"

definition SagaUnitTestSupport_params :: "dependency list" where
  "SagaUnitTestSupport_params = map needs_class [''ConvoyMessageConsumer'', ''ConvoyCommandProducer'', ''SagaCommandProducer'', ''ModuleRef'']"

definition TestMessageProducer_params :: "dependency list" where
  "TestMessageProducer_params = [needs_class ''SagaUnitTestSupport'']"

definition SagaTestInstanceRepository_params :: "dependency list" where
  "SagaTestInstanceRepository_params = [needs_class ''ModuleRef'']"

definition testing_constructors :: "(string \<times> dependency list) list" where
  "testing_constructors = [(''SagaUnitTestSupport'', SagaUnitTestSupport_params), (''TestMessageProducer'', TestMessageProducer_params),
     (''SagaTestInstanceRepository'', SagaTestInstanceRepository_params)]"

section \<open>The libraries in the concrete\<close>

definition standard_libraries :: libraries where
  "standard_libraries =
    \<lparr>forFeature = (\<lambda>es conn. Module ''TypeOrmModule'' False []
        (map (\<lambda>e. Provide (RepositoryToken e conn) (ByFactory [ConnectionToken conn])) es) []
        (map (\<lambda>e. ExportToken (RepositoryToken e conn)) es)),
     forRoot_typeorm = (\<lambda>conn. Module ''TypeOrmModule'' False
        [Module ''TypeOrmCoreModule'' True [] [Provide (ConnectionToken conn) (ByFactory [])] []
          [ExportToken (ConnectionToken conn)]] [] [] []),
     DiscoveryModule = Module ''DiscoveryModule'' False [] [Itself ''DiscoveryService''] []
        [ExportToken (ClassToken ''DiscoveryService'')]\<rparr>"

lemma documented_standard: "documented standard_libraries"
  by (simp add: documented_def standard_libraries_def)

lemma documented_libraries: "documented L \<Longrightarrow> L = standard_libraries"
  by (cases L) (auto simp: documented_def standard_libraries_def)

text \<open>The classes of other packages that are providers.\<close>

definition library_classes :: "string list" where
  "library_classes = [''ExplorerService'', ''DiscoveryService'']"

section \<open>What is given\<close>

lemma orders_wired: "unsupplied (injects (customers_orders_constructors @ constructors) (\<lambda>_. [])) (OrdersModule standard_libraries) = []"
  by code_simp

lemma customers_wired: "unsupplied (injects (customers_orders_constructors @ constructors) (\<lambda>_. [])) (CustomersModule standard_libraries) = []"
  by code_simp

lemma kafka_wired: "unsupplied (injects constructors (\<lambda>_. [])) (ConvoyKafkaBrokerModule_register standard_libraries None) = []"
  by code_simp

lemma orders_exports: "unknown_exports (OrdersModule standard_libraries) = []"
  by code_simp

lemma customers_exports: "unknown_exports (CustomersModule standard_libraries) = []"
  by code_simp

lemma orders_classes: "covers (customers_orders_constructors @ constructors) library_classes (classes (OrdersModule standard_libraries))"
  by code_simp

lemma customers_classes: "covers (customers_orders_constructors @ constructors) library_classes (classes (CustomersModule standard_libraries))"
  by code_simp

lemma kafka_classes: "covers constructors library_classes (classes (ConvoyKafkaBrokerModule_register standard_libraries None))"
  by code_simp



section \<open>What is not given\<close>

definition lacks :: "nest_module \<Rightarrow> (token \<times> token) list" where
  "lacks m = without (own_tokens m) (asked (injects constructors (\<lambda>_. [])) m)"

lemma snapshots_lack: "lacks AggregateSnapshotModule =
    [(ClassToken ''SnapshotManager'', ClassToken ''ExplorerService''),
     (ClassToken ''SnapshotManager'', NamedToken ''MISSING_APPLY_EVENT_METHOD_STRATEGY'')]"
  by code_simp

lemma schema_lacks: "lacks AggregateSchemaModule =
    [(ClassToken ''ConfigurableEventSchema'', ClassToken ''DefaultEventSchemaManager'')]"
  by code_simp

lemma crud_lacks: "lacks (AggregateCrudModule standard_libraries) =
    [(ClassToken ''AggregateStoreCrud'', ClassToken ''Aggregates''),
     (ClassToken ''AggregateStoreCrud'', NamedToken ''MISSING_APPLY_EVENT_METHOD_STRATEGY''),
     (ClassToken ''AggregateStoreCrud'', NamedToken ''EVENT_SCHEMA_MANAGER''),
     (ClassToken ''AggregateCrudAccess'', ConnectionToken NEST_CONVOY_CONNECTION)]"
  by code_simp

lemma consumer_lacks: "lacks (ConvoyMessagingConsumerModule_register standard_libraries (ByExisting (ClassToken ''InMemoryMessageConsumer'')) None) =
    [(ClassToken ''ConvoyMessageConsumer'', ClassToken ''DuplicateMessageDetector''),
     (ClassToken ''MessageConsumer'', ClassToken ''InMemoryMessageConsumer'')]"
  by code_simp

lemma testing_wired: "unsupplied (injects (testing_constructors @ constructors) (\<lambda>_. [])) ConvoySagaTestingModule = []"
  by code_simp

lemma order_sagas_wired: "unsupplied (injects (ftgo_constructors @ constructors) (\<lambda>_. [])) OrderSagasModule = []"
  by code_simp

lemma kitchen_unsupplied: "unsupplied (injects (ftgo_constructors @ constructors) (\<lambda>_. [])) KitchenModule =
    [(''KitchenModule'', ClassToken ''KitchenService'', RepositoryToken ''Restaurant'' default_connection),
     (''KitchenModule'', ClassToken ''TicketService'', RepositoryToken ''Ticket'' default_connection),
     (''KitchenModule'', ClassToken ''TicketDomainEventPublisher'', ClassToken ''DomainEventPublisher'')]"
  by code_simp


lemma lacks_needed:
  assumes "unsupplied (injects constructors E) app = []" and "m \<in> set (all_modules app)"
  shows "snd ` set (lacks m) \<subseteq> set (global_tokens app)"
proof -
  have "set (asked (injects constructors (\<lambda>_. [])) m) \<subseteq> set (asked (injects constructors E) m)"
    by (intro asked_mono) (auto simp: injects_def split: option.splits)
  then have "snd ` set (lacks m) \<subseteq> snd ` set (without (own_tokens m) (asked (injects constructors E) m))"
    by (fastforce simp: lacks_def without_def)
  then show ?thesis using globals_needed [OF assms] by blast
qed

lemma lacks_needed_of_part:
  assumes "unsupplied (injects constructors E) app = []" and "part \<in> set (all_modules app)" and "m \<in> set (all_modules part)"
  shows "snd ` set (lacks m) \<subseteq> set (global_tokens app)"
  using lacks_needed [OF assms(1)] modules_of_part [OF assms(2)] assms(3) by blast

definition in_memory_consumer :: nest_module where
  "in_memory_consumer = ConvoyMessagingConsumerModule_register standard_libraries (ByExisting (ClassToken ''InMemoryMessageConsumer'')) None"

lemma in_memory_parts:
  "in_memory_consumer \<in> set (all_modules (ConvoyInMemoryMessagingModule_forRoot standard_libraries))"
  "forFeature standard_libraries [''SagaLockEntity'', ''SagaStashEntity''] NEST_CONVOY_CONNECTION
     \<in> set (all_modules (ConvoyInMemoryMessagingModule_forRoot standard_libraries))"
  by (simp_all add: in_memory_consumer_def ConvoyInMemoryMessagingModule_forRoot_def ConvoyCoreModule_forRoot_def ConvoyCommonModule_def
      ConvoySagasModule_def SagaCommonModule_def module_in_itself)

lemma workflow_parts:
  "{AggregateSnapshotModule, AggregateSchemaModule, AggregateCrudModule L} \<subseteq> set (all_modules (EventsWorkflowModule L))"
  by (simp add: EventsWorkflowModule_def AggregateCrudModule_def module_in_itself)

lemma locks_lack: "lacks (forFeature standard_libraries [''SagaLockEntity'', ''SagaStashEntity''] NEST_CONVOY_CONNECTION) =
    map (\<lambda>e. (RepositoryToken e NEST_CONVOY_CONNECTION, ConnectionToken NEST_CONVOY_CONNECTION)) [''SagaLockEntity'', ''SagaStashEntity'']"
  by code_simp

lemma in_memory_unknown_export:
  "(''ConvoyMessagingConsumerModule'', ExportToken (ClassToken ''DuplicateMessageDetector'')) \<in> set (unknown_exports in_memory_consumer)"
  by code_simp

text \<open>What the modules of the aggregates are not given, beside the connection.\<close>

definition aggregates_need :: "token list" where
  "aggregates_need = map ClassToken [''ExplorerService'', ''DefaultEventSchemaManager'', ''Aggregates'']
     @ map NamedToken [''MISSING_APPLY_EVENT_METHOD_STRATEGY'', ''EVENT_SCHEMA_MANAGER'']"

lemma in_memory_globals:
  "list_all (\<lambda>t. t \<notin> set (global_tokens (ConvoyInMemoryMessagingModule_forRoot standard_libraries)))
     [ClassToken ''DuplicateMessageDetector'', ConnectionToken NEST_CONVOY_CONNECTION]"
  by code_simp

lemma broker_globals:
  "list_all (\<lambda>t. t \<notin> set (global_tokens (ConvoyKafkaBrokerModule_register standard_libraries None))) aggregates_need"
  by code_simp

lemma workflow_globals:
  "list_all (\<lambda>t. t \<notin> set (global_tokens (EventsWorkflowModule standard_libraries) @ global_tokens EventsWorkflowKafkaModule)) aggregates_need"
  by code_simp

lemma aggregates_globals: "global_tokens (EventsAggregatesModule_forFeature standard_libraries as options) = []"
  by (simp add: EventsAggregatesModule_forFeature_def AggregateSnapshotModule_def AggregateCrudModule_def
      standard_libraries_def global_tokens_def)

lemma in_memory_needs:
  assumes "ConvoyInMemoryMessagingModule_forRoot standard_libraries \<in> set (all_modules app)"
    and "unsupplied (injects constructors E) app = []"
  shows "{ClassToken ''DuplicateMessageDetector'', ConnectionToken NEST_CONVOY_CONNECTION} \<subseteq> set (global_tokens app)"
  using lacks_needed_of_part [OF assms(2,1) in_memory_parts(1)] lacks_needed_of_part [OF assms(2,1) in_memory_parts(2)]
  by (simp add: in_memory_consumer_def consumer_lacks locks_lack)

lemma aggregates_needed:
  assumes "EventsWorkflowModule standard_libraries \<in> set (all_modules app)" and "unsupplied (injects constructors E) app = []"
  shows "set (ConnectionToken NEST_CONVOY_CONNECTION # aggregates_need) \<subseteq> set (global_tokens app)"
proof -
  have "snd ` set (lacks m) \<subseteq> set (global_tokens app)"
    if "m \<in> {AggregateSnapshotModule, AggregateSchemaModule, AggregateCrudModule standard_libraries}" for m
    using lacks_needed_of_part [OF assms(2,1)] workflow_parts that by blast
  from this [of AggregateSnapshotModule] this [of AggregateSchemaModule] this [of "AggregateCrudModule standard_libraries"]
  show ?thesis by (simp add: snapshots_lack schema_lacks crud_lacks aggregates_need_def)
qed



end
