(* ===== verification/SagaLocks.thy ===== *)
theory SagaLocks
  imports SagaStorage
begin

text \<open>
  The lock manager over a history of claims, stashed messages and unlocks by any sagas
  (\<open>sagas/common/saga-lock-manager.ts\<close>): the specification of a lock per target that is handed from saga to saga, as a
  step relation, and that the operations of theory SagaStorage implement it on tables that insert the rows they are given.
\<close>

section \<open>The tables\<close>

text \<open>
  What the code relies on of its tables: the owner of a target and the stashed message of an identifier are what was
  written last, a second row with a key that is there is rejected, and \<open>findOne\<close> gives one of the rows of a
  target if there are any. (TypeORM's \<open>create\<close> does not insert: see \<open>inserts_nothing\<close> below.)
\<close>

definition same_rows :: "('w \<Rightarrow> string \<rightharpoonup> string) \<Rightarrow> ('w \<Rightarrow> string \<rightharpoonup> saga_stash) \<Rightarrow> 'w \<Rightarrow> 'w \<Rightarrow> bool" where
  "same_rows locks stashed w w' \<longleftrightarrow> locks w' = locks w \<and> stashed w' = stashed w"

definition finds_rows :: "'w lock_tables \<Rightarrow> ('w \<Rightarrow> string \<rightharpoonup> string) \<Rightarrow> ('w \<Rightarrow> string \<rightharpoonup> saga_stash) \<Rightarrow> bool" where
  "finds_rows T locks stashed \<longleftrightarrow>
     (\<forall>t w. \<exists>w'. findLockOwner T t w = (Inr (locks w t), w') \<and> same_rows locks stashed w w')
   \<and> (\<forall>t w. \<exists>found w'. findStash T t w = (Inr found, w') \<and> same_rows locks stashed w w'
        \<and> (case found of None \<Rightarrow> \<forall>s \<in> ran (stashed w). ss_target s \<noteq> t
           | Some s \<Rightarrow> stashed w (ss_messageId s) = Some s \<and> ss_target s = t))"

definition writes_rows :: "'w lock_tables \<Rightarrow> ('w \<Rightarrow> string \<rightharpoonup> string) \<Rightarrow> ('w \<Rightarrow> string \<rightharpoonup> saga_stash) \<Rightarrow> bool" where
  "writes_rows T locks stashed \<longleftrightarrow>
     (\<forall>t w. \<exists>w'. deleteLock T t w = (Inr (), w') \<and> locks w' = (locks w)(t := None) \<and> stashed w' = stashed w)
   \<and> (\<forall>t ty sid w. locks w t \<noteq> None \<longrightarrow> (\<exists>w'. updateLock T t ty sid w = (Inr (), w')
        \<and> locks w' = (locks w)(t \<mapsto> sid) \<and> stashed w' = stashed w))
   \<and> (\<forall>i w. \<exists>w'. deleteStash T i w = (Inr (), w') \<and> locks w' = locks w \<and> stashed w' = (stashed w)(i := None))"

definition inserts_rows :: "'w lock_tables \<Rightarrow> ('w \<Rightarrow> string \<rightharpoonup> string) \<Rightarrow> ('w \<Rightarrow> string \<rightharpoonup> saga_stash) \<Rightarrow> bool" where
  "inserts_rows T locks stashed \<longleftrightarrow>
     (\<forall>t ty sid w. \<exists>r w'. createLock T t ty (Some sid) w = (r, w') \<and> stashed w' = stashed w
        \<and> (if locks w t = None then r = Inr () \<and> locks w' = (locks w)(t \<mapsto> sid) else isl r \<and> locks w' = locks w))
   \<and> (\<forall>s w. \<exists>r w'. createStash T s w = (r, w') \<and> locks w' = locks w
        \<and> (if stashed w (ss_messageId s) = None then r = Inr () \<and> stashed w' = (stashed w)(ss_messageId s \<mapsto> s)
           else isl r \<and> stashed w' = stashed w))"

text \<open>What TypeORM documents of \<open>create\<close>: it makes an entity and writes nothing.\<close>

definition inserts_nothing :: "'w lock_tables \<Rightarrow> bool" where
  "inserts_nothing T \<longleftrightarrow> (\<forall>t ty sid w. createLock T t ty sid w = (Inr (), w)) \<and> (\<forall>s w. createStash T s w = (Inr (), w))"

definition keeps_lock_rows :: "'w lock_tables \<Rightarrow> ('w \<Rightarrow> string \<rightharpoonup> string) \<Rightarrow> ('w \<Rightarrow> string \<rightharpoonup> saga_stash) \<Rightarrow> bool" where
  "keeps_lock_rows T locks stashed \<longleftrightarrow> finds_rows T locks stashed \<and> writes_rows T locks stashed"

section \<open>Histories of operations\<close>

datatype lock_op = Claim string string string | Stash string string string message | Unlock string string

datatype lock_result = Claimed bool | StashedMessage | Unlocked "message option" | Refused exn

text \<open>An operation ends with a result, or not at all.\<close>

primrec lock_operation :: "'w lock_tables \<Rightarrow> lock_op \<Rightarrow> 'w \<Rightarrow> (lock_result \<times> 'w) option" where
  "lock_operation T (Claim ty sid t) w =
     map_option (map_prod (case_sum Refused Claimed) id) (db_claimLock T ty (Some sid) t w)"
| "lock_operation T (Stash ty sid t m) w = Some (map_prod (case_sum Refused (\<lambda>_. StashedMessage)) id (db_stashMessage T ty sid t m w))"
| "lock_operation T (Unlock sid t) w = Some (map_prod (case_sum Refused Unlocked) id (db_unlock T sid t w))"

fun lock_history :: "'w lock_tables \<Rightarrow> lock_op list \<Rightarrow> 'w \<Rightarrow> (lock_result list \<times> 'w) option" where
  "lock_history T [] w = Some ([], w)"
| "lock_history T (op # ops) w = (case lock_operation T op w of
     None \<Rightarrow> None
   | Some (r, w1) \<Rightarrow> map_option (map_prod (Cons r) id) (lock_history T ops w1))"

section \<open>The specification\<close>

text \<open>Who holds a target, and which messages wait, by their identifiers.\<close>

type_synonym lock_state = "(string \<rightharpoonup> string) \<times> (string \<rightharpoonup> saga_stash)"

definition stash_row :: "string \<Rightarrow> string \<Rightarrow> string \<Rightarrow> message \<Rightarrow> string \<Rightarrow> saga_stash" where
  "stash_row ty sid t m i = \<lparr>ss_messageId = i, ss_target = t, ss_sagaType = ty, ss_sagaId = sid,
     ss_headers = fromRecord (asRecord (headers m)), ss_payload = payload m\<rparr>"

inductive lock_spec :: "lock_op \<Rightarrow> lock_state \<Rightarrow> lock_result \<Rightarrow> lock_state \<Rightarrow> bool" where
  claim_free: "h t = None \<Longrightarrow> lock_spec (Claim ty sid t) (h, s) (Claimed True) (h(t \<mapsto> sid), s)"
| claim_held: "h t = Some owner \<Longrightarrow> lock_spec (Claim ty sid t) (h, s) (Claimed (owner = sid)) (h, s)"
| stash_new: "message_id m = Inr i \<Longrightarrow> s i = None \<Longrightarrow>
    lock_spec (Stash ty sid t m) (h, s) StashedMessage (h, s(i \<mapsto> stash_row ty sid t m i))"
| stash_refused: "(\<And>i. message_id m = Inr i \<Longrightarrow> s i \<noteq> None) \<Longrightarrow> lock_spec (Stash ty sid t m) (h, s) (Refused e) (h, s)"
| unlock_foreign: "h t \<noteq> Some sid \<Longrightarrow> lock_spec (Unlock sid t) (h, s) (Refused e) (h, s)"
| unlock_last: "h t = Some sid \<Longrightarrow> (\<And>x. x \<in> ran s \<Longrightarrow> ss_target x \<noteq> t) \<Longrightarrow>
    lock_spec (Unlock sid t) (h, s) (Unlocked None) (h(t := None), s)"
| unlock_next: "h t = Some sid \<Longrightarrow> s (ss_messageId x) = Some x \<Longrightarrow> ss_target x = t \<Longrightarrow>
    lock_spec (Unlock sid t) (h, s) (Unlocked (Some (new_message (ss_payload x) (ss_headers x))))
      (h(t \<mapsto> ss_sagaId x), s(ss_messageId x := None))"

inductive lock_specs :: "lock_op list \<Rightarrow> lock_state \<Rightarrow> lock_result list \<Rightarrow> lock_state \<Rightarrow> bool" where
  specs_Nil: "lock_specs [] st [] st"
| specs_Cons: "lock_spec op st r st1 \<Longrightarrow> lock_specs ops st1 rs st2 \<Longrightarrow> lock_specs (op # ops) st (r # rs) st2"

inductive_cases lock_specs_NilE: "lock_specs [] st rs st'"
inductive_cases lock_specs_ConsE: "lock_specs (op # ops) st rs st'"

text \<open>Identifiers of sagas are not empty: an empty one counts as none.\<close>

definition named :: "lock_state \<Rightarrow> bool" where
  "named st \<longleftrightarrow> (\<forall>t. fst st t \<noteq> Some '''') \<and> (\<forall>x \<in> ran (snd st). ss_sagaId x \<noteq> '''')"

primrec op_named :: "lock_op \<Rightarrow> bool" where
  "op_named (Claim ty sid t) = (sid \<noteq> '''')"
| "op_named (Stash ty sid t m) = (sid \<noteq> '''')"
| "op_named (Unlock sid t) = (sid \<noteq> '''')"

lemma named_step: "lock_spec op st r st' \<Longrightarrow> named st \<Longrightarrow> op_named op \<Longrightarrow> named st'"
proof (induction rule: lock_spec.induct)
  case (stash_new m i s ty sid t h)
  then show ?case by (auto simp: named_def stash_row_def ran_def split: if_splits)
next
  case (unlock_next h t sid s x)
  then show ?case by (auto simp: named_def ran_def split: if_splits)
qed (auto simp: named_def)

section \<open>The lock manager implements the specification\<close>

lemma claim_implements:
  assumes "keeps_lock_rows T locks stashed" "inserts_rows T locks stashed" and "named (locks w, stashed w)" "sid \<noteq> ''''"
  shows "\<exists>r w'. lock_operation T (Claim ty sid t) w = Some (r, w') \<and> lock_spec (Claim ty sid t) (locks w, stashed w) r (locks w', stashed w')"
proof -
  obtain r w1 where c: "createLock T t ty (Some sid) w = (r, w1)" "stashed w1 = stashed w"
      "if locks w t = None then r = Inr () \<and> locks w1 = (locks w)(t \<mapsto> sid) else isl r \<and> locks w1 = locks w"
    using assms(2) unfolding inserts_rows_def by blast
  show ?thesis
  proof (cases "locks w t")
    case None
    then show ?thesis
      using c by (subst lock_operation.simps, subst db_claimLock.simps) (auto intro: claim_free)
  next
    case (Some owner)
    obtain w2 where f: "findLockOwner T t w1 = (Inr (locks w1 t), w2)" "same_rows locks stashed w1 w2"
      using assms(1) unfolding keeps_lock_rows_def finds_rows_def by blast
    obtain e where e: "r = Inl e" using c Some by (cases r) auto
    have "owner \<noteq> ''''" using assms(3) Some by (auto simp: named_def)
    then have "db_claimLock T ty (Some sid) t w = Some (Inr (owner = sid), w2)"
      using c f Some e by (subst db_claimLock.simps) (simp add: getLockedSagaIdByTarget_def)
    moreover have "locks w2 = locks w" "stashed w2 = stashed w" using f c Some by (auto simp: same_rows_def)
    ultimately show ?thesis using claim_held [of "locks w" t owner ty sid "stashed w"] Some by simp
  qed
qed

lemma stash_implements:
  assumes "inserts_rows T locks stashed"
  shows "\<exists>r w'. lock_operation T (Stash ty sid t m) w = Some (r, w') \<and> lock_spec (Stash ty sid t m) (locks w, stashed w) r (locks w', stashed w')"
proof (cases "message_id m")
  case (Inl e)
  then show ?thesis
    by (auto simp: db_stashMessage_def andThen_def lift_def intro!: stash_refused)
next
  case (Inr i)
  let ?s = "stash_row ty sid t m i"
  obtain r w' where c: "createStash T ?s w = (r, w')" "locks w' = locks w"
      "if stashed w i = None then r = Inr () \<and> stashed w' = (stashed w)(i \<mapsto> ?s) else isl r \<and> stashed w' = stashed w"
    using assms unfolding inserts_rows_def by (metis saga_stash.select_convs(1) stash_row_def)
  have "db_stashMessage T ty sid t m w = (r, w')"
    using c(1) Inr by (simp add: db_stashMessage_def andThen_def lift_def stash_row_def)
  then show ?thesis
    using c Inr by (cases r) (auto intro: stash_new stash_refused split: if_splits)
qed

lemma unlock_implements:
  assumes "keeps_lock_rows T locks stashed" and "sid \<noteq> ''''"
  shows "\<exists>r w'. lock_operation T (Unlock sid t) w = Some (r, w') \<and> lock_spec (Unlock sid t) (locks w, stashed w) r (locks w', stashed w')"
proof -
  obtain w1 where f: "getLockedSagaIdByTarget T t w = (Inr (locks w t), w1)" "locks w1 = locks w" "stashed w1 = stashed w"
    using assms(1) unfolding keeps_lock_rows_def finds_rows_def same_rows_def getLockedSagaIdByTarget_def by metis
  show ?thesis
  proof (cases "locks w t = Some sid")
    case False
    then have "\<exists>e. db_unlock T sid t w = (Inl e, w1)"
      using f by (simp add: db_unlock_def andThen_Inr throw_def)
    then show ?thesis using f unlock_foreign [of "locks w" t sid "stashed w"] False by auto
  next
    case True
    obtain found w2 where "findStash T t w1 = (Inr found, w2)" "same_rows locks stashed w1 w2"
        "case found of None \<Rightarrow> \<forall>s \<in> ran (stashed w1). ss_target s \<noteq> t
         | Some s \<Rightarrow> stashed w1 (ss_messageId s) = Some s \<and> ss_target s = t"
      using assms(1) unfolding keeps_lock_rows_def finds_rows_def by blast
    then have s: "findStash T t w1 = (Inr found, w2)" "locks w2 = locks w" "stashed w2 = stashed w"
        "case found of None \<Rightarrow> \<forall>s \<in> ran (stashed w). ss_target s \<noteq> t
         | Some s \<Rightarrow> stashed w (ss_messageId s) = Some s \<and> ss_target s = t"
      using f by (auto simp: same_rows_def split: option.splits)
    show ?thesis
    proof (cases found)
      case None
      obtain w3 where d: "deleteLock T t w2 = (Inr (), w3)" "locks w3 = (locks w)(t := None)" "stashed w3 = stashed w"
        using assms(1) s unfolding keeps_lock_rows_def writes_rows_def by metis
      have "db_unlock T sid t w = (Inr None, w3)"
        using f s d None True assms(2) by (simp add: db_unlock_def andThen_Inr)
      then show ?thesis using d s None True by (auto intro!: unlock_last)
    next
      case (Some x)
      obtain w3 where u: "updateLock T t (ss_sagaType x) (ss_sagaId x) w2 = (Inr (), w3)"
          "locks w3 = (locks w)(t \<mapsto> ss_sagaId x)" "stashed w3 = stashed w"
        using assms(1) s True unfolding keeps_lock_rows_def writes_rows_def by (metis option.distinct(1))
      obtain w4 where d: "deleteStash T (ss_messageId x) w3 = (Inr (), w4)" "locks w4 = locks w3"
          "stashed w4 = (stashed w)(ss_messageId x := None)"
        using assms(1) u unfolding keeps_lock_rows_def writes_rows_def by metis
      have "db_unlock T sid t w = (Inr (Some (new_message (ss_payload x) (ss_headers x))), w4)"
        using f s u d Some True assms(2) by (simp add: db_unlock_def andThen_Inr)
      then show ?thesis using u d s Some unlock_next [of "locks w" t sid "stashed w" x] True by auto
    qed
  qed
qed

lemma operation_implements:
  assumes "keeps_lock_rows T locks stashed" "inserts_rows T locks stashed" and "named (locks w, stashed w)" "op_named op"
  shows "\<exists>r w'. lock_operation T op w = Some (r, w') \<and> lock_spec op (locks w, stashed w) r (locks w', stashed w')"
  using claim_implements [OF assms(1-3)] stash_implements [OF assms(2)] unlock_implements [OF assms(1)] assms(4)
  by (cases op) (simp_all only: op_named.simps)

lemma history_implements:
  assumes "keeps_lock_rows T locks stashed" "inserts_rows T locks stashed"
  shows "named (locks w, stashed w) \<Longrightarrow> list_all op_named ops \<Longrightarrow>
    \<exists>rs w'. lock_history T ops w = Some (rs, w') \<and> lock_specs ops (locks w, stashed w) rs (locks w', stashed w')"
proof (induction ops arbitrary: w)
  case Nil
  then show ?case by (auto intro: specs_Nil)
next
  case (Cons op ops)
  obtain r w1 where r: "lock_operation T op w = Some (r, w1)" "lock_spec op (locks w, stashed w) r (locks w1, stashed w1)"
    using operation_implements [OF assms Cons.prems(1), of op] Cons.prems(2) by auto
  then have "named (locks w1, stashed w1)" using named_step Cons.prems by auto
  from Cons.IH [OF this] Cons.prems(2) r show ?case by (auto intro: specs_Cons)
qed

section \<open>A lock is held by one saga\<close>

lemma holder_keeps:
  "lock_spec op st r st' \<Longrightarrow> fst st t = Some sid \<Longrightarrow> op \<noteq> Unlock sid t \<Longrightarrow>
     fst st' t = Some sid \<and> (\<forall>ty other. op = Claim ty other t \<longrightarrow> r = Claimed (sid = other))"
  by (induction rule: lock_spec.induct) auto

lemma holder_keeps_history:
  "lock_specs ops st rs st' \<Longrightarrow> fst st t = Some sid \<Longrightarrow> Unlock sid t \<notin> set ops \<Longrightarrow>
     fst st' t = Some sid \<and> (\<forall>(op, r) \<in> set (zip ops rs). \<forall>ty other. op = Claim ty other t \<longrightarrow> r = Claimed (sid = other))"
proof (induction rule: lock_specs.induct)
  case (specs_Cons op st r st1 ops rs st2)
  then have "fst st1 t = Some sid \<and> (\<forall>ty other. op = Claim ty other t \<longrightarrow> r = Claimed (sid = other))"
    by (intro holder_keeps [OF specs_Cons.hyps(1)]) auto
  then show ?case using specs_Cons.IH specs_Cons.prems by simp
qed simp

text \<open>With TypeORM's \<open>create\<close> every claim is granted.\<close>

lemma claims_granted:
  assumes "inserts_nothing T"
  shows "lock_history T (map (\<lambda>(ty, sid, t). Claim ty sid t) cs) w = Some (map (\<lambda>_. Claimed True) cs, w)"
proof (induction cs)
  case (Cons c cs)
  obtain ty sid t where c: "c = (ty, sid, t)" by (cases c)
  have "db_claimLock T ty (Some sid) t w = Some (Inr True, w)"
    using assms by (subst db_claimLock.simps) (simp add: inserts_nothing_def)
  then show ?case using Cons c by simp
qed simp


section \<open>Concrete tables\<close>

type_synonym lock_rows = "(string \<rightharpoonup> string) \<times> saga_stash list"

definition stash_of :: "lock_rows \<Rightarrow> string \<rightharpoonup> saga_stash" where
  "stash_of w = map_of (map (\<lambda>s. (ss_messageId s, s)) (snd w))"

definition row_tables :: "lock_rows lock_tables" where
  "row_tables =
     \<lparr>createLock = (\<lambda>t ty sid w. if fst w t = None then (Inr (), ((fst w)(t := sid), snd w))
        else (Inl (ErrorException ''duplicate key''), w)),
      findLockOwner = (\<lambda>t w. (Inr (fst w t), w)),
      deleteLock = (\<lambda>t w. (Inr (), ((fst w)(t := None), snd w))),
      updateLock = (\<lambda>t ty sid w. (Inr (), ((fst w)(t \<mapsto> sid), snd w))),
      createStash = (\<lambda>s w. if stash_of w (ss_messageId s) = None then (Inr (), (fst w, s # snd w))
        else (Inl (ErrorException ''duplicate key''), w)),
      findStash = (\<lambda>t w. (Inr (find (\<lambda>s. ss_target s = t \<and> stash_of w (ss_messageId s) = Some s) (snd w)), w)),
      deleteStash = (\<lambda>i w. (Inr (), (fst w, filter (\<lambda>s. ss_messageId s \<noteq> i) (snd w))))\<rparr>"

lemma stash_of_member: "stash_of w i = Some s \<Longrightarrow> s \<in> set (snd w) \<and> ss_messageId s = i"
  by (auto simp: stash_of_def dest: map_of_SomeD)

lemma stash_of_delete: "stash_of (h, filter (\<lambda>s. ss_messageId s \<noteq> i) l) = (stash_of (h, l))(i := None)"
  by (induction l) (auto simp: stash_of_def fun_eq_iff)

lemma found_in_rows:
  "case find (\<lambda>s. ss_target s = t \<and> stash_of w (ss_messageId s) = Some s) (snd w) of
     None \<Rightarrow> \<forall>s \<in> ran (stash_of w). ss_target s \<noteq> t
   | Some s \<Rightarrow> stash_of w (ss_messageId s) = Some s \<and> ss_target s = t"
  by (auto simp: find_None_iff find_Some_iff ran_def dest: stash_of_member split: option.split)

lemma row_tables_keep: "keeps_lock_rows row_tables fst stash_of" "inserts_rows row_tables fst stash_of"
proof -
  have "finds_rows row_tables fst stash_of"
    using found_in_rows by (simp add: finds_rows_def same_rows_def row_tables_def)
  moreover have "writes_rows row_tables fst stash_of"
    using stash_of_delete by (simp add: writes_rows_def row_tables_def) (simp add: stash_of_def)
  ultimately show "keeps_lock_rows row_tables fst stash_of" by (simp add: keeps_lock_rows_def)
  show "inserts_rows row_tables fst stash_of"
    by (auto simp: inserts_rows_def row_tables_def stash_of_def)
qed


end
