(* ===== verification/Tables.thy ===== *)
theory Tables
  imports AggregateStore
begin

text \<open>
  The tables that the framework declares (the \<open>*.entity.ts\<close> files of \<open>packages/messaging\<close> and
  \<open>packages/events\<close>) and those of the service for change data capture, generated from its
  database (\<open>eventuate_entities/entities\<close>): their columns, and which declarations are of the same table.

  A column has the name it is given, or that of its property when it is given none, which is what TypeORM documents of its default.
  A string in the place of the options is the type of the column.
\<close>

section \<open>Columns\<close>

record column_declaration =
  cd_property :: string
  cd_name :: "string option"
  cd_type :: "string option"
  cd_primary :: bool
  cd_nullable :: bool
  cd_length :: "nat option"

record table_declaration =
  td_name :: string
  td_columns :: "column_declaration list"

definition column_of :: "string \<Rightarrow> string option \<Rightarrow> string option \<Rightarrow> bool \<Rightarrow> bool \<Rightarrow> nat option \<Rightarrow> column_declaration" where
  "column_of p n ty primary nullable len = \<lparr>cd_property = p, cd_name = n, cd_type = ty, cd_primary = primary, cd_nullable = nullable, cd_length = len\<rparr>"

definition column_name :: "column_declaration \<Rightarrow> string" where
  "column_name c = (case cd_name c of Some n \<Rightarrow> n | None \<Rightarrow> cd_property c)"

text \<open>What a row looks like: each column with whether it is in the key and whether it may be null.\<close>

definition row_shape :: "table_declaration \<Rightarrow> (string \<times> bool \<times> bool) list" where
  "row_shape t = map (\<lambda>c. (column_name c, cd_primary c, cd_nullable c)) (td_columns t)"

definition columns_only_in :: "table_declaration \<Rightarrow> table_declaration \<Rightarrow> (string \<times> bool \<times> bool) list" where
  "columns_only_in t u = filter (\<lambda>c. c \<notin> set (row_shape u)) (row_shape t)"

definition same_table :: "table_declaration \<Rightarrow> table_declaration \<Rightarrow> bool" where
  "same_table t u \<longleftrightarrow> td_name t = td_name u \<and> columns_only_in t u = [] \<and> columns_only_in u t = []"

section \<open>The tables of the framework\<close>

definition MessageEntity_table :: table_declaration where
  "MessageEntity_table = \<lparr>td_name = ''message'', td_columns =
    [column_of ''id'' None None True False None,
     column_of ''destination'' None (Some ''text'') False False None,
     column_of ''headers'' None (Some ''json'') False True None,
     column_of ''payload'' None (Some ''json'') False True None,
     column_of ''published'' None (Some ''smallint'') False True None,
     column_of ''creationTime'' (Some ''creation_time'') (Some ''bigint'') False True None]\<rparr>"

definition ReceivedMessagesEntity_table :: table_declaration where
  "ReceivedMessagesEntity_table = \<lparr>td_name = ''received_messages'', td_columns =
    [column_of ''consumerId'' (Some ''consumer_id'') None True False None,
     column_of ''messageId'' (Some ''message_id'') None True False None,
     column_of ''creationTime'' (Some ''creation_time'') (Some ''bigint'') False True None]\<rparr>"

definition CdcMonitoringEntity_table :: table_declaration where
  "CdcMonitoringEntity_table = \<lparr>td_name = ''cdc_monitoring'', td_columns =
    [column_of ''readerId'' (Some ''reader_id'') None True False None,
     column_of ''lastTime'' (Some ''last_time'') (Some ''bigint'') False True None]\<rparr>"

definition OffsetStoreEntity_table :: table_declaration where
  "OffsetStoreEntity_table = \<lparr>td_name = ''offset_store'', td_columns =
    [column_of ''clientName'' (Some ''client_name'') None True False (Some 255),
     column_of ''serializedOffset'' (Some ''serialized_offset'') None False True (Some 255)]\<rparr>"

definition EntitiesEntity_table :: table_declaration where
  "EntitiesEntity_table = \<lparr>td_name = ''entities'', td_columns =
    [column_of ''id'' None None True False None,
     column_of ''type'' None None True False None,
     column_of ''version'' None None False False None]\<rparr>"

definition EventsEntity_table :: table_declaration where
  "EventsEntity_table = \<lparr>td_name = ''events'', td_columns =
    [column_of ''eventId'' None (Some ''event_id'') True False None,
     column_of ''eventType'' (Some ''event_type'') None False True None,
     column_of ''eventData'' (Some ''event_data'') (Some ''json'') False False None,
     column_of ''entityType'' None (Some ''entity_type'') False False None,
     column_of ''entityId'' None (Some ''entity_id'') False False None,
     column_of ''triggeringEvent'' (Some ''triggering_event'') None False True None,
     column_of ''metadata'' None (Some ''json'') False True None,
     column_of ''published'' None None False False None,
     column_of ''version'' None None False False None]\<rparr>"

definition SnapshotsEntity_table :: table_declaration where
  "SnapshotsEntity_table = \<lparr>td_name = ''snapshots'', td_columns =
    [column_of ''entityType'' (Some ''entity_type'') None True False None,
     column_of ''entityId'' (Some ''entity_id'') None True False None,
     column_of ''entityVersion'' (Some ''entity_version'') None True False None,
     column_of ''snapshotType'' (Some ''snapshot_type'') None False False None,
     column_of ''snapshotJson'' (Some ''snapshot_json'') (Some ''json'') False False None,
     column_of ''triggeringEvents'' (Some ''triggering_events'') (Some ''array'') False False None]\<rparr>"

section \<open>The tables of the service\<close>

definition eventuate_Message :: table_declaration where
  "eventuate_Message = \<lparr>td_name = ''message'', td_columns =
    [column_of ''id'' (Some ''id'') (Some ''character varying'') True False (Some 1000),
     column_of ''destination'' (Some ''destination'') (Some ''text'') False False None,
     column_of ''published'' (Some ''published'') (Some ''smallint'') False True None,
     column_of ''creationTime'' (Some ''creation_time'') (Some ''bigint'') False True None,
     column_of ''payload'' (Some ''payload'') (Some ''json'') False True None,
     column_of ''headers'' (Some ''headers'') (Some ''json'') False True None]\<rparr>"

definition eventuate_ReceivedMessages :: table_declaration where
  "eventuate_ReceivedMessages = \<lparr>td_name = ''received_messages'', td_columns =
    [column_of ''consumerId'' (Some ''consumer_id'') (Some ''character varying'') True False (Some 1000),
     column_of ''messageId'' (Some ''message_id'') (Some ''character varying'') True False (Some 1000),
     column_of ''creationTime'' (Some ''creation_time'') (Some ''bigint'') False True None]\<rparr>"

definition eventuate_CdcMonitoring :: table_declaration where
  "eventuate_CdcMonitoring = \<lparr>td_name = ''cdc_monitoring'', td_columns =
    [column_of ''readerId'' (Some ''reader_id'') (Some ''character varying'') True False (Some 1000),
     column_of ''lastTime'' (Some ''last_time'') (Some ''bigint'') False True None]\<rparr>"

definition eventuate_OffsetStore :: table_declaration where
  "eventuate_OffsetStore = \<lparr>td_name = ''offset_store'', td_columns =
    [column_of ''clientName'' (Some ''client_name'') (Some ''character varying'') True False (Some 255),
     column_of ''serializedOffset'' (Some ''serialized_offset'') (Some ''character varying'') False True (Some 255)]\<rparr>"

definition eventuate_Entities :: table_declaration where
  "eventuate_Entities = \<lparr>td_name = ''entities'', td_columns =
    [column_of ''entityType'' (Some ''entity_type'') (Some ''character varying'') True False (Some 1000),
     column_of ''entityId'' (Some ''entity_id'') (Some ''character varying'') True False (Some 1000),
     column_of ''entityVersion'' (Some ''entity_version'') (Some ''character varying'') False False (Some 1000)]\<rparr>"

definition eventuate_Events :: table_declaration where
  "eventuate_Events = \<lparr>td_name = ''events'', td_columns =
    [column_of ''eventId'' (Some ''event_id'') (Some ''character varying'') True False (Some 1000),
     column_of ''eventType'' (Some ''event_type'') (Some ''character varying'') False True (Some 1000),
     column_of ''eventData'' (Some ''event_data'') (Some ''character varying'') False False (Some 1000),
     column_of ''entityType'' (Some ''entity_type'') (Some ''character varying'') False False (Some 1000),
     column_of ''entityId'' (Some ''entity_id'') (Some ''character varying'') False False (Some 1000),
     column_of ''triggeringEvent'' (Some ''triggering_event'') (Some ''character varying'') False True (Some 1000),
     column_of ''metadata'' (Some ''metadata'') (Some ''character varying'') False True (Some 1000),
     column_of ''published'' (Some ''published'') (Some ''smallint'') False True None]\<rparr>"

definition eventuate_Snapshots :: table_declaration where
  "eventuate_Snapshots = \<lparr>td_name = ''snapshots'', td_columns =
    [column_of ''entityType'' (Some ''entity_type'') (Some ''character varying'') True False (Some 1000),
     column_of ''entityId'' (Some ''entity_id'') (Some ''character varying'') True False (Some 1000),
     column_of ''entityVersion'' (Some ''entity_version'') (Some ''character varying'') True False (Some 1000),
     column_of ''snapshotType'' (Some ''snapshot_type'') (Some ''character varying'') False False (Some 1000),
     column_of ''snapshotJson'' (Some ''snapshot_json'') (Some ''character varying'') False False (Some 1000),
     column_of ''triggeringEvents'' (Some ''triggering_events'') (Some ''character varying'') False True (Some 1000)]\<rparr>"

section \<open>Which tables are the same\<close>

lemma messaging_tables_same:
  "same_table MessageEntity_table eventuate_Message" "same_table ReceivedMessagesEntity_table eventuate_ReceivedMessages"
  "same_table CdcMonitoringEntity_table eventuate_CdcMonitoring" "same_table OffsetStoreEntity_table eventuate_OffsetStore"
  by code_simp+

text \<open>
  The tables of the aggregates are not: the columns of \<open>entities\<close> have other names, those of \<open>events\<close> have their
  names in the place of their types, and the triggering events of a snapshot may not be null.
\<close>

lemma entities_table_differs:
  "columns_only_in EntitiesEntity_table eventuate_Entities = [(''id'', True, False), (''type'', True, False), (''version'', False, False)]"
  "columns_only_in eventuate_Entities EntitiesEntity_table =
     [(''entity_type'', True, False), (''entity_id'', True, False), (''entity_version'', False, False)]"
  by code_simp+

lemma events_table_differs:
  "columns_only_in EventsEntity_table eventuate_Events = [(''eventId'', True, False), (''entityType'', False, False),
     (''entityId'', False, False), (''published'', False, False), (''version'', False, False)]"
  "columns_only_in eventuate_Events EventsEntity_table = [(''event_id'', True, False), (''entity_type'', False, False),
     (''entity_id'', False, False), (''published'', False, True)]"
  by code_simp+

lemma snapshots_table_differs:
  "columns_only_in SnapshotsEntity_table eventuate_Snapshots = [(''triggering_events'', False, False)]"
  "columns_only_in eventuate_Snapshots SnapshotsEntity_table = [(''triggering_events'', False, True)]"
  by code_simp+

end
