(* ===== verification/Spec2Isabelle.thy ===== *)
theory Spec2Isabelle
  imports SagaTesting Initializer Workflow SagaTyping OrdersApplication KafkaSchema FtgoServices Mocks CustomersInterleaved
    ApplicationModules SagaExamples SagaLocks Tables
begin

text \<open>
  A model of nest-convoy, a framework for applications of services that talk by messages: commands and
  their replies, domain events, sagas that coordinate several services and undo what they did when one
  of them fails, and aggregates that are stored as events.

  \<^bold>\<open>The parts and how they interact.\<close> A message (\<open>packages/messaging/common\<close>) is a payload with
  headers. The producer puts the technical headers on it and gives it to a broker; the consumer subscribes
  handlers to channels and keeps duplicates from them. Commands are messages with a type, a
  resource and a channel for the replies; the dispatcher of a class of handlers finds the one for a
  command and answers with what it gives or throws. A saga is a list of steps, each with an action and
  perhaps a compensation; its definition says after every reply what is to be sent next; the saga manager
  loads the instance, asks the definition, sends the commands, and saves. The participants of a saga lock
  what they work on. Aggregates give events for commands; a repository stores them, and subscribers are given
  them. Decorators mark the handlers of an application and the initializer subscribes them.

  \<^bold>\<open>The theories.\<close> Effects are functions of a world that give an exception or a value and the world after
  them (\<open>eff\<close> in theory Prelude). An exception is a value of the type \<open>exn\<close>, and every throw of the code is a
  branch of the model.

  \<^item> Prelude: effects, \<open>Promise.all\<close>, maps in the order of insertion, searches that may throw. Decimal and
    Json: numbers as text, \<open>JSON.stringify\<close> and \<open>JSON.parse\<close>, with their round trip.
  \<^item> Message (\<open>messaging/common/message.ts\<close>, \<open>message-headers.ts\<close>, \<open>producer/message-builder.ts\<close>),
    Producer (\<open>message-producer.ts\<close>), Consumer (\<open>message-consumer.ts\<close>, the duplicate detectors, the in-memory
    broker, the outbox in the database), and MessagingProps with the properties of their composition: what
    the broker is given, who receives a message, when it is handled once, and that commands are answered.
  \<^item> Paths (\<open>commands/common/paths\<close>), Commands (headers, replies and their correlation, the command
    producer), Dispatcher (\<open>commands/consumer\<close>): which handler a command goes to and how it is answered.
  \<^item> ExecState, SagaSteps, SagaDefinition, SagaDsl (\<open>sagas/orchestration/dsl\<close>): the state of a saga as text,
    its steps, the choice of the next step, the builders. SagaRefinement: the abstract specification of a
    saga, a list of steps still to do, and the proof that the definition works through that list, forwards
    until a failure and then backwards.
  \<^item> SagaManager (\<open>saga-manager.ts\<close>, \<open>saga-instance-factory.ts\<close>, \<open>saga-command-producer.ts\<close>), SagaStorage
    (\<open>saga-instance-repository.ts\<close>, \<open>saga-lock-manager.ts\<close>), Participant (\<open>sagas/participant\<close>): the life
    of an instance, that handling a message ends, that a reply finds its saga, and the locks. SagaLocks: histories of the lock manager, and the lock that
    is handed from saga to saga, which it implements. SagaRuns lifts
    what SagaRefinement shows to the manager: the repository of instances and the producer are an interface
    (\<open>instance_keeper\<close>, \<open>saga_environment\<close>) that the repository in memory provides with every broker that
    accepts, and a saga runs to its end through \<open>create\<close> and \<open>handleMessage\<close>. SagaLiveness delivers every message
    that has been sent and handles the answers until there are none: every saga ends. SagaAnswers puts the dispatchers
    of the participants in the place of the answers. SagaTyping: which texts a saga can be left with.
    SagaExamples (\<open>sagas/orchestration/dsl/e2e\<close>): the sagas of the end-to-end tests, with local steps, a condition and
    handlers for the replies. SagaTesting and Mocks (\<open>packages/testing\<close>): the support for unit tests, what a test that
    passes says, and which methods a mock replaces.
  \<^item> KafkaOffsets, Kafka, Avro, KafkaSchema (\<open>messaging/broker/kafka\<close>): which offsets are committed, messages as
    Kafka has them, schemas, and the schema that a message was encoded with.
  \<^item> Hash, Events, Schema, Snapshots, Aggregates, AggregateStore, AggregateRepository, Workflow
    (\<open>packages/events\<close>): publishing and handling events, upcasting old ones, snapshots and the events that
    trigger them, applying events to aggregates, the tables, the repository, and the subscribers.
  \<^item> Initializer (\<open>packages/core\<close>): the decorators and the service that subscribes the classes of handlers.
  \<^item> FtgoTicket, FtgoOrder, FtgoSagas, FtgoServices (\<open>examples/ftgo-app\<close>) and CustomersOrders
    (\<open>examples/sagas-customers-orders\<close>): two applications of the framework, their aggregates as state machines
    and their sagas, from the builders to the order that is approved or rejected. OrdersApplication puts the second together:
    an order is posted to the controller, its saga is created, the dispatcher of the customers handles the command, and
    the manager handles the answer (the table of the orders beside the sagas is the interface
    \<open>orders_environment\<close>, which a shop in memory provides). CustomersInterleaved lets several calls of
    \<open>reserveCredit\<close> run at the same time, each from one wait to the next.
  \<^item> Wiring, FrameworkModules, ApplicationModules (\<open>*.module.ts\<close>): the modules as trees with their providers, and which
    constructors are given what they ask for.
  \<^item> Tables: the columns of the tables that the framework declares and of those that the service for change data capture
    has (\<open>eventuate_entities\<close>).
  \<^item> Samples: concrete parameters on which the properties are evaluated.

  \<^bold>\<open>Correspondence.\<close> The state of a class is a record with its fields, and a method is a definition with
  the name of the method, with a prefix where two classes have the same; the record is its first argument, or
  the world of the effect when the method changes it. A JavaScript \<open>Map\<close> is an association list that keeps
  the order of insertion. An object is its class name with its own properties as JSON (\<open>jsobj\<close>).
  Interfaces are locales with the laws that their clients use: maps, channel subscriptions and the others are
  interpreted on the code's own definitions.

  \<^bold>\<open>What the lemmas show.\<close> Each component has its functional lemmas (the result of an operation on every
  branch), and the properties are stated on top of them: invariants (committed offsets, the life of a ticket,
  the credit of a customer), refinement (sagas, locks), termination (the manager), liveness (every saga ends, also when
  its participants are dispatchers), typing (the texts of a saga), round trips (execution states, Kafka messages and
  their schemas, snapshot triggers), routing and locking, overlapping calls, wiring, and what happens on errors. Several properties state
  what the code does where that is not what it means to do; the manifest lists these as findings.

  \<^bold>\<open>Bounds and fuel.\<close> The loop of the saga manager over local steps and the loop of the lock manager are
  partial functions; the first is proved to end, the second on tables that insert their rows (theory SagaLocks). The recursion of \<open>getRequiredHeader\<close> through the text of its own
  exception is cut where JavaScript's stack ends, by a \<open>RangeError\<close>, after a fixed number of calls; a message
  with a type needs two of them, and one without needs more than any number.
  The rounds in which messages are delivered and answered have as fuel twice the number of the steps of the saga, and
  that this is enough is the property itself: each step is asked at most once forwards and once backwards.
  The other recursions are structural or go by a measure, and need no fuel.

  \<^bold>\<open>Limits of the model.\<close> Numbers are integers, exact as long as the code's are. Characters in a hash are
  those of 8 bits. A saga instance in memory is a copy and not shared with the caller. Handlers run one at a
  time: the interleaving of two of them at their waits is modelled for \<open>reserveCredit\<close> of the customers only, elsewhere
  the order in which calls start. An index in the text of an execution state that is not a number counts as no step. The classes of an
  application are told apart by their names. An aggregate is a reference to an object in the world. The metadata
  in the row of an event is a record. The schemas of classes are trees, so that a class that refers to itself is
  not covered. A text that is thrown instead of an error is an exception of its own (\<open>ThrownText\<close>). In a mock,
  \<open>hasOwnProperty\<close> is the function of \<open>Object.prototype\<close>.

  \<^bold>\<open>Parameters.\<close> The tables of TypeORM, the clients of the brokers, the schema registry, \<open>class-transformer\<close>
  (the serializer), the operators of rxjs, the explorer and the injector of NestJS, identifiers and the clock
  are parameters of the definitions that use them; what a property needs of them is among its assumptions.

  \<^bold>\<open>Not modelled.\<close> What NestJS does with the modules (theory Wiring has what its documentation lets a provider be given) and the
  values of their configuration; logging;
  the connection of the Kafka client and its logger; the adapters for tracing; the spies of jest; the files
  whose contents are commented out or that nothing uses (\<open>saga-reply-message-builder.ts\<close> and the types beside it); the
  controller of the customers; in the ftgo application the menus of the kitchen, whose service makes an instance of
  a class that its import does not have, the empty handlers of the order history and the query for couriers; and the
  entities of the example for change data capture, which have columns only.
\<close>

end
